(* ===== verification/Opaleye_Prelude.thy ===== *)
theory Opaleye_Prelude
  imports Main "HOL-Library.Word" "HOL-Library.Signed_Division" "HOL-Library.Monad_Syntax"
begin

section \<open>Shared types, C integers and decimal text\<close>

text \<open>
  What every component of the development shares: the names of the machine types, the conversions
  and range checks of C integers, and the decimal formats of \<^verbatim>\<open>printf\<close> and
  \<^verbatim>\<open>sscanf\<close> the code uses.

  A C++ signed integer is an \<^typ>\<open>int\<close>. Signed overflow is undefined in C++, so an
  operation whose operands do not exclude it is wrapped in \<open>chk32\<close> or \<open>chk64\<close>,
  which return \<^const>\<open>None\<close> outside the range: \<^const>\<open>None\<close> stands for undefined
  behaviour, and a theorem that a routine returns \<^const>\<open>Some\<close> excludes it.
  A conversion to a narrower signed type wraps (\<open>to_s32\<close>, \<open>to_s64\<close>), as gcc
  defines it, and a conversion to an unsigned type is modulo \<open>2 ^ w\<close>. Division truncates
  towards zero (\<open>sdiv\<close>). Byte buffers are lists of \<open>8 word\<close>.
\<close>

named_theorems c_int \<open>range facts and conversions of C integers\<close>
named_theorems dec_text \<open>facts on decimal text\<close>

type_synonym u8 = "8 word"
type_synonym u16 = "16 word"
type_synonym u32 = "32 word"
type_synonym u64 = "64 word"
type_synonym bytes = "u8 list"
type_synonym ptr = nat

subsection \<open>C integers\<close>

definition in_s32 :: "int \<Rightarrow> bool" where
  "in_s32 x \<longleftrightarrow> - (2 ^ 31) \<le> x \<and> x < 2 ^ 31"

definition in_s64 :: "int \<Rightarrow> bool" where
  "in_s64 x \<longleftrightarrow> - (2 ^ 63) \<le> x \<and> x < 2 ^ 63"

definition chk32 :: "int \<Rightarrow> int option" where
  "chk32 x = (if in_s32 x then Some x else None)"

definition chk64 :: "int \<Rightarrow> int option" where
  "chk64 x = (if in_s64 x then Some x else None)"

definition to_s32 :: "int \<Rightarrow> int" where
  "to_s32 x = (x + 2 ^ 31) mod 2 ^ 32 - 2 ^ 31"

definition to_s64 :: "int \<Rightarrow> int" where
  "to_s64 x = (x + 2 ^ 63) mod 2 ^ 64 - 2 ^ 63"

definition to_u64 :: "int \<Rightarrow> int" where
  "to_u64 x = x mod 2 ^ 64"

lemma chk32_Some [c_int]: "in_s32 x \<Longrightarrow> chk32 x = Some x"
  by (simp add: chk32_def)

lemma chk64_Some [c_int]: "in_s64 x \<Longrightarrow> chk64 x = Some x"
  by (simp add: chk64_def)

lemma to_s32_id [c_int]: "in_s32 x \<Longrightarrow> to_s32 x = x"
  by (simp add: to_s32_def in_s32_def)

lemma to_s64_id [c_int]: "in_s64 x \<Longrightarrow> to_s64 x = x"
  by (simp add: to_s64_def in_s64_def)

lemma in_s32_to_s32 [c_int]: "in_s32 (to_s32 x)"
  by (simp add: to_s32_def in_s32_def)

lemma in_s32_abs: "\<bar>x\<bar> < 2 ^ 31 \<Longrightarrow> in_s32 x"
  by (simp add: in_s32_def abs_if split: if_splits)

lemma in_s64_abs: "\<bar>x\<bar> < 2 ^ 63 \<Longrightarrow> in_s64 x"
  by (simp add: in_s64_def abs_if split: if_splits)

text \<open>Truncating division: the sign goes through, the magnitude is the unsigned quotient.\<close>

lemma sdiv_nonneg: "0 \<le> a \<Longrightarrow> 0 < b \<Longrightarrow> a sdiv b = a div (b::int)"
  by (cases "a = 0") (simp_all add: signed_divide_int_def)

lemma sdiv_neg: "a < 0 \<Longrightarrow> 0 < b \<Longrightarrow> a sdiv b = - (- a div (b::int))"
  by (simp add: signed_divide_int_def)

lemma sdiv_abs: "0 < b \<Longrightarrow> \<bar>a sdiv b\<bar> = \<bar>a\<bar> div (b::int)"
  by (cases "0 \<le> a") (simp_all add: sdiv_nonneg sdiv_neg pos_imp_zdiv_nonneg_iff)

lemma sdiv_abs_less:
  assumes "\<bar>a\<bar> < n * b" and "0 < (b::int)"
  shows "\<bar>a sdiv b\<bar> < n"
proof -
  have "\<bar>a\<bar> div b < n"
    using assms minus_div_mult_eq_mod [of "\<bar>a\<bar>" b] pos_mod_sign [of b "\<bar>a\<bar>"]
      mult_less_cancel_right_pos [of b "\<bar>a\<bar> div b" n] by linarith
  then show ?thesis using assms(2) by (simp add: sdiv_abs)
qed

lemma sdiv_split:
  assumes "0 < (b::int)"
  shows "\<bar>a - (a sdiv b) * b\<bar> < b" and "\<bar>(a sdiv b) * b\<bar> \<le> \<bar>a\<bar>"
proof -
  have m: "\<bar>a\<bar> - (\<bar>a\<bar> div b) * b = \<bar>a\<bar> mod b"
    by (simp add: minus_div_mult_eq_mod)
  have r: "0 \<le> \<bar>a\<bar> mod b" "\<bar>a\<bar> mod b < b" using assms by simp_all
  show "\<bar>a - (a sdiv b) * b\<bar> < b"
  proof (cases "0 \<le> a")
    case True
    then show ?thesis using m r assms by (simp add: sdiv_nonneg)
  next
    case False
    then have "a - (a sdiv b) * b = - (\<bar>a\<bar> mod b)" using m assms by (simp add: sdiv_neg)
    then show ?thesis using r by simp
  qed
  show "\<bar>(a sdiv b) * b\<bar> \<le> \<bar>a\<bar>"
  proof -
    have "\<bar>(a sdiv b) * b\<bar> = \<bar>a\<bar> div b * b" using assms by (simp add: abs_mult sdiv_abs)
    then show ?thesis using m r by linarith
  qed
qed

text \<open>Magnitudes through products and quotients, to discharge the range checks.\<close>

lemma abs_mult_le: "\<bar>a\<bar> \<le> A \<Longrightarrow> \<bar>b\<bar> \<le> B \<Longrightarrow> \<bar>a * b\<bar> \<le> A * (B::int)"
  by (simp add: abs_mult mult_mono)

lemma abs_sdiv_le: "\<bar>a\<bar> \<le> A \<Longrightarrow> 0 < b \<Longrightarrow> \<bar>a sdiv b\<bar> \<le> A div (b::int)"
  by (simp add: sdiv_abs zdiv_mono1)

lemma chk64_le: "\<bar>x\<bar> \<le> A \<Longrightarrow> A < 2 ^ 63 \<Longrightarrow> chk64 x = Some x"
  by (rule chk64_Some, rule in_s64_abs) simp

lemma chk32_le: "\<bar>x\<bar> \<le> A \<Longrightarrow> A < 2 ^ 31 \<Longrightarrow> chk32 x = Some x"
  by (rule chk32_Some, rule in_s32_abs) simp

lemma to_s32_le: "\<bar>x\<bar> \<le> A \<Longrightarrow> A < 2 ^ 31 \<Longrightarrow> to_s32 x = x"
  by (rule to_s32_id, rule in_s32_abs) simp

lemma in_s64_sdiv_mult:
  assumes "in_s64 a" and "0 < b"
  shows "in_s64 ((a sdiv b) * b)"
proof (cases "0 \<le> a")
  case True
  then have "0 \<le> (a sdiv b) * b" using assms(2) by (simp add: sdiv_nonneg pos_imp_zdiv_nonneg_iff)
  with True sdiv_split(2) [OF assms(2), of a] assms(1) show ?thesis
    unfolding in_s64_def by linarith
next
  case False
  then have "(a sdiv b) * b \<le> 0"
    using assms(2) by (simp add: sdiv_neg pos_imp_zdiv_nonneg_iff)
  with False sdiv_split(2) [OF assms(2), of a] assms(1) show ?thesis
    unfolding in_s64_def by linarith
qed

subsection \<open>Decimal text\<close>

text \<open>
  \<^verbatim>\<open>%d\<close>, \<^verbatim>\<open>%ld\<close> print the digits with a leading minus; \<^verbatim>\<open>%0wd\<close>
  pads with zeros after the sign to width \<open>w\<close>. The scanners return the value and the rest of
  the input; \<^verbatim>\<open>%d\<close> skips white space and takes an optional sign, a width bounds the
  characters taken.
\<close>

definition digit :: "nat \<Rightarrow> char" where
  "digit n = char_of (48 + n)"

definition is_digit :: "char \<Rightarrow> bool" where
  "is_digit c \<longleftrightarrow> 48 \<le> (of_char c :: nat) \<and> (of_char c :: nat) \<le> 57"

definition digit_val :: "char \<Rightarrow> nat" where
  "digit_val c = of_char c - 48"

fun dec_of_nat :: "nat \<Rightarrow> string" where
  "dec_of_nat n = (if n < 10 then [digit n] else dec_of_nat (n div 10) @ [digit (n mod 10)])"

declare dec_of_nat.simps [simp del]

definition pad0 :: "nat \<Rightarrow> string \<Rightarrow> string" where
  "pad0 w s = replicate (w - length s) (CHR ''0'') @ s"

definition fmt_int :: "int \<Rightarrow> string" where
  "fmt_int x = (if x < 0 then CHR ''-'' # dec_of_nat (nat (- x)) else dec_of_nat (nat x))"

definition fmt_int0 :: "nat \<Rightarrow> int \<Rightarrow> string" where
  "fmt_int0 w x = (if x < 0 then CHR ''-'' # pad0 (w - 1) (dec_of_nat (nat (- x)))
     else pad0 w (dec_of_nat (nat x)))"

fun digits_val :: "nat \<Rightarrow> string \<Rightarrow> nat" where
  "digits_val acc [] = acc"
| "digits_val acc (c # cs) = digits_val (10 * acc + digit_val c) cs"

definition scan_nat :: "string \<Rightarrow> (nat \<times> string) option" where
  "scan_nat s = (let ds = takeWhile is_digit s in
     if ds = [] then None else Some (digits_val 0 ds, drop (length ds) s))"

definition scan_nat_w :: "nat \<Rightarrow> string \<Rightarrow> (nat \<times> string) option" where
  "scan_nat_w w s = (let ds = takeWhile is_digit (take w s) in
     if ds = [] then None else Some (digits_val 0 ds, drop (length ds) s))"

definition is_space :: "char \<Rightarrow> bool" where
  "is_space c \<longleftrightarrow> (of_char c :: nat) \<in> {9, 10, 11, 12, 13, 32}"

definition scan_int :: "string \<Rightarrow> (int \<times> string) option" where
  "scan_int s = (case dropWhile is_space s of
       [] \<Rightarrow> None
     | c # cs \<Rightarrow>
         if c = CHR ''-'' then map_option (\<lambda>(n, r). (- int n, r)) (scan_nat cs)
         else if c = CHR ''+'' then map_option (\<lambda>(n, r). (int n, r)) (scan_nat cs)
         else map_option (\<lambda>(n, r). (int n, r)) (scan_nat (c # cs)))"

text \<open>
  \<^verbatim>\<open>%d\<close> of \<^verbatim>\<open>sscanf\<close> as glibc does it: the value saturates at the ends of
  64 bits and its low 32 bits are stored.
\<close>

definition scanf_d :: "string \<Rightarrow> (int \<times> string) option" where
  "scanf_d s = map_option (\<lambda>(v, r). (to_s32 (max (- (2 ^ 63)) (min (2 ^ 63 - 1) v)), r)) (scan_int s)"

lemma is_digit_digit [dec_text]: "n < 10 \<Longrightarrow> is_digit (digit n)"
  by (simp add: is_digit_def digit_def)

lemma digit_val_digit [dec_text]: "n < 10 \<Longrightarrow> digit_val (digit n) = n"
  by (simp add: digit_val_def digit_def)

lemma digits_val_append: "digits_val a (xs @ ys) = digits_val (digits_val a xs) ys"
  by (induction xs arbitrary: a) simp_all

lemma dec_of_nat_digits: "c \<in> set (dec_of_nat n) \<Longrightarrow> is_digit c"
proof (induction n rule: dec_of_nat.induct)
  case (1 n)
  then show ?case
    by (subst (asm) dec_of_nat.simps) (auto simp: is_digit_digit split: if_splits)
qed

lemma dec_of_nat_nonempty [simp]: "dec_of_nat n \<noteq> []"
  by (subst dec_of_nat.simps) simp

lemma digits_val_dec_of_nat [dec_text]: "digits_val 0 (dec_of_nat n) = n"
proof (induction n rule: dec_of_nat.induct)
  case (1 n)
  then show ?case
    by (subst dec_of_nat.simps) (simp add: digits_val_append digit_val_digit)
qed

lemma length_dec_of_nat: "n < 10 ^ k \<Longrightarrow> 0 < k \<Longrightarrow> length (dec_of_nat n) \<le> k"
proof (induction n arbitrary: k rule: dec_of_nat.induct)
  case (1 n)
  show ?case
  proof (cases "n < 10")
    case True
    with 1 show ?thesis by (subst dec_of_nat.simps) simp
  next
    case False
    with 1(2,3) have k: "1 < k" by (cases "k = 1") auto
    with 1(2) have "n div 10 < 10 ^ (k - 1)" by (cases k) auto
    with 1(1) False k have "length (dec_of_nat (n div 10)) \<le> k - 1" by simp
    with False k show ?thesis by (subst dec_of_nat.simps) simp
  qed
qed

lemma digits_val_zeros [simp]: "digits_val 0 (replicate k (CHR ''0'')) = 0"
  by (induction k) (simp_all add: digit_val_def)

lemma is_digit_zero [simp]: "is_digit (CHR ''0'')"
  by (simp add: is_digit_def)

lemma digits_val_pad0 [dec_text]: "digits_val 0 (pad0 w s) = digits_val 0 s"
  by (simp add: pad0_def digits_val_append)

lemma pad0_digits: "\<forall>c \<in> set s. is_digit c \<Longrightarrow> \<forall>c \<in> set (pad0 w s). is_digit c"
  by (auto simp: pad0_def)

lemma length_pad0: "length s \<le> w \<Longrightarrow> length (pad0 w s) = w"
  by (simp add: pad0_def)

lemma fmt_int0_digits: "0 \<le> x \<Longrightarrow> \<forall>c \<in> set (fmt_int0 w x). is_digit c"
  unfolding fmt_int0_def using pad0_digits [of "dec_of_nat (nat x)" w] dec_of_nat_digits by auto

lemma length_fmt_int0: "0 \<le> x \<Longrightarrow> x < 10 ^ w \<Longrightarrow> 0 < w \<Longrightarrow> length (fmt_int0 w x) = w"
  using length_dec_of_nat [of "nat x" w] by (simp add: fmt_int0_def nat_less_iff length_pad0)

lemma scan_nat_append:
  assumes "\<forall>c \<in> set ds. is_digit c" and "ds \<noteq> []" and "r = [] \<or> \<not> is_digit (hd r)"
  shows "scan_nat (ds @ r) = Some (digits_val 0 ds, r)"
proof -
  have "takeWhile is_digit (ds @ r) = ds"
    using assms by (cases r) (simp_all add: takeWhile_append)
  with assms(2) show ?thesis by (simp add: scan_nat_def)
qed

lemma scan_nat_w_append:
  assumes "\<forall>c \<in> set ds. is_digit c" and "ds \<noteq> []" and "length ds = w"
  shows "scan_nat_w w (ds @ r) = Some (digits_val 0 ds, r)"
proof -
  have d: "takeWhile is_digit ds = ds" using assms(1) by (simp add: takeWhile_eq_all_conv)
  have "take w (ds @ r) = ds" "drop w (ds @ r) = r" using assms(3) by simp_all
  then show ?thesis using assms(2,3) by (simp add: scan_nat_w_def Let_def d)
qed

lemma digit_not_space_sign:
  "is_digit c \<Longrightarrow> \<not> is_space c \<and> c \<noteq> CHR ''-'' \<and> c \<noteq> CHR ''+''"
  by (auto simp: is_digit_def is_space_def)

lemma scan_int_fmt_int [dec_text]:
  assumes "r = [] \<or> \<not> is_digit (hd r)"
  shows "scan_int (fmt_int x @ r) = Some (x, r)"
proof (cases "x < 0")
  case True
  have "scan_nat (dec_of_nat (nat (- x)) @ r) = Some (nat (- x), r)"
    using scan_nat_append [of "dec_of_nat (nat (- x))" r] assms dec_of_nat_digits
    by (auto simp: digits_val_dec_of_nat)
  with True show ?thesis by (simp add: scan_int_def fmt_int_def is_space_def)
next
  case False
  obtain c cs where d: "dec_of_nat (nat x) = c # cs"
    using dec_of_nat_nonempty by (metis neq_Nil_conv)
  have c: "is_digit c" using dec_of_nat_digits [of c "nat x"] d by simp
  have "scan_nat (dec_of_nat (nat x) @ r) = Some (nat x, r)"
    using scan_nat_append [of "dec_of_nat (nat x)" r] assms dec_of_nat_digits
    by (auto simp: digits_val_dec_of_nat)
  with False d digit_not_space_sign [OF c] show ?thesis
    by (simp add: scan_int_def fmt_int_def)
qed

subsection \<open>Lists\<close>

lemma find_map_pairs:
  "find (\<lambda>(p, _). Q p) (map (\<lambda>(u, c). (f u, g c)) xs) =
     map_option (\<lambda>(u, c). (f u, g c)) (find (\<lambda>(u, _). Q (f u)) xs)"
  by (induction xs) auto

subsection \<open>Maps\<close>

text \<open>
  \<^verbatim>\<open>std::map\<close>: pairs in the order of their keys; \<^verbatim>\<open>insert\<close> leaves the entry of a
  key that is present. A map the code only looks up is a partial function.
\<close>

fun smap_insert :: "'k::linorder \<Rightarrow> 'v \<Rightarrow> ('k \<times> 'v) list \<Rightarrow> ('k \<times> 'v) list" where
  "smap_insert k v [] = [(k, v)]"
| "smap_insert k v ((k', v') # xs) =
     (if k < k' then (k, v) # (k', v') # xs
      else if k = k' then (k', v') # xs
      else (k', v') # smap_insert k v xs)"

definition map_insert :: "'k \<Rightarrow> 'v \<Rightarrow> ('k \<rightharpoonup> 'v) \<Rightarrow> ('k \<rightharpoonup> 'v)" where
  "map_insert k v m = (case m k of None \<Rightarrow> m(k \<mapsto> v) | Some _ \<Rightarrow> m)"

text \<open>\<^verbatim>\<open>m[k] = v\<close> replaces the entry of the key or makes one.\<close>

fun smap_put :: "'k::linorder \<Rightarrow> 'v \<Rightarrow> ('k \<times> 'v) list \<Rightarrow> ('k \<times> 'v) list" where
  "smap_put k v [] = [(k, v)]"
| "smap_put k v ((k', v') # xs) =
     (if k < k' then (k, v) # (k', v') # xs
      else if k = k' then (k, v) # xs
      else (k', v') # smap_put k v xs)"

lemma smap_insert_greatest:
  "\<forall>k' \<in> set (map fst xs). k' < k \<Longrightarrow> smap_insert k v xs = xs @ [(k, v)]"
  by (induction k v xs rule: smap_insert.induct) auto

lemma smap_put_greatest:
  "\<forall>k' \<in> set (map fst xs). k' < k \<Longrightarrow> smap_put k v xs = xs @ [(k, v)]"
  by (induction k v xs rule: smap_put.induct) auto

lemma smap_put_keys: "fst ` set (smap_put k v xs) = insert k (fst ` set xs)"
  by (induction k v xs rule: smap_put.induct) auto

subsection \<open>Outcomes\<close>

text \<open>
  What a call of an operation ends in, where more than a return has to be told apart: an exception,
  \<^verbatim>\<open>std::terminate\<close>, the use of a null pointer, a wait that never ends.
\<close>

datatype 'a outcome = Ret 'a | Throw string | Terminate | NullDeref | Hang

end
