(* ===== verification/Chrono_Util.thy ===== *)
theory Chrono_Util
  imports Opaleye_Prelude
begin

section \<open>Time values: \<^verbatim>\<open>chrono_util\<close> and \<^verbatim>\<open>Stopwatch\<close>\<close>

text \<open>
  \<^verbatim>\<open>src/libs/opaleye-util/chrono_util.cpp\<close> and \<^verbatim>\<open>Stopwatch.cpp\<close>. A
  \<^verbatim>\<open>std::chrono\<close> duration is its tick count, an \<^verbatim>\<open>int64_t\<close>;
  \<^verbatim>\<open>duration_cast\<close> to a coarser unit truncates towards zero, and a conversion to a
  finer one multiplies. \<^verbatim>\<open>time_t\<close>, \<^verbatim>\<open>tv_usec\<close> and \<^verbatim>\<open>tv_nsec\<close>
  are 64-bit. An operation that could overflow \<^verbatim>\<open>int64_t\<close> returns an option.
\<close>

record timeval =
  tv_sec :: int
  tv_usec :: int

record timespec =
  ts_sec :: int
  ts_nsec :: int

abbreviation NS_PER_S :: int where "NS_PER_S \<equiv> 1000000000"
abbreviation US_PER_S :: int where "US_PER_S \<equiv> 1000000"

definition chrono_to_timeval :: "int \<Rightarrow> timeval" where
  "chrono_to_timeval c =
     (let sec = c sdiv US_PER_S in \<lparr>tv_sec = sec, tv_usec = c - sec * US_PER_S\<rparr>)"

definition timeval_to_chrono :: "timeval \<Rightarrow> int option" where
  "timeval_to_chrono tv = do {
     s \<leftarrow> chk64 (tv_sec tv * US_PER_S);
     chk64 (s + tv_usec tv)
   }"

definition chrono_to_timespec :: "int \<Rightarrow> timespec" where
  "chrono_to_timespec c =
     (let sec = c sdiv NS_PER_S in \<lparr>ts_sec = sec, ts_nsec = c - sec * NS_PER_S\<rparr>)"

definition timespec_to_chrono :: "timespec \<Rightarrow> int option" where
  "timespec_to_chrono ts = do {
     s \<leftarrow> chk64 (ts_sec ts * NS_PER_S);
     chk64 (s + ts_nsec ts)
   }"

definition timespec_add_chrono :: "timespec \<Rightarrow> int \<Rightarrow> timespec option" where
  "timespec_add_chrono ts c = do {
     let sec = c sdiv NS_PER_S;
     s \<leftarrow> chk64 (ts_sec ts + sec);
     n \<leftarrow> chk64 (ts_nsec ts + (c - sec * NS_PER_S));
     if n > 999999999 then do {
       s' \<leftarrow> chk64 (s + 1);
       Some \<lparr>ts_sec = s', ts_nsec = n - 1000000000\<rparr>
     } else if n < 0 then do {
       s' \<leftarrow> chk64 (s - 1);
       Some \<lparr>ts_sec = s', ts_nsec = n + 1000000000\<rparr>
     } else Some \<lparr>ts_sec = s, ts_nsec = n\<rparr>
   }"

definition timespec_norm :: "timespec \<Rightarrow> bool" where
  "timespec_norm ts \<longleftrightarrow> 0 \<le> ts_nsec ts \<and> ts_nsec ts < NS_PER_S"

definition timespec_ns :: "timespec \<Rightarrow> int" where
  "timespec_ns ts = ts_sec ts * NS_PER_S + ts_nsec ts"

lemma chrono_to_timespec_ns [simp]: "timespec_ns (chrono_to_timespec c) = c"
  by (simp add: timespec_ns_def chrono_to_timespec_def Let_def)

lemma chrono_to_timespec_norm: "0 \<le> c \<Longrightarrow> timespec_norm (chrono_to_timespec c)"
  using minus_div_mult_eq_mod [of c NS_PER_S] pos_mod_bound [of NS_PER_S c]
  by (simp add: timespec_norm_def chrono_to_timespec_def Let_def sdiv_nonneg)

lemma chrono_to_timespec_sec_nonneg: "0 \<le> c \<Longrightarrow> 0 \<le> ts_sec (chrono_to_timespec c)"
  by (simp add: chrono_to_timespec_def Let_def sdiv_nonneg)

text \<open>
  A duration survives the conversion to a timespec and back, for every 64-bit count, negative
  ones included, and neither direction overflows.
\<close>

theorem timespec_roundtrip:
  assumes "in_s64 c"
  shows "timespec_to_chrono (chrono_to_timespec c) = Some c"
proof -
  have "in_s64 ((c sdiv NS_PER_S) * NS_PER_S)" using assms by (rule in_s64_sdiv_mult) simp
  with assms show ?thesis
    by (simp add: timespec_to_chrono_def chrono_to_timespec_def Let_def chk64_Some)
qed

theorem timespec_roundtrip_witness:
  "in_s64 (- 1500000000) \<and>
   timespec_to_chrono (chrono_to_timespec (- 1500000000)) = Some (- 1500000000)"
  using timespec_roundtrip [of "- 1500000000"] by (simp add: in_s64_def)

lemma timespec_add_steps:
  assumes "timespec_norm ts" and "chk64 (ts_sec ts + c sdiv NS_PER_S) = Some s"
  defines "n \<equiv> ts_nsec ts + (c - (c sdiv NS_PER_S) * NS_PER_S)"
  shows "chk64 n = Some n" and "- NS_PER_S < n" and "n < 2 * NS_PER_S"
    and "s * NS_PER_S + n = timespec_ns ts + c"
proof -
  have d: "\<bar>c - (c sdiv NS_PER_S) * NS_PER_S\<bar> < NS_PER_S" by (rule sdiv_split(1)) simp
  with assms(1) show b: "- NS_PER_S < n" "n < 2 * NS_PER_S"
    unfolding n_def timespec_norm_def by linarith+
  then show "chk64 n = Some n" by (simp add: chk64_def in_s64_def)
  from assms(2) have "s = ts_sec ts + c sdiv NS_PER_S"
    by (simp add: chk64_def split: if_splits)
  then show "s * NS_PER_S + n = timespec_ns ts + c"
    by (simp add: n_def timespec_ns_def algebra_simps)
qed

text \<open>
  C26. The carry of \<^verbatim>\<open>timespec_add_chrono\<close> is right: from a normalised timespec and any
  duration of either sign, whenever the addition returns, the result is normalised and denotes
  exactly the sum, so one correction of one second is always enough; and it returns whenever the
  seconds stay clear of the ends of the 64-bit range.
\<close>

theorem timespec_add_chrono_correct:
  assumes "timespec_norm ts"
    and "in_s64 (ts_sec ts + c sdiv NS_PER_S - 1)" and "in_s64 (ts_sec ts + c sdiv NS_PER_S + 1)"
  shows "\<exists>r. timespec_add_chrono ts c = Some r \<and> timespec_norm r \<and>
    timespec_ns r = timespec_ns ts + c"
proof -
  define s where "s = ts_sec ts + c sdiv NS_PER_S"
  define n where "n = ts_nsec ts + (c - (c sdiv NS_PER_S) * NS_PER_S)"
  have s: "chk64 s = Some s" using assms(2,3) by (simp add: s_def chk64_def in_s64_def)
  note st = timespec_add_steps [OF assms(1), of c s, folded n_def s_def, OF s]
  have c: "chk64 (s + 1) = Some (s + 1)" "chk64 (s - 1) = Some (s - 1)"
    using assms(2,3) by (simp_all add: s_def chk64_Some)
  have eq: "timespec_add_chrono ts c =
      (if n > 999999999 then Some \<lparr>ts_sec = s + 1, ts_nsec = n - 1000000000\<rparr>
       else if n < 0 then Some \<lparr>ts_sec = s - 1, ts_nsec = n + 1000000000\<rparr>
       else Some \<lparr>ts_sec = s, ts_nsec = n\<rparr>)"
    unfolding timespec_add_chrono_def Let_def s_def [symmetric] n_def [symmetric]
    by (simp add: s c st(1))
  consider "n > 999999999" | "n < 0" | "0 \<le> n" "n \<le> 999999999" by linarith
  then show ?thesis
    using eq st by cases (simp_all add: timespec_norm_def timespec_ns_def algebra_simps)
qed

theorem timespec_add_chrono_correct_witness:
  "timespec_norm \<lparr>ts_sec = 5, ts_nsec = 200\<rparr> \<and>
   (\<exists>r. timespec_add_chrono \<lparr>ts_sec = 5, ts_nsec = 200\<rparr> (- 300) = Some r \<and>
     timespec_norm r \<and> timespec_ns r = timespec_ns \<lparr>ts_sec = 5, ts_nsec = 200\<rparr> + (- 300))"
proof
  show n: "timespec_norm \<lparr>ts_sec = 5, ts_nsec = 200\<rparr>" by (simp add: timespec_norm_def)
  have "(- 300) sdiv NS_PER_S = 0" by (simp add: sdiv_neg)
  then show "\<exists>r. timespec_add_chrono \<lparr>ts_sec = 5, ts_nsec = 200\<rparr> (- 300) = Some r \<and>
     timespec_norm r \<and> timespec_ns r = timespec_ns \<lparr>ts_sec = 5, ts_nsec = 200\<rparr> + (- 300)"
    using timespec_add_chrono_correct [OF n, of "- 300"] by (simp add: in_s64_def)
qed

subsection \<open>Stopwatch\<close>

text \<open>
  \<^verbatim>\<open>clock_gettime\<close> is an argument: \<^const>\<open>None\<close> is a failed call, on which
  \<^verbatim>\<open>now\<close> throws. The result of \<^verbatim>\<open>now\<close> is \<open>Inl\<close> on that throw.
  Clock readings and alarm intervals are taken as exact: they stay below 292 years of nanoseconds.
\<close>

record stopwatch =
  m_clk_id :: int
  m_t0 :: int
  m_alarm_dt :: int

datatype sw_exc = ClockError

definition stopwatch_new :: "int \<Rightarrow> stopwatch" where
  "stopwatch_new clk = \<lparr>m_clk_id = clk, m_t0 = 0, m_alarm_dt = 0\<rparr>"

definition sw_now :: "(int \<Rightarrow> timespec option) \<Rightarrow> stopwatch \<Rightarrow> sw_exc + int" where
  "sw_now clock_gettime w = (case clock_gettime (m_clk_id w) of
       None \<Rightarrow> Inl ClockError
     | Some ts \<Rightarrow> Inr (ts_sec ts * NS_PER_S + ts_nsec ts))"

definition sw_reset :: "(int \<Rightarrow> timespec option) \<Rightarrow> stopwatch \<Rightarrow> sw_exc + stopwatch" where
  "sw_reset clk w = map_sum id (\<lambda>t. w\<lparr>m_t0 := t\<rparr>) (sw_now clk w)"

definition sw_duration :: "(int \<Rightarrow> timespec option) \<Rightarrow> stopwatch \<Rightarrow> sw_exc + int" where
  "sw_duration clk w = map_sum id (\<lambda>t. t - m_t0 w) (sw_now clk w)"

definition sw_is_expired :: "(int \<Rightarrow> timespec option) \<Rightarrow> stopwatch \<Rightarrow> sw_exc + bool" where
  "sw_is_expired clk w = map_sum id (\<lambda>d. d \<ge> m_alarm_dt w) (sw_duration clk w)"

definition sw_time_left :: "(int \<Rightarrow> timespec option) \<Rightarrow> stopwatch \<Rightarrow> sw_exc + int" where
  "sw_time_left clk w =
     map_sum id (\<lambda>t. let dt = (m_t0 w + m_alarm_dt w) - t in if dt > 0 then dt else 0)
       (sw_now clk w)"

definition sw_set_alarm_dt :: "int \<Rightarrow> stopwatch \<Rightarrow> stopwatch" where
  "sw_set_alarm_dt dt w = w\<lparr>m_alarm_dt := dt\<rparr>"

definition sw_set_clockid :: "int \<Rightarrow> stopwatch \<Rightarrow> stopwatch" where
  "sw_set_clockid clk w = w\<lparr>m_clk_id := clk\<rparr>"

text \<open>
  At one clock reading, the stopwatch is expired exactly when no time is left, and after
  \<^verbatim>\<open>reset\<close> with an alarm of \<open>dt\<close> the time left at a later reading is what remains
  of \<open>dt\<close>, never negative.
\<close>

theorem sw_expired_iff_no_time_left:
  "sw_is_expired clk w = Inr b \<Longrightarrow> \<exists>l. sw_time_left clk w = Inr l \<and> (b \<longleftrightarrow> l = 0) \<and> 0 \<le> l"
  by (auto simp: sw_is_expired_def sw_time_left_def sw_duration_def sw_now_def Let_def
      split: option.splits)

theorem sw_expired_iff_no_time_left_witness:
  "\<exists>l. sw_time_left (\<lambda>_. Some \<lparr>ts_sec = 2, ts_nsec = 5\<rparr>)
        (sw_set_alarm_dt 10 (stopwatch_new 1)) = Inr l \<and> (True \<longleftrightarrow> l = 0) \<and> 0 \<le> l"
  by (rule sw_expired_iff_no_time_left)
    (simp add: sw_is_expired_def sw_duration_def sw_now_def stopwatch_new_def sw_set_alarm_dt_def)

end
