(* ===== verification/Thermal_Zone.thy ===== *)
theory Thermal_Zone
  imports Complex_Main Opaleye_Prelude
begin

section \<open>The on-chip temperatures: \<^verbatim>\<open>linux_thermal_zone\<close>\<close>

text \<open>
  \<^verbatim>\<open>src/libs/sensors/linux_thermal_zone.cpp\<close>. The file system is an argument: the entries of
  \<^verbatim>\<open>/sys/class/thermal\<close> with whether each is a directory (\<^const>\<open>None\<close>: the iteration
  throws), and for a path whether it is a regular file, its length, whether it opens, the blocks
  successive \<^verbatim>\<open>fread\<close> calls return and the result of \<^verbatim>\<open>fclose\<close>. The
  \<^verbatim>\<open>%lf\<close> conversion is an argument too.
\<close>

record tz_file =
  tf_regular :: bool
  tf_size :: nat
  tf_opens :: bool
  tf_blocks :: "string list"
  tf_close :: int

record tz_fs =
  fs_entries :: "(string \<times> bool) list option"
  fs_file :: "string \<Rightarrow> tz_file"

text \<open>
  Reading stops at the first empty block. The end-of-file and error indicators are read into inner
  variables that hide the ones tested at the end, so only \<^verbatim>\<open>fclose\<close> decides.
\<close>

fun fread_all :: "string list \<Rightarrow> string" where
  "fread_all [] = []"
| "fread_all (b # bs) = (if b = [] then [] else take 128 b @ fread_all bs)"

definition read_file_to_string :: "tz_fs \<Rightarrow> string \<Rightarrow> string option" where
  "read_file_to_string fs path =
     (let f = fs_file fs path in
      if \<not> tf_regular f then None
      else if tf_size f > 8192 then None
      else if \<not> tf_opens f then None
      else let out = fread_all (tf_blocks f); f_error = (0::int) in
        if tf_close f = 0 \<and> f_error = 0 then Some out else None)"

definition is_thermal_zone :: "string \<Rightarrow> bool" where
  "is_thermal_zone s \<longleftrightarrow>
     (let n = length ''thermal_zone''; ds = drop n s in
      take n s = ''thermal_zone'' \<and> ds \<noteq> [] \<and> list_all is_digit ds)"

datatype tz_result = TzThrow | TzUndefined | TzFail | TzOk "(string \<times> real) list"

definition zone_path :: "string \<Rightarrow> string \<Rightarrow> string" where
  "zone_path dir leaf = ''/sys/class/thermal/'' @ dir @ ''/'' @ leaf"

text \<open>\<^verbatim>\<open>std::map::insert\<close> keeps the first value of a key. \<^verbatim>\<open>back\<close> of an empty
  string is undefined.\<close>

definition map_insert :: "string \<Rightarrow> real \<Rightarrow> (string \<times> real) list \<Rightarrow> (string \<times> real) list" where
  "map_insert k v m = (if k \<in> fst ` set m then m else m @ [(k, v)])"

fun sample_zones :: "tz_fs \<Rightarrow> (string \<Rightarrow> real option) \<Rightarrow> (string \<times> bool) list \<Rightarrow>
    (string \<times> real) list \<Rightarrow> tz_result" where
  "sample_zones fs scanf_lf [] m = TzOk m"
| "sample_zones fs scanf_lf ((d, is_dir) # es) m =
     (if \<not> (is_dir \<and> is_thermal_zone d) then sample_zones fs scanf_lf es m
      else case read_file_to_string fs (zone_path d ''type'') of
          None \<Rightarrow> TzFail
        | Some type_data \<Rightarrow>
            (case read_file_to_string fs (zone_path d ''temp'') of
               None \<Rightarrow> TzFail
             | Some temp_data \<Rightarrow>
                 if type_data = [] then TzUndefined
                 else let type_data = (if last type_data = CHR 0x0A then butlast type_data
                                       else type_data) in
                   case scanf_lf temp_data of
                     None \<Rightarrow> TzFail
                   | Some new_temp \<Rightarrow>
                       sample_zones fs scanf_lf es (map_insert type_data (new_temp / 1000) m)))"

definition tz_sample :: "tz_fs \<Rightarrow> (string \<Rightarrow> real option) \<Rightarrow> (string \<times> real) list \<Rightarrow>
    tz_result \<times> (string \<times> real) list" where
  "tz_sample fs scanf_lf m_temps =
     (case fs_entries fs of
        None \<Rightarrow> (TzThrow, m_temps)
      | Some es \<Rightarrow> (case sample_zones fs scanf_lf es [] of
            TzOk new_temps \<Rightarrow> (TzOk new_temps, new_temps)
          | r \<Rightarrow> (r, m_temps)))"

lemma sample_zones_distinct:
  "distinct (map fst m) \<Longrightarrow> sample_zones fs sc es m = TzOk m' \<Longrightarrow> distinct (map fst m')"
proof (induction es arbitrary: m)
  case (Cons e es)
  obtain d i where e: "e = (d, i)" by fastforce
  have "distinct (map fst (map_insert k v m))" for k v
    using Cons.prems(1) by (auto simp: map_insert_def)
  then show ?case
    using Cons by (auto simp: e Let_def split: if_splits option.splits)
qed simp

definition no_file :: "string \<Rightarrow> tz_file" where
  "no_file p = \<lparr>tf_regular = False, tf_size = 0, tf_opens = False, tf_blocks = [], tf_close = 0\<rparr>"

text \<open>
  A sample is all or nothing: if any zone fails, throws or cannot be parsed, the stored
  temperatures stay as they were, and after a success each zone type has one temperature.
\<close>

theorem tz_sample_atomic:
  "tz_sample fs sc old = (r, new) \<Longrightarrow>
   (case r of TzOk m \<Rightarrow> new = m \<and> distinct (map fst m) | _ \<Rightarrow> new = old)"
  using sample_zones_distinct [of "[]" fs sc]
  by (auto simp: tz_sample_def split: option.splits tz_result.splits)

theorem tz_sample_atomic_witness:
  "tz_sample \<lparr>fs_entries = None, fs_file = no_file\<rparr> (\<lambda>_. None) [(''cpu'', 40)] =
     (TzThrow, [(''cpu'', 40)]) \<and>
   (case TzThrow of TzOk m \<Rightarrow> [(''cpu'', 40::real)] = m \<and> distinct (map fst m)
     | _ \<Rightarrow> [(''cpu'', 40::real)] = [(''cpu'', 40)])"
proof
  show s: "tz_sample \<lparr>fs_entries = None, fs_file = no_file\<rparr> (\<lambda>_. None) [(''cpu'', 40)] =
     (TzThrow, [(''cpu'', 40)])" by (simp add: tz_sample_def)
  show "case TzThrow of TzOk m \<Rightarrow> [(''cpu'', 40::real)] = m \<and> distinct (map fst m)
     | _ \<Rightarrow> [(''cpu'', 40::real)] = [(''cpu'', 40)]"
    by (rule tz_sample_atomic [OF s])
qed

end
