(* ===== verification/Http_Common.thy ===== *)
theory Http_Common
  imports Chrono_Util
begin

section \<open>HTTP constants, request methods and dates\<close>

text \<open>
  \<^verbatim>\<open>src/libs/http-bridge/\<close>: \<^verbatim>\<open>http_common\<close> (status codes, request methods)
  and \<^verbatim>\<open>http_util\<close> (HTTP dates). The C library calls are modelled:
  \<^verbatim>\<open>strcasecmp\<close> in the C locale, \<^verbatim>\<open>gmtime_r\<close> with its failure when the year
  does not fit an \<^verbatim>\<open>int\<close>, and \<^verbatim>\<open>snprintf\<close> with its truncation.
\<close>

subsection \<open>Status codes and request methods\<close>

datatype STATUS_CODES =
    OK | CREATED | ACCEPTED | NON_AUTHORITATIVE_INFORMATION | NO_CONTENT | RESET_CONTENT
  | PARTIAL_CONTENT | MULTI_STATUS | ALREADY_REPORTED | IM_USED
  | BAD_REQUEST | UNAUTHORIZED | PAYMENT_REQUIRED | FORBIDDEN | NOT_FOUND | METHOD_NOT_ALLOWED
  | NOT_ACCEPTABLE | PROXY_AUTHENTICATION | REQUEST_TIMEOUT | CONFLICT | GONE | LENGTH_REQUIRED
  | PRECONDITION_FAILED | PAYLOAD_TOO_LARGE | URI_TOO_LONG | UNSUPPORTED_MEDIA
  | RANGE_NOT_SATISFIABLE | EXPECTATION_FAILED | IM_A_TEAPOT | MISDIRECTED_REQUEST
  | UNPROCESSABLE_ENTITY | LOCKED | FAILED_DEPENDENCY | TOO_EARLY | UPGRADE_REQUIRED
  | PRECONDITION_REQUIRED | TOO_MANY_REQUESTS | REQUEST_HEADER_FIELDS | UNAVAIL_LEGAL_REASONS
  | INTERNAL_SERVER_ERROR | NOT_IMPLEMENTED | BAD_GATEWAY | SERVICE_UNAVAILABLE | GATEWAY_TIMEOUT
  | HTTP_VERSION_NOT_SUPPORTED | VARIANT_ALSO_NEGOTIATES | INSUFFICIENT_STORAGE | LOOP_DETECTED
  | NOT_EXTENDED | NETWORK_AUTH_REQ

fun status_code :: "STATUS_CODES \<Rightarrow> int" where
  "status_code OK = 200"
| "status_code CREATED = 201"
| "status_code ACCEPTED = 202"
| "status_code NON_AUTHORITATIVE_INFORMATION = 203"
| "status_code NO_CONTENT = 204"
| "status_code RESET_CONTENT = 205"
| "status_code PARTIAL_CONTENT = 206"
| "status_code MULTI_STATUS = 207"
| "status_code ALREADY_REPORTED = 208"
| "status_code IM_USED = 226"
| "status_code BAD_REQUEST = 400"
| "status_code UNAUTHORIZED = 401"
| "status_code PAYMENT_REQUIRED = 402"
| "status_code FORBIDDEN = 403"
| "status_code NOT_FOUND = 404"
| "status_code METHOD_NOT_ALLOWED = 405"
| "status_code NOT_ACCEPTABLE = 406"
| "status_code PROXY_AUTHENTICATION = 407"
| "status_code REQUEST_TIMEOUT = 408"
| "status_code CONFLICT = 409"
| "status_code GONE = 410"
| "status_code LENGTH_REQUIRED = 411"
| "status_code PRECONDITION_FAILED = 412"
| "status_code PAYLOAD_TOO_LARGE = 413"
| "status_code URI_TOO_LONG = 414"
| "status_code UNSUPPORTED_MEDIA = 415"
| "status_code RANGE_NOT_SATISFIABLE = 416"
| "status_code EXPECTATION_FAILED = 417"
| "status_code IM_A_TEAPOT = 418"
| "status_code MISDIRECTED_REQUEST = 421"
| "status_code UNPROCESSABLE_ENTITY = 422"
| "status_code LOCKED = 423"
| "status_code FAILED_DEPENDENCY = 424"
| "status_code TOO_EARLY = 425"
| "status_code UPGRADE_REQUIRED = 426"
| "status_code PRECONDITION_REQUIRED = 428"
| "status_code TOO_MANY_REQUESTS = 429"
| "status_code REQUEST_HEADER_FIELDS = 431"
| "status_code UNAVAIL_LEGAL_REASONS = 451"
| "status_code INTERNAL_SERVER_ERROR = 500"
| "status_code NOT_IMPLEMENTED = 501"
| "status_code BAD_GATEWAY = 502"
| "status_code SERVICE_UNAVAILABLE = 503"
| "status_code GATEWAY_TIMEOUT = 504"
| "status_code HTTP_VERSION_NOT_SUPPORTED = 505"
| "status_code VARIANT_ALSO_NEGOTIATES = 506"
| "status_code INSUFFICIENT_STORAGE = 507"
| "status_code LOOP_DETECTED = 508"
| "status_code NOT_EXTENDED = 510"
| "status_code NETWORK_AUTH_REQ = 511"

definition get_status_code_str :: "STATUS_CODES \<Rightarrow> string" where
  "get_status_code_str c = ''unknown''"

datatype REQUEST_METHOD =
  GET | HEAD | POST | PUT | DELETE | CONNECT | OPTIONS | TRACE | PATCH | INVALID

definition REQUEST_METHOD_STR :: "(string \<times> REQUEST_METHOD) list" where
  "REQUEST_METHOD_STR =
     [(''GET'', GET), (''HEAD'', HEAD), (''POST'', POST), (''PUT'', PUT), (''DELETE'', DELETE),
      (''CONNECT'', CONNECT), (''OPTIONS'', OPTIONS), (''TRACE'', TRACE), (''PATCH'', PATCH)]"

definition to_lower :: "char \<Rightarrow> char" where
  "to_lower c = (if 65 \<le> (of_char c :: nat) \<and> (of_char c :: nat) \<le> 90
     then char_of ((of_char c :: nat) + 32) else c)"

definition strcaseeq :: "string \<Rightarrow> string \<Rightarrow> bool" where
  "strcaseeq a b \<longleftrightarrow> map to_lower a = map to_lower b"

fun method_scan :: "(string \<times> REQUEST_METHOD) list \<Rightarrow> string \<Rightarrow> REQUEST_METHOD" where
  "method_scan [] s = INVALID"
| "method_scan ((n, m) # ms) s = (if strcaseeq n s then m else method_scan ms s)"

definition parse_req_method :: "string \<Rightarrow> REQUEST_METHOD" where
  "parse_req_method s = (if length s \<noteq> 0 then method_scan REQUEST_METHOD_STR s else INVALID)"

lemma method_scan_valid:
  "method_scan ms s = m \<Longrightarrow> m \<noteq> INVALID \<Longrightarrow> \<exists>n. (n, m) \<in> set ms \<and> strcaseeq n s"
  by (induction ms s rule: method_scan.induct) (auto split: if_splits)

lemma method_scan_complete:
  "distinct (map (\<lambda>(n, _). map to_lower n) ms) \<Longrightarrow> (n, m) \<in> set ms \<Longrightarrow> strcaseeq n s \<Longrightarrow>
   method_scan ms s = m"
proof (induction ms)
  case (Cons p ms)
  obtain n' m' where p: "p = (n', m')" by fastforce
  show ?case
  proof (cases "(n, m) = p")
    case False
    then have "(n, m) \<in> set ms" using Cons.prems(2) by simp
    then have "map to_lower n \<noteq> map to_lower n'" using Cons.prems(1) p by force
    then show ?thesis using Cons False p by (auto simp: strcaseeq_def)
  qed (use Cons.prems p in simp)
qed simp

lemma method_names_distinct: "distinct (map (\<lambda>(n, _). map to_lower n) REQUEST_METHOD_STR)"
  by code_simp

text \<open>
  The parser accepts exactly the nine method names, in any capitalisation, each as its own
  method: a method other than \<^const>\<open>INVALID\<close> is returned if and only if the text is one of
  its spellings.
\<close>

theorem parse_req_method_iff:
  "m \<noteq> INVALID \<Longrightarrow>
   parse_req_method s = m \<longleftrightarrow> (\<exists>n. (n, m) \<in> set REQUEST_METHOD_STR \<and> strcaseeq n s)"
proof
  assume "m \<noteq> INVALID" "parse_req_method s = m"
  then show "\<exists>n. (n, m) \<in> set REQUEST_METHOD_STR \<and> strcaseeq n s"
    using method_scan_valid [of REQUEST_METHOD_STR s m]
    by (auto simp: parse_req_method_def split: if_splits)
next
  assume "\<exists>n. (n, m) \<in> set REQUEST_METHOD_STR \<and> strcaseeq n s"
  then obtain n where n: "(n, m) \<in> set REQUEST_METHOD_STR" "map to_lower s = map to_lower n"
    by (auto simp: strcaseeq_def)
  then have "s \<noteq> []" by (auto simp: REQUEST_METHOD_STR_def)
  moreover have "method_scan REQUEST_METHOD_STR s = m"
    by (rule method_scan_complete [OF method_names_distinct n(1)]) (simp add: strcaseeq_def n(2))
  ultimately show "parse_req_method s = m" by (simp add: parse_req_method_def)
qed

theorem parse_req_method_iff_witness:
  "(parse_req_method ''Post'' = POST) \<longleftrightarrow>
   (\<exists>n. (n, POST) \<in> set REQUEST_METHOD_STR \<and> strcaseeq n ''Post'')"
  by (rule parse_req_method_iff) simp

subsection \<open>Dates\<close>

record tm =
  tm_sec :: int
  tm_min :: int
  tm_hour :: int
  tm_mday :: int
  tm_mon :: int
  tm_year :: int
  tm_wday :: int

text \<open>
  The Gregorian calendar by eras of 400 years that start on the first of March: centuries,
  leap cycles and years are peeled off with quotients, the last one of each being one day longer.
\<close>

definition split_day :: "int \<Rightarrow> int \<times> int" where
  "split_day z =
     (let era = z div 146097; r = z mod 146097;
          c = min 3 (r div 36524); r1 = r - c * 36524;
          q = r1 div 1461; r2 = r1 - q * 1461;
          y = min 3 (r2 div 365)
      in (400 * era + 100 * c + 4 * q + y, r2 - y * 365))"

definition gmtime_r :: "int \<Rightarrow> tm option" where
  "gmtime_r t =
     (let days = t div 86400; s = t mod 86400;
          (y, doy) = split_day (days + 719468);
          mp = (5 * doy + 2) div 153;
          mon = (if mp < 10 then mp + 2 else mp - 10);
          year = y + (if mon < 2 then 1 else 0) - 1900
      in if in_s32 year then Some
        \<lparr>tm_sec = s mod 60, tm_min = s div 60 mod 60, tm_hour = s div 3600,
         tm_mday = doy - (153 * mp + 2) div 5 + 1, tm_mon = mon, tm_year = year,
         tm_wday = (days + 4) mod 7\<rparr>
      else None)"

definition DAY_STR :: "string list" where
  "DAY_STR = [''Sun'', ''Mon'', ''Tue'', ''Wed'', ''Thu'', ''Fri'', ''Sat'']"

definition MONTH_STR :: "string list" where
  "MONTH_STR = [''Jan'', ''Feb'', ''Mar'', ''Apr'', ''May'', ''Jun'', ''Jul'', ''Aug'', ''Sep'',
     ''Oct'', ''Nov'', ''Dec'']"

abbreviation HTTPDATE_SIZE :: nat where "HTTPDATE_SIZE \<equiv> 40"

text \<open>
  The outer option is the undefined overflow of \<^verbatim>\<open>tm_year + 1900\<close>; the result is the
  returned flag and the text left in the buffer.
\<close>

definition time_to_httpdate :: "int \<Rightarrow> (bool \<times> string) option" where
  "time_to_httpdate t = (case gmtime_r t of
       None \<Rightarrow> Some (False, [])
     | Some b \<Rightarrow> do {
         year \<leftarrow> chk32 (tm_year b + 1900);
         let s = DAY_STR ! nat (tm_wday b) @ '', '' @ fmt_int (tm_mday b) @ '' '' @
           MONTH_STR ! nat (tm_mon b) @ '' '' @ fmt_int year @ '' '' @
           fmt_int0 2 (tm_hour b) @ '':'' @ fmt_int0 2 (tm_min b) @ '':'' @
           fmt_int0 2 (tm_sec b) @ '' GMT'';
         Some (length s > 0 \<and> length s < HTTPDATE_SIZE, take (HTTPDATE_SIZE - 1) s)
       })"

definition timespec_to_httpdate :: "timespec \<Rightarrow> (bool \<times> string) option" where
  "timespec_to_httpdate ts = time_to_httpdate (ts_sec ts)"

definition timeval_to_httpdate :: "timeval \<Rightarrow> (bool \<times> string) option" where
  "timeval_to_httpdate tv = time_to_httpdate (tv_sec tv)"

text \<open>The ranges of the broken-down time, as the C standard gives them.\<close>

lemma split_day_range: "split_day z = (y, doy) \<Longrightarrow> 0 \<le> doy \<and> doy \<le> 365"
proof -
  define r where "r = z mod 146097"
  define c where "c = min 3 (r div 36524)"
  define r1 where "r1 = r - c * 36524"
  define q where "q = r1 div 1461"
  define r2 where "r2 = r1 - q * 1461"
  define k where "k = min 3 (r2 div 365)"
  have r: "0 \<le> r" "r < 146097" by (simp_all add: r_def)
  then have r1: "0 \<le> r1" "r1 \<le> 36524" by (auto simp: r1_def c_def min_def)
  have r2: "0 \<le> r2" "r2 < 1461"
    using minus_div_mult_eq_mod [of r1 1461] by (simp_all add: r2_def q_def)
  then have b: "0 \<le> r2 - k * 365" "r2 - k * 365 \<le> 365" by (auto simp: k_def min_def)
  assume "split_day z = (y, doy)"
  then have "doy = r2 - k * 365"
    unfolding split_day_def Let_def r_def c_def r1_def q_def r2_def k_def by blast
  with b show ?thesis by simp
qed

lemma month_day_range:
  assumes "0 \<le> doy" "doy \<le> (365::int)"
  shows "0 \<le> doy - (153 * ((5 * doy + 2) div 153) + 2) div 5"
    and "doy - (153 * ((5 * doy + 2) div 153) + 2) div 5 \<le> 30"
proof -
  have "list_all (\<lambda>d::int. 0 \<le> d - (153 * ((5 * d + 2) div 153) + 2) div 5 \<and>
      d - (153 * ((5 * d + 2) div 153) + 2) div 5 \<le> 30) [0..365]" by code_simp
  with assms show "0 \<le> doy - (153 * ((5 * doy + 2) div 153) + 2) div 5"
    "doy - (153 * ((5 * doy + 2) div 153) + 2) div 5 \<le> 30"
    by (auto simp: list_all_iff)
qed

lemma gmtime_r_range:
  assumes "gmtime_r t = Some b"
  shows "0 \<le> tm_wday b \<and> tm_wday b < 7" and "0 \<le> tm_mon b \<and> tm_mon b < 12"
    and "1 \<le> tm_mday b \<and> tm_mday b \<le> 31" and "0 \<le> tm_hour b \<and> tm_hour b < 24"
    and "0 \<le> tm_min b \<and> tm_min b < 60" and "0 \<le> tm_sec b \<and> tm_sec b < 60"
    and "in_s32 (tm_year b)"
proof -
  obtain y doy where d: "split_day (t div 86400 + 719468) = (y, doy)" by fastforce
  note r = split_day_range [OF d]
  define mp where "mp = (5 * doy + 2) div 153"
  have mp: "0 \<le> mp" "mp \<le> 11" using r by (auto simp: mp_def)
  have md: "0 \<le> doy - (153 * mp + 2) div 5" "doy - (153 * mp + 2) div 5 \<le> 30"
    using month_day_range r unfolding mp_def by blast+
  define mon where "mon = (if mp < 10 then mp + 2 else mp - 10)"
  define year where "year = y + (if mon < 2 then 1 else 0) - 1900"
  have b: "in_s32 year" "b = \<lparr>tm_sec = t mod 86400 mod 60, tm_min = t mod 86400 div 60 mod 60,
      tm_hour = t mod 86400 div 3600, tm_mday = doy - (153 * mp + 2) div 5 + 1, tm_mon = mon, tm_year = year,
      tm_wday = (t div 86400 + 4) mod 7\<rparr>"
    using assms unfolding gmtime_r_def Let_def d prod.case mp_def [symmetric] mon_def [symmetric]
      year_def [symmetric] by (simp_all split: if_split_asm)
  have s: "0 \<le> t mod 86400" "t mod 86400 < 86400" by simp_all
  show "0 \<le> tm_wday b \<and> tm_wday b < 7" "0 \<le> tm_min b \<and> tm_min b < 60" "0 \<le> tm_sec b \<and> tm_sec b < 60"
    "in_s32 (tm_year b)" by (simp_all add: b)
  show "0 \<le> tm_mon b \<and> tm_mon b < 12" using mp by (simp add: b mon_def)
  show "1 \<le> tm_mday b \<and> tm_mday b \<le> 31" using md by (simp add: b)
  show "0 \<le> tm_hour b \<and> tm_hour b < 24" using s unfolding b tm.simps by linarith
qed

lemma length_fmt_int: "\<bar>x\<bar> < 10 ^ k \<Longrightarrow> 0 < k \<Longrightarrow> length (fmt_int x) \<le> Suc k"
  using length_dec_of_nat [of "nat \<bar>x\<bar>" k]
  by (auto simp: fmt_int_def nat_less_iff split: if_splits)

text \<open>
  The 40 byte date buffer is always large enough: whenever the broken-down time exists and its
  year can be printed, the conversion reports success and the text is complete, ending in GMT.
\<close>

theorem time_to_httpdate_fits:
  assumes "gmtime_r t = Some b" and "in_s32 (tm_year b + 1900)"
  shows "\<exists>s. time_to_httpdate t = Some (True, s) \<and> length s < HTTPDATE_SIZE \<and>
    (\<exists>s'. s = s' @ '' GMT'')"
proof -
  note r = gmtime_r_range [OF assms(1)]
  have "\<forall>s \<in> set DAY_STR. length s = 3" "\<forall>s \<in> set MONTH_STR. length s = 3"
    by (simp_all add: DAY_STR_def MONTH_STR_def)
  moreover have "nat (tm_wday b) < length DAY_STR" "nat (tm_mon b) < length MONTH_STR"
    using r(1,2) by (auto simp: DAY_STR_def MONTH_STR_def nat_less_iff)
  ultimately have d: "length (DAY_STR ! nat (tm_wday b)) = 3"
    "length (MONTH_STR ! nat (tm_mon b)) = 3" by simp_all
  have y: "length (fmt_int (tm_year b + 1900)) \<le> 11"
    using length_fmt_int [of "tm_year b + 1900" 10] assms(2) [unfolded in_s32_def]
    by (simp add: abs_less_iff)
  have m: "length (fmt_int (tm_mday b)) \<le> 3" using r(3) length_fmt_int [of "tm_mday b" 2] by simp
  have t: "length (fmt_int0 2 (tm_hour b)) = 2" "length (fmt_int0 2 (tm_min b)) = 2"
    "length (fmt_int0 2 (tm_sec b)) = 2"
    using r(4-6) by (simp_all add: length_fmt_int0)
  show ?thesis
    using d y m t by (simp add: time_to_httpdate_def assms chk32_Some)
qed

theorem time_to_httpdate_fits_witness:
  "\<exists>s. time_to_httpdate 784111777 = Some (True, s) \<and> length s < HTTPDATE_SIZE \<and>
    (\<exists>s'. s = s' @ '' GMT'')"
proof -
  have "gmtime_r 784111777 = Some \<lparr>tm_sec = 37, tm_min = 49, tm_hour = 8, tm_mday = 6,
      tm_mon = 10, tm_year = 94, tm_wday = 0\<rparr>" by code_simp
  then show ?thesis by (rule time_to_httpdate_fits) (simp add: in_s32_def)
qed

end
