(* ===== verification/Path_Tree.thy ===== *)
theory Path_Tree
  imports Opaleye_Prelude "HOL-Library.List_Lexorder" "HOL-Library.Char_ord" "HOL-Library.Sublist"
begin

section \<open>Paths and the directory tree\<close>

text \<open>
  \<^verbatim>\<open>Path_util.hpp\<close>, \<^verbatim>\<open>Directory_tree_node.hpp\<close> and
  \<^verbatim>\<open>Directory_tree.hpp\<close> under
  \<^verbatim>\<open>src/libs/opaleye-util/include/opaleye-util/path/\<close>. A
  \<^verbatim>\<open>boost::filesystem::path\<close> is a parameter: the record of the operations the code calls,
  with its documented behaviour as the hypothesis \<open>path_laws\<close>. Iterating a path gives its
  elements: an absolute path starts with the root element and a trailing slash shows up as a final
  element \<^verbatim>\<open>"."\<close>.

  A tree node owns its children, no node has two parents, and the weak parent pointer is never
  read, so the tree is a nested datatype and the mutation along a path is a functional update. The
  children are a \<^verbatim>\<open>std::map\<close>: an association list sorted by name.
\<close>

record 'p path_ops =
  p_elems :: "'p \<Rightarrow> string list"
  p_is_absolute :: "'p \<Rightarrow> bool"
  p_empty :: "'p \<Rightarrow> bool"
  p_size :: "'p \<Rightarrow> nat"
  p_append :: "'p \<Rightarrow> string \<Rightarrow> 'p"
  p_filename :: "'p \<Rightarrow> string"
  p_of_string :: "string \<Rightarrow> 'p"
  p_eq :: "'p \<Rightarrow> 'p \<Rightarrow> bool"

definition ordinary :: "string \<Rightarrow> bool" where
  "ordinary e \<longleftrightarrow> e \<noteq> [] \<and> CHR ''/'' \<notin> set e"

definition p_root :: "'p path_ops \<Rightarrow> 'p" where
  "p_root P = p_of_string P ''/''"

text \<open>
  What the documentation of the path class promises: an absolute path has a first element; after
  the root element come plain names; appending names to the root gives the path with those names;
  the file name is the last element; two paths are equal when they have the same elements.
\<close>

definition path_laws :: "'p path_ops \<Rightarrow> bool" where
  "path_laws P \<longleftrightarrow>
     (\<forall>p. p_is_absolute P p \<longrightarrow> p_elems P p \<noteq> []) \<and>
     (\<forall>p es. p_elems P p = ''/'' # es \<longrightarrow> list_all ordinary es) \<and>
     (\<forall>es. list_all ordinary es \<longrightarrow> p_elems P (foldl (p_append P) (p_root P) es) = ''/'' # es) \<and>
     (\<forall>p. p_elems P p \<noteq> [] \<longrightarrow> p_filename P p = last (p_elems P p)) \<and>
     (\<forall>p q. p_eq P p q \<longleftrightarrow> p_elems P p = p_elems P q)"

datatype path_exc = DomainError | PastEnd

subsection \<open>\<^verbatim>\<open>Path_util\<close>\<close>

definition num_elements :: "'p path_ops \<Rightarrow> 'p \<Rightarrow> nat" where
  "num_elements P p = length (p_elems P p)"

definition trailing_element_is_dir :: "'p path_ops \<Rightarrow> 'p \<Rightarrow> bool" where
  "trailing_element_is_dir P p \<longleftrightarrow> last (p_elems P p) = ''.''"

text \<open>The two iterators of the loop; \<open>PastEnd\<close> is the second one dereferenced at the end.\<close>

fun parent_loop :: "bool \<Rightarrow> string list \<Rightarrow> string list \<Rightarrow> path_exc + bool" where
  "parent_loop d [] rs = Inr True"
| "parent_loop d (b # bs) rs =
     (if d \<and> bs = [] then Inr True
      else case rs of [] \<Rightarrow> Inl PastEnd
        | r # rs' \<Rightarrow> if b \<noteq> r then Inr False else parent_loop d bs rs')"

definition is_parent_path :: "'p path_ops \<Rightarrow> 'p \<Rightarrow> 'p \<Rightarrow> path_exc + bool" where
  "is_parent_path P base req =
     (if p_empty P base then Inl DomainError
      else if p_empty P req then Inl DomainError
      else if \<not> p_is_absolute P base then Inl DomainError
      else if \<not> p_is_absolute P req then Inl DomainError
      else if p_size P base > p_size P req then Inr False
      else parent_loop (trailing_element_is_dir P base) (p_elems P base) (p_elems P req))"

subsection \<open>\<^verbatim>\<open>Directory_tree_node\<close>\<close>

datatype ('p, 'd) dnode =
  DNode (dn_path: 'p) (dn_name: string) (dn_children: "(string \<times> ('p, 'd) dnode) list")
    (dn_data: "'d option")

definition node_create :: "'p path_ops \<Rightarrow> 'p \<Rightarrow> 'd option \<Rightarrow> ('p, 'd) dnode" where
  "node_create P full_path data = DNode full_path (p_filename P full_path) [] data"

definition set_data :: "'d option \<Rightarrow> ('p, 'd) dnode \<Rightarrow> ('p, 'd) dnode" where
  "set_data data n = DNode (dn_path n) (dn_name n) (dn_children n) data"

definition has_children :: "('p, 'd) dnode \<Rightarrow> bool" where
  "has_children n \<longleftrightarrow> dn_children n \<noteq> []"

definition is_path :: "'p path_ops \<Rightarrow> ('p, 'd) dnode \<Rightarrow> 'p \<Rightarrow> bool" where
  "is_path P n q \<longleftrightarrow> p_eq P (dn_path n) q"

definition is_node_name :: "('p, 'd) dnode \<Rightarrow> string \<Rightarrow> bool" where
  "is_node_name n s \<longleftrightarrow> dn_name n = s"

text \<open>\<^verbatim>\<open>std::map::emplace\<close> keeps an existing entry; the write of a child that was
  changed through its pointer is \<open>put_child\<close>.\<close>

definition put_child :: "string \<Rightarrow> ('p, 'd) dnode \<Rightarrow> ('p, 'd) dnode \<Rightarrow> ('p, 'd) dnode" where
  "put_child k c n = DNode (dn_path n) (dn_name n)
     (map (\<lambda>(k', c'). (k', if k' = k then c else c')) (dn_children n)) (dn_data n)"

definition create_child :: "'p path_ops \<Rightarrow> 'p \<Rightarrow> ('p, 'd) dnode \<Rightarrow> ('p, 'd) dnode \<times> ('p, 'd) dnode" where
  "create_child P child_path n =
     (let child = node_create P child_path None; k = p_filename P child_path in
      (DNode (dn_path n) (dn_name n)
         (if k \<in> fst ` set (dn_children n) then dn_children n
          else insort_key fst (k, child) (dn_children n)) (dn_data n), child))"

definition get_child_by_name :: "string \<Rightarrow> ('p, 'd) dnode \<Rightarrow> ('p, 'd) dnode option" where
  "get_child_by_name k n = map_of (dn_children n) k"

definition get_child_count :: "('p, 'd) dnode \<Rightarrow> nat" where
  "get_child_count n = length (dn_children n)"

definition get_child_by_idx :: "nat \<Rightarrow> ('p, 'd) dnode \<Rightarrow> ('p, 'd) dnode option" where
  "get_child_by_idx idx n =
     (if idx \<ge> get_child_count n then None else Some (snd (hd (dn_children n))))"

subsection \<open>\<^verbatim>\<open>Directory_tree\<close>\<close>

datatype match_type = PARENT_PATH | EXACT | NONE

type_synonym ('p, 'd) dtree = "('p, 'd) dnode"

definition directory_tree :: "'p path_ops \<Rightarrow> ('p, 'd) dtree" where
  "directory_tree P = node_create P (p_root P) None"

text \<open>
  The loop of \<^verbatim>\<open>set_node\<close> from \<open>cn\<close> with the path walked so far: the
  updated node and the node the walk ends in.
\<close>

fun set_loop :: "'p path_ops \<Rightarrow> 'd option \<Rightarrow> 'p \<Rightarrow> string list \<Rightarrow> ('p, 'd) dnode \<Rightarrow>
    ('p, 'd) dnode \<times> ('p, 'd) dnode" where
  "set_loop P data curr_path [] cn = (set_data data cn, set_data data cn)"
| "set_loop P data curr_path (q # qs) cn =
     (let curr_path = p_append P curr_path q in
      case get_child_by_name q cn of
        Some child \<Rightarrow>
          (let (child', res) = set_loop P data curr_path qs child
           in (put_child q child' cn, res))
      | None \<Rightarrow>
          (let (cn', child) = create_child P curr_path cn;
               (child', res) = set_loop P data curr_path qs child
           in (put_child (p_filename P curr_path) child' cn', res)))"

definition set_node :: "'p path_ops \<Rightarrow> 'p \<Rightarrow> 'd option \<Rightarrow> ('p, 'd) dtree \<Rightarrow>
    path_exc + ('p, 'd) dnode option \<times> ('p, 'd) dtree" where
  "set_node P full_path data t =
     (if \<not> p_is_absolute P full_path then Inl DomainError
      else if \<not> is_node_name t (hd (p_elems P full_path)) then Inr (None, t)
      else let (t', res) = set_loop P data (dn_path t) (tl (p_elems P full_path)) t
           in Inr (Some res, t'))"

fun find_loop :: "match_type \<Rightarrow> string list \<Rightarrow> ('p, 'd) dnode \<Rightarrow> ('p, 'd) dnode option" where
  "find_loop mode [] cn = Some cn"
| "find_loop mode (q # qs) cn =
     (case get_child_by_name q cn of
        None \<Rightarrow> if mode = PARENT_PATH then get_child_by_name ''.'' cn else Some cn
      | Some next \<Rightarrow> find_loop mode qs next)"

definition find_match :: "'p path_ops \<Rightarrow> 'p \<Rightarrow> match_type \<Rightarrow> ('p, 'd) dtree \<Rightarrow>
    path_exc + ('p, 'd) dnode option" where
  "find_match P query_path mode t =
     (if \<not> p_is_absolute P query_path then Inl DomainError
      else if \<not> is_node_name t (hd (p_elems P query_path)) then Inr None
      else case find_loop mode (tl (p_elems P query_path)) t of
          None \<Rightarrow> Inr None
        | Some cn \<Rightarrow>
            (case mode of
               PARENT_PATH \<Rightarrow>
                 if is_path P cn query_path then Inr (Some cn)
                 else if trailing_element_is_dir P (dn_path cn) then Inr (Some cn)
                 else Inr None
             | EXACT \<Rightarrow> if is_path P cn query_path then Inr (Some cn) else Inr None
             | NONE \<Rightarrow> Inl DomainError))"

definition tree_has_children :: "('p, 'd) dtree \<Rightarrow> bool" where
  "tree_has_children t \<longleftrightarrow> has_children t"

subsection \<open>Looking up a node by its names\<close>

fun dlookup :: "string list \<Rightarrow> ('p, 'd) dnode \<Rightarrow> ('p, 'd) dnode option" where
  "dlookup [] n = Some n"
| "dlookup (k # ks) n = (case get_child_by_name k n of None \<Rightarrow> None | Some c \<Rightarrow> dlookup ks c)"

definition data_at :: "string list \<Rightarrow> ('p, 'd) dnode \<Rightarrow> 'd option" where
  "data_at ks n = Option.bind (dlookup ks n) dn_data"

lemma data_at_Nil [simp]: "data_at [] n = dn_data n"
  by (simp add: data_at_def)

lemma data_at_Cons:
  "data_at (k # ks) n = (case get_child_by_name k n of None \<Rightarrow> None | Some c \<Rightarrow> data_at ks c)"
  by (simp add: data_at_def split: option.split)

lemma dlookup_append:
  "dlookup (ks @ ks') n = (case dlookup ks n of None \<Rightarrow> None | Some c \<Rightarrow> dlookup ks' c)"
  by (induction ks arbitrary: n) (simp_all split: option.split)

lemma map_of_insort_fresh:
  "k \<notin> fst ` set xs \<Longrightarrow> map_of (insort_key fst (k, v) xs) = (map_of xs)(k \<mapsto> v)"
  by (induction xs) (auto simp: fun_eq_iff)

lemma map_of_map_value:
  "map_of (map (\<lambda>(k', c'). (k', if k' = k then c else c')) xs) k' =
     (if k' = k then map_option (\<lambda>_. c) (map_of xs k) else map_of xs k')"
  by (induction xs) auto

lemma get_child_set_data [simp]: "get_child_by_name k (set_data d n) = get_child_by_name k n"
  by (simp add: get_child_by_name_def set_data_def)

lemma get_child_put_child:
  "get_child_by_name k' (put_child k c n) =
     (if k' = k then map_option (\<lambda>_. c) (get_child_by_name k n) else get_child_by_name k' n)"
  by (simp add: get_child_by_name_def put_child_def map_of_map_value)

lemma get_child_none_iff: "get_child_by_name k n = None \<longleftrightarrow> k \<notin> fst ` set (dn_children n)"
  by (simp add: get_child_by_name_def map_of_eq_None_iff)

lemma get_child_create_child:
  assumes "get_child_by_name (p_filename P cp) n = None"
  shows "get_child_by_name k (fst (create_child P cp n)) =
    (if k = p_filename P cp then Some (node_create P cp None) else get_child_by_name k n)"
  using assms unfolding get_child_none_iff
  by (simp add: create_child_def get_child_by_name_def map_of_insort_fresh Let_def)

lemma get_child_node_create [simp]: "get_child_by_name k (node_create P cp d) = None"
  by (simp add: get_child_by_name_def node_create_def)

lemma put_child_simps [simp]:
  "dn_path (put_child k c n) = dn_path n" "dn_name (put_child k c n) = dn_name n"
  "dn_data (put_child k c n) = dn_data n"
  "map fst (dn_children (put_child k c n)) = map fst (dn_children n)"
  by (simp_all add: put_child_def case_prod_beta comp_def)

lemma set_data_simps [simp]:
  "dn_path (set_data d n) = dn_path n" "dn_name (set_data d n) = dn_name n"
  "dn_data (set_data d n) = d" "dn_children (set_data d n) = dn_children n"
  by (simp_all add: set_data_def)

lemma create_child_simps [simp]:
  "dn_path (fst (create_child P cp n)) = dn_path n"
  "dn_name (fst (create_child P cp n)) = dn_name n"
  "dn_data (fst (create_child P cp n)) = dn_data n"
  "snd (create_child P cp n) = node_create P cp None"
  by (simp_all add: create_child_def Let_def)

lemma node_create_simps [simp]:
  "dn_path (node_create P cp d) = cp" "dn_name (node_create P cp d) = p_filename P cp"
  "dn_data (node_create P cp d) = d" "dn_children (node_create P cp d) = []"
  by (simp_all add: node_create_def)

subsection \<open>The invariant of the tree\<close>

text \<open>
  Every node of the tree, found under the names \<open>ks\<close>, carries the path made of those names and
  keeps its children strictly sorted by name, as a \<^verbatim>\<open>std::map\<close> does.
\<close>

definition path_of :: "'p path_ops \<Rightarrow> string list \<Rightarrow> 'p" where
  "path_of P ks = foldl (p_append P) (p_root P) ks"

definition node_ok :: "'p path_ops \<Rightarrow> string list \<Rightarrow> ('p, 'd) dnode \<Rightarrow> bool" where
  "node_ok P ks n \<longleftrightarrow> dn_path n = path_of P ks \<and> list_all ordinary ks \<and>
     sorted_wrt (<) (map fst (dn_children n))"

definition tree_inv :: "'p path_ops \<Rightarrow> string list \<Rightarrow> ('p, 'd) dnode \<Rightarrow> bool" where
  "tree_inv P pre n \<longleftrightarrow> (\<forall>ks c. dlookup ks n = Some c \<longrightarrow> node_ok P (pre @ ks) c)"

definition dtree_inv :: "'p path_ops \<Rightarrow> ('p, 'd) dtree \<Rightarrow> bool" where
  "dtree_inv P t \<longleftrightarrow> dn_name t = ''/'' \<and> tree_inv P [] t"

lemma path_of_snoc [simp]: "path_of P (ks @ [k]) = p_append P (path_of P ks) k"
  by (simp add: path_of_def)

lemma tree_inv_unfold:
  "tree_inv P pre n \<longleftrightarrow> node_ok P pre n \<and>
     (\<forall>k c. get_child_by_name k n = Some c \<longrightarrow> tree_inv P (pre @ [k]) c)"
proof
  assume inv: "tree_inv P pre n"
  have "node_ok P pre n" using inv [unfolded tree_inv_def, rule_format, of "[]"] by simp
  moreover have "tree_inv P (pre @ [k]) c" if "get_child_by_name k n = Some c" for k c
    using inv that unfolding tree_inv_def by (metis append.assoc append_Cons append_Nil
        dlookup.simps(2) option.simps(5))
  ultimately show "node_ok P pre n \<and>
     (\<forall>k c. get_child_by_name k n = Some c \<longrightarrow> tree_inv P (pre @ [k]) c)" by blast
next
  assume r: "node_ok P pre n \<and>
     (\<forall>k c. get_child_by_name k n = Some c \<longrightarrow> tree_inv P (pre @ [k]) c)"
  show "tree_inv P pre n"
    unfolding tree_inv_def
  proof (intro allI impI)
    fix ks c assume "dlookup ks n = Some c"
    then show "node_ok P (pre @ ks) c"
      using r by (cases ks) (auto simp: tree_inv_def split: option.splits)
  qed
qed

subsection \<open>The tree over a lawful path class\<close>

lemma sorted_insort_fresh:
  "sorted_wrt (<) (map fst xs) \<Longrightarrow> k \<notin> fst ` set xs \<Longrightarrow>
   sorted_wrt (<) (map fst (insort_key fst (k, v) xs))"
  by (simp add: strict_sorted_iff sorted_insort_key distinct_insort
      distinct_map set_insort_key) (auto simp: image_iff inj_on_def set_insort_key)

locale boost_path =
  fixes P :: "'p path_ops"
  assumes laws: "path_laws P"
begin

lemma elems_path_of: "list_all ordinary ks \<Longrightarrow> p_elems P (path_of P ks) = ''/'' # ks"
  using laws by (simp add: path_laws_def path_of_def)

lemma filename_append:
  "list_all ordinary (ks @ [k]) \<Longrightarrow> p_filename P (p_append P (path_of P ks) k) = k"
  using laws elems_path_of [of "ks @ [k]"] by (simp add: path_laws_def)

lemma elems_ordinary: "p_elems P q = ''/'' # ks \<Longrightarrow> list_all ordinary ks"
  using laws by (simp add: path_laws_def)

lemma eq_iff_elems: "p_eq P p q \<longleftrightarrow> p_elems P p = p_elems P q"
  using laws by (simp add: path_laws_def)

lemma root_name: "p_filename P (p_root P) = ''/''"
  using laws elems_path_of [of "[]"] by (simp add: path_laws_def path_of_def)

lemma set_loop_data:
  "list_all ordinary (pre @ qs) \<Longrightarrow>
   data_at ks (fst (set_loop P d (path_of P pre) qs n)) = (if ks = qs then d else data_at ks n)"
proof (induction qs arbitrary: pre ks n)
  case Nil
  show ?case by (cases ks) (simp_all add: data_at_Cons)
next
  case (Cons q qs)
  let ?cp = "p_append P (path_of P pre) q"
  have fn: "p_filename P ?cp = q" using Cons.prems filename_append [of pre q] by simp
  have o: "list_all ordinary ((pre @ [q]) @ qs)" using Cons.prems by simp
  note IH = Cons.IH [OF o, simplified]
  show ?case
  proof (cases "get_child_by_name q n")
    case None
    have "data_at ks' (node_create P ?cp None) = None" for ks'
      by (cases ks') (simp_all add: data_at_Cons)
    then show ?thesis
      using None fn IH [of _ "node_create P ?cp None"]
      by (cases ks) (auto simp: Let_def data_at_Cons get_child_put_child get_child_create_child
          case_prod_beta split: if_splits option.splits)
  next
    case (Some c)
    then show ?thesis
      using IH [of _ c]
      by (cases ks) (auto simp: Let_def data_at_Cons get_child_put_child case_prod_beta
          split: if_splits option.splits)
  qed
qed

lemma set_loop_result:
  "list_all ordinary (pre @ qs) \<Longrightarrow>
   dlookup qs (fst (set_loop P d (path_of P pre) qs n)) = Some (snd (set_loop P d (path_of P pre) qs n))"
proof (induction qs arbitrary: pre n)
  case Nil
  show ?case by simp
next
  case (Cons q qs)
  have fn: "p_filename P (p_append P (path_of P pre) q) = q"
    using Cons.prems filename_append [of pre q] by simp
  have o: "list_all ordinary ((pre @ [q]) @ qs)" using Cons.prems by simp
  show ?case
    using fn Cons.IH [OF o]
    by (cases "get_child_by_name q n")
      (simp_all add: Let_def get_child_put_child get_child_create_child case_prod_beta)
qed

lemma set_loop_keeps: "dn_name (fst (set_loop P d cp qs n)) = dn_name n"
  by (cases qs) (simp_all add: Let_def case_prod_beta split: option.split)

lemma set_loop_inv:
  "list_all ordinary (pre @ qs) \<Longrightarrow> tree_inv P pre n \<Longrightarrow>
   tree_inv P pre (fst (set_loop P d (path_of P pre) qs n))"
proof (induction qs arbitrary: pre n)
  case Nil
  then show ?case by (simp add: tree_inv_unfold [of _ _ n] tree_inv_unfold [of _ _ "set_data d n"]
        node_ok_def)
next
  case (Cons q qs)
  let ?cp = "p_append P (path_of P pre) q"
  have fn: "p_filename P ?cp = q" using Cons.prems filename_append [of pre q] by simp
  have o: "list_all ordinary ((pre @ [q]) @ qs)" using Cons.prems by simp
  note IH = Cons.IH [OF o, simplified]
  have n: "node_ok P pre n" "\<And>k c. get_child_by_name k n = Some c \<Longrightarrow> tree_inv P (pre @ [k]) c"
    using Cons.prems(2) tree_inv_unfold by blast+
  show ?case
  proof (cases "get_child_by_name q n")
    case None
    let ?c = "node_create P ?cp None" and ?n = "fst (create_child P ?cp n)"
    have fresh: "q \<notin> fst ` set (dn_children n)" using None by (simp add: get_child_none_iff)
    have "tree_inv P (pre @ [q]) ?c"
      using o by (subst tree_inv_unfold) (simp add: node_ok_def)
    then have c: "tree_inv P (pre @ [q]) (fst (set_loop P d ?cp qs ?c))" by (rule IH)
    have "node_ok P pre ?n"
      using n(1) fresh sorted_insort_fresh [of "dn_children n" q ?c]
      by (simp add: node_ok_def create_child_def Let_def fn)
    with c n None fn show ?thesis
      by (subst tree_inv_unfold)
        (auto simp: Let_def node_ok_def get_child_put_child get_child_create_child case_prod_beta
          split: if_splits)
  next
    case (Some c)
    then have "tree_inv P (pre @ [q]) (fst (set_loop P d ?cp qs c))" by (intro IH n(2))
    with Some n show ?thesis
      by (subst tree_inv_unfold)
        (auto simp: Let_def node_ok_def get_child_put_child case_prod_beta split: if_splits)
  qed
qed

end

subsection \<open>Finding a node\<close>

lemma find_loop_found: "dlookup qs n = Some c \<Longrightarrow> find_loop mode qs n = Some c"
  by (induction qs arbitrary: n) (auto split: option.splits)

lemma find_loop_missing:
  assumes "dlookup qs n = None"
  obtains ks x rest m where "qs = ks @ x # rest" and "dlookup ks n = Some m"
    and "dlookup (ks @ [x]) n = None"
    and "\<And>mode. find_loop mode qs n =
       (if mode = PARENT_PATH then dlookup (ks @ [''.'']) n else Some m)"
  using assms
proof (induction qs arbitrary: n thesis)
  case Nil
  then show ?case by simp
next
  case (Cons q qs)
  show ?case
  proof (cases "get_child_by_name q n")
    case None
    show ?thesis
      by (rule Cons.prems(1) [of "[]" q qs n]) (simp_all add: None split: option.split)
  next
    case (Some c)
    with Cons.prems(2) have "dlookup qs c = None" by simp
    from Cons.IH [OF _ this] obtain ks x rest m where
      k: "qs = ks @ x # rest" "dlookup ks c = Some m" "dlookup (ks @ [x]) c = None"
        "\<And>mode. find_loop mode qs c =
           (if mode = PARENT_PATH then dlookup (ks @ [''.'']) c else Some m)" by metis
    show ?thesis
      by (rule Cons.prems(1) [of "q # ks" x rest m]) (use k Some in simp_all)
  qed
qed

context boost_path
begin

lemma find_exact:
  assumes inv: "dtree_inv P t" and q: "p_is_absolute P q" "p_elems P q = ''/'' # qs"
  shows "find_match P q EXACT t = Inr (dlookup qs t)"
proof (cases "dlookup qs t")
  case None
  then obtain ks x rest m where k: "qs = ks @ x # rest" "dlookup ks t = Some m"
      and f: "find_loop EXACT qs t = Some m"
    by (metis find_loop_missing match_type.distinct(1))
  have "node_ok P ks m" using inv k(2) by (simp add: dtree_inv_def tree_inv_def)
  then have "p_elems P (dn_path m) = ''/'' # ks" by (simp add: node_ok_def elems_path_of)
  then show ?thesis
    using None inv q k(1) f
    by (simp add: find_match_def is_node_name_def dtree_inv_def is_path_def eq_iff_elems)
next
  case (Some c)
  then have "node_ok P qs c" using inv by (simp add: dtree_inv_def tree_inv_def)
  then have "p_elems P (dn_path c) = ''/'' # qs" by (simp add: node_ok_def elems_path_of)
  then show ?thesis
    using inv q Some find_loop_found [OF Some]
    by (simp add: find_match_def is_node_name_def dtree_inv_def is_path_def eq_iff_elems)
qed

lemma find_parent_exact:
  assumes inv: "dtree_inv P t" and q: "p_is_absolute P q" "p_elems P q = ''/'' # qs"
    and c: "dlookup qs t = Some c"
  shows "find_match P q PARENT_PATH t = Inr (Some c)"
proof -
  have "node_ok P qs c" using inv c by (simp add: dtree_inv_def tree_inv_def)
  then have "p_elems P (dn_path c) = ''/'' # qs" by (simp add: node_ok_def elems_path_of)
  then show ?thesis
    using inv q find_loop_found [OF c]
    by (simp add: find_match_def is_node_name_def dtree_inv_def is_path_def eq_iff_elems)
qed

lemma find_parent_dir:
  assumes inv: "dtree_inv P t" and q: "p_is_absolute P q" "p_elems P q = ''/'' # ks @ x # rest"
    and m: "dlookup ks t \<noteq> None" "dlookup (ks @ [x]) t = None"
  shows "find_match P q PARENT_PATH t = Inr (dlookup (ks @ [''.'']) t)"
proof -
  have "dlookup (ks @ x # rest) t = None"
    using m(2) by (simp add: dlookup_append split: option.splits)
  then obtain ks' x' rest' m' where k: "ks @ x # rest = ks' @ x' # rest'"
      "dlookup ks' t = Some m'" "dlookup (ks' @ [x']) t = None"
    and f: "\<And>mode. find_loop mode (ks @ x # rest) t =
       (if mode = PARENT_PATH then dlookup (ks' @ [''.'']) t else Some m')"
    by (rule find_loop_missing) blast
  have "ks' = ks"
  proof (rule ccontr)
    assume "ks' \<noteq> ks"
    with k(1) consider u where "ks = ks' @ x' # u" | u where "ks' = ks @ x # u"
      by (auto simp: append_eq_append_conv2 append_eq_Cons_conv Cons_eq_append_conv)
    then show False
      using m k(2,3) by cases (auto simp: dlookup_append split: option.splits)
  qed
  show ?thesis
  proof (cases "dlookup (ks @ [''.'']) t")
    case None
    then show ?thesis
      using inv q f \<open>ks' = ks\<close> by (simp add: find_match_def is_node_name_def dtree_inv_def)
  next
    case (Some c)
    then have "node_ok P (ks @ [''.'']) c" using inv by (simp add: dtree_inv_def tree_inv_def)
    then have "p_elems P (dn_path c) = ''/'' # ks @ [''.'']"
      using elems_path_of [of "ks @ [''.'']"] by (simp add: node_ok_def)
    then show ?thesis
      using inv q f Some \<open>ks' = ks\<close>
      by (simp add: find_match_def is_node_name_def dtree_inv_def trailing_element_is_dir_def)
  qed
qed

lemma directory_tree_inv: "dtree_inv P (directory_tree P)"
  by (auto simp: dtree_inv_def directory_tree_def root_name node_ok_def path_of_def
      tree_inv_unfold [of P "[]"])

lemma set_node_ok:
  assumes inv: "dtree_inv P t" and q: "p_is_absolute P q" "p_elems P q = ''/'' # qs"
  obtains t' r where "set_node P q d t = Inr (Some r, t')" and "dtree_inv P t'"
    and "dlookup qs t' = Some r" and "\<And>ks. data_at ks t' = (if ks = qs then d else data_at ks t)"
proof -
  have p: "dn_path t = path_of P []"
    using inv tree_inv_unfold [of P "[]" t] by (simp add: dtree_inv_def node_ok_def)
  have o: "list_all ordinary ([] @ qs)" using elems_ordinary [OF q(2)] by simp
  define l where "l = set_loop P d (path_of P []) qs t"
  show thesis
  proof (rule that [of "snd l" "fst l"])
    show "set_node P q d t = Inr (Some (snd l), fst l)"
      using inv q by (simp add: set_node_def is_node_name_def dtree_inv_def p l_def case_prod_beta)
    show "dtree_inv P (fst l)"
      using inv set_loop_inv [OF o, of t d]
      by (simp add: dtree_inv_def l_def set_loop_keeps del: append_Nil)
    show "dlookup qs (fst l) = Some (snd l)" unfolding l_def by (rule set_loop_result [OF o])
    show "data_at ks (fst l) = (if ks = qs then d else data_at ks t)" for ks
      unfolding l_def by (rule set_loop_data [OF o])
  qed
qed

end

subsection \<open>The tree as a table of paths\<close>

text \<open>
  What a client of the tree relies on: a table from paths to payloads in which an update is seen
  under the same path and nowhere else.
\<close>

definition install_rows :: "('p \<Rightarrow> 'd \<Rightarrow> 't \<Rightarrow> 't) \<Rightarrow> ('p \<times> 'd) list \<Rightarrow> 't \<Rightarrow> 't" where
  "install_rows upd rs t = fold (\<lambda>(p, d). upd p d) rs t"

locale path_table =
  fixes empty :: 't and invar :: "'t \<Rightarrow> bool" and valid :: "'p \<Rightarrow> bool"
    and same :: "'p \<Rightarrow> 'p \<Rightarrow> bool" and update :: "'p \<Rightarrow> 'd option \<Rightarrow> 't \<Rightarrow> 't"
    and lookup :: "'p \<Rightarrow> 't \<Rightarrow> 'd option"
  assumes invar_empty: "invar empty"
    and invar_update: "invar t \<Longrightarrow> valid p \<Longrightarrow> invar (update p d t)"
    and lookup_empty: "valid q \<Longrightarrow> lookup q empty = None"
    and lookup_update: "invar t \<Longrightarrow> valid p \<Longrightarrow> valid q \<Longrightarrow>
      lookup q (update p d t) = (if same p q then d else lookup q t)"
begin

lemma invar_install:
  "invar t \<Longrightarrow> list_all (\<lambda>(p, _). valid p) rs \<Longrightarrow> invar (install_rows update rs t)"
  by (induction rs arbitrary: t) (auto simp: install_rows_def invar_update)

lemma lookup_install:
  "invar t \<Longrightarrow> list_all (\<lambda>(p, _). valid p) rs \<Longrightarrow> valid q \<Longrightarrow>
   lookup q (install_rows update rs t) =
     (case find (\<lambda>(p, _). same p q) (rev rs) of None \<Rightarrow> lookup q t | Some (_, d) \<Rightarrow> d)"
proof (induction rs rule: rev_induct)
  case Nil
  then show ?case by (simp add: install_rows_def)
next
  case (snoc r rs)
  then show ?case
    using invar_install [of t rs] by (cases r) (auto simp: install_rows_def lookup_update)
qed

end

definition path_valid :: "'p path_ops \<Rightarrow> 'p \<Rightarrow> bool" where
  "path_valid P q \<longleftrightarrow> p_is_absolute P q \<and> hd (p_elems P q) = ''/''"

definition table_set :: "'p path_ops \<Rightarrow> 'p \<Rightarrow> 'd option \<Rightarrow> ('p, 'd) dtree \<Rightarrow> ('p, 'd) dtree" where
  "table_set P p d t = (case set_node P p d t of Inl _ \<Rightarrow> t | Inr (_, t') \<Rightarrow> t')"

definition table_get :: "'p path_ops \<Rightarrow> 'p \<Rightarrow> ('p, 'd) dtree \<Rightarrow> 'd option" where
  "table_get P q t = (case find_match P q EXACT t of Inr (Some n) \<Rightarrow> dn_data n | _ \<Rightarrow> None)"

context boost_path
begin

lemma path_validE:
  assumes "path_valid P q"
  obtains qs where "p_is_absolute P q" and "p_elems P q = ''/'' # qs"
proof -
  have "p_elems P q \<noteq> []" using assms laws by (simp add: path_valid_def path_laws_def)
  then show thesis using assms that by (cases "p_elems P q") (auto simp: path_valid_def)
qed

lemma table_get_data:
  assumes "dtree_inv P t" and "p_is_absolute P q" and "p_elems P q = ''/'' # qs"
  shows "table_get P q t = data_at qs t"
  using find_exact [OF assms] by (simp add: table_get_def data_at_def split: option.split)

lemma table_set_data:
  assumes "dtree_inv P t" and "p_is_absolute P q" and "p_elems P q = ''/'' # qs"
  shows "dtree_inv P (table_set P q d t)"
    and "data_at ks (table_set P q d t) = (if ks = qs then d else data_at ks t)"
  by (rule set_node_ok [OF assms, of d], simp add: table_set_def)+

end

sublocale boost_path \<subseteq> cb: path_table "directory_tree P" "dtree_inv P" "path_valid P" "p_eq P"
  "table_set P" "table_get P"
proof
  show "dtree_inv P (directory_tree P)" by (rule directory_tree_inv)
next
  fix t :: "('p, 'd) dtree" and p d assume "dtree_inv P t" "path_valid P p"
  then show "dtree_inv P (table_set P p d t)" by (meson path_validE table_set_data(1))
next
  fix q assume "path_valid P q"
  then obtain qs where
    "table_get P q (directory_tree P :: ('p, 'd) dtree) = data_at qs (directory_tree P)"
    by (metis path_validE table_get_data directory_tree_inv)
  then show "table_get P q (directory_tree P :: ('p, 'd) dtree) = None"
    by (cases qs) (simp_all add: data_at_Cons directory_tree_def)
next
  fix t :: "('p, 'd) dtree" and p q d
  assume t: "dtree_inv P t" and p: "path_valid P p" and q: "path_valid P q"
  obtain ps where ps: "p_is_absolute P p" "p_elems P p = ''/'' # ps" using p by (rule path_validE)
  obtain qs where qs: "p_is_absolute P q" "p_elems P q = ''/'' # qs" using q by (rule path_validE)
  note s = table_set_data(1) [OF t ps, of d] table_set_data(2) [OF t ps, of _ d]
  show "table_get P q (table_set P p d t) = (if p_eq P p q then d else table_get P q t)"
    using table_get_data [OF s(1) qs] table_get_data [OF t qs] s(2) [of qs] ps qs
    by (auto simp: eq_iff_elems)
qed

subsection \<open>POSIX paths\<close>

text \<open>
  A path class on strings that satisfies the laws: the elements are the root slash and the maximal
  runs between slashes, with a final \<^verbatim>\<open>"."\<close> for a trailing slash.
\<close>

function segs :: "string \<Rightarrow> string list" where
  "segs [] = []"
| "segs (c # s) = (if c = CHR ''/'' then segs s
     else (c # takeWhile (\<lambda>x. x \<noteq> CHR ''/'') s) # segs (dropWhile (\<lambda>x. x \<noteq> CHR ''/'') s))"
  by pat_completeness auto
termination
  by (relation "measure length") (auto simp: less_Suc_eq_le length_dropWhile_le)

definition posix_elems :: "string \<Rightarrow> string list" where
  "posix_elems s = (if s = [] then [] else
     (if hd s = CHR ''/'' then [''/''] else []) @ segs s @
     (if last s = CHR ''/'' \<and> segs s \<noteq> [] then [''.''] else []))"

definition posix_paths :: "string path_ops" where
  "posix_paths =
     \<lparr>p_elems = posix_elems, p_is_absolute = (\<lambda>s. s \<noteq> [] \<and> hd s = CHR ''/''),
      p_empty = (\<lambda>s. s = []), p_size = length,
      p_append = (\<lambda>p e. if p \<noteq> [] \<and> last p \<noteq> CHR ''/'' then p @ ''/'' @ e else p @ e),
      p_filename = (\<lambda>s. if s = [] then [] else last (posix_elems s)),
      p_of_string = id, p_eq = (\<lambda>p q. posix_elems p = posix_elems q)\<rparr>"

lemma posix_sel [simp]:
  "p_elems posix_paths = posix_elems"
  "p_is_absolute posix_paths s \<longleftrightarrow> s \<noteq> [] \<and> hd s = CHR ''/''"
  "p_of_string posix_paths s = s"
  "p_eq posix_paths p q \<longleftrightarrow> posix_elems p = posix_elems q"
  by (simp_all add: posix_paths_def)

lemma segs_ordinary: "list_all ordinary (segs s)"
proof (induction s rule: segs.induct)
  case (2 c s)
  then show ?case by (auto simp: ordinary_def dest: set_takeWhileD)
qed simp

lemma segs_slash: "segs (s @ CHR ''/'' # u) = segs s @ segs u"
proof (induction s rule: segs.induct)
  case (2 c s)
  have t: "takeWhile (\<lambda>x. x \<noteq> CHR ''/'') (s @ CHR ''/'' # u) = takeWhile (\<lambda>x. x \<noteq> CHR ''/'') s"
    by (induction s) auto
  have d: "dropWhile (\<lambda>x. x \<noteq> CHR ''/'') (s @ CHR ''/'' # u) =
      dropWhile (\<lambda>x. x \<noteq> CHR ''/'') s @ CHR ''/'' # u"
    by (induction s) auto
  show ?case using 2 by (simp add: t d)
qed simp

lemma segs_single:
  assumes "ordinary e"
  shows "segs e = [e]"
proof (cases e)
  case (Cons c s)
  then have "\<forall>x \<in> set s. x \<noteq> CHR ''/''" using assms by (auto simp: ordinary_def)
  then have "takeWhile (\<lambda>x. x \<noteq> CHR ''/'') s = s" "dropWhile (\<lambda>x. x \<noteq> CHR ''/'') s = []"
    by (simp_all only: takeWhile_eq_all_conv dropWhile_eq_Nil_conv)
  then show ?thesis
    using assms Cons
    by (auto simp add: ordinary_def simp del: dropWhile_eq_Nil_conv takeWhile_eq_all_conv)
qed (use assms in \<open>simp add: ordinary_def\<close>)

lemma posix_foldl:
  assumes "list_all ordinary es"
  defines "s \<equiv> foldl (p_append posix_paths) (p_root posix_paths) es"
  shows "s \<noteq> [] \<and> hd s = CHR ''/'' \<and> segs s = es \<and> (last s = CHR ''/'' \<longleftrightarrow> es = [])"
  using assms(1) unfolding s_def
proof (induction es rule: rev_induct)
  case Nil
  show ?case by (simp add: p_root_def posix_paths_def)
next
  case (snoc e es)
  let ?s = "foldl (p_append posix_paths) (p_root posix_paths) es"
  have IH: "?s \<noteq> []" "hd ?s = CHR ''/''" "segs ?s = es" "last ?s = CHR ''/'' \<longleftrightarrow> es = []"
    using snoc by simp_all
  have e: "e \<noteq> []" "last e \<noteq> CHR ''/''" "segs e = [e]"
    using snoc.prems segs_single last_in_set by (fastforce simp: ordinary_def)+
  show ?case
  proof (cases "es = []")
    case True
    then show ?thesis
      using e segs_slash [of "[]" e] by (simp add: p_root_def posix_paths_def)
  next
    case False
    then have "p_append posix_paths ?s e = ?s @ CHR ''/'' # e"
      using IH by (simp add: posix_paths_def)
    then show ?thesis using IH e segs_slash [of ?s e] by simp
  qed
qed

lemma posix_path_laws: "path_laws posix_paths"
proof -
  have "list_all ordinary es" if "posix_elems p = ''/'' # es" for p es
  proof (cases "p \<noteq> [] \<and> hd p = CHR ''/''")
    case True
    with that segs_ordinary [of p] show ?thesis
      by (auto simp: posix_elems_def ordinary_def split: if_splits)
  next
    case False
    with that obtain xs where "segs p = ''/'' # xs"
      by (cases p) (auto simp: posix_elems_def split: if_splits)
    with segs_ordinary [of p] show ?thesis by (simp add: ordinary_def)
  qed
  moreover have "posix_elems (foldl (p_append posix_paths) (p_root posix_paths) es) = ''/'' # es"
    if "list_all ordinary es" for es
    using posix_foldl [OF that] by (auto simp: posix_elems_def)
  ultimately show ?thesis
    by (auto simp: path_laws_def posix_paths_def) (auto simp: posix_elems_def)
qed

interpretation posix: boost_path posix_paths
  by unfold_locales (rule posix_path_laws)

subsection \<open>Properties\<close>

text \<open>
  C4. Registration round trip and frame: setting a node at an absolute path always succeeds, keeps
  the tree well formed, an exact search for the path returns that very node with the new payload,
  and the payload under every other path is what it was.
\<close>

theorem set_node_find_match:
  assumes "path_laws P" and "dtree_inv P t" and "path_valid P p" and "path_valid P q"
  shows "\<exists>r t'. set_node P p d t = Inr (Some r, t') \<and> dtree_inv P t' \<and>
    find_match P p EXACT t' = Inr (Some r) \<and> dn_data r = d \<and>
    table_get P q t' = (if p_eq P p q then d else table_get P q t)"
proof -
  have bp: "boost_path P" by unfold_locales (rule assms(1))
  obtain ps where ps: "p_is_absolute P p" "p_elems P p = ''/'' # ps"
    using boost_path.path_validE [OF bp assms(3)] .
  obtain t' r where t': "set_node P p d t = Inr (Some r, t')" "dtree_inv P t'"
      "dlookup ps t' = Some r" "\<And>ks. data_at ks t' = (if ks = ps then d else data_at ks t)"
    using boost_path.set_node_ok [OF bp assms(2) ps] by metis
  have "table_get P q t' = (if p_eq P p q then d else table_get P q t)"
    using boost_path.table_get_data [OF bp] boost_path.path_validE [OF bp assms(4)]
      boost_path.eq_iff_elems [OF bp] assms(2) ps(2) t'(2,4) by (metis list.inject)
  moreover have "dn_data r = d" using t'(3) t'(4) [of ps] by (simp add: data_at_def)
  moreover have "find_match P p EXACT t' = Inr (Some r)"
    using boost_path.find_exact [OF bp t'(2) ps] t'(3) by simp
  ultimately show ?thesis using t'(1,2) by blast
qed

theorem set_node_find_match_witness:
  "\<exists>r t'. set_node posix_paths ''/api/v1'' (Some True) (directory_tree posix_paths) =
      Inr (Some r, t') \<and> dtree_inv posix_paths t' \<and>
    find_match posix_paths ''/api/v1'' EXACT t' = Inr (Some r) \<and> dn_data r = Some True \<and>
    table_get posix_paths ''/api'' t' = (if p_eq posix_paths ''/api/v1'' ''/api'' then Some True
      else table_get posix_paths ''/api'' (directory_tree posix_paths))"
  by (rule set_node_find_match [OF posix_path_laws posix.directory_tree_inv])
    (simp_all add: path_valid_def posix_paths_def posix_elems_def)

text \<open>
  The specification of a search by parent directory: the node itself if there is one, otherwise
  the directory entry of the deepest node on the way.
\<close>

definition dir_spec :: "string list \<Rightarrow> ('p, 'd) dnode \<Rightarrow> ('p, 'd) dnode option" where
  "dir_spec qs t = (case dlookup qs t of Some c \<Rightarrow> Some c
     | None \<Rightarrow> dlookup (last (filter (\<lambda>ks. dlookup ks t \<noteq> None) (prefixes qs)) @ [''.'']) t)"

lemma deepest_prefix:
  assumes "dlookup ks t \<noteq> None" and "dlookup (ks @ [x]) t = None"
  shows "last (filter (\<lambda>ks. dlookup ks t \<noteq> None) (prefixes (ks @ x # rest))) = ks"
proof -
  have "dlookup (ks @ x # u) t = None" for u
    using assms(2) by (simp add: dlookup_append split: option.splits)
  then have "filter (\<lambda>ks. dlookup ks t \<noteq> None) (map (\<lambda>u. ks @ x # u) (prefixes rest)) = []"
    by (simp add: filter_empty_conv)
  moreover have "prefixes (ks @ x # rest) = prefixes ks @ map (\<lambda>u. ks @ x # u) (prefixes rest)"
    by (induction ks) auto
  moreover obtain us where "prefixes ks = us @ [ks]"
    by (metis append_butlast_last_id last_prefixes prefixes_not_Nil)
  ultimately show ?thesis using assms(1) by simp
qed

context boost_path
begin

lemma find_parent_spec:
  assumes "dtree_inv P t" and q: "p_is_absolute P q" "p_elems P q = ''/'' # qs"
  shows "find_match P q PARENT_PATH t = Inr (dir_spec qs t)"
proof (cases "dlookup qs t")
  case None
  then obtain ks x rest m where k: "qs = ks @ x # rest" "dlookup ks t = Some m"
      "dlookup (ks @ [x]) t = None" by (rule find_loop_missing) blast
  then have "find_match P q PARENT_PATH t = Inr (dlookup (ks @ [''.'']) t)"
    using find_parent_dir [OF assms(1) q(1)] q(2) by simp
  then show ?thesis using None k deepest_prefix [of ks t x rest] by (simp add: dir_spec_def)
next
  case (Some c)
  then show ?thesis using find_parent_exact [OF assms] by (simp add: dir_spec_def)
qed

lemma table_invar_install:
  "list_all (\<lambda>(p, _). path_valid P p) rs \<Longrightarrow>
   dtree_inv P (install_rows (table_set P) rs (directory_tree P))"
  by (rule cb.invar_install [OF cb.invar_empty])

lemma table_lookup_install:
  "list_all (\<lambda>(p, _). path_valid P p) rs \<Longrightarrow> path_valid P q \<Longrightarrow>
   table_get P q (install_rows (table_set P) rs (directory_tree P)) =
     (case find (\<lambda>(p, _). p_eq P p q) (rev rs) of None \<Rightarrow> None | Some (_, d) \<Rightarrow> d)"
  by (simp add: cb.lookup_install [OF cb.invar_empty] cb.lookup_empty split: option.split)

end

text \<open>
  C38. A search by parent directory returns the exact node if the path was registered, and else the
  directory entry \<^verbatim>\<open>"."\<close> of the deepest node that matches the request, if it has one; it
  does not climb further up.
\<close>

theorem find_match_parent_path:
  assumes "path_laws P" and "dtree_inv P t" and "path_valid P q"
  shows "find_match P q PARENT_PATH t = Inr (dir_spec (tl (p_elems P q)) t)"
proof -
  have bp: "boost_path P" by unfold_locales (rule assms(1))
  obtain qs where qs: "p_is_absolute P q" "p_elems P q = ''/'' # qs"
    using boost_path.path_validE [OF bp assms(3)] .
  show ?thesis using boost_path.find_parent_spec [OF bp assms(2) qs] by (simp add: qs)
qed

theorem find_match_parent_path_witness:
  "dtree_inv posix_paths (directory_tree posix_paths) \<and>
   find_match posix_paths ''/api/v1'' PARENT_PATH (directory_tree posix_paths) =
     Inr (dir_spec [''api'', ''v1''] (directory_tree posix_paths))"
  using posix.directory_tree_inv
    find_match_parent_path [OF posix_path_laws posix.directory_tree_inv, of "''/api/v1''"]
  by (simp add: path_valid_def posix_paths_def posix_elems_def)

lemma parent_loop_prefix:
  "length bs \<le> length rs \<Longrightarrow> bs \<noteq> [] \<Longrightarrow> parent_loop d bs rs =
     Inr (if d then prefix (butlast bs) rs else prefix bs rs)"
proof (induction d bs rs rule: parent_loop.induct)
  case (2 d b bs rs)
  then show ?case by (cases rs; cases bs) auto
qed simp

text \<open>
  For absolute paths where the base has no more elements and no more characters than the
  request, \<^verbatim>\<open>is_parent_path\<close> decides whether the base, without its directory marker if it
  ends in one, is a prefix of the request.
\<close>

theorem is_parent_path_prefix:
  assumes "path_laws P" and "p_is_absolute P base" and "p_is_absolute P req"
    and "\<not> p_empty P base" and "\<not> p_empty P req"
    and "p_size P base \<le> p_size P req" and "num_elements P base \<le> num_elements P req"
  shows "is_parent_path P base req =
    Inr (if trailing_element_is_dir P base then prefix (butlast (p_elems P base)) (p_elems P req)
         else prefix (p_elems P base) (p_elems P req))"
proof -
  have "p_elems P base \<noteq> []" using assms(1,2) by (simp add: path_laws_def)
  then show ?thesis
    using assms by (simp add: is_parent_path_def num_elements_def parent_loop_prefix)
qed

theorem is_parent_path_prefix_witness:
  "is_parent_path posix_paths ''/foo/'' ''/foo/bar'' = Inr True"
  by (subst is_parent_path_prefix [OF posix_path_laws])
    (simp_all add: posix_paths_def posix_elems_def num_elements_def trailing_element_is_dir_def)

text \<open>
  The length guard of \<^verbatim>\<open>is_parent_path\<close> compares characters, not elements: a request
  with redundant slashes passes it with fewer elements than the base, and the loop then
  dereferences the end iterator of the request.
\<close>

theorem is_parent_path_past_end:
  "is_parent_path posix_paths ''/a/b'' ''////a'' = Inl PastEnd"
  by (simp add: is_parent_path_def posix_paths_def posix_elems_def trailing_element_is_dir_def)

text \<open>
  \<^verbatim>\<open>get_child_by_idx\<close> discards the advanced iterator, so every index in range returns
  the same child: the first in the order of the map.
\<close>

theorem get_child_by_idx_first:
  "dn_children n = (k, c) # cs \<Longrightarrow> i < get_child_count n \<Longrightarrow> get_child_by_idx i n = Some c"
  by (simp add: get_child_by_idx_def)

theorem get_child_by_idx_first_witness:
  "get_child_by_idx 1
     (DNode ''/'' ''/'' [(''a'', DNode ''/a'' ''a'' [] (Some True)),
        (''b'', DNode ''/b'' ''b'' [] None)] None) =
   Some (DNode ''/a'' ''a'' [] (Some True))"
  by (rule get_child_by_idx_first) (simp_all add: get_child_count_def)

end
