(* ===== verification/Thread_Base.thy ===== *)
theory Thread_Base
  imports Opaleye_Prelude
begin

section \<open>Interruptible threads: \<^verbatim>\<open>thread_base\<close>\<close>

text \<open>
  \<^verbatim>\<open>src/libs/opaleye-util/include/opaleye-util/thread_base.hpp\<close> and
  \<^verbatim>\<open>thread_base.cpp\<close>. The object's state is the run flag and whether its
  \<^verbatim>\<open>std::thread\<close> is joinable. \<^verbatim>\<open>dispatch_work\<close> runs the virtual
  \<^verbatim>\<open>work\<close>; an exception that leaves it leaves the thread function, which terminates the
  process. The waiting functions are modelled as a step relation, because the interrupting thread
  does not take the mutex.
\<close>

record thread_base =
  m_keep_running :: bool
  th_joinable :: bool

definition thread_base_new :: thread_base where
  "thread_base_new = \<lparr>m_keep_running = False, th_joinable = False\<rparr>"

definition launch :: "thread_base \<Rightarrow> thread_base" where
  "launch t = (if \<not> th_joinable t then t\<lparr>m_keep_running := True, th_joinable := True\<rparr> else t)"

definition interrupt :: "thread_base \<Rightarrow> thread_base" where
  "interrupt t = t\<lparr>m_keep_running := False\<rparr>"

definition join :: "thread_base \<Rightarrow> thread_base" where
  "join t = (if th_joinable t then t\<lparr>th_joinable := False\<rparr> else t)"

definition is_interrupted :: "thread_base \<Rightarrow> bool" where
  "is_interrupted t \<longleftrightarrow> \<not> m_keep_running t"

datatype 'e thread_end = Exited | Terminated 'e

definition dispatch_work :: "('s \<Rightarrow> 'e + 's) \<Rightarrow> 's \<Rightarrow> 'e thread_end \<times> 's" where
  "dispatch_work work s = (case work s of Inl e \<Rightarrow> (Terminated e, s) | Inr s' \<Rightarrow> (Exited, s'))"

subsection \<open>Waiting for the interruption\<close>

text \<open>
  The waiter: outside, holding the mutex before the test of the flag, holding it after a test that
  failed, blocked on the condition variable (mutex released), returned. The interrupter: not
  started, flag stored, notified. A wake-up without a notification is allowed by the standard; a
  timed wait can also wake by its timeout.
\<close>

datatype waiter = Outside | Testing | Tested | Blocked | Returned
datatype interrupter = Idle | Stored | Notified

record wait_state =
  ws_keep :: bool
  ws_waiter :: waiter
  ws_intr :: interrupter

datatype wait_label = Enter | Test | Block | Spurious | Store | Notify

inductive wait_step :: "wait_state \<Rightarrow> wait_label \<Rightarrow> wait_state \<Rightarrow> bool" where
  enter: "ws_waiter s = Outside \<Longrightarrow> wait_step s Enter (s\<lparr>ws_waiter := Testing\<rparr>)"
| test_done: "ws_waiter s = Testing \<Longrightarrow> \<not> ws_keep s \<Longrightarrow> wait_step s Test (s\<lparr>ws_waiter := Returned\<rparr>)"
| test_wait: "ws_waiter s = Testing \<Longrightarrow> ws_keep s \<Longrightarrow> wait_step s Test (s\<lparr>ws_waiter := Tested\<rparr>)"
| block: "ws_waiter s = Tested \<Longrightarrow> wait_step s Block (s\<lparr>ws_waiter := Blocked\<rparr>)"
| spurious: "ws_waiter s = Blocked \<Longrightarrow> wait_step s Spurious (s\<lparr>ws_waiter := Testing\<rparr>)"
| store: "ws_intr s = Idle \<Longrightarrow> wait_step s Store (s\<lparr>ws_keep := False, ws_intr := Stored\<rparr>)"
| notify: "ws_intr s = Stored \<Longrightarrow> wait_step s Notify
    (s\<lparr>ws_intr := Notified, ws_waiter := (if ws_waiter s = Blocked then Testing else ws_waiter s)\<rparr>)"

inductive_cases wait_stepE: "wait_step s l s'"

definition wait_init :: wait_state where
  "wait_init = \<lparr>ws_keep = True, ws_waiter = Outside, ws_intr = Idle\<rparr>"

inductive wait_run :: "wait_state \<Rightarrow> wait_label list \<Rightarrow> wait_state \<Rightarrow> bool" where
  run_nil: "wait_run s [] s"
| run_step: "wait_step s l s' \<Longrightarrow> wait_run s' ls s'' \<Longrightarrow> wait_run s (l # ls) s''"

definition wait_inv :: "wait_state \<Rightarrow> bool" where
  "wait_inv s \<longleftrightarrow> (ws_keep s \<longleftrightarrow> ws_intr s = Idle) \<and> (ws_waiter s = Returned \<longrightarrow> \<not> ws_keep s)"

lemma wait_step_inv: "wait_step s l s' \<Longrightarrow> wait_inv s \<Longrightarrow> wait_inv s'"
  by (erule wait_stepE) (auto simp: wait_inv_def)

lemma wait_run_inv: "wait_run s ls s' \<Longrightarrow> wait_inv s \<Longrightarrow> wait_inv s'"
  by (induction rule: wait_run.induct) (auto intro: wait_step_inv)



lemma blocked_stuck:
  "wait_step s l s' \<Longrightarrow> ws_waiter s = Blocked \<Longrightarrow> ws_intr s = Notified \<Longrightarrow> l = Spurious"
  by (erule wait_stepE) simp_all

text \<open>
  C36. A wake-up can be lost: the interrupter stores the flag and notifies without the mutex, so
  both can fall between the waiter's test and its block. The interruption has then been requested
  and notified, the waiter is blocked, and nothing but a spurious wake-up lets it go on.
\<close>

theorem interrupt_wakeup_lost:
  "\<exists>s. wait_run wait_init [Enter, Test, Store, Notify, Block] s \<and> \<not> ws_keep s \<and>
     ws_intr s = Notified \<and> ws_waiter s = Blocked \<and>
     {l. \<exists>s'. wait_step s l s'} = {Spurious}"
proof (intro exI conjI)
  let ?s = "\<lparr>ws_keep = False, ws_waiter = Blocked, ws_intr = Notified\<rparr>"
  show "wait_run wait_init [Enter, Test, Store, Notify, Block] ?s"
    unfolding wait_init_def
    by (rule run_step, rule enter, simp)
      (simp, rule run_step, rule test_wait, simp_all,
       rule run_step, rule store, simp_all, rule run_step, rule notify, simp_all,
       rule run_step, rule block, simp_all, rule run_nil)
  have "wait_step ?s Spurious (?s\<lparr>ws_waiter := Testing\<rparr>)" by (rule spurious) simp
  then show "{l. \<exists>s'. wait_step ?s l s'} = {Spurious}"
    using blocked_stuck [of ?s] by (auto simp del: wait_state.update_convs)
qed simp_all

text \<open>
  The life cycle of the object: a second launch has no effect until the first thread is joined,
  and a join after an interruption leaves the object ready for a new launch.
\<close>

lemma launch_running: "\<not> th_joinable t \<Longrightarrow> \<not> is_interrupted (launch t) \<and> th_joinable (launch t)"
  by (simp add: launch_def is_interrupted_def)

lemma relaunch: "\<not> is_interrupted (launch (join (interrupt t)))"
  by (simp add: launch_def join_def interrupt_def is_interrupted_def)

end
