(* ===== verification/Http_Bridge.thy ===== *)
theory Http_Bridge
  imports Http_Common Path_Tree Thread_Base
begin

section \<open>The FastCGI bridge\<close>

text \<open>
  \<^verbatim>\<open>src/libs/http-bridge/\<close>: the request environment (\<^verbatim>\<open>http_req_util\<close>), the
  exceptions and the base callback (\<^verbatim>\<open>http_req_callback_base.hpp\<close>), the error and file
  handlers, the server with its table of callbacks (\<^verbatim>\<open>http_fcgi_svr\<close>) and the loop of a
  worker thread (\<^verbatim>\<open>http_fcgi_work_thread\<close>).

  A request is its parameters, the bytes still to be read, the text written so far and how often
  it was finished. A handler maps a request and the state \<open>'s\<close> of the objects behind it to the
  exception it throws, if any, and the new request and state. \<open>Undefined\<close> stands for a null
  pointer passed where a string is required.
\<close>

record fcgx_request =
  rq_env :: "string \<Rightarrow> string option"
  rq_in :: string
  rq_out :: string
  rq_finished :: nat

datatype exc = HTTPException int string | StdException string | Undefined

type_synonym 's handler = "fcgx_request \<Rightarrow> 's \<Rightarrow> exc option \<times> fcgx_request \<times> 's"

definition crlf :: string where "crlf = [CHR 0x0D, CHR 0x0A]"

definition FCGX_PutS :: "string \<Rightarrow> fcgx_request \<Rightarrow> fcgx_request" where
  "FCGX_PutS s r = r\<lparr>rq_out := rq_out r @ s\<rparr>"

definition FCGX_Finish_r :: "fcgx_request \<Rightarrow> fcgx_request" where
  "FCGX_Finish_r r = r\<lparr>rq_finished := Suc (rq_finished r)\<rparr>"

definition FCGX_GetStr :: "nat \<Rightarrow> fcgx_request \<Rightarrow> string \<times> fcgx_request" where
  "FCGX_GetStr n r = (take n (rq_in r), r\<lparr>rq_in := drop n (rq_in r)\<rparr>)"

lemma fcgx_simps [simp]:
  "rq_finished (FCGX_PutS s r) = rq_finished r" "rq_out (FCGX_PutS s r) = rq_out r @ s"
  "rq_finished (FCGX_Finish_r r) = Suc (rq_finished r)" "rq_out (FCGX_Finish_r r) = rq_out r"
  "rq_env (FCGX_PutS s r) = rq_env r" "rq_env (FCGX_Finish_r r) = rq_env r"
  "rq_in (FCGX_PutS s r) = rq_in r" "rq_in (FCGX_Finish_r r) = rq_in r"
  by (simp_all add: FCGX_PutS_def FCGX_Finish_r_def)

subsection \<open>Exceptions\<close>

definition BadRequest :: "string option \<Rightarrow> exc" where
  "BadRequest m = HTTPException (status_code BAD_REQUEST) (case m of None \<Rightarrow> ''Bad Request'' | Some s \<Rightarrow> s)"

definition NotFound :: "string option \<Rightarrow> exc" where
  "NotFound m = HTTPException (status_code NOT_FOUND) (case m of None \<Rightarrow> ''Not Found'' | Some s \<Rightarrow> s)"

definition MethodNotAllowed :: "string option \<Rightarrow> exc" where
  "MethodNotAllowed m = HTTPException (status_code METHOD_NOT_ALLOWED)
     (case m of None \<Rightarrow> ''Method Not Allowed'' | Some s \<Rightarrow> s)"

definition InternalServerError :: "string option \<Rightarrow> exc" where
  "InternalServerError m = HTTPException (status_code INTERNAL_SERVER_ERROR)
     (case m of None \<Rightarrow> ''Internal Error'' | Some s \<Rightarrow> s)"

definition ServiceUnavailable :: "string option \<Rightarrow> exc" where
  "ServiceUnavailable m = HTTPException (status_code SERVICE_UNAVAILABLE)
     (case m of None \<Rightarrow> ''Service Unavailable'' | Some s \<Rightarrow> s)"

subsection \<open>The request environment\<close>

text \<open>
  The parameters \<^verbatim>\<open>load\<close> copies, in its order; a missing parameter is a null pointer, which
  only \<^verbatim>\<open>HTTPS\<close> is protected against. The path is built from \<^verbatim>\<open>DOCUMENT_URI\<close> and
  the method parsed from \<^verbatim>\<open>REQUEST_METHOD\<close>; logging builds a string from every parameter.
\<close>

definition REQ_PARAMS :: "string list" where
  "REQ_PARAMS =
     [''QUERY_STRING'', ''REQUEST_METHOD'', ''CONTENT_TYPE'', ''CONTENT_LENGTH'', ''SCRIPT_NAME'',
      ''REQUEST_URI'', ''DOCUMENT_URI'', ''DOCUMENT_ROOT'', ''SERVER_PROTOCOL'', ''REQUEST_SCHEME'',
      ''HTTPS'', ''GATEWAY_INTERFACE'', ''SERVER_SOFTWARE'', ''REMOTE_ADDR'', ''REMOTE_PORT'',
      ''SERVER_ADDR'', ''SERVER_PORT'', ''SERVER_NAME'', ''REDIRECT_STATUS'']"

record http_req_util =
  hr_param :: "string \<Rightarrow> string option"
  doc_uri_path :: string
  request_method_enum :: REQUEST_METHOD

definition req_util_load :: "fcgx_request \<Rightarrow> http_req_util option" where
  "req_util_load r =
     (let p = (\<lambda>k. if k = ''HTTPS'' then Some (case rq_env r k of None \<Rightarrow> ''<null>'' | Some v \<Rightarrow> v)
                  else if k \<in> set REQ_PARAMS then rq_env r k else None)
      in case p ''DOCUMENT_URI'' of None \<Rightarrow> None
         | Some u \<Rightarrow> (case p ''REQUEST_METHOD'' of None \<Rightarrow> None
             | Some m \<Rightarrow> Some \<lparr>hr_param = p, doc_uri_path = u,
                 request_method_enum = parse_req_method m\<rparr>))"

definition log_request_env :: "http_req_util \<Rightarrow> bool" where
  "log_request_env u \<longleftrightarrow> list_all (\<lambda>k. hr_param u k \<noteq> None) REQ_PARAMS"

text \<open>The two calls every handler of the application starts with.\<close>

definition load_and_log :: "fcgx_request \<Rightarrow> http_req_util option" where
  "load_and_log r = (case req_util_load r of None \<Rightarrow> None
     | Some u \<Rightarrow> if log_request_env u then Some u else None)"

definition param :: "http_req_util \<Rightarrow> string \<Rightarrow> string" where
  "param u k = (case hr_param u k of None \<Rightarrow> [] | Some v \<Rightarrow> v)"

subsection \<open>Replies and the simple handlers\<close>

definition reply_html :: "string \<Rightarrow> string \<Rightarrow> fcgx_request \<Rightarrow> fcgx_request" where
  "reply_html status msg r =
     FCGX_Finish_r (FCGX_PutS msg (FCGX_PutS crlf (FCGX_PutS (''Status: '' @ status @ crlf)
       (FCGX_PutS (''Content-Length: '' @ fmt_int (int (length msg)) @ crlf)
         (FCGX_PutS (''Content-Type: text/html'' @ crlf) r)))))"

definition reply_exception :: "int \<Rightarrow> string \<Rightarrow> fcgx_request \<Rightarrow> fcgx_request" where
  "reply_exception code what r =
     FCGX_Finish_r (FCGX_PutS (what @ crlf) (FCGX_PutS crlf
       (FCGX_PutS (''Status: '' @ fmt_int code @ '' '' @ what @ crlf)
         (FCGX_PutS (''Content-Length: '' @ fmt_int (to_s32 (int (length what))) @ crlf)
           (FCGX_PutS (''Content-Type: text/html'' @ crlf) r)))))"

definition callback_base_handle :: "'s handler" where
  "callback_base_handle r s =
     (None, FCGX_Finish_r (FCGX_PutS (''Status: 500 Internal Error'' @ crlf) r), s)"

text \<open>
  The error handler passes fmt-style braces to a printf-style function, which prints them as they
  are.
\<close>

definition error_handler_handle :: "STATUS_CODES \<Rightarrow> 's handler" where
  "error_handler_handle c r s =
     (let code_msg = get_status_code_str c in
      (None, FCGX_Finish_r (FCGX_PutS code_msg (FCGX_PutS crlf
         (FCGX_PutS (''Status: {:d} {:s}'' @ crlf)
           (FCGX_PutS (''Content-Type: text/html'' @ crlf) r)))), s))"

text \<open>
  The file handler. Successive \<^verbatim>\<open>read\<close> calls return the entries of \<open>fw_reads\<close>,
  then end of file; \<open>fw_open\<close> are the descriptors the process holds.
\<close>

datatype read_ev = ReadData string | ReadEINTR | ReadFail

record file_world =
  fw_fd :: int
  fw_stat :: "(int \<times> timespec) option"
  fw_reads :: "read_ev list"
  fw_open :: "int list"

fun copy_file :: "read_ev list \<Rightarrow> fcgx_request \<Rightarrow> fcgx_request" where
  "copy_file [] r = r"
| "copy_file (ReadData d # es) r = copy_file es (FCGX_PutS (take 4096 d) r)"
| "copy_file (ReadEINTR # es) r = copy_file es r"
| "copy_file (ReadFail # es) r = r"

definition callback_file_handle :: "file_world handler" where
  "callback_file_handle r s =
     (let err = FCGX_Finish_r (FCGX_PutS (''Status: 500 Internal Error'' @ crlf) r);
          fd = fw_fd s in
      if fd \<ge> 0 then
        let s = s\<lparr>fw_open := fd # fw_open s\<rparr> in
        case fw_stat s of
          None \<Rightarrow> (None, err, s)
        | Some (st_size, st_mtim) \<Rightarrow>
            (case timespec_to_httpdate st_mtim of
               None \<Rightarrow> (Some Undefined, r, s)
             | Some (False, _) \<Rightarrow> (None, err, s)
             | Some (True, date_str) \<Rightarrow>
                 let r = FCGX_PutS (''Content-Type: image/jpeg'' @ crlf) r;
                     r = FCGX_PutS (''Content-Length: '' @ fmt_int (to_s32 st_size) @ crlf) r;
                     r = FCGX_PutS (''Last-Modified: '' @ date_str @ crlf) r;
                     r = FCGX_PutS (''Cache-Control: max-age=0, no-store'' @ crlf) r;
                     r = FCGX_PutS crlf r;
                     r = copy_file (fw_reads s) r
                 in (None, FCGX_Finish_r r, s\<lparr>fw_open := remove1 fd (fw_open s)\<rparr>))
      else (None, err, s))"

subsection \<open>The server\<close>

record work_thread =
  wt_svr :: bool
  wt_sock_fd :: int
  wt_thread :: thread_base

record ('p, 'c) http_fcgi_svr =
  m_sock_fd :: int
  m_thread_pool :: "work_thread list"
  m_cb_table :: "('p, 'c option) dtree"

definition fcgi_svr_new :: "'p path_ops \<Rightarrow> ('p, 'c) http_fcgi_svr" where
  "fcgi_svr_new P = \<lparr>m_sock_fd = - 1, m_thread_pool = [], m_cb_table = directory_tree P\<rparr>"

definition work_thread_new :: work_thread where
  "work_thread_new = \<lparr>wt_svr = False, wt_sock_fd = - 1, wt_thread = thread_base_new\<rparr>"

definition work_thread_init :: "int \<Rightarrow> work_thread \<Rightarrow> bool \<times> work_thread" where
  "work_thread_init fd t = (True, t\<lparr>wt_svr := True, wt_sock_fd := fd\<rparr>)"

fun start_threads :: "int \<Rightarrow> work_thread list \<Rightarrow> bool \<times> work_thread list" where
  "start_threads fd [] = (True, [])"
| "start_threads fd (_ # ts) =
     (let (ok, t) = work_thread_init fd work_thread_new in
      if \<not> ok then (False, t # ts)
      else let (ok', ts') = start_threads fd ts
           in (ok', t\<lparr>wt_thread := launch (wt_thread t)\<rparr> # ts'))"

definition svr_start :: "(string \<Rightarrow> 'w \<Rightarrow> int \<times> 'w) \<Rightarrow> string \<Rightarrow> nat \<Rightarrow> ('p, 'c) http_fcgi_svr \<Rightarrow>
    'w \<Rightarrow> bool \<times> ('p, 'c) http_fcgi_svr \<times> 'w" where
  "svr_start open_socket bind_addr num_threads svr w =
     (let (fd, w) = open_socket bind_addr w; svr = svr\<lparr>m_sock_fd := fd\<rparr> in
      if fd < 0 then (False, svr, w)
      else let pool = take num_threads (m_thread_pool svr) @
                 replicate (num_threads - length (m_thread_pool svr)) work_thread_new;
               (ok, pool) = start_threads fd pool
           in (ok, svr\<lparr>m_thread_pool := pool\<rparr>, w))"

text \<open>
  \<^verbatim>\<open>stop\<close>: the results of \<^verbatim>\<open>shutdown\<close> and \<^verbatim>\<open>close\<close> go to an inner variable
  that hides the returned one.
\<close>

definition svr_stop :: "(int \<Rightarrow> 'w \<Rightarrow> int \<times> 'w) \<Rightarrow> (int \<Rightarrow> 'w \<Rightarrow> int \<times> 'w) \<Rightarrow>
    ('p, 'c) http_fcgi_svr \<Rightarrow> 'w \<Rightarrow> bool \<times> ('p, 'c) http_fcgi_svr \<times> 'w" where
  "svr_stop shutdown close_fd svr w =
     (let ret = True;
          pool = map (\<lambda>t. t\<lparr>wt_thread := interrupt (wt_thread t)\<rparr>) (m_thread_pool svr);
          (fd, w) = (if m_sock_fd svr \<noteq> - 1 then
              let (inner_ret, w) = shutdown (m_sock_fd svr) w;
                  (inner_ret, w) = close_fd (m_sock_fd svr) w in (- 1, w)
            else (m_sock_fd svr, w));
          joined = map (\<lambda>t. t\<lparr>wt_thread := join (wt_thread t)\<rparr>) pool
      in (ret, svr\<lparr>m_sock_fd := fd, m_thread_pool := []\<rparr>, w))"

definition register_cb_for_doc_uri :: "'p path_ops \<Rightarrow> string \<Rightarrow> 'c option \<Rightarrow>
    ('p, 'c) http_fcgi_svr \<Rightarrow> path_exc + ('p, 'c) http_fcgi_svr" where
  "register_cb_for_doc_uri P doc_uri cb svr =
     (case set_node P (p_of_string P doc_uri) (Some cb) (m_cb_table svr) of
        Inl e \<Rightarrow> Inl e
      | Inr (_, t) \<Rightarrow> Inr (svr\<lparr>m_cb_table := t\<rparr>))"

definition node_cb :: "('p, 'c option) dnode \<Rightarrow> 'c option" where
  "node_cb n = (case dn_data n of None \<Rightarrow> None | Some cb \<Rightarrow> cb)"

definition get_cb_for_doc_uri :: "'p path_ops \<Rightarrow> string \<Rightarrow> ('p, 'c) http_fcgi_svr \<Rightarrow>
    path_exc + 'c option" where
  "get_cb_for_doc_uri P doc_uri svr =
     (let q = p_of_string P doc_uri in
      case find_match P q EXACT (m_cb_table svr) of
        Inl e \<Rightarrow> Inl e
      | Inr (Some node) \<Rightarrow> Inr (node_cb node)
      | Inr None \<Rightarrow>
          (case find_match P q PARENT_PATH (m_cb_table svr) of
             Inl e \<Rightarrow> Inl e
           | Inr None \<Rightarrow> Inr None
           | Inr (Some node) \<Rightarrow> Inr (node_cb node)))"

subsection \<open>The worker thread\<close>

text \<open>The body of the \<^verbatim>\<open>try\<close> block with its two \<^verbatim>\<open>catch\<close> clauses.\<close>

definition run_cb :: "'s handler \<Rightarrow> fcgx_request \<Rightarrow> 's \<Rightarrow> (fcgx_request \<times> 's) option" where
  "run_cb handle r s = (case handle r s of
       (None, r', s') \<Rightarrow> Some (r', s')
     | (Some (HTTPException code what), r', s') \<Rightarrow> Some (reply_exception code what r', s')
     | (Some (StdException what), r', s') \<Rightarrow>
         Some (reply_html ''500 Internal Error'' ''Internal Error'' r', s')
     | (Some Undefined, r', s') \<Rightarrow> None)"

text \<open>
  One accepted request. \<^const>\<open>None\<close>: the process is gone, by a null \<^verbatim>\<open>DOCUMENT_URI\<close> or
  by an exception of the look-up, which is outside the \<^verbatim>\<open>try\<close> block.
\<close>

definition serve :: "'p path_ops \<Rightarrow> ('c \<Rightarrow> 's handler) \<Rightarrow> ('p, 'c) http_fcgi_svr \<Rightarrow>
    fcgx_request \<Rightarrow> 's \<Rightarrow> (fcgx_request \<times> 's) option" where
  "serve P H svr r s = (case rq_env r ''DOCUMENT_URI'' of
       None \<Rightarrow> None
     | Some uri \<Rightarrow>
         (case get_cb_for_doc_uri P uri svr of
            Inl _ \<Rightarrow> None
          | Inr (Some cb) \<Rightarrow> run_cb (H cb) r s
          | Inr None \<Rightarrow> Some (reply_html ''404 Not Found'' ''Not Found'' r, s)))"

text \<open>
  The loop of the thread. Each entry is one turn: whether the thread is interrupted at the loop
  test, the accepted request if \<^verbatim>\<open>FCGX_Accept_r\<close> succeeds, and whether the thread is
  interrupted right after. The result is the requests in the order they were answered.
\<close>

record work_turn =
  wt_stop :: bool
  wt_accept :: "fcgx_request option"
  wt_stop2 :: bool

fun fcgi_work :: "'p path_ops \<Rightarrow> ('c \<Rightarrow> 's handler) \<Rightarrow> ('p, 'c) http_fcgi_svr \<Rightarrow>
    work_turn list \<Rightarrow> 's \<Rightarrow> (fcgx_request list \<times> 's) option" where
  "fcgi_work P H svr [] s = Some ([], s)"
| "fcgi_work P H svr (e # es) s =
     (if wt_stop e then Some ([], s)
      else case wt_accept e of
          None \<Rightarrow> fcgi_work P H svr es s
        | Some r \<Rightarrow>
            if wt_stop2 e then
              Some ([reply_html ''500 Internal Error'' ''Internal Error'' r], s)
            else do {
              (r', s') \<leftarrow> serve P H svr r s;
              (rs, s'') \<leftarrow> fcgi_work P H svr es s';
              Some (r' # rs, s'')
            })"

subsection \<open>The contract of a callback\<close>

text \<open>
  What the worker relies on: a handler that returns has finished the request once, after appending
  to what was written; one that throws has neither written nor finished, so that the reply of the
  \<^verbatim>\<open>catch\<close> clause is the only one.
\<close>

locale http_callback =
  fixes handle :: "'s handler"
  assumes returns_finished: "handle r s = (None, r', s') \<Longrightarrow>
      rq_finished r' = Suc (rq_finished r) \<and> prefix (rq_out r) (rq_out r')"
    and throws_clean: "handle r s = (Some e, r', s') \<Longrightarrow>
      rq_finished r' = rq_finished r \<and> rq_out r' = rq_out r"
begin

lemma run_cb_once:
  assumes "run_cb handle r s = Some (r', s')"
  shows "rq_finished r' = Suc (rq_finished r)" and "prefix (rq_out r) (rq_out r')"
proof -
  obtain e r1 s1 where h: "handle r s = (e, r1, s1)" by (metis prod.exhaust)
  have "rq_finished r' = Suc (rq_finished r) \<and> prefix (rq_out r) (rq_out r')"
  proof (cases e)
    case None
    then show ?thesis using assms h returns_finished [of r s r1 s1] by (simp add: run_cb_def)
  next
    case (Some x)
    note c = throws_clean [OF h [unfolded Some]]
    show ?thesis
      using assms h c Some
      by (cases x) (auto simp: run_cb_def reply_html_def reply_exception_def)
  qed
  then show "rq_finished r' = Suc (rq_finished r)" "prefix (rq_out r) (rq_out r')" by simp_all
qed

lemma run_cb_answers: "snd (snd (handle r s)) = s' \<Longrightarrow> fst (handle r s) \<noteq> Some Undefined \<Longrightarrow>
    \<exists>r'. run_cb handle r s = Some (r', s')"
  by (auto simp: run_cb_def split: prod.splits option.splits exc.splits)

end

interpretation cb_base: http_callback callback_base_handle
  by unfold_locales (auto simp: callback_base_handle_def)

interpretation cb_error: http_callback "error_handler_handle c" for c
  by unfold_locales (auto simp: error_handler_handle_def Let_def)

lemma copy_file_appends:
  "rq_finished (copy_file es r) = rq_finished r \<and> prefix (rq_out r) (rq_out (copy_file es r))"
proof (induction es r rule: copy_file.induct)
  case (2 d es r)
  then show ?case by (auto dest: append_prefixD)
qed simp_all

interpretation cb_file: http_callback callback_file_handle
proof
  fix r s r' s' assume h: "callback_file_handle r s = (None, r', s')"
  have "prefix (rq_out r) (rq_out (copy_file es (FCGX_PutS a (FCGX_PutS b (FCGX_PutS c
      (FCGX_PutS d (FCGX_PutS e r)))))))" for es a b c d e
    using copy_file_appends [of es "FCGX_PutS a (FCGX_PutS b (FCGX_PutS c (FCGX_PutS d
      (FCGX_PutS e r))))"] by (auto dest: append_prefixD)
  then show "rq_finished r' = Suc (rq_finished r) \<and> prefix (rq_out r) (rq_out r')"
    using h by (auto simp: callback_file_handle_def Let_def copy_file_appends
        split: if_splits option.splits prod.splits bool.splits)
next
  fix r s e r' s' assume "callback_file_handle r s = (Some e, r', s')"
  then show "rq_finished r' = rq_finished r \<and> rq_out r' = rq_out r"
    by (auto simp: callback_file_handle_def Let_def
        split: if_splits option.splits prod.splits bool.splits)
qed

subsection \<open>Properties\<close>

lemma serve_once:
  assumes "\<And>c. http_callback (H c)" and "serve P H svr r s = Some (r', s')"
  shows "rq_finished r' = Suc (rq_finished r) \<and> prefix (rq_out r) (rq_out r')"
  using assms(2) http_callback.run_cb_once [OF assms(1)]
  by (auto simp: serve_def reply_html_def split: option.splits sum.splits)

lemma get_cb_routes:
  assumes "path_laws P" and "dtree_inv P (m_cb_table svr)" and "path_valid P (p_of_string P uri)"
  shows "get_cb_for_doc_uri P uri svr =
    Inr (Option.bind (dir_spec (tl (p_elems P (p_of_string P uri))) (m_cb_table svr)) node_cb)"
proof -
  have bp: "boost_path P" by unfold_locales (rule assms(1))
  obtain qs where q: "p_is_absolute P (p_of_string P uri)"
      "p_elems P (p_of_string P uri) = ''/'' # qs"
    using boost_path.path_validE [OF bp assms(3)] .
  note ex = boost_path.find_exact [OF bp assms(2) q]
  show ?thesis
  proof (cases "dlookup qs (m_cb_table svr)")
    case (Some n)
    then show ?thesis by (simp add: get_cb_for_doc_uri_def ex dir_spec_def q)
  next
    case None
    then show ?thesis
      using ex boost_path.find_parent_spec [OF bp assms(2) q]
      by (auto simp: get_cb_for_doc_uri_def q split: option.split)
  qed
qed

lemma serve_answers:
  assumes "path_laws P" and "dtree_inv P (m_cb_table svr)" and "rq_env r ''DOCUMENT_URI'' = Some uri"
    and "path_valid P (p_of_string P uri)" and "\<And>c r s. fst (H c r s) \<noteq> Some Undefined"
  shows "\<exists>r' s'. serve P H svr r s = Some (r', s')"
proof -
  have "\<exists>r' s'. run_cb (H c) r s = Some (r', s')" for c
    using assms(5) [of c r s] by (auto simp: run_cb_def split: prod.splits option.splits exc.splits)
  then show ?thesis using get_cb_routes [OF assms(1,2,4)] assms(3)
    by (auto simp: serve_def split: option.split)
qed

text \<open>The requests a run of the loop takes: those accepted up to the first interruption.\<close>

fun taken :: "work_turn list \<Rightarrow> fcgx_request list" where
  "taken [] = []"
| "taken (e # es) = (if wt_stop e then [] else case wt_accept e of
     None \<Rightarrow> taken es | Some r \<Rightarrow> if wt_stop2 e then [r] else r # taken es)"


definition demo_get :: fcgx_request where
  "demo_get = \<lparr>rq_env = \<lambda>_. Some ''/x'', rq_in = [], rq_out = [], rq_finished = 0\<rparr>"

definition demo_turns :: "work_turn list" where
  "demo_turns = [\<lparr>wt_stop = False, wt_accept = Some demo_get, wt_stop2 = False\<rparr>,
     \<lparr>wt_stop = True, wt_accept = Some demo_get, wt_stop2 = False\<rparr>]"




text \<open>A sequence of registrations, as the program makes them at start-up.\<close>

definition register_all :: "'p path_ops \<Rightarrow> (string \<times> 'c) list \<Rightarrow> ('p, 'c) http_fcgi_svr \<Rightarrow>
    ('p, 'c) http_fcgi_svr" where
  "register_all P rs svr = fold (\<lambda>(u, c) svr. case register_cb_for_doc_uri P u (Some c) svr of
     Inl _ \<Rightarrow> svr | Inr svr' \<Rightarrow> svr') rs svr"

lemma register_all_table:
  "m_cb_table (register_all P rs svr) =
     install_rows (table_set P) (map (\<lambda>(u, c). (p_of_string P u, Some (Some c))) rs)
       (m_cb_table svr)"
proof (induction rs arbitrary: svr)
  case Nil
  then show ?case by (simp add: register_all_def install_rows_def)
next
  case (Cons r rs)
  obtain u c where r: "r = (u, c)" by fastforce
  show ?case
    using Cons
    by (auto simp: r register_all_def install_rows_def register_cb_for_doc_uri_def
        table_set_def split: sum.split)
qed

text \<open>
  C6. Start-up registrations are retrieved: after any sequence of registrations under absolute
  paths on a new server, a request for one of the paths gets the callback that was registered last
  under that path.
\<close>

theorem register_all_found:
  assumes "path_laws P" and "\<forall>(u, _) \<in> set rs. path_valid P (p_of_string P u)"
    and "path_valid P (p_of_string P uri)"
    and "find (\<lambda>(u, _). p_eq P (p_of_string P u) (p_of_string P uri)) (rev rs) = Some (u, c)"
  shows "get_cb_for_doc_uri P uri (register_all P rs (fcgi_svr_new P)) = Inr (Some c)"
proof -
  have bp: "boost_path P" by unfold_locales (rule assms(1))
  let ?rs = "map (\<lambda>(u, c). (p_of_string P u, Some (Some c))) rs"
  let ?t = "m_cb_table (register_all P rs (fcgi_svr_new P))"
  have t: "?t = install_rows (table_set P) ?rs (directory_tree P)"
    by (simp add: register_all_table fcgi_svr_new_def)
  have ok: "list_all (\<lambda>(p, _). path_valid P p) ?rs"
    using assms(2) by (auto simp: list_all_iff)
  have inv: "dtree_inv P ?t"
    unfolding t by (rule boost_path.table_invar_install [OF bp ok])
  have f: "find (\<lambda>(p, _). p_eq P p (p_of_string P uri)) (rev ?rs) =
      map_option (\<lambda>(u, c). (p_of_string P u, Some (Some c)))
        (find (\<lambda>(u, _). p_eq P (p_of_string P u) (p_of_string P uri)) (rev rs))"
    by (simp add: rev_map find_map_pairs)
  have "table_get P (p_of_string P uri) ?t = Some (Some c)"
    unfolding t using boost_path.table_lookup_install [OF bp ok assms(3)] f assms(4) by simp
  then obtain n where "find_match P (p_of_string P uri) EXACT ?t = Inr (Some n)"
      "dn_data n = Some (Some c)"
    by (auto simp: table_get_def split: sum.splits option.splits)
  then show ?thesis by (simp add: get_cb_for_doc_uri_def node_cb_def)
qed

theorem register_all_found_witness:
  "get_cb_for_doc_uri posix_paths ''/api/v1''
     (register_all posix_paths [(''/foo'', 0), (''/api/v1'', 1::nat)] (fcgi_svr_new posix_paths)) =
   Inr (Some 1)"
  by (rule register_all_found [OF posix_path_laws])
    (simp_all add: path_valid_def posix_elems_def)

text \<open>
  \<^verbatim>\<open>stop\<close> empties the thread pool and gives up the socket, but it reports success even
  when \<^verbatim>\<open>shutdown\<close> and \<^verbatim>\<open>close\<close> both fail: the variable that records the failures
  hides the one that is returned.
\<close>

theorem svr_stop_always_true:
  "\<exists>svr' w'. svr_stop (\<lambda>_ w. (- 1, w)) (\<lambda>_ w. (- 1, w)) svr w = (True, svr', w') \<and>
     m_sock_fd svr' = - 1 \<and> m_thread_pool svr' = []"
  by (simp add: svr_stop_def Let_def)

end
