(* ===== verification/I2c_Linux.thy ===== *)
theory I2c_Linux
  imports Opaleye_Prelude
begin

unbundle bit_operations_syntax

section \<open>The I2C master: \<^verbatim>\<open>i2c_iface\<close> and \<^verbatim>\<open>i2c_linux\<close>\<close>

text \<open>
  \<^verbatim>\<open>src/libs/hal/i2c_linux.hpp\<close> and \<^verbatim>\<open>i2c_linux.cpp\<close>. The kernel is an
  argument: \<open>'w\<close> is its state, \<^verbatim>\<open>open\<close> returns a descriptor, and the
  \<^verbatim>\<open>I2C_RDWR\<close> \<^verbatim>\<open>ioctl\<close> takes the message array and returns its result and
  the data it received for each message. The abstract class \<^verbatim>\<open>i2c_iface\<close> is the record of
  its virtual methods; a method that fills a buffer takes the buffer's old contents and returns
  the new ones, so a buffer keeps its length whatever the kernel delivers.
\<close>

record i2c_msg =
  msg_addr :: u16
  msg_flags :: u16
  msg_len :: u16
  msg_buf :: bytes

definition I2C_M_RD :: u16 where "I2C_M_RD = 1"

record 'w i2c_iface =
  i2c_write :: "u8 \<Rightarrow> bytes \<Rightarrow> 'w \<Rightarrow> bool \<times> 'w"
  i2c_read :: "u8 \<Rightarrow> bytes \<Rightarrow> 'w \<Rightarrow> bool \<times> bytes \<times> 'w"
  i2c_write_cmd :: "u8 \<Rightarrow> u8 \<Rightarrow> bytes \<Rightarrow> 'w \<Rightarrow> bool \<times> 'w"
  i2c_read_cmd :: "u8 \<Rightarrow> u8 \<Rightarrow> bytes \<Rightarrow> 'w \<Rightarrow> bool \<times> bytes \<times> 'w"
  i2c_write_then_read :: "u8 \<Rightarrow> bytes \<Rightarrow> bytes \<Rightarrow> 'w \<Rightarrow> bool \<times> bytes \<times> 'w"
  i2c_write_then_write :: "u8 \<Rightarrow> bytes \<Rightarrow> bytes \<Rightarrow> 'w \<Rightarrow> bool \<times> 'w"

type_synonym 'w rdwr = "int \<Rightarrow> i2c_msg list \<Rightarrow> 'w \<Rightarrow> int \<times> bytes list \<times> 'w"

record i2c_linux =
  m_i2c :: int

definition i2c_linux_new :: i2c_linux where
  "i2c_linux_new = \<lparr>m_i2c = - 1\<rparr>"

definition i2c_linux_init ::
    "(string \<Rightarrow> 'w \<Rightarrow> int \<times> 'w) \<Rightarrow> string \<Rightarrow> i2c_linux \<Rightarrow> 'w \<Rightarrow> bool \<times> i2c_linux \<times> 'w" where
  "i2c_linux_init open_dev dev l w =
     (if m_i2c l \<ge> 0 then (False, l, w)
      else let (fd, w') = open_dev dev w; l' = l\<lparr>m_i2c := fd\<rparr> in
        if fd < 0 then (False, l', w') else (True, l', w'))"

definition i2c_linux_destroy ::
    "(int \<Rightarrow> 'w \<Rightarrow> 'w) \<Rightarrow> i2c_linux \<Rightarrow> 'w \<Rightarrow> i2c_linux \<times> 'w" where
  "i2c_linux_destroy close_fd l w =
     (if m_i2c l \<ge> 0 then (l\<lparr>m_i2c := - 1\<rparr>, close_fd (m_i2c l) w) else (l, w))"

text \<open>What the kernel leaves in a buffer it may fill: at most the buffer's length is written.\<close>

definition fill_buf :: "bytes \<Rightarrow> bytes \<Rightarrow> bytes" where
  "fill_buf old new = take (length old) new @ drop (length new) old"

lemma length_fill_buf [simp]: "length (fill_buf old new) = length old"
  by (simp add: fill_buf_def min_def)

lemma fill_buf_full: "length new = length old \<Longrightarrow> fill_buf old new = new"
  by (simp add: fill_buf_def)

definition mk_msg :: "u8 \<Rightarrow> u16 \<Rightarrow> bytes \<Rightarrow> i2c_msg" where
  "mk_msg addr flags buf =
     \<lparr>msg_addr = ucast addr, msg_flags = flags, msg_len = of_nat (length buf), msg_buf = buf\<rparr>"

definition i2c_linux_write :: "'w rdwr \<Rightarrow> i2c_linux \<Rightarrow> u8 \<Rightarrow> bytes \<Rightarrow> 'w \<Rightarrow> bool \<times> 'w" where
  "i2c_linux_write ioctl l dev_addr tx w =
     (let (ret, _, w') = ioctl (m_i2c l) [mk_msg dev_addr 0 tx] w in (\<not> ret < 0, w'))"

definition i2c_linux_read ::
    "'w rdwr \<Rightarrow> i2c_linux \<Rightarrow> u8 \<Rightarrow> bytes \<Rightarrow> 'w \<Rightarrow> bool \<times> bytes \<times> 'w" where
  "i2c_linux_read ioctl l dev_addr rx w =
     (let (ret, data, w') = ioctl (m_i2c l) [mk_msg dev_addr I2C_M_RD rx] w
      in (\<not> ret < 0, fill_buf rx (concat (take 1 data)), w'))"

definition i2c_linux_write_then_read ::
    "'w rdwr \<Rightarrow> i2c_linux \<Rightarrow> u8 \<Rightarrow> bytes \<Rightarrow> bytes \<Rightarrow> 'w \<Rightarrow> bool \<times> bytes \<times> 'w" where
  "i2c_linux_write_then_read ioctl l dev_addr tx rx w =
     (let (ret, data, w') =
            ioctl (m_i2c l) [mk_msg dev_addr 0 tx, mk_msg dev_addr I2C_M_RD rx] w
      in (\<not> ret < 0, fill_buf rx (concat (take 1 (drop 1 data))), w'))"

definition i2c_linux_write_then_write ::
    "'w rdwr \<Rightarrow> i2c_linux \<Rightarrow> u8 \<Rightarrow> bytes \<Rightarrow> bytes \<Rightarrow> 'w \<Rightarrow> bool \<times> 'w" where
  "i2c_linux_write_then_write ioctl l dev_addr tx tx2 w =
     (let (ret, _, w') =
            ioctl (m_i2c l) [mk_msg dev_addr 0 tx, mk_msg dev_addr 0 tx2] w
      in (\<not> ret < 0, w'))"

definition i2c_linux_write_cmd ::
    "'w rdwr \<Rightarrow> i2c_linux \<Rightarrow> u8 \<Rightarrow> u8 \<Rightarrow> bytes \<Rightarrow> 'w \<Rightarrow> bool \<times> 'w" where
  "i2c_linux_write_cmd ioctl l dev_addr cmd tx w =
     i2c_linux_write_then_write ioctl l dev_addr [cmd] tx w"

definition i2c_linux_read_cmd ::
    "'w rdwr \<Rightarrow> i2c_linux \<Rightarrow> u8 \<Rightarrow> u8 \<Rightarrow> bytes \<Rightarrow> 'w \<Rightarrow> bool \<times> bytes \<times> 'w" where
  "i2c_linux_read_cmd ioctl l dev_addr cmd rx w =
     i2c_linux_write_then_read ioctl l dev_addr [cmd] rx w"

text \<open>The virtual table of an \<^verbatim>\<open>i2c_linux\<close> object.\<close>

definition i2c_linux_iface :: "'w rdwr \<Rightarrow> i2c_linux \<Rightarrow> 'w i2c_iface" where
  "i2c_linux_iface ioctl l =
     \<lparr>i2c_write = i2c_linux_write ioctl l, i2c_read = i2c_linux_read ioctl l,
      i2c_write_cmd = i2c_linux_write_cmd ioctl l, i2c_read_cmd = i2c_linux_read_cmd ioctl l,
      i2c_write_then_read = i2c_linux_write_then_read ioctl l,
      i2c_write_then_write = i2c_linux_write_then_write ioctl l\<rparr>"

subsection \<open>The contract the sensor drivers rely on\<close>

text \<open>
  A driver reads a register through \<^verbatim>\<open>read_cmd\<close>. What it relies on: the buffer keeps its
  length, and a register read is one combined transaction, a write of the command byte followed by
  a read.
\<close>

locale i2c_port =
  fixes bus :: "'w i2c_iface"
  assumes read_cmd_length: "i2c_read_cmd bus a c b w = (ok, b', w') \<Longrightarrow> length b' = length b"
    and read_cmd_combined: "i2c_read_cmd bus a c b w = i2c_write_then_read bus a [c] b w"
begin

lemma read_two:
  "length b = 2 \<Longrightarrow> i2c_read_cmd bus a c b w = (ok, b', w') \<Longrightarrow> \<exists>x y. b' = [x, y]"
  using read_cmd_length [of a c b w ok b' w'] by (auto simp: length_Suc_conv numeral_2_eq_2)

lemma read_three:
  "length b = 3 \<Longrightarrow> i2c_read_cmd bus a c b w = (ok, b', w') \<Longrightarrow> \<exists>x y z. b' = [x, y, z]"
  using read_cmd_length [of a c b w ok b' w'] by (auto simp: length_Suc_conv numeral_3_eq_3)

end

interpretation linux_i2c: i2c_port "i2c_linux_iface ioctl l" for ioctl :: "'w rdwr" and l
  by unfold_locales
    (auto simp: i2c_linux_iface_def i2c_linux_read_cmd_def i2c_linux_write_then_read_def
      split: prod.splits)

end
