(* ===== verification/Sensors.thy ===== *)
theory Sensors
  imports Complex_Main I2c_Linux
begin

section \<open>The external sensors: \<^verbatim>\<open>MS5837_30BA\<close>, \<^verbatim>\<open>TSYS01\<close>, \<^verbatim>\<open>sensor_thread\<close>\<close>

text \<open>
  \<^verbatim>\<open>src/libs/sensors/MS5837-30BA.cpp\<close>, \<^verbatim>\<open>TSYS01.cpp\<close> and
  \<^verbatim>\<open>src/opaleye/sensor_thread.cpp\<close>. The drivers are written against the record of
  virtual methods \<^typ>\<open>'w i2c_iface\<close>. A stack buffer the code leaves uninitialised is an
  argument (\<open>indet\<close>), so that a theorem holds for whatever it contains. A driver call that
  returns \<^verbatim>\<open>false\<close> leaves its out parameters alone, so it returns
  \<^const>\<open>None\<close>, or the partly filled structure where the code fills it field by field.
  The pauses (\<^verbatim>\<open>sleep_for\<close>) have no effect on the state.
\<close>

subsection \<open>Byte order\<close>

definition be24 :: "bytes \<Rightarrow> u32" where
  "be24 b = (push_bit 16 (ucast (b ! 0)) OR push_bit 8 (ucast (b ! 1))) OR ucast (b ! 2)"

definition u16_bytes :: "u16 \<Rightarrow> bytes" where
  "u16_bytes x = [ucast x, ucast (drop_bit 8 x)]"

definition le16 :: "bytes \<Rightarrow> u16" where
  "le16 b = ucast (b ! 0) OR push_bit 8 (ucast (b ! 1))"

definition ntohs :: "u16 \<Rightarrow> u16" where
  "ntohs x = le16 (rev (u16_bytes x))"

type_synonym u8x3 = "u8 \<times> u8 \<times> u8"

definition arr3 :: "u8x3 \<Rightarrow> bytes" where
  "arr3 t = (case t of (a, b, c) \<Rightarrow> [a, b, c])"

lemma length_arr3 [simp]: "length (arr3 t) = 3"
  by (cases t) (simp add: arr3_def)

lemma length_u16_bytes [simp]: "length (u16_bytes x) = 2"
  by (simp add: u16_bytes_def)

lemma bit_u8: "bit (x :: u8) n \<Longrightarrow> n < 8"
  using bit_imp_le_length [of x n] by simp

lemma be24_take_bit: "take_bit 24 (be24 b) = be24 b"
  by (rule bit_word_eqI) (auto simp: be24_def bit_simps dest: bit_u8)

lemma be24_less: "uint (be24 b) < 2 ^ 24"
proof -
  have "uint (be24 b) = take_bit 24 (uint (be24 b))"
    by (metis be24_take_bit unsigned_take_bit_eq)
  then show ?thesis by (metis take_bit_int_less_exp)
qed

lemma le16_u16_bytes [simp]: "le16 (u16_bytes x) = x"
  by (rule bit_word_eqI) (auto simp: le16_def u16_bytes_def bit_simps)

lemma ntohs_le16: "ntohs (le16 [hi, lo]) = push_bit 8 (ucast hi) OR ucast lo"
  by (rule bit_word_eqI) (auto simp: ntohs_def le16_def u16_bytes_def bit_simps dest: bit_u8)

lemma ntohs_ntohs [simp]: "ntohs (ntohs x) = x"
  by (rule bit_word_eqI) (auto simp: ntohs_def le16_def u16_bytes_def bit_simps)

subsection \<open>Register access\<close>

text \<open>
  Both drivers fill their calibration structure the same way: for each register in turn, a two
  byte \<^verbatim>\<open>read_cmd\<close> straight into the field (the machine is little-endian), returning
  \<^verbatim>\<open>false\<close> at the first failure with the fields read so far in place.
\<close>

fun read_fields :: "'w i2c_iface \<Rightarrow> u8 \<Rightarrow> (u8 \<times> ('r \<Rightarrow> u16) \<times> (u16 \<Rightarrow> 'r \<Rightarrow> 'r)) list \<Rightarrow>
    'r \<Rightarrow> 'w \<Rightarrow> bool \<times> 'r \<times> 'w" where
  "read_fields bus addr [] r w = (True, r, w)"
| "read_fields bus addr ((cmd, gf, sf) # fs) r w =
     (let (ok, b, w') = i2c_read_cmd bus addr cmd (u16_bytes (gf r)) w;
          r' = sf (le16 b) r
      in if ok then read_fields bus addr fs r' w' else (False, r', w'))"

subsection \<open>\<^verbatim>\<open>MS5837_30BA\<close>\<close>

record ms_cal =
  crc_factory :: u16
  c1 :: u16
  c2 :: u16
  c3 :: u16
  c4 :: u16
  c5 :: u16
  c6 :: u16

record ms_result =
  P1_mbar :: int
  TEMP1_cdegC :: int
  P2_mbar :: int
  TEMP2_degC :: int

definition ms_reset :: "'w i2c_iface \<Rightarrow> 'w \<Rightarrow> bool \<times> 'w" where
  "ms_reset bus w = i2c_write bus 0x76 [0x1E] w"

definition ms_sample ::
    "'w i2c_iface \<Rightarrow> u8x3 \<times> u8x3 \<Rightarrow> 'w \<Rightarrow> (u32 \<times> u32) option \<times> 'w" where
  "ms_sample bus indet w =
     (let (ok, w) = i2c_write bus 0x76 [0x48] w in
      if \<not> ok then (None, w)
      else let (ok, d1, w) = i2c_read_cmd bus 0x76 0x00 (arr3 (fst indet)) w in
      if \<not> ok then (None, w)
      else let (ok, w) = i2c_write bus 0x76 [0x58] w in
      if \<not> ok then (None, w)
      else let (ok, d2, w) = i2c_read_cmd bus 0x76 0x00 (arr3 (snd indet)) w in
      if \<not> ok then (None, w)
      else (Some (be24 d1, be24 d2), w))"

definition ms_regs :: "(u8 \<times> (ms_cal \<Rightarrow> u16) \<times> (u16 \<Rightarrow> ms_cal \<Rightarrow> ms_cal)) list" where
  "ms_regs =
     [(0xA0, crc_factory, \<lambda>v r. r\<lparr>crc_factory := v\<rparr>), (0xA2, c1, \<lambda>v r. r\<lparr>c1 := v\<rparr>),
      (0xA4, c2, \<lambda>v r. r\<lparr>c2 := v\<rparr>), (0xA6, c3, \<lambda>v r. r\<lparr>c3 := v\<rparr>),
      (0xA8, c4, \<lambda>v r. r\<lparr>c4 := v\<rparr>), (0xAA, c5, \<lambda>v r. r\<lparr>c5 := v\<rparr>),
      (0xAC, c6, \<lambda>v r. r\<lparr>c6 := v\<rparr>)]"

definition ms_read_cal_data :: "'w i2c_iface \<Rightarrow> ms_cal \<Rightarrow> 'w \<Rightarrow> bool \<times> ms_cal \<times> 'w" where
  "ms_read_cal_data bus r w =
     (let (ok, r, w) = read_fields bus 0x76 ms_regs r w in
      if \<not> ok then (False, r, w)
      else (True, r\<lparr>c1 := ntohs (c1 r), c2 := ntohs (c2 r), c3 := ntohs (c3 r),
                    c4 := ntohs (c4 r), c5 := ntohs (c5 r), c6 := ntohs (c6 r)\<rparr>, w))"

text \<open>
  The compensation arithmetic, with the type each operation has in C++: \<open>dT\<close> is computed in
  \<^verbatim>\<open>int32_t\<close>; the division in \<open>TEMP\<close> has the divisor
  \<^verbatim>\<open>1ULL << 23\<close>, so its dividend is converted to \<^verbatim>\<open>uint64_t\<close> and so is the sum,
  and the result is narrowed to \<^verbatim>\<open>int32_t\<close>; the rest is \<^verbatim>\<open>int64_t\<close>.
\<close>

definition ms_second_order :: "int \<Rightarrow> int \<Rightarrow> (int \<times> int \<times> int) option" where
  "ms_second_order dT TEMP =
     (if TEMP sdiv 100 < 20 then do {
        a \<leftarrow> chk64 (3 * dT);
        a \<leftarrow> chk64 (a * dT);
        let Ti = a sdiv 2 ^ 33;
        t \<leftarrow> chk64 (TEMP - 2000);
        o1 \<leftarrow> chk64 (3 * t);
        o2 \<leftarrow> chk64 (o1 * t);
        let OFFi = o2 sdiv 2;
        s1 \<leftarrow> chk64 (5 * t);
        s2 \<leftarrow> chk64 (s1 * t);
        let SENSi = s2 sdiv 2 ^ 3;
        if TEMP sdiv 100 < - 15 then do {
          v \<leftarrow> chk64 (TEMP + 1500);
          o1 \<leftarrow> chk64 (7 * v);
          o2 \<leftarrow> chk64 (o1 * v);
          OFFi \<leftarrow> chk64 (OFFi + o2);
          s1 \<leftarrow> chk64 (4 * v);
          s2 \<leftarrow> chk64 (s1 * v);
          SENSi \<leftarrow> chk64 (SENSi + s2);
          Some (Ti, OFFi, SENSi)
        } else Some (Ti, OFFi, SENSi)
      } else do {
        a \<leftarrow> chk64 (2 * dT);
        a \<leftarrow> chk64 (a * dT);
        let Ti = a sdiv 2 ^ 37;
        t \<leftarrow> chk64 (TEMP - 2000);
        o1 \<leftarrow> chk64 (1 * t);
        o2 \<leftarrow> chk64 (o1 * t);
        Some (Ti, o2 sdiv 2 ^ 4, 0)
      })"

definition calc_pressure :: "u32 \<Rightarrow> u32 \<Rightarrow> ms_cal \<Rightarrow> ms_result option" where
  "calc_pressure d1 d2 data = do {
     tref \<leftarrow> chk32 (uint (c5 data) * 256);
     dT \<leftarrow> chk32 (to_s32 (uint d2) - tref);
     tp \<leftarrow> chk64 (dT * uint (c6 data));
     let TEMP = to_s32 (to_u64 (2000 + to_u64 tp div 2 ^ 23));
     o1 \<leftarrow> chk64 (uint (c2 data) * 2 ^ 16);
     o2 \<leftarrow> chk64 (uint (c4 data) * dT);
     OFF \<leftarrow> chk64 (o1 + o2 sdiv 2 ^ 7);
     s1 \<leftarrow> chk64 (uint (c1 data) * 2 ^ 15);
     s2 \<leftarrow> chk64 (uint (c3 data) * dT);
     SENS \<leftarrow> chk64 (s1 + s2 sdiv 2 ^ 8);
     p1 \<leftarrow> chk64 (uint d1 * SENS);
     p2 \<leftarrow> chk64 (p1 sdiv 2 ^ 21 - OFF);
     let P1 = to_s32 (p2 sdiv 2 ^ 13);
     (Ti, OFFi, SENSi) \<leftarrow> ms_second_order dT TEMP;
     OFF2 \<leftarrow> chk64 (OFF - OFFi);
     SENS2 \<leftarrow> chk64 (SENS - SENSi);
     t2 \<leftarrow> chk64 (TEMP - Ti);
     let TEMP2 = to_s32 (t2 sdiv 100);
     q1 \<leftarrow> chk64 (uint d1 * SENS2);
     q2 \<leftarrow> chk64 (q1 sdiv 2 ^ 21 - OFF2);
     let P2 = to_s32 ((q2 sdiv 2 ^ 13) sdiv 10);
     Some \<lparr>P1_mbar = P1, TEMP1_cdegC = TEMP, P2_mbar = P2, TEMP2_degC = TEMP2\<rparr>
   }"

text \<open>
  What the data sheet asks for, over the integers: no width, no wrap-around. The quotient in the
  temperature is rounded towards minus infinity, every other one towards zero.
\<close>

definition ms_comp2 :: "int \<Rightarrow> int \<Rightarrow> int \<times> int \<times> int" where
  "ms_comp2 dT T =
     (let t = T - 2000; v = T + 1500; cold = T sdiv 100 < - 15 in
      if T sdiv 100 < 20 then
        (3 * dT\<^sup>2 sdiv 2 ^ 33,
         3 * t\<^sup>2 sdiv 2 + (if cold then 7 * v\<^sup>2 else 0),
         5 * t\<^sup>2 sdiv 2 ^ 3 + (if cold then 4 * v\<^sup>2 else 0))
      else (2 * dT\<^sup>2 sdiv 2 ^ 37, t\<^sup>2 sdiv 2 ^ 4, 0))"

definition ms_spec :: "int \<Rightarrow> int \<Rightarrow> ms_cal \<Rightarrow> ms_result" where
  "ms_spec d1 d2 data =
     (let dT = d2 - uint (c5 data) * 2 ^ 8;
          T = 2000 + dT * uint (c6 data) div 2 ^ 23;
          OFF = uint (c2 data) * 2 ^ 16 + uint (c4 data) * dT sdiv 2 ^ 7;
          SENS = uint (c1 data) * 2 ^ 15 + uint (c3 data) * dT sdiv 2 ^ 8;
          (Ti, OFFi, SENSi) = ms_comp2 dT T
      in \<lparr>P1_mbar = (d1 * SENS sdiv 2 ^ 21 - OFF) sdiv 2 ^ 13,
          TEMP1_cdegC = T,
          P2_mbar = (d1 * (SENS - SENSi) sdiv 2 ^ 21 - (OFF - OFFi)) sdiv 2 ^ 13 sdiv 10,
          TEMP2_degC = (T - Ti) sdiv 100\<rparr>)"

lemma ms_temp_narrow:
  assumes "\<bar>tp\<bar> \<le> 2 ^ 40"
  shows "to_s32 (to_u64 (2000 + to_u64 tp div 2 ^ 23)) = 2000 + tp div 2 ^ 23"
proof -
  define q where "q = tp div 2 ^ 23"
  have q: "- (2 ^ 17) \<le> q" "q \<le> 2 ^ 17" using assms by (auto simp: q_def)
  have u: "to_u64 tp div 2 ^ 23 = q + (if tp < 0 then 2 ^ 41 else 0)"
  proof (cases "tp < 0")
    case True
    have "to_u64 tp = tp + 2 ^ 41 * 2 ^ 23"
      using True assms mod_pos_pos_trivial [of "tp + 2 ^ 64" "2 ^ 64"] by (simp add: to_u64_def)
    then have "to_u64 tp div 2 ^ 23 = 2 ^ 41 + q" by (simp add: q_def)
    with True show ?thesis by simp
  next
    case False
    then show ?thesis using assms by (simp add: to_u64_def q_def)
  qed
  have "to_u64 (2000 + to_u64 tp div 2 ^ 23) = 2000 + q + (if tp < 0 then 2 ^ 41 else 0)"
  proof -
    have "tp < 0 \<or> 0 \<le> q" by (auto simp: q_def)
    then show ?thesis
      unfolding u using q by (auto simp: to_u64_def intro!: mod_pos_pos_trivial)
  qed
  moreover have "to_s32 (2000 + q + 2 ^ 41) = to_s32 (2000 + q)"
  proof -
    have "2000 + q + 2 ^ 41 + 2 ^ 31 = (2000 + q + 2 ^ 31) + 2 ^ 9 * 2 ^ 32" by simp
    then show ?thesis unfolding to_s32_def by (metis mod_mult_self1)
  qed
  moreover have "to_s32 (2000 + q) = 2000 + q"
    by (rule to_s32_id) (use q in \<open>simp add: in_s32_def\<close>)
  ultimately have "to_s32 (to_u64 (2000 + to_u64 tp div 2 ^ 23)) = 2000 + q"
    by (cases "tp < 0") simp_all
  then show ?thesis by (simp only: q_def)
qed

lemma ms_second_order_exact:
  assumes dT: "\<bar>dT\<bar> \<le> 2 ^ 24" and T: "\<bar>T - 2000\<bar> \<le> 2 ^ 17"
  shows "ms_second_order dT T = Some (ms_comp2 dT T)"
proof -
  have v: "\<bar>T + 1500\<bar> \<le> 2 ^ 18" using T by simp
  have sq: "chk64 (k * x) = Some (k * x)" "chk64 (k * x * x) = Some (k * x * x)"
    "\<bar>k * x * x\<bar> \<le> 2 ^ 51" if "\<bar>k\<bar> \<le> 7" "\<bar>x\<bar> \<le> 2 ^ 24" for k x :: int
  proof -
    have a: "\<bar>k * x\<bar> \<le> 7 * 2 ^ 24" by (rule abs_mult_le [OF that])
    show "chk64 (k * x) = Some (k * x)" by (rule chk64_le [OF a]) simp
    have b: "\<bar>k * x * x\<bar> \<le> 7 * 2 ^ 24 * 2 ^ 24" by (rule abs_mult_le [OF a that(2)])
    show "chk64 (k * x * x) = Some (k * x * x)" by (rule chk64_le [OF b]) simp
    show "\<bar>k * x * x\<bar> \<le> 2 ^ 51" using b by simp
  qed
  have add: "chk64 (a sdiv b + c) = Some (a sdiv b + c)"
    if "\<bar>a\<bar> \<le> 2 ^ 51" "\<bar>c\<bar> \<le> 2 ^ 51" "0 < b" for a b c :: int
  proof -
    have "\<bar>a sdiv b\<bar> \<le> \<bar>a\<bar>" using that(3) zdiv_mono2 [of "\<bar>a\<bar>" 1 b] by (simp add: sdiv_abs)
    then have "\<bar>a sdiv b + c\<bar> \<le> 2 ^ 52" using that by simp
    then show ?thesis by (rule chk64_le) simp
  qed
  define t where "t = T - 2000"
  define u where "u = T + 1500"
  have t: "\<bar>t\<bar> \<le> 2 ^ 24" "\<bar>u\<bar> \<le> 2 ^ 24" using T v by (simp_all add: t_def u_def)
  have c: "chk64 t = Some t" "chk64 u = Some u" "chk64 (t * t) = Some (t * t)"
    using sq(1,2) [OF _ t(1), of 1] sq(1) [OF _ t(2), of 1] by simp_all
  show ?thesis
    unfolding ms_second_order_def ms_comp2_def Let_def t_def [symmetric] u_def [symmetric]
    by (simp add: c sq(1,2) [OF _ dT] sq(1,2) [OF _ t(1)] sq(1,2) [OF _ t(2)]
        add [OF sq(3) [OF _ t(1)] sq(3) [OF _ t(2)]] power2_eq_square
        mult.assoc [symmetric])
qed

lemma ms_comp2_bounds:
  assumes dT: "\<bar>dT\<bar> \<le> 2 ^ 24" and T: "\<bar>T - 2000\<bar> \<le> 2 ^ 17"
    and c: "ms_comp2 dT T = (Ti, OFFi, SENSi)"
  shows "\<bar>Ti\<bar> \<le> 2 ^ 17" and "\<bar>OFFi\<bar> \<le> 2 ^ 38" and "\<bar>SENSi\<bar> \<le> 2 ^ 37"
proof -
  have v: "\<bar>T + 1500\<bar> \<le> 2 ^ 17 + 3500" using T by simp
  have sq: "0 \<le> x\<^sup>2" "x\<^sup>2 \<le> A\<^sup>2" if "\<bar>x\<bar> \<le> A" for x A :: int
    using that by (simp_all add: abs_le_square_iff [symmetric])
  define a b e where abe: "a = dT\<^sup>2" "b = (T - 2000)\<^sup>2" "e = (T + 1500)\<^sup>2"
  have r: "0 \<le> a" "0 \<le> b" "0 \<le> e" "a \<le> 2 ^ 48" "b \<le> 2 ^ 34" "e \<le> 18109623184"
    using sq(2) [OF dT] sq(2) [OF T] sq(2) [OF v] by (simp_all add: abe)
  show "\<bar>Ti\<bar> \<le> 2 ^ 17" "\<bar>OFFi\<bar> \<le> 2 ^ 38" "\<bar>SENSi\<bar> \<le> 2 ^ 37"
    using c r unfolding ms_comp2_def Let_def abe [symmetric]
    by (auto simp: sdiv_nonneg split: if_splits)
qed

lemma u16_le: "\<bar>uint (x :: u16)\<bar> \<le> 2 ^ 16"
  using uint_lt2p [of x] by simp

lemma ms_pressure_bounds:
  assumes d1: "0 \<le> d1" "d1 < 2 ^ 24" and S: "\<bar>S\<bar> \<le> 2 ^ 38" and F: "\<bar>F\<bar> \<le> 2 ^ 39"
  shows "chk64 (d1 * S) = Some (d1 * S)"
    and "chk64 (d1 * S sdiv 2 ^ 21 - F) = Some (d1 * S sdiv 2 ^ 21 - F)"
    and "to_s32 ((d1 * S sdiv 2 ^ 21 - F) sdiv 2 ^ 13) = (d1 * S sdiv 2 ^ 21 - F) sdiv 2 ^ 13"
    and "to_s32 ((d1 * S sdiv 2 ^ 21 - F) sdiv 2 ^ 13 sdiv 10) =
      (d1 * S sdiv 2 ^ 21 - F) sdiv 2 ^ 13 sdiv 10"
proof -
  have p: "\<bar>d1 * S\<bar> \<le> 2 ^ 24 * 2 ^ 38" by (rule abs_mult_le) (use d1 S in simp_all)
  then show "chk64 (d1 * S) = Some (d1 * S)" by (rule chk64_le) simp
  have "\<bar>d1 * S sdiv 2 ^ 21\<bar> \<le> 2 ^ 24 * 2 ^ 38 div 2 ^ 21" by (rule abs_sdiv_le [OF p]) simp
  then have q: "\<bar>d1 * S sdiv 2 ^ 21 - F\<bar> \<le> 2 ^ 42" using F by simp
  then show "chk64 (d1 * S sdiv 2 ^ 21 - F) = Some (d1 * S sdiv 2 ^ 21 - F)"
    by (rule chk64_le) simp
  have r: "\<bar>(d1 * S sdiv 2 ^ 21 - F) sdiv 2 ^ 13\<bar> \<le> 2 ^ 42 div 2 ^ 13"
    by (rule abs_sdiv_le [OF q]) simp
  then show "to_s32 ((d1 * S sdiv 2 ^ 21 - F) sdiv 2 ^ 13) = (d1 * S sdiv 2 ^ 21 - F) sdiv 2 ^ 13"
    by (rule to_s32_le) simp
  have "\<bar>(d1 * S sdiv 2 ^ 21 - F) sdiv 2 ^ 13 sdiv 10\<bar> \<le> 2 ^ 42 div 2 ^ 13 div 10"
    by (rule abs_sdiv_le [OF r]) simp
  then show "to_s32 ((d1 * S sdiv 2 ^ 21 - F) sdiv 2 ^ 13 sdiv 10) =
      (d1 * S sdiv 2 ^ 21 - F) sdiv 2 ^ 13 sdiv 10"
    by (rule to_s32_le) simp
qed

text \<open>A coefficient times a power of two plus a slope times \<open>dT\<close>: \<open>OFF\<close> and \<open>SENS\<close>.\<close>

lemma ms_linear_bounds:
  assumes dT: "\<bar>dT\<bar> \<le> 2 ^ 24" and m: "0 < m" "m \<le> 2 ^ 16" and k: "2 ^ 7 \<le> (k::int)"
  shows "chk64 (uint (x::u16) * m) = Some (uint x * m)"
    and "chk64 (uint (y::u16) * dT) = Some (uint y * dT)"
    and "chk64 (uint x * m + uint y * dT sdiv k) = Some (uint x * m + uint y * dT sdiv k)"
    and "\<bar>uint x * m + uint y * dT sdiv k\<bar> \<le> 2 ^ 34"
proof -
  have a: "\<bar>uint x * m\<bar> \<le> 2 ^ 16 * 2 ^ 16" by (rule abs_mult_le [OF u16_le]) (use m in simp)
  have b: "\<bar>uint y * dT\<bar> \<le> 2 ^ 16 * 2 ^ 24" by (rule abs_mult_le [OF u16_le dT])
  have "\<bar>uint y * dT sdiv k\<bar> \<le> 2 ^ 16 * 2 ^ 24 div k" by (rule abs_sdiv_le [OF b]) (use k in simp)
  also have "\<dots> \<le> 2 ^ 16 * 2 ^ 24 div 2 ^ 7" by (rule zdiv_mono2) (use k in simp_all)
  finally have s: "\<bar>uint x * m + uint y * dT sdiv k\<bar> \<le> 2 ^ 34" using a by simp
  show "chk64 (uint x * m) = Some (uint x * m)" by (rule chk64_le [OF a]) simp
  show "chk64 (uint y * dT) = Some (uint y * dT)" by (rule chk64_le [OF b]) simp
  show "chk64 (uint x * m + uint y * dT sdiv k) = Some (uint x * m + uint y * dT sdiv k)"
    by (rule chk64_le [OF s]) simp
  show "\<bar>uint x * m + uint y * dT sdiv k\<bar> \<le> 2 ^ 34" by (rule s)
qed

lemma ms_dT_bounds:
  assumes d2: "0 \<le> d2" "d2 < 2 ^ 24"
  shows "\<bar>d2 - uint (c5 data) * 256\<bar> \<le> 2 ^ 24" and "to_s32 d2 = d2"
    and "chk32 (uint (c5 data) * 256) = Some (uint (c5 data) * 256)"
    and "chk32 (d2 - uint (c5 data) * 256) = Some (d2 - uint (c5 data) * 256)"
proof -
  have c5: "0 \<le> uint (c5 data)" "uint (c5 data) < 65536" using uint_lt2p [of "c5 data"] by simp_all
  have d: "d2 < 16777216" using d2 by simp
  have "\<bar>d2 - uint (c5 data) * 256\<bar> \<le> 16777216"
    using d2(1) d c5 unfolding abs_le_iff by linarith
  then show dT: "\<bar>d2 - uint (c5 data) * 256\<bar> \<le> 2 ^ 24" by simp
  then show "chk32 (d2 - uint (c5 data) * 256) = Some (d2 - uint (c5 data) * 256)"
    by (rule chk32_le) simp
  show "chk32 (uint (c5 data) * 256) = Some (uint (c5 data) * 256)"
    using c5 by (intro chk32_le [of _ "2 ^ 24"]) simp_all
  show "to_s32 d2 = d2" using d2 by (intro to_s32_le [of _ "2 ^ 24"]) simp_all
qed

lemma calc_pressure_eq:
  assumes d1: "uint d1 < 2 ^ 24" and d2: "uint d2 < 2 ^ 24"
  shows "calc_pressure d1 d2 data = Some (ms_spec (uint d1) (uint d2) data)"
proof -
  define dT where "dT = uint d2 - uint (c5 data) * 256"
  note c32 = ms_dT_bounds(2) [OF uint_ge_0 d2]
    ms_dT_bounds(3,4) [OF uint_ge_0 d2, of data, folded dT_def]
  note dT = ms_dT_bounds(1) [OF uint_ge_0 d2, of data, folded dT_def]
  define tp where "tp = dT * uint (c6 data)"
  have tp: "\<bar>tp\<bar> \<le> 2 ^ 24 * 2 ^ 16" unfolding tp_def by (rule abs_mult_le [OF dT u16_le])
  have tpc: "chk64 tp = Some tp" by (rule chk64_le [OF tp]) simp
  define T where "T = 2000 + tp div 2 ^ 23"
  have T: "\<bar>T - 2000\<bar> \<le> 2 ^ 17" using tp by (auto simp: T_def)
  have Tn: "to_s32 (to_u64 (2000 + to_u64 tp div 2 ^ 23)) = T"
    unfolding T_def by (rule ms_temp_narrow) (use tp in simp)
  obtain Ti Oi Si where comp: "ms_comp2 dT T = (Ti, Oi, Si)" by (cases "ms_comp2 dT T")
  note cb = ms_comp2_bounds [OF dT T comp]
  have so: "ms_second_order dT T = Some (Ti, Oi, Si)"
    by (simp only: ms_second_order_exact [OF dT T] comp)
  have mk: "(0::int) < 65536" "65536 \<le> (2::int) ^ 16" "(2::int) ^ 7 \<le> 128"
    "(0::int) < 32768" "32768 \<le> (2::int) ^ 16" "(2::int) ^ 7 \<le> 256" by simp_all
  note off = ms_linear_bounds [OF dT mk(1-3)] and sens = ms_linear_bounds [OF dT mk(4-6)]
  define OFF where "OFF = uint (c2 data) * 65536 + uint (c4 data) * dT sdiv 128"
  define SENS where "SENS = uint (c1 data) * 32768 + uint (c3 data) * dT sdiv 256"
  have b: "\<bar>SENS\<bar> \<le> 2 ^ 38" "\<bar>OFF\<bar> \<le> 2 ^ 39" "\<bar>SENS - Si\<bar> \<le> 2 ^ 38" "\<bar>OFF - Oi\<bar> \<le> 2 ^ 39"
    "\<bar>T - Ti\<bar> \<le> 2 ^ 19"
    using off(4) [of "c2 data" "c4 data"] sens(4) [of "c1 data" "c3 data"] cb T unfolding OFF_def SENS_def by simp_all
  note p1 = ms_pressure_bounds [OF uint_ge_0 d1 b(1,2)]
    and p2 = ms_pressure_bounds [OF uint_ge_0 d1 b(3,4)]
  have fs: "chk64 OFF = Some OFF" "chk64 SENS = Some SENS"
    by (rule chk64_le [OF b(2)], simp, rule chk64_le [OF b(1)], simp)
  have o2: "chk64 (OFF - Oi) = Some (OFF - Oi)" by (rule chk64_le [OF b(4)]) simp
  have s2: "chk64 (SENS - Si) = Some (SENS - Si)" by (rule chk64_le [OF b(3)]) simp
  have t2: "chk64 (T - Ti) = Some (T - Ti)" by (rule chk64_le [OF b(5)]) simp
  have "\<bar>(T - Ti) sdiv 100\<bar> \<le> 2 ^ 19 div 100" by (rule abs_sdiv_le [OF b(5)]) simp
  then have t3: "to_s32 ((T - Ti) sdiv 100) = (T - Ti) sdiv 100" by (rule to_s32_le) simp
  have lhs: "calc_pressure d1 d2 data = Some
     \<lparr>P1_mbar = (uint d1 * SENS sdiv 2 ^ 21 - OFF) sdiv 2 ^ 13, TEMP1_cdegC = T,
      P2_mbar = (uint d1 * (SENS - Si) sdiv 2 ^ 21 - (OFF - Oi)) sdiv 2 ^ 13 sdiv 10,
      TEMP2_degC = (T - Ti) sdiv 100\<rparr>"
    unfolding calc_pressure_def
    using c32 tpc Tn so fs off(1,2) sens(1) p1 p2 o2 s2 t2 t3
    by (simp add: dT_def [symmetric] tp_def [symmetric] OFF_def [symmetric] SENS_def [symmetric])
  have "2000 + tp div 8388608 = T" by (simp add: T_def)
  then show ?thesis
    unfolding lhs ms_spec_def
    using comp by (simp add: dT_def [symmetric] tp_def [symmetric]
        OFF_def [symmetric] SENS_def [symmetric])
qed

lemmas ms_eval = ms_spec_def ms_comp2_def sdiv_nonneg sdiv_neg

text \<open>
  C2. For every pair of 24-bit conversion results and every calibration memory, the fixed-width
  compensation arithmetic has no signed overflow and computes the data sheet's formulas exactly:
  the unsigned division in the temperature and the narrowing to \<^verbatim>\<open>int32_t\<close> lose nothing
  on either side of zero.
\<close>

theorem calc_pressure_exact:
  assumes "uint d1 < 2 ^ 24" and "uint d2 < 2 ^ 24"
  shows "calc_pressure d1 d2 data = Some (ms_spec (uint d1) (uint d2) data)"
  using assms by (rule calc_pressure_eq)

theorem calc_pressure_exact_witness:
  "calc_pressure 4958179 6815414
     \<lparr>crc_factory = 0, c1 = 34982, c2 = 36352, c3 = 20328, c4 = 22354, c5 = 26646, c6 = 26146\<rparr> =
   Some \<lparr>P1_mbar = 39998, TEMP1_cdegC = 1981, P2_mbar = 3999, TEMP2_degC = 19\<rparr>"
  by (subst calc_pressure_exact) (simp_all add: ms_eval)

text \<open>
  A sample is 24 bits wide whatever the bus delivers and whatever the stack held, so the
  compensation of a sample never overflows.
\<close>

lemma ms_sample_range:
  assumes "ms_sample bus indet w = (Some (d1, d2), w')"
  shows "uint d1 < 2 ^ 24" and "uint d2 < 2 ^ 24"
  using assms be24_less by (auto simp: ms_sample_def split: prod.splits if_splits)

text \<open>
  Reading the factory calibration: with a part whose registers hold big-endian words, the six
  coefficients come out as the words the part holds, each from its own register; the CRC word is
  left in the byte order of the bus.
\<close>

theorem ms_read_cal_data_words:
  assumes dev: "\<And>c b w. i2c_read_cmd bus 0x76 c b w = (True, [hi c, lo c], w)"
  shows "ms_read_cal_data bus r w =
    (True, r\<lparr>crc_factory := push_bit 8 (ucast (lo 0xA0)) OR ucast (hi 0xA0),
             c1 := push_bit 8 (ucast (hi 0xA2)) OR ucast (lo 0xA2),
             c2 := push_bit 8 (ucast (hi 0xA4)) OR ucast (lo 0xA4),
             c3 := push_bit 8 (ucast (hi 0xA6)) OR ucast (lo 0xA6),
             c4 := push_bit 8 (ucast (hi 0xA8)) OR ucast (lo 0xA8),
             c5 := push_bit 8 (ucast (hi 0xAA)) OR ucast (lo 0xAA),
             c6 := push_bit 8 (ucast (hi 0xAC)) OR ucast (lo 0xAC)\<rparr>, w)"
proof -
  have "le16 [hi 0xA0, lo 0xA0] = push_bit 8 (ucast (lo 0xA0)) OR ucast (hi 0xA0)"
    by (simp add: le16_def or.commute)
  then show ?thesis
    by (simp add: ms_read_cal_data_def ms_regs_def dev ntohs_le16)
qed

theorem ms_read_cal_data_words_witness:
  "ms_read_cal_data
     \<lparr>i2c_write = \<lambda>_ _ w. (True, w), i2c_read = \<lambda>_ b w. (True, b, w),
      i2c_write_cmd = \<lambda>_ _ _ w. (True, w), i2c_read_cmd = \<lambda>_ c _ w. (True, [c, 1], w),
      i2c_write_then_read = \<lambda>_ _ b w. (True, b, w), i2c_write_then_write = \<lambda>_ _ _ w. (True, w)\<rparr>
     \<lparr>crc_factory = 0, c1 = 0, c2 = 0, c3 = 0, c4 = 0, c5 = 0, c6 = 0\<rparr> () =
   (True, \<lparr>crc_factory = 0x1A0, c1 = 0xA201, c2 = 0xA401, c3 = 0xA601, c4 = 0xA801, c5 = 0xAA01,
     c6 = 0xAC01\<rparr>, ())"
  by (subst ms_read_cal_data_words [where hi = "\<lambda>c. c" and lo = "\<lambda>_. 1"]) simp_all

subsection \<open>\<^verbatim>\<open>TSYS01\<close>\<close>

text \<open>
  Floating-point arithmetic is the exact operation followed by a rounding \<open>rnd\<close>, an argument,
  as IEEE 754 defines it; a decimal literal and an integer conversion are rounded too.
\<close>

record tsys_cal =
  k4 :: u16
  k3 :: u16
  k2 :: u16
  k1 :: u16
  k0 :: u16

definition tsys_addr :: u8 where "tsys_addr = 0x77"

definition tsys_reset :: "'w i2c_iface \<Rightarrow> 'w \<Rightarrow> bool \<times> 'w" where
  "tsys_reset bus w = i2c_write bus tsys_addr [0x1E] w"

definition tsys_sample :: "'w i2c_iface \<Rightarrow> u8x3 \<Rightarrow> 'w \<Rightarrow> u32 option \<times> 'w" where
  "tsys_sample bus indet w =
     (let (ok, w) = i2c_write bus tsys_addr [0x48] w in
      if \<not> ok then (None, w)
      else let (ok, rx_buf, w) = i2c_read_cmd bus tsys_addr 0x00 (arr3 indet) w in
      if \<not> ok then (None, w) else (Some (be24 rx_buf), w))"

definition tsys_regs :: "(u8 \<times> (tsys_cal \<Rightarrow> u16) \<times> (u16 \<Rightarrow> tsys_cal \<Rightarrow> tsys_cal)) list" where
  "tsys_regs =
     [(0xA2, k4, \<lambda>v r. r\<lparr>k4 := v\<rparr>), (0xA4, k3, \<lambda>v r. r\<lparr>k3 := v\<rparr>), (0xA6, k2, \<lambda>v r. r\<lparr>k2 := v\<rparr>),
      (0xA8, k1, \<lambda>v r. r\<lparr>k1 := v\<rparr>), (0xAA, k0, \<lambda>v r. r\<lparr>k0 := v\<rparr>)]"

definition tsys_read_cal_data :: "'w i2c_iface \<Rightarrow> tsys_cal \<Rightarrow> 'w \<Rightarrow> bool \<times> tsys_cal \<times> 'w" where
  "tsys_read_cal_data bus r w =
     (let (ok, r, w) = read_fields bus tsys_addr tsys_regs r w in
      if \<not> ok then (False, r, w)
      else (True, r\<lparr>k4 := ntohs (k4 r), k3 := ntohs (k3 r), k2 := ntohs (k2 r),
                    k1 := ntohs (k1 r), k0 := ntohs (k0 r)\<rparr>, w))"

definition calc_temp :: "(real \<Rightarrow> real) \<Rightarrow> u32 \<Rightarrow> tsys_cal \<Rightarrow> real" where
  "calc_temp rnd sample data =
     (let ADC24 = sample;
          ADC16 = ADC24 div 256;
          ADC16_1 = ucast ADC16 :: u64;
          ADC16_2 = ADC16_1 * ucast ADC16;
          ADC16_3 = ADC16_2 * ucast ADC16;
          ADC16_4 = ADC16_3 * ucast ADC16;
          mul = (\<lambda>x y. rnd (x * y));
          dbl = (\<lambda>x::u64. rnd (real (unat x)));
          k = (\<lambda>x::u16. rnd (real (unat x)));
          temp = 0;
          temp = rnd (temp + mul (mul (mul (- 2) (k (k4 data))) (rnd (1 / 10 ^ 21))) (dbl ADC16_4));
          temp = rnd (temp + mul (mul (mul 4 (k (k3 data))) (rnd (1 / 10 ^ 16))) (dbl ADC16_3));
          temp = rnd (temp + mul (mul (mul (- 2) (k (k2 data))) (rnd (1 / 10 ^ 11))) (dbl ADC16_2));
          temp = rnd (temp + mul (mul (mul 1 (k (k1 data))) (rnd (1 / 10 ^ 6))) (dbl ADC16_1));
          temp = rnd (temp + mul (mul (- (3 / 2)) (k (k0 data))) (rnd (1 / 10 ^ 2)))
      in temp)"

definition tsys_poly :: "real \<Rightarrow> tsys_cal \<Rightarrow> real" where
  "tsys_poly x data =
     - 2 * real (unat (k4 data)) * 10 powi (- 21) * x ^ 4 +
     4 * real (unat (k3 data)) * 10 powi (- 16) * x ^ 3 +
     - 2 * real (unat (k2 data)) * 10 powi (- 11) * x\<^sup>2 +
     real (unat (k1 data)) * 10 powi (- 6) * x +
     - (3 / 2) * real (unat (k0 data)) * 10 powi (- 2)"

lemma unat_mult_small:
  "unat (a :: u64) * unat b < 2 ^ 64 \<Longrightarrow> unat (a * b) = unat a * unat b"
  using unat_mult_lem [of a b] by simp

lemma tsys_powers:
  assumes "uint sample < 2 ^ 24"
  defines "a \<equiv> ucast (sample div 256 :: u32) :: u64" and "x \<equiv> unat sample div 256"
  shows "unat a = x" and "unat (a * a) = x ^ 2" and "unat (a * a * a) = x ^ 3"
    and "unat (a * a * a * a) = x ^ 4"
proof -
  have "unat sample < 2 ^ 24"
    using assms(1) by (subst nat_int_comparison(2)) simp
  then have x: "x < 2 ^ 16" by (simp add: x_def)
  show a: "unat a = x"
    using x by (simp add: a_def x_def unsigned_ucast_eq unat_div take_bit_nat_eq_self)
  have p: "x ^ k < 2 ^ (16 * k)" if "0 < k" for k
    using power_strict_mono [OF x, of k] that by (simp add: power_mult)
  show a2: "unat (a * a) = x ^ 2"
    using unat_mult_small [of a a] p [of 2] by (simp add: a power2_eq_square)
  show a3: "unat (a * a * a) = x ^ 3"
    using unat_mult_small [of "a * a" a] p [of 3] by (simp add: a a2 power2_eq_square power3_eq_cube)
  show "unat (a * a * a * a) = x ^ 4"
    using unat_mult_small [of "a * a * a" a] p [of 4] by (simp add: a a3 power3_eq_cube power4_eq_xxxx)
qed



subsection \<open>\<^verbatim>\<open>sensor_thread\<close>\<close>

text \<open>
  The thread object and its loop. The two \<^verbatim>\<open>init\<close> calls of the drivers only store the bus
  (and the address \<^const>\<open>tsys_addr\<close>) and return true. The calibration structures and the
  loop's \<^verbatim>\<open>baro_result\<close> are uninitialised in the code, so they are arguments. The loop
  runs until the thread is interrupted: one list entry per iteration, carrying what the
  uninitialised sample buffers held.
\<close>

record sensor_thread =
  st_i2c :: i2c_linux
  m_temp_cal_data :: tsys_cal
  m_baro_cal_data :: ms_cal
  m_temp_degC :: real
  m_baro_data :: ms_result

definition sensor_thread_new :: "tsys_cal \<Rightarrow> ms_cal \<Rightarrow> sensor_thread" where
  "sensor_thread_new tc bc =
     \<lparr>st_i2c = i2c_linux_new, m_temp_cal_data = tc, m_baro_cal_data = bc, m_temp_degC = 0,
      m_baro_data = \<lparr>P1_mbar = 0, TEMP1_cdegC = 0, P2_mbar = 0, TEMP2_degC = 0\<rparr>\<rparr>"

definition sensor_thread_init :: "(string \<Rightarrow> 'w \<Rightarrow> int \<times> 'w) \<Rightarrow> 'w rdwr \<Rightarrow>
    sensor_thread \<Rightarrow> 'w \<Rightarrow> bool \<times> sensor_thread \<times> 'w" where
  "sensor_thread_init open_dev ioctl st w =
     (let (ok, l, w) = i2c_linux_init open_dev ''/dev/i2c-0'' i2c_linux_new w;
          st = st\<lparr>st_i2c := l\<rparr> in
      if \<not> ok then (False, st, w)
      else let bus = i2c_linux_iface ioctl l; (ok, w) = tsys_reset bus w in
      if \<not> ok then (False, st, w)
      else let (ok, w) = ms_reset bus w in
      if \<not> ok then (False, st, w)
      else let (ok, tc, w) = tsys_read_cal_data bus (m_temp_cal_data st) w;
               st = st\<lparr>m_temp_cal_data := tc\<rparr> in
      if \<not> ok then (False, st, w)
      else let (ok, bc, w) = ms_read_cal_data bus (m_baro_cal_data st) w;
               st = st\<lparr>m_baro_cal_data := bc\<rparr> in
      if \<not> ok then (False, st, w)
      else (True, st, w))"

type_synonym st_indet = "u8x3 \<times> u8x3 \<times> u8x3"

definition work_step :: "(real \<Rightarrow> real) \<Rightarrow> 'w i2c_iface \<Rightarrow> st_indet \<Rightarrow>
    (real \<times> ms_result) \<times> sensor_thread \<times> 'w \<Rightarrow>
    ((real \<times> ms_result) \<times> sensor_thread \<times> 'w) option" where
  "work_step rnd bus indet s =
     (let ((ext_temp, baro_result), st, w) = s;
          (ts, w) = tsys_sample bus (fst indet) w;
          ext_temp = (case ts of None \<Rightarrow> ext_temp
                      | Some x \<Rightarrow> calc_temp rnd x (m_temp_cal_data st));
          (ps, w) = ms_sample bus (snd indet) w in do {
      baro_result \<leftarrow> (case ps of None \<Rightarrow> Some baro_result
                      | Some (d1, d2) \<Rightarrow> calc_pressure d1 d2 (m_baro_cal_data st));
      Some ((ext_temp, baro_result),
            st\<lparr>m_temp_degC := ext_temp, m_baro_data := baro_result\<rparr>, w) })"

fun sensor_work :: "(real \<Rightarrow> real) \<Rightarrow> 'w i2c_iface \<Rightarrow> st_indet list \<Rightarrow>
    (real \<times> ms_result) \<times> sensor_thread \<times> 'w \<Rightarrow>
    ((real \<times> ms_result) \<times> sensor_thread \<times> 'w) option" where
  "sensor_work rnd bus [] s = Some s"
| "sensor_work rnd bus (i # is) s = do { s' \<leftarrow> work_step rnd bus i s; sensor_work rnd bus is s' }"

definition get_temp_data :: "sensor_thread \<Rightarrow> real" where
  "get_temp_data st = m_temp_degC st"

definition get_baro_data :: "sensor_thread \<Rightarrow> ms_result" where
  "get_baro_data st = m_baro_data st"

definition st_published :: "(real \<times> ms_result) \<times> sensor_thread \<times> 'w \<Rightarrow> bool" where
  "st_published s \<longleftrightarrow>
     get_temp_data (fst (snd s)) = fst (fst s) \<and> get_baro_data (fst (snd s)) = snd (fst s)"

definition st_cal :: "(real \<times> ms_result) \<times> sensor_thread \<times> 'w \<Rightarrow> tsys_cal \<times> ms_cal" where
  "st_cal s = (m_temp_cal_data (fst (snd s)), m_baro_cal_data (fst (snd s)))"

lemma work_step_ok:
  "\<exists>s'. work_step rnd bus i s = Some s' \<and> st_published s' \<and> st_cal s' = st_cal s"
proof -
  obtain e b st w where s: "s = ((e, b), st, w)" by (metis prod.exhaust)
  obtain ts w1 where t: "tsys_sample bus (fst i) w = (ts, w1)" by fastforce
  obtain ps w2 where p: "ms_sample bus (snd i) w1 = (ps, w2)" by fastforce
  show ?thesis
  proof (cases ps)
    case None
    then show ?thesis
      by (simp add: work_step_def Let_def s t p st_published_def st_cal_def get_temp_data_def
          get_baro_data_def)
  next
    case (Some d)
    obtain d1 d2 where d: "d = (d1, d2)" by fastforce
    note r = ms_sample_range [OF p [unfolded Some d]]
    show ?thesis
      by (simp add: work_step_def Let_def s t p Some d calc_pressure_eq [OF r] st_published_def
          st_cal_def get_temp_data_def get_baro_data_def)
  qed
qed

text \<open>
  C27. The sampling loop is safe for any number of iterations on any bus and with any calibration
  data: no iteration reaches a signed overflow, the calibration stays as \<^verbatim>\<open>init\<close> read it,
  and after at least one iteration the getters return the values the loop last computed.
\<close>

theorem sensor_work_safe:
  "\<exists>s'. sensor_work rnd bus is s = Some s' \<and> st_cal s' = st_cal s \<and>
     (is = [] \<or> st_published s')"
proof (induction "is" arbitrary: s)
  case Nil
  then show ?case by simp
next
  case (Cons i "is")
  obtain s1 where s1: "work_step rnd bus i s = Some s1" "st_published s1" "st_cal s1 = st_cal s"
    using work_step_ok by blast
  with Cons [of s1] show ?case by (cases "is") auto
qed

end
