(* ===== verification/Ptree_Util.thy ===== *)
theory Ptree_Util
  imports Opaleye_Prelude
begin

section \<open>Property trees\<close>

text \<open>
  \<^verbatim>\<open>boost::property_tree::ptree\<close> as the sensors handler and the frame metadata use it, and
  \<^verbatim>\<open>src/libs/opaleye-util/Ptree_util.cpp\<close>, whose JSON and XML writers are the library's: they are
  arguments where a document is written.
\<close>

text \<open>
  A property tree is a value with named children. \<^verbatim>\<open>put\<close> and \<^verbatim>\<open>put_child\<close>
  replace the first child of the name or append one; \<^verbatim>\<open>add_child\<close> and
  \<^verbatim>\<open>push_back\<close> append.
\<close>

datatype ptree = PTree (pt_data: string) (pt_children: "(string \<times> ptree) list")

definition pt_empty :: ptree where "pt_empty = PTree [] []"

fun pt_set :: "string \<Rightarrow> (ptree \<Rightarrow> ptree) \<Rightarrow> (string \<times> ptree) list \<Rightarrow> (string \<times> ptree) list" where
  "pt_set k f [] = [(k, f pt_empty)]"
| "pt_set k f ((k', t) # cs) = (if k' = k then (k, f t) # cs else (k', t) # pt_set k f cs)"

definition pt_put :: "string \<Rightarrow> string \<Rightarrow> ptree \<Rightarrow> ptree" where
  "pt_put k v t = PTree (pt_data t) (pt_set k (\<lambda>c. PTree v (pt_children c)) (pt_children t))"

definition pt_put_child :: "string \<Rightarrow> ptree \<Rightarrow> ptree \<Rightarrow> ptree" where
  "pt_put_child k c t = PTree (pt_data t) (pt_set k (\<lambda>_. c) (pt_children t))"

definition pt_push_back :: "string \<Rightarrow> ptree \<Rightarrow> ptree \<Rightarrow> ptree" where
  "pt_push_back k c t = PTree (pt_data t) (pt_children t @ [(k, c)])"

text \<open>
  A key with dots is a path: \<^verbatim>\<open>put\<close> and \<^verbatim>\<open>put_child\<close> create the inner nodes.
\<close>

fun pt_put_path :: "string list \<Rightarrow> string \<Rightarrow> ptree \<Rightarrow> ptree" where
  "pt_put_path [] v t = PTree v (pt_children t)"
| "pt_put_path (k # ks) v t = PTree (pt_data t) (pt_set k (pt_put_path ks v) (pt_children t))"

fun pt_put_child_path :: "string list \<Rightarrow> ptree \<Rightarrow> ptree \<Rightarrow> ptree" where
  "pt_put_child_path [] c t = c"
| "pt_put_child_path (k # ks) c t =
     PTree (pt_data t) (pt_set k (pt_put_child_path ks c) (pt_children t))"

text \<open>\<^verbatim>\<open>get_child_optional\<close> and \<^verbatim>\<open>get_optional<std::string>\<close>.\<close>

fun pt_find :: "string list \<Rightarrow> ptree \<Rightarrow> ptree option" where
  "pt_find [] t = Some t"
| "pt_find (k # ks) t = Option.bind (map_of (pt_children t) k) (pt_find ks)"

definition pt_get :: "string list \<Rightarrow> ptree \<Rightarrow> string option" where
  "pt_get ks t = map_option pt_data (pt_find ks t)"

lemma map_of_pt_set:
  "map_of (pt_set k f cs) k' =
     (if k' = k then Some (f (case map_of cs k of None \<Rightarrow> pt_empty | Some t \<Rightarrow> t)) else map_of cs k')"
  by (induction k f cs rule: pt_set.induct) auto

lemma pt_get_put_path [simp]: "pt_get ks (pt_put_path ks v t) = Some v"
  by (induction ks arbitrary: t) (auto simp: pt_get_def map_of_pt_set)

lemma pt_find_put_other:
  "k \<noteq> k' \<Longrightarrow> pt_find (k # ks) (pt_put_path (k' # ks') v t) = pt_find (k # ks) t"
  "k \<noteq> k' \<Longrightarrow> pt_find (k # ks) (pt_put_child_path (k' # ks') c t) = pt_find (k # ks) t"
  "k \<noteq> k' \<Longrightarrow> pt_find (k # ks) (pt_put k' v t) = pt_find (k # ks) t"
  "k \<noteq> k' \<Longrightarrow> pt_find (k # ks) (pt_put_child k' c t) = pt_find (k # ks) t"
  by (simp_all add: map_of_pt_set pt_put_def pt_put_child_def)

lemma pt_find_put_here:
  "pt_find [k] (pt_put k v t) = Some (PTree v (case map_of (pt_children t) k of
     None \<Rightarrow> [] | Some c \<Rightarrow> pt_children c))"
  "pt_find (k # ks) (pt_put_child k c t) = pt_find ks c"
  by (simp_all add: map_of_pt_set pt_put_def pt_put_child_def pt_empty_def split: option.split)

end
