(* ===== verification/Http_Handlers.thy ===== *)
theory Http_Handlers
  imports Http_Bridge Sensors Thermal_Zone Ptree_Util
begin

section \<open>The application's request handlers\<close>

text \<open>
  \<^verbatim>\<open>src/opaleye/http_req_jsonrpc.cpp\<close>, \<^verbatim>\<open>http_req_jpeg.cpp\<close> and
  \<^verbatim>\<open>http_req_callback_sensors.cpp\<close>. The JSON-RPC server, the image callback, the clock, the
  JSON writer and the printing of a double are arguments.
\<close>

subsection \<open>JSON-RPC\<close>

text \<open>
  \<^verbatim>\<open>HandleRequest\<close> of the JSON-RPC library: it throws (\<open>RpcThrow\<close>), returns a null
  pointer (\<open>RpcNull\<close>) or a formatted response, empty for a notification.
\<close>

datatype rpc_result = RpcThrow | RpcNull | RpcData string

record 'a jsonrpc_state =
  m_req_buf :: string
  m_req_str :: string
  m_app :: 'a

definition MAX_REQ_LEN :: int where "MAX_REQ_LEN = 16 * 1024"

definition rpc_error_body :: string where
  "rpc_error_body =
     ''{\"jsonrpc\": \"2.0\", \"error\": {\"code\": -32000, \"message\": \"Server Error\"}, \"id\": null}''"

definition put_json_header :: "string \<Rightarrow> nat \<Rightarrow> fcgx_request \<Rightarrow> fcgx_request" where
  "put_json_header status n r =
     FCGX_PutS crlf (FCGX_PutS (''Cache-Control: max-age=0, no-store'' @ crlf)
       (FCGX_PutS (''Status: '' @ status @ crlf)
         (FCGX_PutS (''Content-Length: '' @ fmt_int (to_s32 (int n)) @ crlf)
           (FCGX_PutS (''Content-Type: application/json'' @ crlf) r))))"

definition jsonrpc_respond :: "rpc_result \<Rightarrow> fcgx_request \<Rightarrow> fcgx_request" where
  "jsonrpc_respond res r = FCGX_Finish_r (case res of
       RpcData [] \<Rightarrow> put_json_header ''204 No Response'' 0 r
     | RpcData d \<Rightarrow> FCGX_PutS d (put_json_header ''200 OK'' (length d) r)
     | _ \<Rightarrow> FCGX_PutS rpc_error_body
              (put_json_header ''500 Internal Error'' (length rpc_error_body) r))"

definition starts_with :: "string \<Rightarrow> string \<Rightarrow> bool" where
  "starts_with p s \<longleftrightarrow> take (length p) s = p"

definition jsonrpc_handle :: "(string \<Rightarrow> 'a \<Rightarrow> rpc_result \<times> 'a) \<Rightarrow> 'a jsonrpc_state handler" where
  "jsonrpc_handle HandleRequest r s =
     (case load_and_log r of
        None \<Rightarrow> (Some Undefined, r, s)
      | Some u \<Rightarrow>
          if request_method_enum u \<noteq> POST
          then (Some (BadRequest (Some ''Only POST is accepted'')), r, s)
          else case scanf_d (param u ''CONTENT_LENGTH'') of
              None \<Rightarrow> (Some (BadRequest (Some ''Could not parse CONTENT_LENGTH'')), r, s)
            | Some (req_len, _) \<Rightarrow>
                if req_len < 0 \<or> req_len > MAX_REQ_LEN
                then (Some (BadRequest (Some ''CONTENT_LENGTH is invalid'')), r, s)
                else if length (param u ''CONTENT_TYPE'') = 0
                then (Some (BadRequest (Some ''CONTENT_TYPE is invalid'')), r, s)
                else if \<not> starts_with ''application/json'' (param u ''CONTENT_TYPE'')
                then (Some (BadRequest (Some ''CONTENT_TYPE is invalid'')), r, s)
                else let (data, r) = FCGX_GetStr (nat req_len) r;
                         s = s\<lparr>m_req_buf := data @ replicate (nat req_len - length data) (CHR 0x00)\<rparr> in
                  if int (length data) \<noteq> req_len
                  then (Some (InternalServerError (Some ''Read did not return expected length'')), r, s)
                  else let s = s\<lparr>m_req_str := data\<rparr>;
                           (res, a) = HandleRequest data (m_app s);
                           s = s\<lparr>m_app := a\<rparr> in
                    if res = RpcThrow
                    then (Some (InternalServerError (Some ''Error handling jsonrpc request'')), r, s)
                    else (None, jsonrpc_respond res r, s))"

subsection \<open>Still images\<close>

definition jpeg_handle :: "('a \<Rightarrow> string \<times> 'a) \<Rightarrow> int \<Rightarrow> 'a handler" where
  "jpeg_handle m_cb t_now r s =
     (case load_and_log r of
        None \<Rightarrow> (Some Undefined, r, s)
      | Some u \<Rightarrow>
          if request_method_enum u \<noteq> GET
          then (Some (BadRequest (Some ''Only GET is accepted'')), r, s)
          else let (frame_buf, s) = m_cb s in
            if frame_buf \<noteq> [] then
              (case time_to_httpdate t_now of
                 None \<Rightarrow> (Some Undefined, r, s)
               | Some (False, _) \<Rightarrow>
                   (Some (InternalServerError (Some ''Could not get Last-Modified timestamp'')), r, s)
               | Some (True, time_str) \<Rightarrow>
                   let r = FCGX_PutS (''Content-Type: image/jpeg'' @ crlf) r;
                       r = FCGX_PutS (''Content-Length: '' @ fmt_int (to_s32 (int (length frame_buf))) @ crlf) r;
                       r = FCGX_PutS (''Cache-Control: max-age=0, no-store'' @ crlf) r;
                       r = FCGX_PutS (''Last-Modified: '' @ time_str @ crlf) r;
                       r = FCGX_PutS crlf r;
                       r = FCGX_PutS frame_buf r
                   in (None, FCGX_Finish_r r, s))
            else (None, FCGX_Finish_r (FCGX_PutS (''Status: 500 Internal Error'' @ crlf) r), s))"

subsection \<open>Sensors\<close>

text \<open>
  The regular expression
  \<^verbatim>\<open>^/api/v1/sensor_types(/(\w+)(/sensors(/(\d+))?)?)?$\<close>. Neither a word nor a number
  contains a slash, so the groups are determined by the longest run of each class.
\<close>

datatype sensor_uri =
    TypeList | OneType string | SensorList string | OneSensor string string

definition is_word :: "char \<Rightarrow> bool" where
  "is_word c \<longleftrightarrow> is_digit c \<or> c = CHR ''_'' \<or> 65 \<le> (of_char c :: nat) \<and> (of_char c :: nat) \<le> 90
     \<or> 97 \<le> (of_char c :: nat) \<and> (of_char c :: nat) \<le> 122"

definition strip :: "string \<Rightarrow> string \<Rightarrow> string option" where
  "strip p s = (if take (length p) s = p then Some (drop (length p) s) else None)"

definition match_sensor_uri :: "string \<Rightarrow> sensor_uri option" where
  "match_sensor_uri s = do {
     r \<leftarrow> strip ''/api/v1/sensor_types'' s;
     if r = [] then Some TypeList
     else do {
       r \<leftarrow> strip ''/'' r;
       let ty = takeWhile is_word r;
       let r = dropWhile is_word r;
       if ty = [] then None
       else if r = [] then Some (OneType ty)
       else do {
         r \<leftarrow> strip ''/sensors'' r;
         if r = [] then Some (SensorList ty)
         else do {
           r \<leftarrow> strip ''/'' r;
           if r \<noteq> [] \<and> list_all is_digit r then Some (OneSensor ty r) else None
         }
       }
     }
   }"

record sensors_env =
  se_json :: "ptree \<Rightarrow> string"
  se_double :: "real \<Rightarrow> string"
  se_now :: int
  se_fs :: tz_fs
  se_scanf_lf :: "string \<Rightarrow> real option"

definition sensor_sample :: "string \<Rightarrow> string \<Rightarrow> string \<Rightarrow> ptree" where
  "sensor_sample name value_str unit_str =
     (let sample = pt_put ''timestamp'' ''0'' (pt_put ''unit'' unit_str (pt_put ''value'' value_str pt_empty))
      in pt_put ''location'' ''external'' (pt_put ''name'' name (pt_put_child ''sample'' sample pt_empty)))"

definition sensor_list :: "string \<Rightarrow> ptree" where
  "sensor_list name =
     (let sensor = pt_put ''id'' ''0'' (pt_put ''name'' name pt_empty)
      in pt_push_back ''sensors'' (pt_push_back [] sensor pt_empty) pt_empty)"

definition sensor_types :: ptree where
  "sensor_types =
     pt_push_back ''sensor_types''
       (pt_push_back [] (pt_put ''type'' ''temperature'' pt_empty)
         (pt_push_back [] (pt_put ''type'' ''pressure'' pt_empty) pt_empty)) pt_empty"

text \<open>The body of the response, or the exception; an empty body for the unfinished on-chip sensor.\<close>

definition sensor_body :: "sensors_env \<Rightarrow> sensor_uri \<Rightarrow> sensor_thread \<Rightarrow> exc + string" where
  "sensor_body E uri st = (case uri of
       OneSensor ty i \<Rightarrow>
         if ty = ''pressure'' then
           (if i = ''0'' then Inr (se_json E (sensor_sample ''pressure-0''
                (fmt_int (P1_mbar (get_baro_data st))) ''mbar''))
            else Inl (NotFound (Some ''sensorid does not exist'')))
         else if ty = ''temperature'' then
           (if i = ''0'' then Inr (se_json E (sensor_sample ''temperature-0''
                (se_double E (get_temp_data st)) ''degC''))
            else if i = ''1'' then
              (case fst (tz_sample (se_fs E) (se_scanf_lf E) []) of
                 TzThrow \<Rightarrow> Inl (StdException ''filesystem_error'')
               | TzUndefined \<Rightarrow> Inl Undefined
               | _ \<Rightarrow> Inr [])
            else Inl (NotFound (Some ''sensorid does not exist'')))
         else Inl (NotFound (Some ''sensortype does not exist''))
     | SensorList ty \<Rightarrow>
         if ty = ''pressure'' then Inr (se_json E (sensor_list ''pressure-0''))
         else if ty = ''temperature'' then Inr (se_json E (sensor_list ''temperature-0''))
         else Inl (NotFound None)
     | OneType ty \<Rightarrow> Inl (MethodNotAllowed None)
     | TypeList \<Rightarrow> Inr (se_json E sensor_types))"

definition sensors_handle :: "sensors_env \<Rightarrow> sensor_thread handler" where
  "sensors_handle E r st =
     (case load_and_log r of
        None \<Rightarrow> (Some Undefined, r, st)
      | Some u \<Rightarrow>
          if request_method_enum u \<noteq> GET
          then (Some (MethodNotAllowed (Some ''Only GET is accepted'')), r, st)
          else case match_sensor_uri (doc_uri_path u) of
              None \<Rightarrow> (Some (NotFound None), r, st)
            | Some uri \<Rightarrow>
                (case sensor_body E uri st of
                   Inl e \<Rightarrow> (Some e, r, st)
                 | Inr response_str \<Rightarrow>
                     (case time_to_httpdate (se_now E) of
                        None \<Rightarrow> (Some Undefined, r, st)
                      | Some (False, _) \<Rightarrow>
                          (Some (InternalServerError (Some ''Could not get Last-Modified timestamp'')), r, st)
                      | Some (True, time_str) \<Rightarrow>
                          if response_str = [] then (Some (ServiceUnavailable None), r, st)
                          else let r = FCGX_PutS (''Content-Type: application/json'' @ crlf) r;
                                   r = FCGX_PutS (''Content-Length: '' @ fmt_int (to_s32 (int (length response_str))) @ crlf) r;
                                   r = FCGX_PutS (''Cache-Control: max-age=0, no-store'' @ crlf) r;
                                   r = FCGX_PutS (''Last-Modified: '' @ time_str @ crlf) r;
                                   r = FCGX_PutS crlf r;
                                   r = FCGX_PutS response_str r
                               in (None, FCGX_Finish_r r, st))))"

subsection \<open>The handlers keep the callback contract\<close>

lemma put_json_header_simps [simp]:
  "rq_finished (put_json_header st n r) = rq_finished r"
  "prefix (rq_out r) (rq_out (put_json_header st n r))"
  by (simp_all add: put_json_header_def)

lemma jsonrpc_respond_simps:
  "rq_finished (jsonrpc_respond res r) = Suc (rq_finished r)"
  "prefix (rq_out r) (rq_out (jsonrpc_respond res r))"
  by (auto simp: jsonrpc_respond_def put_json_header_def split: rpc_result.split list.split)

lemma FCGX_GetStr_simps [simp]:
  "rq_finished (snd (FCGX_GetStr n r)) = rq_finished r" "rq_out (snd (FCGX_GetStr n r)) = rq_out r"
  "rq_env (snd (FCGX_GetStr n r)) = rq_env r" "fst (FCGX_GetStr n r) = take n (rq_in r)"
  by (simp_all add: FCGX_GetStr_def)

text \<open>
  The outcomes of the JSON-RPC handler: it throws before the dispatcher was called, leaving its
  state and the output alone, or it called the dispatcher on a body within the limits.
\<close>

definition rpc_accepts :: "fcgx_request \<Rightarrow> string \<Rightarrow> bool" where
  "rpc_accepts r body \<longleftrightarrow> int (length body) \<le> MAX_REQ_LEN \<and> prefix body (rq_in r) \<and>
     (\<exists>m. rq_env r ''REQUEST_METHOD'' = Some m \<and> parse_req_method m = POST) \<and>
     (\<exists>c. rq_env r ''CONTENT_TYPE'' = Some c \<and> starts_with ''application/json'' c)"

lemma load_and_log_env:
  assumes "load_and_log r = Some u" and "k \<in> set REQ_PARAMS" and "k \<noteq> ''HTTPS''"
  shows "rq_env r k = Some (param u k)" and "hr_param u k = rq_env r k"
proof -
  show h: "hr_param u k = rq_env r k"
    using assms by (auto simp: load_and_log_def req_util_load_def Let_def split: option.splits if_splits)
  have "hr_param u k \<noteq> None"
    using assms by (auto simp: load_and_log_def log_request_env_def list_all_iff
        split: option.splits if_splits)
  then show "rq_env r k = Some (param u k)" by (auto simp: param_def h)
qed

lemma load_and_log_method:
  "load_and_log r = Some u \<Longrightarrow> \<exists>m. rq_env r ''REQUEST_METHOD'' = Some m \<and>
     parse_req_method m = request_method_enum u"
  by (auto simp: load_and_log_def req_util_load_def Let_def REQ_PARAMS_def
      split: option.splits if_splits)

lemma jsonrpc_cases:
  assumes "jsonrpc_handle HR r s = (e, r', s')"
  obtains (refused) x where "e = Some x" and "m_app s' = m_app s"
      and "rq_finished r' = rq_finished r" and "rq_out r' = rq_out r"
  | (thrown) x body a where "rpc_accepts r body" and "HR body (m_app s) = (RpcThrow, a)"
      and "e = Some x" and "m_app s' = a" and "rq_finished r' = rq_finished r" and "rq_out r' = rq_out r"
  | (answered) body res a r1 where "rpc_accepts r body" and "HR body (m_app s) = (res, a)"
      and "res \<noteq> RpcThrow" and "e = None" and "m_app s' = a" and "r' = jsonrpc_respond res r1"
      and "rq_finished r1 = rq_finished r" and "rq_out r1 = rq_out r"
proof (cases "load_and_log r")
  case None
  then show thesis using assms refused by (auto simp: jsonrpc_handle_def)
next
  case u: (Some u)
  define ct where "ct = param u ''CONTENT_TYPE''"
  have env: "rq_env r ''CONTENT_TYPE'' = Some ct"
    unfolding ct_def by (rule load_and_log_env(1) [OF u]) (simp_all add: REQ_PARAMS_def)
  show thesis
  proof (cases "scanf_d (param u ''CONTENT_LENGTH'')")
    case None
    then show thesis using assms u refused
      by (auto simp: jsonrpc_handle_def split: if_splits)
  next
    case (Some v)
    obtain n rest where v: "v = (n, rest)" by fastforce
    let ?d = "take (nat n) (rq_in r)"
    consider (bad) "\<not> (request_method_enum u = POST \<and> 0 \<le> n \<and> n \<le> MAX_REQ_LEN \<and>
        starts_with ''application/json'' ct \<and> int (length ?d) = n)"
      | (good) "request_method_enum u = POST" "0 \<le> n" "n \<le> MAX_REQ_LEN"
        "starts_with ''application/json'' ct" "int (length ?d) = n" by blast
    then show thesis
    proof cases
      case bad
      then show thesis using assms u Some v refused
        by (auto simp: jsonrpc_handle_def Let_def ct_def [symmetric] case_prod_beta
            split: if_splits)
    next
      case good
      have acc: "rpc_accepts r ?d"
        using good env load_and_log_method [OF u] by (auto simp: rpc_accepts_def take_is_prefix)
      obtain res a where hr: "HR ?d (m_app s) = (res, a)" by fastforce
      have ne: "ct \<noteq> []" using good(4) by (auto simp: starts_with_def)
      show thesis
      proof (cases "res = RpcThrow")
        case True
        then show thesis using assms u Some v good ne hr acc thrown [of ?d a]
          by (auto simp: jsonrpc_handle_def Let_def ct_def [symmetric] case_prod_beta)
      next
        case False
        then show thesis using assms u Some v good ne hr acc answered [of ?d res a]
          by (auto simp: jsonrpc_handle_def Let_def ct_def [symmetric] case_prod_beta)
      qed
    qed
  qed
qed

interpretation cb_jsonrpc: http_callback "jsonrpc_handle HR" for HR :: "string \<Rightarrow> 'a \<Rightarrow> rpc_result \<times> 'a"
proof
  fix r s r' s' assume h: "jsonrpc_handle HR r s = (None, r', s')"
  from h show "rq_finished r' = Suc (rq_finished r) \<and> prefix (rq_out r) (rq_out r')"
    by (cases rule: jsonrpc_cases) (simp_all add: jsonrpc_respond_simps, metis jsonrpc_respond_simps(2))
next
  fix r s e r' s' assume "jsonrpc_handle HR r s = (Some e, r', s')"
  then show "rq_finished r' = rq_finished r \<and> rq_out r' = rq_out r"
    by (cases rule: jsonrpc_cases) simp_all
qed

interpretation cb_jpeg: http_callback "jpeg_handle cb t" for cb :: "'a \<Rightarrow> string \<times> 'a" and t
  by unfold_locales
    (auto simp: jpeg_handle_def Let_def split: option.splits prod.splits if_splits bool.splits)

interpretation cb_sensors: http_callback "sensors_handle E" for E
  by unfold_locales
    (auto simp: sensors_handle_def Let_def split: option.splits prod.splits sum.splits if_splits bool.splits)

subsection \<open>Properties\<close>

text \<open>
  C28. The JSON-RPC entry is guarded: the application's state changes only through a dispatcher call
  on a body of at most 16384 bytes, taken from a POST request with a JSON content type; a request
  that is refused leaves the application untouched and ends in an exception, and the handler
  answers itself exactly when the dispatcher did not throw.
\<close>

theorem jsonrpc_handle_guarded:
  assumes "jsonrpc_handle HR r s = (e, r', s')"
  shows "(m_app s' = m_app s \<and> e \<noteq> None) \<or>
    (\<exists>body res. rpc_accepts r body \<and> HR body (m_app s) = (res, m_app s') \<and>
       (e = None \<longleftrightarrow> res \<noteq> RpcThrow))"
  using assms by (cases rule: jsonrpc_cases) blast+

definition demo_request :: fcgx_request where
  "demo_request = \<lparr>rq_env = (\<lambda>k. Some (if k = ''REQUEST_METHOD'' then ''POST''
      else if k = ''CONTENT_LENGTH'' then ''2'' else if k = ''CONTENT_TYPE'' then ''application/json''
      else ''/api/v1'')), rq_in = ''{}'', rq_out = [], rq_finished = 0\<rparr>"

theorem jsonrpc_handle_guarded_witness:
  "\<exists>e r' s'. jsonrpc_handle (\<lambda>b n. (RpcNull, n + length b)) demo_request
      \<lparr>m_req_buf = [], m_req_str = [], m_app = 5\<rparr> = (e, r', s') \<and>
    ((m_app s' = 5 \<and> e \<noteq> None) \<or>
     (\<exists>body res. rpc_accepts demo_request body \<and>
        (RpcNull, 5 + length body) = (res, m_app s') \<and> (e = None \<longleftrightarrow> res \<noteq> RpcThrow)))"
proof -
  obtain e r' s' where h: "jsonrpc_handle (\<lambda>b n. (RpcNull, n + length b)) demo_request
      \<lparr>m_req_buf = [], m_req_str = [], m_app = 5\<rparr> = (e, r', s')" by (metis prod.exhaust)
  show ?thesis using jsonrpc_handle_guarded [OF h] h by auto
qed

definition sensor_uri_wf :: "sensor_uri \<Rightarrow> bool" where
  "sensor_uri_wf u = (case u of TypeList \<Rightarrow> True
     | OneType t \<Rightarrow> t \<noteq> [] \<and> list_all is_word t
     | SensorList t \<Rightarrow> t \<noteq> [] \<and> list_all is_word t
     | OneSensor t i \<Rightarrow> t \<noteq> [] \<and> list_all is_word t \<and> i \<noteq> [] \<and> list_all is_digit i)"

definition print_sensor_uri :: "sensor_uri \<Rightarrow> string" where
  "print_sensor_uri u = ''/api/v1/sensor_types'' @ (case u of TypeList \<Rightarrow> []
     | OneType t \<Rightarrow> ''/'' @ t
     | SensorList t \<Rightarrow> ''/'' @ t @ ''/sensors''
     | OneSensor t i \<Rightarrow> ''/'' @ t @ ''/sensors/'' @ i)"

lemma strip_append [simp]: "strip p (p @ s) = Some s"
  by (simp add: strip_def)

lemma strip_Some: "strip p s = Some r \<longleftrightarrow> s = p @ r"
  by (auto simp: strip_def) (metis append_take_drop_id)

lemma is_word_slash [simp]: "\<not> is_word (CHR ''/'')"
  by (simp add: is_word_def is_digit_def)

lemma word_run:
  assumes "list_all is_word t" and "r = [] \<or> hd r = CHR ''/''"
  shows "takeWhile is_word (t @ r) = t" and "dropWhile is_word (t @ r) = r"
  using assms by (induction t) (auto simp: list_all_iff, (cases r; simp)+)

lemma match_print: "sensor_uri_wf u \<Longrightarrow> match_sensor_uri (print_sensor_uri u) = Some u"
proof (cases u)
  case (OneSensor t i)
  assume wf: "sensor_uri_wf u"
  have "takeWhile is_word (t @ ''/sensors/'' @ i) = t"
    "dropWhile is_word (t @ ''/sensors/'' @ i) = ''/sensors/'' @ i"
    using wf OneSensor by (simp_all add: sensor_uri_wf_def word_run)
  moreover have "strip ''/sensors'' (''/sensors/'' @ i) = Some (''/'' @ i)"
    by (simp add: strip_def)
  ultimately show ?thesis
    using wf OneSensor by (simp add: match_sensor_uri_def print_sensor_uri_def sensor_uri_wf_def strip_def)
next
  case (SensorList t)
  assume "sensor_uri_wf u"
  then show ?thesis
    using SensorList word_run [of t "''/sensors''"]
    by (simp add: match_sensor_uri_def print_sensor_uri_def sensor_uri_wf_def strip_def)
next
  case (OneType t)
  assume "sensor_uri_wf u"
  then show ?thesis
    using OneType
    by (simp add: match_sensor_uri_def print_sensor_uri_def sensor_uri_wf_def strip_def list_all_iff
        takeWhile_eq_all_conv [THEN iffD2] Let_def)
qed (simp add: match_sensor_uri_def print_sensor_uri_def strip_def)

lemma match_sound:
  assumes "match_sensor_uri s = Some u"
  shows "sensor_uri_wf u \<and> s = print_sensor_uri u"
proof -
  obtain r where s: "s = ''/api/v1/sensor_types'' @ r"
    using assms by (auto simp: match_sensor_uri_def strip_Some split: bind_splits)
  show ?thesis
  proof (cases "r = []")
    case True
    then show ?thesis
      using assms s by (simp add: match_sensor_uri_def sensor_uri_wf_def print_sensor_uri_def
          strip_def split: if_splits)
  next
    case False
    define p where "p = ''/api/v1/sensor_types''"
    have m: "match_sensor_uri (p @ r) = Some u" using assms s by (simp add: p_def)
    then obtain r1 where r1: "r = ''/'' @ r1"
      using False by (auto simp: match_sensor_uri_def p_def [symmetric] strip_Some
          split: bind_splits)
    define ty where "ty = takeWhile is_word r1"
    define r2 where "r2 = dropWhile is_word r1"
    have r12: "r1 = ty @ r2" by (simp add: ty_def r2_def)
    have w: "list_all is_word ty" by (auto simp: ty_def list_all_iff dest: set_takeWhileD)
    have m1: "(if ty = [] then None else if r2 = [] then Some (OneType ty)
        else strip ''/sensors'' r2 \<bind> (\<lambda>r. if r = [] then Some (SensorList ty)
          else strip ''/'' r \<bind> (\<lambda>r. if r \<noteq> [] \<and> list_all is_digit r
            then Some (OneSensor ty r) else None))) = Some u"
      using m unfolding match_sensor_uri_def r1 p_def [symmetric] Let_def ty_def r2_def
      by (simp only: strip_append Option.bind.bind_lunit append_is_Nil_conv list.distinct simp_thms if_False)
    then show ?thesis
      using w unfolding s r1 r12
      by (auto simp: strip_Some sensor_uri_wf_def print_sensor_uri_def split: if_splits bind_splits)
  qed
qed

text \<open>
  C30. The sensor addresses form an unambiguous grammar: a document path matches with given groups
  if and only if it is the text of those groups, with a non-empty word as the type and a non-empty
  decimal number as the sensor.
\<close>

theorem match_sensor_uri_iff:
  "match_sensor_uri s = Some u \<longleftrightarrow> sensor_uri_wf u \<and> s = print_sensor_uri u"
  using match_print match_sound by blast

end
