(* ===== verification/Message_Servers.thy ===== *)
theory Message_Servers
  imports Thread_Base
begin

section \<open>The message servers: ZeroMQ and ZCM\<close>

text \<open>
  \<^verbatim>\<open>zeromq_api_svr.cpp\<close> and \<^verbatim>\<open>zcm_api_svr.cpp\<close> under \<^verbatim>\<open>src/opaleye/\<close>. The
  two libraries are arguments. A constructor or an option of the ZeroMQ library that fails throws, which
  is the \<^const>\<open>False\<close> of the argument; a send reports that the message went out, that it did not,
  or throws. The threads are \<^typ>\<open>thread_base\<close> objects.
\<close>

subsection \<open>ZeroMQ\<close>

datatype opt_val = OptInt int | OptStr string
datatype send_result = Sent | NotSent | SendError

record 'w zmq_lib =
  zl_context :: "'w \<Rightarrow> bool \<times> 'w"
  zl_socket :: "'w \<Rightarrow> bool \<times> 'w"
  zl_set :: "string \<Rightarrow> opt_val \<Rightarrow> 'w \<Rightarrow> bool \<times> 'w"
  zl_bind :: "string \<Rightarrow> 'w \<Rightarrow> bool \<times> 'w"
  zl_close_socket :: "'w \<Rightarrow> 'w"
  zl_close_context :: "'w \<Rightarrow> 'w"
  zl_send :: "string list \<Rightarrow> 'w \<Rightarrow> send_result \<times> 'w"

record zeromq_svr =
  zs_thread :: "thread_base option"
  zs_context :: bool
  zs_ep :: "string list"
  zs_socket :: bool

definition zeromq_new :: zeromq_svr where
  "zeromq_new = \<lparr>zs_thread = None, zs_context = False, zs_ep = [], zs_socket = False\<rparr>"

definition pub_options :: "(string \<times> opt_val) list" where
  "pub_options = [(''metadata'', OptStr ''X-Opaleye-api:1.0''), (''connect_timeout'', OptInt (5 * 1000)),
     (''ipv6'', OptInt 0), (''linger'', OptInt 0), (''maxmsgsize'', OptInt (50 * 1024 * 1024)),
     (''multicast_hops'', OptInt 1), (''rcvbuf'', OptInt (100 * 1024 * 1024)), (''rcvtimeo'', OptInt (10 * 1000)),
     (''sndbuf'', OptInt (100 * 1024 * 1024)), (''sndtimeo'', OptInt (10 * 1000)), (''rcvhwm'', OptInt 10),
     (''sndhwm'', OptInt 10)]"

fun set_options :: "'w zmq_lib \<Rightarrow> (string \<times> opt_val) list \<Rightarrow> 'w \<Rightarrow> bool \<times> 'w" where
  "set_options L [] w = (True, w)"
| "set_options L ((n, v) # os) w =
     (let (ok, w) = zl_set L n v w in if ok then set_options L os w else (False, w))"

definition zeromq_stop :: "'w zmq_lib \<Rightarrow> zeromq_svr \<Rightarrow> 'w \<Rightarrow> bool \<times> zeromq_svr \<times> 'w" where
  "zeromq_stop L z w =
     (let z = z\<lparr>zs_thread := None\<rparr>;
          (z, w) = (if zs_socket z then (z\<lparr>zs_socket := False\<rparr>, zl_close_socket L w) else (z, w));
          (z, w) = (if zs_context z then (z\<lparr>zs_context := False\<rparr>, zl_close_context L w) else (z, w))
      in (True, z, w))"

fun bind_all :: "'w zmq_lib \<Rightarrow> string list \<Rightarrow> 'w \<Rightarrow> bool \<times> 'w" where
  "bind_all L [] w = (True, w)"
| "bind_all L (e # es) w = (let (ok, w) = zl_bind L e w in if ok then bind_all L es w else (False, w))"

text \<open>An exception of the context, the socket or an option leaves what was created before it.\<close>

definition zeromq_init :: "'w zmq_lib \<Rightarrow> string list \<Rightarrow> zeromq_svr \<Rightarrow> 'w \<Rightarrow> bool outcome \<times> zeromq_svr \<times> 'w" where
  "zeromq_init L ep z w =
     (if zs_context z \<or> zs_socket z then (Ret False, z, w)
      else let (ok, w) = zl_context L w in
        if \<not> ok then (Throw ''zmq::error_t'', z, w)
        else let z = z\<lparr>zs_context := True\<rparr>; (ok, w) = zl_socket L w in
          if \<not> ok then (Throw ''zmq::error_t'', z, w)
          else let z = z\<lparr>zs_socket := True\<rparr>; (ok, w) = set_options L pub_options w in
            if \<not> ok then (Throw ''zmq::error_t'', z, w)
            else let z = z\<lparr>zs_ep := ep\<rparr>; (ok, w) = bind_all L ep w in
              if \<not> ok then let (_, z, w) = zeromq_stop L z w in (Ret False, z, w)
              else (Ret True, z\<lparr>zs_thread := Some (launch thread_base_new)\<rparr>, w))"

text \<open>The result stays empty when the send throws, so both paths report failure.\<close>

definition zeromq_send :: "'w zmq_lib \<Rightarrow> string \<Rightarrow> string \<Rightarrow> string \<Rightarrow> zeromq_svr \<Rightarrow> 'w \<Rightarrow> bool outcome \<times> 'w" where
  "zeromq_send L topic header payload z w =
     (if \<not> zs_socket z then (NullDeref, w)
      else let (res, w) = zl_send L [topic, header, payload] w; func_ret = True;
               func_ret = (if res = SendError then False else func_ret);
               func_ret = (if res \<noteq> Sent then False else func_ret)
        in (Ret func_ret, w))"

definition zeromq_inv :: "zeromq_svr \<Rightarrow> bool" where
  "zeromq_inv z \<longleftrightarrow> (zs_socket z \<longrightarrow> zs_context z) \<and>
     (\<forall>t. zs_thread z = Some t \<longrightarrow> zs_socket z \<and> th_joinable t \<and> \<not> is_interrupted t)"

lemma zeromq_stop_all: "\<exists>w'. zeromq_stop L z w = (True, zeromq_new\<lparr>zs_ep := zs_ep z\<rparr>, w')"
  by (simp add: zeromq_stop_def zeromq_new_def Let_def)

text \<open>
  C32. The ZeroMQ server is set up whole or not at all: starting from a stopped server, a success has
  the context, the socket bound to every end point in order and the running thread; a failure of a
  bind has released everything, so that the server can be initialised again; an exception leaves no
  thread behind. Every result keeps the invariant that the socket has its context and a thread its
  socket, and stopping from any state gives a stopped server.
\<close>

theorem zeromq_init_whole_or_none:
  assumes "zeromq_init L ep z w = (r, z', w')" and "zeromq_inv z" and "\<not> zs_context z" and "\<not> zs_socket z"
  shows "zeromq_inv z' \<and>
    (r = Ret True \<and> zs_socket z' \<and> zs_ep z' = ep \<and> (\<exists>t. zs_thread z' = Some t \<and> th_joinable t) \<and>
       (\<exists>w1. bind_all L ep w1 = (True, w')) \<or>
     r = Ret False \<and> zs_thread z' = None \<and> \<not> zs_socket z' \<and> \<not> zs_context z' \<or>
     (\<exists>e. r = Throw e) \<and> zs_thread z' = None) \<and>
    fst (snd (zeromq_stop L z' w'')) = zeromq_new\<lparr>zs_ep := zs_ep z'\<rparr>"
proof -
  obtain c w1 where c: "zl_context L w = (c, w1)" by fastforce
  obtain s w2 where s: "zl_socket L w1 = (s, w2)" by fastforce
  obtain p w3 where p: "set_options L pub_options w2 = (p, w3)" by fastforce
  obtain b w4 where b: "bind_all L ep w3 = (b, w4)" by fastforce
  obtain w5 where q: "zeromq_stop L (z\<lparr>zs_context := True, zs_socket := True, zs_ep := ep\<rparr>) w4 =
      (True, zeromq_new\<lparr>zs_ep := ep\<rparr>, w5)" 
    using zeromq_stop_all [of L "z\<lparr>zs_context := True, zs_socket := True, zs_ep := ep\<rparr>" w4] by auto
  have t: "zs_thread z = None" using assms(2,4) by (cases "zs_thread z") (auto simp: zeromq_inv_def)
  let ?z1 = "z\<lparr>zs_context := True\<rparr>" and ?z2 = "z\<lparr>zs_context := True, zs_socket := True\<rparr>"
    and ?z3 = "z\<lparr>zs_context := True, zs_socket := True, zs_ep := ep\<rparr>"
  have e: "(r, z', w') = (if \<not> c then (Throw ''zmq::error_t'', z, w1) else if \<not> s then (Throw ''zmq::error_t'', ?z1, w2)
      else if \<not> p then (Throw ''zmq::error_t'', ?z2, w3) else if \<not> b then (Ret False, zeromq_new\<lparr>zs_ep := ep\<rparr>, w5)
      else (Ret True, ?z3\<lparr>zs_thread := Some (launch thread_base_new)\<rparr>, w4))"
    using assms(1)
    by (cases c; cases s; cases p; cases b) (simp_all add: zeromq_init_def c s p b q assms(3,4) Let_def)
  have "fst (snd (zeromq_stop L z' w'')) = zeromq_new\<lparr>zs_ep := zs_ep z'\<rparr>"
    using zeromq_stop_all [of L z' w''] by auto
  moreover have "zeromq_inv z' \<and>
    (r = Ret True \<and> zs_socket z' \<and> zs_ep z' = ep \<and> (\<exists>t. zs_thread z' = Some t \<and> th_joinable t) \<and>
       (\<exists>w1. bind_all L ep w1 = (True, w')) \<or>
     r = Ret False \<and> zs_thread z' = None \<and> \<not> zs_socket z' \<and> \<not> zs_context z' \<or>
     (\<exists>e. r = Throw e) \<and> zs_thread z' = None)"
    using e b t assms(3,4)
    by (simp add: zeromq_inv_def zeromq_new_def launch_def thread_base_new_def is_interrupted_def split: if_splits)
      blast
  ultimately show ?thesis by blast
qed

definition demo_zmq :: "string list zmq_lib" where
  "demo_zmq = \<lparr>zl_context = \<lambda>w. (True, w), zl_socket = \<lambda>w. (True, w), zl_set = \<lambda>_ _ w. (True, w),
     zl_bind = \<lambda>e w. (e \<notin> set w, e # w), zl_close_socket = \<lambda>w. [], zl_close_context = \<lambda>w. w,
     zl_send = \<lambda>_ w. (Sent, w)\<rparr>"

theorem zeromq_init_whole_or_none_witness:
  "\<exists>z' w'. zeromq_init demo_zmq [''tcp://*:1'', ''tcp://*:1''] zeromq_new [] = (Ret False, z', w') \<and>
     zs_thread z' = None \<and> \<not> zs_socket z'"
proof -
  obtain z' w' where i: "zeromq_init demo_zmq [''tcp://*:1'', ''tcp://*:1''] zeromq_new [] = (Ret False, z', w')"
    by (simp add: zeromq_init_def zeromq_new_def demo_zmq_def pub_options_def zeromq_stop_def)
  have "zeromq_inv zeromq_new" by (simp add: zeromq_inv_def zeromq_new_def)
  from zeromq_init_whole_or_none [OF i this, of "[]"] i show ?thesis by (auto simp: zeromq_new_def)
qed

subsection \<open>ZCM\<close>

text \<open>
  The library's object and the two threads; what \<^verbatim>\<open>stop\<close> does is recorded in order, since the
  thread that runs the library's loop comes back from it only when the loop was told to stop.
\<close>

datatype zcm_event = Interrupt_hb | Join_hb | Interrupt_run | Zcm_stop | Join_run | Release

record zcm_svr =
  zc_zcm :: bool
  zc_run :: "thread_base option"
  zc_hb :: "thread_base option"
  zc_ep :: string

definition zcm_new :: zcm_svr where
  "zcm_new = \<lparr>zc_zcm = False, zc_run = None, zc_hb = None, zc_ep = []\<rparr>"

definition zcm_init :: "string \<Rightarrow> zcm_svr \<Rightarrow> bool \<times> zcm_svr" where
  "zcm_init ep z =
     (if zc_zcm z then (False, z)
      else (True, z\<lparr>zc_ep := ep, zc_zcm := True, zc_run := Some (launch thread_base_new),
        zc_hb := Some (launch thread_base_new)\<rparr>))"

definition zcm_stop :: "zcm_svr \<Rightarrow> bool \<times> zcm_svr \<times> zcm_event list" where
  "zcm_stop z =
     (let (z, es) = (if zc_hb z \<noteq> None then (z\<lparr>zc_hb := None\<rparr>, [Interrupt_hb, Join_hb]) else (z, []));
          (z, es) = (case zc_run z of Some t \<Rightarrow> (z\<lparr>zc_run := Some (interrupt t)\<rparr>, es @ [Interrupt_run]) | None \<Rightarrow> (z, es));
          es = (if zc_zcm z then es @ [Zcm_stop] else es);
          (z, es) = (if zc_run z \<noteq> None then (z\<lparr>zc_run := None\<rparr>, es @ [Join_run]) else (z, es));
          (z, es) = (if zc_zcm z then (z\<lparr>zc_zcm := False\<rparr>, es @ [Release]) else (z, es))
      in (True, z, es))"

text \<open>
  The thread that runs the loop: before its test of the flag, inside the library's loop, gone. The
  library's loop returns once it was told to stop.
\<close>

datatype run_loc = AtTest | InRun | Gone

record run_state =
  rs_loc :: run_loc
  rs_interrupted :: bool
  rs_stopped :: bool

inductive run_step :: "run_state \<Rightarrow> run_state \<Rightarrow> bool" where
  enter_run: "rs_loc s = AtTest \<Longrightarrow> \<not> rs_interrupted s \<Longrightarrow> run_step s (s\<lparr>rs_loc := InRun\<rparr>)"
| leave_work: "rs_loc s = AtTest \<Longrightarrow> rs_interrupted s \<Longrightarrow> run_step s (s\<lparr>rs_loc := Gone\<rparr>)"
| run_returns: "rs_loc s = InRun \<Longrightarrow> rs_stopped s \<Longrightarrow> run_step s (s\<lparr>rs_loc := AtTest\<rparr>)"

inductive_simps run_step_simps: "run_step s s'"

definition run_dist :: "run_state \<Rightarrow> nat" where
  "run_dist s = (case rs_loc s of InRun \<Rightarrow> 2 | AtTest \<Rightarrow> 1 | Gone \<Rightarrow> 0)"

lemma run_step_told:
  "run_step s s' \<Longrightarrow> rs_interrupted s \<Longrightarrow> rs_stopped s \<Longrightarrow>
     run_dist s = Suc (run_dist s') \<and> rs_interrupted s' \<and> rs_stopped s'"
  by (auto simp: run_step_simps run_dist_def)

lemma run_steps_told:
  "(run_step ^^ n) s s' \<Longrightarrow> rs_interrupted s \<Longrightarrow> rs_stopped s \<Longrightarrow>
     run_dist s = n + run_dist s' \<and> rs_interrupted s' \<and> rs_stopped s'"
proof (induction n arbitrary: s')
  case (Suc n)
  then obtain y where y: "(run_step ^^ n) s y" "run_step y s'" by auto
  from Suc.IH [OF y(1) Suc.prems(2,3)] run_step_told [OF y(2)] show ?case by simp
qed simp

lemma run_step_exists: "rs_interrupted s \<Longrightarrow> rs_stopped s \<Longrightarrow> rs_loc s \<noteq> Gone \<Longrightarrow> \<exists>s'. run_step s s'"
  by (cases "rs_loc s") (auto simp: run_step_simps)

lemma run_to_end:
  "rs_interrupted s \<Longrightarrow> rs_stopped s \<Longrightarrow> \<exists>s'. (run_step ^^ run_dist s) s s' \<and> rs_loc s' = Gone"
proof (induction "run_dist s" arbitrary: s)
  case 0
  then show ?case by (cases "rs_loc s") (auto simp: run_dist_def)
next
  case (Suc n)
  then have "rs_loc s \<noteq> Gone" by (auto simp: run_dist_def)
  then obtain s1 where s1: "run_step s s1" using run_step_exists Suc.prems by blast
  note t = run_step_told [OF s1 Suc.prems]
  with Suc.hyps(2) have n: "n = run_dist s1" by simp
  obtain s' where "(run_step ^^ n) s1 s'" "rs_loc s' = Gone" using Suc.hyps(1) [OF n] t n by blast
  then show ?case using relpowp_Suc_I2 [of run_step, OF s1] unfolding Suc.hyps(2) [symmetric] by blast
qed



end
