(* ===== verification/V4l2_Util.thy ===== *)
theory V4l2_Util
  imports Opaleye_Prelude
begin

unbundle bit_operations_syntax

section \<open>The V4L2 helper: \<^verbatim>\<open>v4l2_util\<close>\<close>

text \<open>
  \<^verbatim>\<open>src/libs/camera-pipes/util/v4l2_util.hpp\<close> and \<^verbatim>\<open>v4l2_util.cpp\<close>: the
  formats, controls and menus of a camera. The kernel is an argument, a record with one function
  per \<^verbatim>\<open>ioctl\<close> request over its state \<open>'w\<close>; a call takes the argument struct and
  returns the result, \<^verbatim>\<open>errno\<close>, the struct as the kernel left it and the new state. The
  capability struct is its \<^verbatim>\<open>capabilities\<close> word. The
  request and control numbers are those of \<^verbatim>\<open>linux/videodev2.h\<close> and
  \<^verbatim>\<open>linux/v4l2-controls.h\<close>.

  A loop that the driver can keep going for ever (the \<^verbatim>\<open>EINTR\<close> retry, the enumerations,
  a menu scan with step 0) is a \<^verbatim>\<open>partial_function\<close>: \<^const>\<open>None\<close> means that it does
  not return. The theorems below that it returns are over drivers with the documented behaviour.
\<close>

subsection \<open>Kernel interface\<close>

definition EINTR :: int where "EINTR = 4"
definition EINVAL :: int where "EINVAL = 22"
definition V4L2_CID_BASE :: u32 where "V4L2_CID_BASE = 0x00980900"
definition V4L2_CTRL_FLAG_NEXT_CTRL :: u32 where "V4L2_CTRL_FLAG_NEXT_CTRL = 0x80000000"
definition V4L2_CTRL_WHICH_CUR_VAL :: u32 where "V4L2_CTRL_WHICH_CUR_VAL = 0"
definition V4L2_CTRL_WHICH_DEF_VAL :: u32 where "V4L2_CTRL_WHICH_DEF_VAL = 0x0f000000"

record v4l2_fmtdesc =
  fmt_index :: u32
  fmt_type :: u32
  fmt_flags :: u32
  fmt_description :: string
  fmt_pixelformat :: u32

text \<open>
  \<^verbatim>\<open>v4l2_ext_control\<close>: the union of \<^verbatim>\<open>value\<close> and \<^verbatim>\<open>value64\<close> is its eight
  bytes, as a little-endian word; where the code stores a pointer there, \<open>ec_buf\<close> is the array
  the pointer designates. In \<^verbatim>\<open>v4l2_ext_controls\<close> the members \<^verbatim>\<open>which\<close> and
  \<^verbatim>\<open>ctrl_class\<close> are one anonymous union of two \<^verbatim>\<open>__u32\<close>, hence one field here.
\<close>

record v4l2_ext_control =
  ec_id :: u32
  ec_size :: u32
  ec_union :: u64
  ec_buf :: bytes

record v4l2_ext_controls =
  ecs_which :: u32
  ecs_count :: u32
  ecs_controls :: v4l2_ext_control

record v4l2_query_ext_ctrl =
  q_id :: u32
  q_type :: u32
  q_name :: string
  q_minimum :: int
  q_maximum :: int
  q_step :: u64
  q_default_value :: int
  q_flags :: u32

record v4l2_querymenu =
  qm_id :: u32
  qm_index :: u32
  qm_name :: string

type_synonym ('a, 'w) ioctl_call = "'a \<Rightarrow> 'w \<Rightarrow> int \<times> int \<times> 'a \<times> 'w"

record 'w v4l2_dev =
  io_req :: "int \<Rightarrow> (int, 'w) ioctl_call"
  io_enum_fmt :: "int \<Rightarrow> (v4l2_fmtdesc, 'w) ioctl_call"
  io_s_ext_ctrls :: "int \<Rightarrow> (v4l2_ext_controls, 'w) ioctl_call"
  io_g_ext_ctrls :: "int \<Rightarrow> (v4l2_ext_controls, 'w) ioctl_call"
  io_querycap :: "int \<Rightarrow> (u32, 'w) ioctl_call"
  io_query_ext_ctrl :: "int \<Rightarrow> (v4l2_query_ext_ctrl, 'w) ioctl_call"
  io_querymenu :: "int \<Rightarrow> (v4l2_querymenu, 'w) ioctl_call"

record v4l2_util =
  m_v4l2_fd :: int
  m_fmt_descs :: "v4l2_fmtdesc list"
  m_device_ctrl :: "(u32 \<times> v4l2_query_ext_ctrl) list"
  m_device_ctrl_by_name :: "string \<rightharpoonup> u32"
  m_menu_entries :: "u32 \<rightharpoonup> (int \<times> v4l2_querymenu) list"

definition v4l2_util_new :: v4l2_util where
  "v4l2_util_new = \<lparr>m_v4l2_fd = - 1, m_fmt_descs = [], m_device_ctrl = [],
     m_device_ctrl_by_name = Map.empty, m_menu_entries = Map.empty\<rparr>"

definition set_fd :: "int \<Rightarrow> v4l2_util \<Rightarrow> v4l2_util" where
  "set_fd fd u = u\<lparr>m_v4l2_fd := fd\<rparr>"

subsection \<open>Names of codes\<close>

definition fourcc_to_str :: "u32 \<Rightarrow> string" where
  "fourcc_to_str fcc =
     map (\<lambda>b. char_of (unat (b :: u32)))
       [drop_bit 0 (fcc AND 0x000000FF), drop_bit 8 (fcc AND 0x0000FF00),
        drop_bit 16 (fcc AND 0x00FF0000), drop_bit 24 (fcc AND 0xFF000000)]"

definition v4l2_field_to_str :: "u32 \<Rightarrow> string" where
  "v4l2_field_to_str v =
     (if v = 0 then ''ANY'' else if v = 1 then ''NONE'' else if v = 2 then ''TOP''
      else if v = 3 then ''BOTTOM'' else if v = 4 then ''INTERLACED'' else if v = 5 then ''SEQ_TB''
      else if v = 6 then ''SEQ_BT'' else if v = 7 then ''ALTERNATE''
      else if v = 8 then ''INTERLACED_TB'' else if v = 9 then ''INTERLACED_BT''
      else ''UNKNOWN'')"

definition v4l2_colorspace_to_str :: "u32 \<Rightarrow> string" where
  "v4l2_colorspace_to_str v =
     (if v = 0 then ''DEFAULT'' else if v = 1 then ''SMPTE170M'' else if v = 3 then ''REC709''
      else if v = 8 then ''SRGB'' else if v = 9 then ''ADOBERGB'' else if v = 10 then ''BT2020''
      else if v = 12 then ''DCI_P3'' else if v = 2 then ''SMPTE240M''
      else if v = 5 then ''470_SYSTEM_M'' else if v = 6 then ''470_SYSTEM_BG''
      else if v = 7 then ''JPEG'' else if v = 11 then ''RAW'' else ''UNKNOWN'')"

definition v4l2_ycbcr_encoding_to_str :: "u32 \<Rightarrow> string" where
  "v4l2_ycbcr_encoding_to_str v =
     (if v = 0 then ''DEFAULT'' else if v = 1 then ''601'' else if v = 2 then ''709''
      else if v = 3 then ''XV601'' else if v = 4 then ''XV709'' else if v = 6 then ''BT2020''
      else if v = 7 then ''BT2020_CONST_LUM'' else if v = 8 then ''SMPTE_240M''
      else ''UNKNOWN'')"

definition v4l2_hsv_encoding_to_str :: "u8 \<Rightarrow> string" where
  "v4l2_hsv_encoding_to_str v =
     (if v = 128 then ''180'' else if v = 129 then ''256'' else ''UNKNOWN'')"

definition v4l2_quantization_to_str :: "u8 \<Rightarrow> string" where
  "v4l2_quantization_to_str v =
     (if v = 0 then ''DEFAULT'' else if v = 1 then ''FULL_RANGE'' else if v = 2 then ''LIM_RANGE''
      else ''UNKNOWN'')"

definition v4l2_xfer_func_to_str :: "u8 \<Rightarrow> string" where
  "v4l2_xfer_func_to_str v =
     (if v = 0 then ''DEFAULT'' else if v = 1 then ''709'' else if v = 2 then ''SRGB''
      else if v = 3 then ''ADOBERGB'' else if v = 4 then ''SMPTE240M'' else if v = 5 then ''NONE''
      else if v = 6 then ''DCI_P3'' else if v = 7 then ''SMPTE2084'' else ''UNKNOWN'')"

subsection \<open>Requests and format enumeration\<close>

text \<open>
  Both overloads of \<^verbatim>\<open>ioctl_helper\<close> are this loop: \<open>call\<close> is
  \<^verbatim>\<open>ioctl(m_v4l2_fd, req, arg)\<close>, the first overload calls \<open>io_req\<close> with the
  request number as the argument.
\<close>

partial_function (option) ioctl_helper ::
    "('a \<Rightarrow> 'w \<Rightarrow> int \<times> int \<times> 'a \<times> 'w) \<Rightarrow> 'a \<Rightarrow> 'w \<Rightarrow> (int \<times> int \<times> 'a \<times> 'w) option" where
  "ioctl_helper call arg w = (case call arg w of (ret, err, arg', w') \<Rightarrow>
     if ret = - 1 \<and> err = EINTR then ioctl_helper call arg' w' else Some (ret, err, arg', w'))"

definition ioctl_helper_req ::
    "'w v4l2_dev \<Rightarrow> v4l2_util \<Rightarrow> int \<Rightarrow> 'w \<Rightarrow> (int \<times> int \<times> int \<times> 'w) option" where
  "ioctl_helper_req dev u req w = ioctl_helper (\<lambda>_. io_req dev (m_v4l2_fd u) req) req w"

definition fmt_query :: "u32 \<Rightarrow> u32 \<Rightarrow> v4l2_fmtdesc" where
  "fmt_query buf_type i = \<lparr>fmt_index = i, fmt_type = buf_type, fmt_flags = 0,
     fmt_description = [], fmt_pixelformat = 0\<rparr>"

partial_function (option) enum_fmt_loop ::
    "'w v4l2_dev \<Rightarrow> int \<Rightarrow> u32 \<Rightarrow> u32 \<Rightarrow> v4l2_fmtdesc list \<Rightarrow> 'w
     \<Rightarrow> (bool \<times> v4l2_fmtdesc list \<times> 'w) option" where
  "enum_fmt_loop dev fd buf_type i fmts w =
     (case ioctl_helper (io_enum_fmt dev fd) (fmt_query buf_type i) w of
        None \<Rightarrow> None
      | Some (ret, err, fmt, w') \<Rightarrow>
          if ret = - 1 then
            (if err = EINVAL then Some (True, fmts, w') else Some (False, [], w'))
          else enum_fmt_loop dev fd buf_type (i + 1) (fmts @ [fmt]) w')"

definition enum_format_descs ::
    "'w v4l2_dev \<Rightarrow> u32 \<Rightarrow> v4l2_util \<Rightarrow> 'w \<Rightarrow> (bool \<times> v4l2_util \<times> 'w) option" where
  "enum_format_descs dev buf_type u w =
     (case enum_fmt_loop dev (m_v4l2_fd u) buf_type 0 [] w of
        None \<Rightarrow> None
      | Some (ok, fmts, w') \<Rightarrow> Some (ok, u\<lparr>m_fmt_descs := fmts\<rparr>, w'))"


subsection \<open>Reading and writing controls\<close>

text \<open>
  The in-memory form of the values, on the little-endian targets of the program.
\<close>

definition store_s32 :: "int \<Rightarrow> u64" where
  "store_s32 x = ucast (word_of_int x :: u32)"

definition load_s32 :: "u64 \<Rightarrow> int" where
  "load_s32 m = sint (ucast m :: u32)"

definition store_s64 :: "int \<Rightarrow> u64" where
  "store_s64 x = word_of_int x"

definition load_s64 :: "u64 \<Rightarrow> int" where
  "load_s64 m = sint m"

definition bytes_of :: "nat \<Rightarrow> 'a::len word \<Rightarrow> bytes" where
  "bytes_of n x = map (\<lambda>i. ucast (drop_bit (8 * i) x)) [0..<n]"

fun of_bytes :: "bytes \<Rightarrow> 'a::len word" where
  "of_bytes [] = 0"
| "of_bytes (b # bs) = ucast b OR push_bit 8 (of_bytes bs)"

definition ext_ctrl_set :: "'w v4l2_dev \<Rightarrow> v4l2_util \<Rightarrow> v4l2_ext_control \<Rightarrow> 'w \<Rightarrow> bool \<times> 'w" where
  "ext_ctrl_set dev u ctrl w =
     (let ctrls = \<lparr>ecs_which = V4L2_CTRL_WHICH_CUR_VAL, ecs_count = 0, ecs_controls = ctrl\<rparr>;
          ctrls = ctrls\<lparr>ecs_which := 0\<rparr>;
          ctrls = ctrls\<lparr>ecs_count := 1\<rparr>;
          (ret, _, _, w') = io_s_ext_ctrls dev (m_v4l2_fd u) ctrls w
      in (\<not> ret < 0, w'))"

text \<open>
  \<^verbatim>\<open>ctrls.ctrl_class = 0\<close> after \<^verbatim>\<open>ctrls.which = which\<close> writes the same union
  member, as the source has it.
\<close>

definition ext_ctrl_get ::
    "'w v4l2_dev \<Rightarrow> v4l2_util \<Rightarrow> u32 \<Rightarrow> v4l2_ext_control \<Rightarrow> 'w
     \<Rightarrow> bool \<times> v4l2_ext_control \<times> 'w" where
  "ext_ctrl_get dev u which ctrl w =
     (let ctrls = \<lparr>ecs_which = which, ecs_count = 0, ecs_controls = ctrl\<rparr>;
          ctrls = ctrls\<lparr>ecs_which := 0\<rparr>;
          ctrls = ctrls\<lparr>ecs_count := 1\<rparr>;
          (ret, _, ctrls', w') = io_g_ext_ctrls dev (m_v4l2_fd u) ctrls w
      in (\<not> ret < 0, ecs_controls ctrls', w'))"

definition ext_control0 :: "u32 \<Rightarrow> u32 \<Rightarrow> v4l2_ext_control" where
  "ext_control0 cid sz = \<lparr>ec_id = cid, ec_size = sz, ec_union = 0, ec_buf = []\<rparr>"

definition v4l2_ctrl_set_bool :: "'w v4l2_dev \<Rightarrow> v4l2_util \<Rightarrow> u32 \<Rightarrow> bool \<Rightarrow> 'w \<Rightarrow> bool \<times> 'w" where
  "v4l2_ctrl_set_bool dev u cid val w =
     ext_ctrl_set dev u ((ext_control0 cid 0)\<lparr>ec_union := store_s32 (if val then 1 else 0)\<rparr>) w"

definition v4l2_ctrl_set_s32 :: "'w v4l2_dev \<Rightarrow> v4l2_util \<Rightarrow> u32 \<Rightarrow> int \<Rightarrow> 'w \<Rightarrow> bool \<times> 'w" where
  "v4l2_ctrl_set_s32 dev u cid val w =
     ext_ctrl_set dev u ((ext_control0 cid 0)\<lparr>ec_union := store_s32 val\<rparr>) w"

definition v4l2_ctrl_set_s64 :: "'w v4l2_dev \<Rightarrow> v4l2_util \<Rightarrow> u32 \<Rightarrow> int \<Rightarrow> 'w \<Rightarrow> bool \<times> 'w" where
  "v4l2_ctrl_set_s64 dev u cid val w =
     ext_ctrl_set dev u ((ext_control0 cid 0)\<lparr>ec_union := store_s64 val\<rparr>) w"

definition v4l2_ctrl_set_u8 :: "'w v4l2_dev \<Rightarrow> v4l2_util \<Rightarrow> u32 \<Rightarrow> u8 \<Rightarrow> 'w \<Rightarrow> bool \<times> 'w" where
  "v4l2_ctrl_set_u8 dev u cid val w =
     ext_ctrl_set dev u ((ext_control0 cid 1)\<lparr>ec_buf := bytes_of 1 val\<rparr>) w"

definition v4l2_ctrl_set_u16 :: "'w v4l2_dev \<Rightarrow> v4l2_util \<Rightarrow> u32 \<Rightarrow> u16 \<Rightarrow> 'w \<Rightarrow> bool \<times> 'w" where
  "v4l2_ctrl_set_u16 dev u cid val w =
     ext_ctrl_set dev u ((ext_control0 cid 2)\<lparr>ec_buf := bytes_of 2 val\<rparr>) w"

definition v4l2_ctrl_set_u32 :: "'w v4l2_dev \<Rightarrow> v4l2_util \<Rightarrow> u32 \<Rightarrow> u32 \<Rightarrow> 'w \<Rightarrow> bool \<times> 'w" where
  "v4l2_ctrl_set_u32 dev u cid val w =
     ext_ctrl_set dev u ((ext_control0 cid 4)\<lparr>ec_buf := bytes_of 4 val\<rparr>) w"

text \<open>A getter that returns false leaves \<^verbatim>\<open>*out_val\<close> alone: \<^const>\<open>None\<close>.\<close>

definition v4l2_ctrl_get_bool ::
    "'w v4l2_dev \<Rightarrow> v4l2_util \<Rightarrow> u32 \<Rightarrow> u32 \<Rightarrow> 'w \<Rightarrow> bool option \<times> 'w" where
  "v4l2_ctrl_get_bool dev u cid which w =
     (let (ok, c, w') = ext_ctrl_get dev u which (ext_control0 cid 0) w
      in (if ok then Some (load_s32 (ec_union c) \<noteq> 0) else None, w'))"

definition v4l2_ctrl_get_s32 ::
    "'w v4l2_dev \<Rightarrow> v4l2_util \<Rightarrow> u32 \<Rightarrow> u32 \<Rightarrow> 'w \<Rightarrow> int option \<times> 'w" where
  "v4l2_ctrl_get_s32 dev u cid which w =
     (let (ok, c, w') = ext_ctrl_get dev u which (ext_control0 cid 0) w
      in (if ok then Some (load_s32 (ec_union c)) else None, w'))"

definition v4l2_ctrl_get_s64 ::
    "'w v4l2_dev \<Rightarrow> v4l2_util \<Rightarrow> u32 \<Rightarrow> u32 \<Rightarrow> 'w \<Rightarrow> int option \<times> 'w" where
  "v4l2_ctrl_get_s64 dev u cid which w =
     (let (ok, c, w') = ext_ctrl_get dev u which (ext_control0 cid 0) w
      in (if ok then Some (load_s64 (ec_union c)) else None, w'))"

definition v4l2_ctrl_get_u8 ::
    "'w v4l2_dev \<Rightarrow> v4l2_util \<Rightarrow> u32 \<Rightarrow> u32 \<Rightarrow> 'w \<Rightarrow> u8 option \<times> 'w" where
  "v4l2_ctrl_get_u8 dev u cid which w =
     (let (ok, c, w') = ext_ctrl_get dev u which ((ext_control0 cid 1)\<lparr>ec_buf := [0]\<rparr>) w
      in (if ok then Some (of_bytes (ec_buf c)) else None, w'))"

definition v4l2_ctrl_get_u16 ::
    "'w v4l2_dev \<Rightarrow> v4l2_util \<Rightarrow> u32 \<Rightarrow> u32 \<Rightarrow> 'w \<Rightarrow> u16 option \<times> 'w" where
  "v4l2_ctrl_get_u16 dev u cid which w =
     (let (ok, c, w') = ext_ctrl_get dev u which ((ext_control0 cid 2)\<lparr>ec_buf := [0, 0]\<rparr>) w
      in (if ok then Some (of_bytes (ec_buf c)) else None, w'))"

definition v4l2_ctrl_get_u32 ::
    "'w v4l2_dev \<Rightarrow> v4l2_util \<Rightarrow> u32 \<Rightarrow> u32 \<Rightarrow> 'w \<Rightarrow> u32 option \<times> 'w" where
  "v4l2_ctrl_get_u32 dev u cid which w =
     (let (ok, c, w') = ext_ctrl_get dev u which ((ext_control0 cid 4)\<lparr>ec_buf := [0, 0, 0, 0]\<rparr>) w
      in (if ok then Some (of_bytes (ec_buf c)) else None, w'))"

subsection \<open>Probing the controls\<close>

definition V4L2_CTRL_TYPE_MENU :: u32 where "V4L2_CTRL_TYPE_MENU = 3"
definition V4L2_CTRL_TYPE_INTEGER_MENU :: u32 where "V4L2_CTRL_TYPE_INTEGER_MENU = 9"

definition is_menu_ctrl :: "v4l2_query_ext_ctrl \<Rightarrow> bool" where
  "is_menu_ctrl c \<longleftrightarrow> q_type c = V4L2_CTRL_TYPE_MENU \<or> q_type c = V4L2_CTRL_TYPE_INTEGER_MENU"

definition ctrl_query :: "u32 \<Rightarrow> v4l2_query_ext_ctrl" where
  "ctrl_query cid = \<lparr>q_id = cid, q_type = 0, q_name = [], q_minimum = 0, q_maximum = 0, q_step = 0,
     q_default_value = 0, q_flags = 0\<rparr>"

definition menu_query :: "u32 \<Rightarrow> int \<Rightarrow> v4l2_querymenu" where
  "menu_query cid i = \<lparr>qm_id = cid, qm_index = word_of_int i, qm_name = []\<rparr>"

definition add_ctrl :: "v4l2_query_ext_ctrl \<Rightarrow> v4l2_util \<Rightarrow> v4l2_util" where
  "add_ctrl c u = u\<lparr>m_device_ctrl := smap_insert (q_id c) c (m_device_ctrl u),
     m_device_ctrl_by_name := map_insert (q_name c) (q_id c) (m_device_ctrl_by_name u)\<rparr>"

partial_function (option) query_ctrls ::
    "'w v4l2_dev \<Rightarrow> u32 \<Rightarrow> v4l2_util \<Rightarrow> 'w \<Rightarrow> (bool \<times> v4l2_util \<times> 'w) option" where
  "query_ctrls dev current_ctrl_id u w =
     (case io_query_ext_ctrl dev (m_v4l2_fd u) (ctrl_query current_ctrl_id) w of
        (ret, err, c, w') \<Rightarrow>
          if ret < 0 then Some (err = EINVAL, u, w')
          else query_ctrls dev (q_id c OR V4L2_CTRL_FLAG_NEXT_CTRL) (add_ctrl c u) w')"

text \<open>\<^verbatim>\<open>i += ctrl.second.step\<close> is computed in \<^verbatim>\<open>uint64_t\<close> and converted back.\<close>

partial_function (option) query_menu ::
    "'w v4l2_dev \<Rightarrow> int \<Rightarrow> v4l2_query_ext_ctrl \<Rightarrow> int \<Rightarrow> (int \<times> v4l2_querymenu) list \<Rightarrow> 'w
     \<Rightarrow> (bool \<times> (int \<times> v4l2_querymenu) list \<times> 'w) option" where
  "query_menu dev fd c i ents w =
     (if i \<le> q_maximum c then
        (case io_querymenu dev fd (menu_query (q_id c) i) w of (ret, _, menu, w') \<Rightarrow>
           if ret < 0 then query_menu dev fd c (to_s64 (i + uint (q_step c))) ents w'
           else if is_menu_ctrl c
             then query_menu dev fd c (to_s64 (i + uint (q_step c))) (smap_insert i menu ents) w'
           else Some (False, smap_insert i menu ents, w'))
      else Some (True, ents, w))"

fun query_menus ::
    "'w v4l2_dev \<Rightarrow> (u32 \<times> v4l2_query_ext_ctrl) list \<Rightarrow> v4l2_util \<Rightarrow> 'w
     \<Rightarrow> (bool \<times> v4l2_util \<times> 'w) option" where
  "query_menus dev [] u w = Some (True, u, w)"
| "query_menus dev ((_, c) # cs) u w =
     (if is_menu_ctrl c then
        (let ents = (case m_menu_entries u (q_id c) of None \<Rightarrow> [] | Some es \<Rightarrow> es) in
         case query_menu dev (m_v4l2_fd u) c (q_minimum c) ents w of
           None \<Rightarrow> None
         | Some (ok, es, w') \<Rightarrow>
             (let u' = u\<lparr>m_menu_entries := (m_menu_entries u)(q_id c \<mapsto> es)\<rparr> in
              if ok then query_menus dev cs u' w' else Some (False, u', w')))
      else query_menus dev cs u w)"

definition v4l2_probe_ctrl ::
    "'w v4l2_dev \<Rightarrow> v4l2_util \<Rightarrow> 'w \<Rightarrow> (bool \<times> v4l2_util \<times> 'w) option" where
  "v4l2_probe_ctrl dev u w =
     (let u = u\<lparr>m_device_ctrl := [], m_device_ctrl_by_name := Map.empty,
                m_menu_entries := Map.empty\<rparr>;
          (ret, _, _, w) = io_querycap dev (m_v4l2_fd u) 0 w in
      if ret < 0 then Some (False, u, w)
      else case query_ctrls dev V4L2_CID_BASE u w of
          None \<Rightarrow> None
        | Some (ok, u, w) \<Rightarrow>
            if \<not> ok then Some (False, u, w)
            else query_menus dev (m_device_ctrl u) (u\<lparr>m_menu_entries := Map.empty\<rparr>) w)"

definition get_ctrl_id_by_name :: "v4l2_util \<Rightarrow> string \<Rightarrow> u32 option" where
  "get_ctrl_id_by_name u name = m_device_ctrl_by_name u name"

definition get_ctrl_by_id :: "v4l2_util \<Rightarrow> u32 \<Rightarrow> v4l2_query_ext_ctrl option" where
  "get_ctrl_by_id u cid = map_of (m_device_ctrl u) cid"

definition get_ctrl_by_name :: "v4l2_util \<Rightarrow> string \<Rightarrow> v4l2_query_ext_ctrl option" where
  "get_ctrl_by_name u name =
     (case get_ctrl_id_by_name u name of None \<Rightarrow> None | Some cid \<Rightarrow> get_ctrl_by_id u cid)"


subsection \<open>The description of the controls\<close>

text \<open>
  The JSON document of \<^verbatim>\<open>get_property_description\<close>, which is written to the log.
  \<open>JIndet\<close> is a member whose C++ variable was never assigned, because the getter failed and
  its result is ignored. The outcome \<^const>\<open>None\<close> stands for undefined behaviour: the
  dereference of \<^verbatim>\<open>m_menu_entries.end()\<close>.
\<close>

datatype jval = JInt int | JBool bool | JStr string | JIndet | JArr "jval list"
  | JObj "(string \<times> jval) list"

definition jint_opt :: "int option \<Rightarrow> jval" where
  "jint_opt v = (case v of None \<Rightarrow> JIndet | Some x \<Rightarrow> JInt x)"

definition jbool_opt :: "bool option \<Rightarrow> jval" where
  "jbool_opt v = (case v of None \<Rightarrow> JIndet | Some x \<Rightarrow> JBool x)"

definition u32_conv :: "int \<Rightarrow> int" where
  "u32_conv x = x mod 2 ^ 32"

definition menu_desc :: "(int \<times> v4l2_querymenu) list \<Rightarrow> jval" where
  "menu_desc es = JArr (map (\<lambda>(_, m).
     JObj [(''name'', JStr (qm_name m)), (''index'', JInt (uint (qm_index m)))]) es)"

definition common_desc :: "v4l2_query_ext_ctrl \<Rightarrow> (string \<times> jval) list" where
  "common_desc c =
     [(''id'', JInt (uint (q_id c))), (''type'', JInt (uint (q_type c))), (''name'', JStr (q_name c))]"

text \<open>One turn of the loop: \<^term>\<open>Some (None, w)\<close> is the unknown type, which ends it.\<close>

definition ctrl_desc ::
    "'w v4l2_dev \<Rightarrow> v4l2_util \<Rightarrow> v4l2_query_ext_ctrl \<Rightarrow> 'w \<Rightarrow> (jval option \<times> 'w) option" where
  "ctrl_desc dev u c w =
     (if q_type c = 1 then
        (let (v, w) = v4l2_ctrl_get_s32 dev u (q_id c) V4L2_CTRL_WHICH_CUR_VAL w in
         Some (Some (JObj (common_desc c @
           [(''value'', jint_opt v), (''default_value'', JInt (q_default_value c)),
            (''minimum'', JInt (q_minimum c)), (''maximum'', JInt (q_maximum c)),
            (''step'', JInt (u32_conv (uint (q_step c))))])), w))
      else if q_type c = 2 then
        (let (v, w) = v4l2_ctrl_get_bool dev u (q_id c) V4L2_CTRL_WHICH_CUR_VAL w in
         Some (Some (JObj (common_desc c @
           [(''value'', jbool_opt v), (''default_value'', JInt (q_default_value c))])), w))
      else if is_menu_ctrl c then
        (let (v, w) = v4l2_ctrl_get_s32 dev u (q_id c) V4L2_CTRL_WHICH_CUR_VAL w in
         case m_menu_entries u (q_id c) of
           None \<Rightarrow> None
         | Some es \<Rightarrow> Some (Some (JObj (common_desc c @
             [(''value'', jint_opt v), (''default_value'', JInt (q_default_value c)),
              (''enum'', menu_desc es)])), w))
      else if q_type c = 5 then
        (let (v, w) = v4l2_ctrl_get_s64 dev u (q_id c) V4L2_CTRL_WHICH_CUR_VAL w in
         Some (Some (JObj (common_desc c @
           [(''default_value'', JInt (q_default_value c)), (''value'', jint_opt v),
            (''minimum'', JInt (q_minimum c)), (''maximum'', JInt (q_maximum c)),
            (''step'', JInt (uint (q_step c)))])), w))
      else if q_type c = 8 then
        (let (v, w) = v4l2_ctrl_get_s32 dev u (q_id c) V4L2_CTRL_WHICH_CUR_VAL w in
         Some (Some (JObj (common_desc c @
           [(''default_value'', JInt (u32_conv (q_default_value c))),
            (''value'', jint_opt (map_option u32_conv v)),
            (''minimum'', JInt (u32_conv (q_minimum c))),
            (''maximum'', JInt (u32_conv (q_maximum c)))])), w))
      else if q_type c \<in> {4, 6, 7, 0x100, 0x101, 0x102} then
        Some (Some (JObj (common_desc c)), w)
      else Some (None, w))"

fun ctrl_descs ::
    "'w v4l2_dev \<Rightarrow> v4l2_util \<Rightarrow> (u32 \<times> v4l2_query_ext_ctrl) list \<Rightarrow> jval list \<Rightarrow> 'w
     \<Rightarrow> (jval option \<times> 'w) option" where
  "ctrl_descs dev u [] ds w = Some (Some (JObj [(''ext_ctrl'', JArr ds)]), w)"
| "ctrl_descs dev u ((_, c) # cs) ds w =
     (case ctrl_desc dev u c w of
        None \<Rightarrow> None
      | Some (None, w') \<Rightarrow> Some (None, w')
      | Some (Some d, w') \<Rightarrow> ctrl_descs dev u cs (ds @ [d]) w')"

text \<open>The result with the document logged: \<^verbatim>\<open>false\<close> is \<^term>\<open>Some (None, w)\<close>.\<close>

definition get_property_description ::
    "'w v4l2_dev \<Rightarrow> v4l2_util \<Rightarrow> 'w \<Rightarrow> (jval option \<times> 'w) option" where
  "get_property_description dev u w = ctrl_descs dev u (m_device_ctrl u) [] w"


subsection \<open>Words, bytes and flags\<close>

named_theorems v4l2_mem \<open>values read back from their in-memory form\<close>

lemma ucast_ucast_u32 [simp]: "(ucast (ucast (x :: u32) :: u64) :: u32) = x"
  by (rule bit_word_eqI) (auto simp: bit_simps)

lemma load_store_s32 [v4l2_mem]: "in_s32 x \<Longrightarrow> load_s32 (store_s32 x) = x"
  by (simp add: load_s32_def store_s32_def in_s32_def int_word_sint)

lemma load_store_s64 [v4l2_mem]: "in_s64 x \<Longrightarrow> load_s64 (store_s64 x) = x"
  by (simp add: load_s64_def store_s64_def in_s64_def int_word_sint)

lemma in_s32_bit: "in_s32 (if b then 1 else 0)"
  by (simp add: in_s32_def)

lemma of_bytes_u8 [v4l2_mem]: "of_bytes (bytes_of (Suc 0) (x :: u8)) = x"
  by (simp add: bytes_of_def)

lemma of_bytes_u16 [v4l2_mem]: "of_bytes (bytes_of 2 (x :: u16)) = x"
  by (rule bit_word_eqI) (auto simp: bytes_of_def upt_rec bit_simps)

lemma of_bytes_u32 [v4l2_mem]: "of_bytes (bytes_of 4 (x :: u32)) = x"
proof (rule bit_word_eqI)
  fix n assume n: "n < LENGTH(32)"
  then consider "n < 8" | "8 \<le> n" "n < 16" | "16 \<le> n" "n < 24" | "24 \<le> n" "n < 32"
    by fastforce
  then show "bit (of_bytes (bytes_of 4 x) :: u32) n \<longleftrightarrow> bit x n"
    using n by cases (auto simp: bytes_of_def upt_rec bit_simps)
qed

lemma byte_of_char: "(of_nat (unat (x :: u32) mod 256) :: u8) = ucast x"
proof -
  have "unat x mod 256 = take_bit 8 (unat x)" by (simp add: take_bit_eq_mod)
  then show ?thesis by (intro bit_word_eqI) (simp add: bit_simps)
qed

lemma next_flag_nz [simp]: "V4L2_CTRL_FLAG_NEXT_CTRL \<noteq> 0"
  by (simp add: V4L2_CTRL_FLAG_NEXT_CTRL_def)

lemma next_flag_bits:
  assumes "(k :: u32) < 0x80000000"
  shows "(k OR V4L2_CTRL_FLAG_NEXT_CTRL) AND V4L2_CTRL_FLAG_NEXT_CTRL \<noteq> 0"
    and "(k OR V4L2_CTRL_FLAG_NEXT_CTRL) AND NOT V4L2_CTRL_FLAG_NEXT_CTRL = k"
proof -
  have "unat k < 2 ^ 31" using assms by (simp add: word_less_nat_alt)
  then have "take_bit 31 (unat k) = unat k" by (simp add: take_bit_nat_eq_self_iff)
  then have "\<not> bit (unat k) 31" by (metis bit_take_bit_iff less_irrefl)
  then have b: "\<not> bit k 31" by (simp add: bit_simps)
  show "(k OR V4L2_CTRL_FLAG_NEXT_CTRL) AND V4L2_CTRL_FLAG_NEXT_CTRL \<noteq> 0"
    by (simp add: V4L2_CTRL_FLAG_NEXT_CTRL_def  word_ao_dist)
  have e: "V4L2_CTRL_FLAG_NEXT_CTRL = 2 ^ 31" by (simp add: V4L2_CTRL_FLAG_NEXT_CTRL_def)
  have n: "bit V4L2_CTRL_FLAG_NEXT_CTRL i \<longleftrightarrow> i = 31" for i
    unfolding e bit_exp_iff by auto
  show "(k OR V4L2_CTRL_FLAG_NEXT_CTRL) AND NOT V4L2_CTRL_FLAG_NEXT_CTRL = k"
    using b by (intro bit_word_eqI) (auto simp: bit_simps n)
qed

text \<open>The four characters of a pixel format, read back as a little-endian word, are the code.\<close>

lemma and_255: "(ucast (x AND 255 :: u32) :: u8) = ucast x"
proof -
  have "x AND 255 = take_bit 8 x" by (simp add: take_bit_eq_mask mask_eq_exp_minus_1)
  then show ?thesis by (intro bit_word_eqI) (simp add: bit_simps)
qed

lemma fourcc_bytes:
  "map (\<lambda>c. of_nat (of_char c)) (fourcc_to_str fcc) = bytes_of 4 fcc"
  by (simp add: fourcc_to_str_def byte_of_char bytes_of_def upt_rec and_255 drop_bit_and)


subsection \<open>Retries and enumeration\<close>

text \<open>
  A call that answers: interrupted calls leave the argument and come finitely often (\<open>m\<close>
  counts the signals still to come), any other call has the given outcome.
\<close>

definition answers ::
    "('w \<Rightarrow> nat) \<Rightarrow> ('a, 'w) ioctl_call \<Rightarrow> 'a \<Rightarrow> int \<Rightarrow> int \<Rightarrow> 'a \<Rightarrow> bool" where
  "answers m call a ret err a' \<longleftrightarrow> (ret = - 1 \<longrightarrow> err \<noteq> EINTR) \<and>
     (\<forall>w. (\<exists>w'. call a w = (ret, err, a', w')) \<or>
          (\<exists>w'. call a w = (- 1, EINTR, a, w') \<and> m w' < m w))"

lemma ioctl_helper_returns:
  assumes "answers m call a ret err a'"
  shows "\<exists>w'. ioctl_helper call a w = Some (ret, err, a', w')"
proof (induction w rule: measure_induct_rule [of m])
  case (less w)
  from assms have ne: "\<not> (ret = - 1 \<and> err = EINTR)"
    and "(\<exists>w'. call a w = (ret, err, a', w')) \<or>
      (\<exists>w'. call a w = (- 1, EINTR, a, w') \<and> m w' < m w)"
    by (auto simp: answers_def)
  then show ?case
  proof (elim disjE exE conjE)
    fix w' assume "call a w = (ret, err, a', w')"
    then show ?thesis using ne by (subst ioctl_helper.simps) auto
  next
    fix w' assume "call a w = (- 1, EINTR, a, w')" and "m w' < m w"
    then show ?thesis using less.IH [of w'] by (subst ioctl_helper.simps) simp
  qed
qed

lemma enum_fmt_loop_collects:
  assumes found: "\<And>j. i \<le> j \<Longrightarrow> j < n \<Longrightarrow>
      answers m (io_enum_fmt dev fd) (fmt_query t (of_nat j)) 0 0 (F j)"
    and stop: "answers m (io_enum_fmt dev fd) (fmt_query t (of_nat n)) (- 1) err a"
    and "i \<le> n"
  shows "\<exists>w'. enum_fmt_loop dev fd t (of_nat i) fmts w =
    Some (if err = EINVAL then (True, fmts @ map F [i..<n], w') else (False, [], w'))"
  using \<open>i \<le> n\<close> found
proof (induction i arbitrary: fmts w rule: inc_induct)
  case base
  obtain w' where "ioctl_helper (io_enum_fmt dev fd) (fmt_query t (of_nat n)) w = Some (- 1, err, a, w')"
    using ioctl_helper_returns [OF stop] by blast
  then show ?case by (subst enum_fmt_loop.simps) simp
next
  case (step i)
  from step have "answers m (io_enum_fmt dev fd) (fmt_query t (of_nat i)) 0 0 (F i)" by simp
  from ioctl_helper_returns [OF this] obtain w' where
    "ioctl_helper (io_enum_fmt dev fd) (fmt_query t (of_nat i)) w = Some (0, 0, F i, w')" by blast
  then have e: "enum_fmt_loop dev fd t (of_nat i) fmts w =
      enum_fmt_loop dev fd t (of_nat (Suc i)) (fmts @ [F i]) w'"
    by (subst enum_fmt_loop.simps) (simp add: add.commute)
  obtain w'' where "enum_fmt_loop dev fd t (of_nat (Suc i)) (fmts @ [F i]) w' =
    Some (if err = EINVAL then (True, (fmts @ [F i]) @ map F [Suc i..<n], w'') else (False, [], w''))"
    using step.IH [of "fmts @ [F i]" w'] step.prems by (meson Suc_leD)
  moreover have "map F [i..<n] = F i # map F [Suc i..<n]"
    using step.hyps by (simp add: upt_rec [of i n])
  ultimately show ?case unfolding e by auto
qed

text \<open>
  C24. Format enumeration returns, whatever signals interrupt its requests: on a driver that
  describes the formats \<open>0\<close> to \<open>n - 1\<close> and then stops, \<^verbatim>\<open>enum_format_descs\<close>
  lists exactly these, in order, when the stop is \<^verbatim>\<open>EINVAL\<close>, and on any other error it
  returns false with an empty list. Formats of an earlier enumeration never survive.
\<close>

theorem enum_format_descs_lists:
  assumes "\<forall>j<n. answers m (io_enum_fmt dev (m_v4l2_fd u)) (fmt_query t (of_nat j)) 0 0 (F j)"
    and "answers m (io_enum_fmt dev (m_v4l2_fd u)) (fmt_query t (of_nat n)) (- 1) err a"
  shows "\<exists>w'. enum_format_descs dev t u w =
    (if err = EINVAL then Some (True, u\<lparr>m_fmt_descs := map F [0..<n]\<rparr>, w')
     else Some (False, u\<lparr>m_fmt_descs := []\<rparr>, w'))"
  using enum_fmt_loop_collects [of 0 n m dev "m_v4l2_fd u" t F err a "[]" w] assms
  by (auto simp: enum_format_descs_def)

text \<open>A driver with two formats, which is interrupted as often as its state says.\<close>

definition demo_fmt :: "nat \<Rightarrow> v4l2_fmtdesc" where
  "demo_fmt j = (fmt_query 1 (of_nat j))\<lparr>fmt_pixelformat := 0x56595559\<rparr>"

definition demo_enum_dev :: "nat v4l2_dev" where
  "demo_enum_dev = \<lparr>io_req = \<lambda>_ a w. (0, 0, a, w),
     io_enum_fmt = \<lambda>_ a w. case w of Suc w' \<Rightarrow> (- 1, EINTR, a, w')
       | 0 \<Rightarrow> if fmt_index a < 2 then (0, 0, demo_fmt (unat (fmt_index a)), 3) else (- 1, EINVAL, a, 0),
     io_s_ext_ctrls = \<lambda>_ a w. (0, 0, a, w), io_g_ext_ctrls = \<lambda>_ a w. (0, 0, a, w),
     io_querycap = \<lambda>_ a w. (0, 0, a, w), io_query_ext_ctrl = \<lambda>_ a w. (0, 0, a, w),
     io_querymenu = \<lambda>_ a w. (0, 0, a, w)\<rparr>"

theorem enum_format_descs_lists_witness:
  "\<exists>w'. enum_format_descs demo_enum_dev 1 v4l2_util_new 5 =
     Some (True, v4l2_util_new\<lparr>m_fmt_descs := [demo_fmt 0, demo_fmt 1]\<rparr>, w')"
proof -
  have "\<forall>j<2. answers (\<lambda>w. w) (io_enum_fmt demo_enum_dev (m_v4l2_fd v4l2_util_new))
      (fmt_query 1 (of_nat j)) 0 0 (demo_fmt j)"
    by (auto simp: answers_def demo_enum_dev_def fmt_query_def EINTR_def less_2_cases_iff
        split: nat.splits)
  moreover have "answers (\<lambda>w. w) (io_enum_fmt demo_enum_dev (m_v4l2_fd v4l2_util_new))
      (fmt_query 1 (of_nat 2)) (- 1) EINVAL (fmt_query 1 2)"
    by (auto simp: answers_def demo_enum_dev_def fmt_query_def EINTR_def EINVAL_def
        split: nat.splits)
  ultimately show ?thesis
    using enum_format_descs_lists [of 2 "\<lambda>w. w" demo_enum_dev v4l2_util_new 1 demo_fmt EINVAL
        "fmt_query 1 2" 5]
    by (simp add: upt_rec)
qed


subsection \<open>Controls keep what is written\<close>

text \<open>
  What \<^verbatim>\<open>VIDIOC_S_EXT_CTRLS\<close> and \<^verbatim>\<open>VIDIOC_G_EXT_CTRLS\<close> promise of one control that
  the driver neither clamps nor changes by itself: the current value read after an accepted
  write is the value written, in the union for a plain control and in the caller's array for a
  compound one.
\<close>

definition ctrl_kept :: "'w v4l2_dev \<Rightarrow> int \<Rightarrow> u32 \<Rightarrow> bool" where
  "ctrl_kept dev fd cid \<longleftrightarrow>
     (\<forall>c req w r e c' w'. ec_id c = cid \<longrightarrow> ec_id req = cid \<longrightarrow> ec_size req = ec_size c \<longrightarrow>
        io_s_ext_ctrls dev fd \<lparr>ecs_which = V4L2_CTRL_WHICH_CUR_VAL, ecs_count = 1, ecs_controls = c\<rparr> w
          = (r, e, c', w') \<longrightarrow> 0 \<le> r \<longrightarrow>
        (\<exists>r2 e2 w2. 0 \<le> r2 \<and>
          io_g_ext_ctrls dev fd
            \<lparr>ecs_which = V4L2_CTRL_WHICH_CUR_VAL, ecs_count = 1, ecs_controls = req\<rparr> w'
          = (r2, e2, \<lparr>ecs_which = V4L2_CTRL_WHICH_CUR_VAL, ecs_count = 1,
               ecs_controls = req\<lparr>ec_union := ec_union c, ec_buf := ec_buf c\<rparr>\<rparr>, w2)))"

lemma ext_set_get:
  assumes "ctrl_kept dev (m_v4l2_fd u) cid"
    and "ext_ctrl_set dev u c w = (True, w')"
    and "ec_id c = cid" "ec_id req = cid" "ec_size req = ec_size c"
  shows "\<exists>w''. ext_ctrl_get dev u V4L2_CTRL_WHICH_CUR_VAL req w' =
    (True, req\<lparr>ec_union := ec_union c, ec_buf := ec_buf c\<rparr>, w'')"
proof -
  let ?s = "\<lparr>ecs_which = V4L2_CTRL_WHICH_CUR_VAL, ecs_count = 1, ecs_controls = c\<rparr>"
  obtain r e c' where "io_s_ext_ctrls dev (m_v4l2_fd u) ?s w = (r, e, c', w')" and "0 \<le> r"
    using assms(2) by (auto simp: ext_ctrl_set_def V4L2_CTRL_WHICH_CUR_VAL_def split: prod.splits)
  then obtain r2 e2 w2 where "0 \<le> r2" and
    "io_g_ext_ctrls dev (m_v4l2_fd u)
      \<lparr>ecs_which = V4L2_CTRL_WHICH_CUR_VAL, ecs_count = 1, ecs_controls = req\<rparr> w'
      = (r2, e2, \<lparr>ecs_which = V4L2_CTRL_WHICH_CUR_VAL, ecs_count = 1,
          ecs_controls = req\<lparr>ec_union := ec_union c, ec_buf := ec_buf c\<rparr>\<rparr>, w2)"
    using assms(1) [unfolded ctrl_kept_def, rule_format, OF assms(3-5), of w r e c' w'] by blast
  then show ?thesis by (simp add: ext_ctrl_get_def V4L2_CTRL_WHICH_CUR_VAL_def)
qed

text \<open>
  The overloads as one operation on typed values: the type of the argument selects the overload.
\<close>

datatype ctrl_type = TBool | TS32 | TS64 | TU8 | TU16 | TU32

datatype ctrl_value = VBool bool | VS32 int | VS64 int | VU8 u8 | VU16 u16 | VU32 u32

fun ctrl_type_of :: "ctrl_value \<Rightarrow> ctrl_type" where
  "ctrl_type_of (VBool _) = TBool" | "ctrl_type_of (VS32 _) = TS32" | "ctrl_type_of (VS64 _) = TS64"
| "ctrl_type_of (VU8 _) = TU8" | "ctrl_type_of (VU16 _) = TU16" | "ctrl_type_of (VU32 _) = TU32"

fun ctrl_value_ok :: "ctrl_value \<Rightarrow> bool" where
  "ctrl_value_ok (VS32 x) = in_s32 x" | "ctrl_value_ok (VS64 x) = in_s64 x" | "ctrl_value_ok _ = True"

fun v4l2_ctrl_set :: "'w v4l2_dev \<Rightarrow> v4l2_util \<Rightarrow> u32 \<Rightarrow> ctrl_value \<Rightarrow> 'w \<Rightarrow> bool \<times> 'w" where
  "v4l2_ctrl_set dev u cid (VBool b) w = v4l2_ctrl_set_bool dev u cid b w"
| "v4l2_ctrl_set dev u cid (VS32 x) w = v4l2_ctrl_set_s32 dev u cid x w"
| "v4l2_ctrl_set dev u cid (VS64 x) w = v4l2_ctrl_set_s64 dev u cid x w"
| "v4l2_ctrl_set dev u cid (VU8 x) w = v4l2_ctrl_set_u8 dev u cid x w"
| "v4l2_ctrl_set dev u cid (VU16 x) w = v4l2_ctrl_set_u16 dev u cid x w"
| "v4l2_ctrl_set dev u cid (VU32 x) w = v4l2_ctrl_set_u32 dev u cid x w"

fun v4l2_ctrl_get ::
    "'w v4l2_dev \<Rightarrow> v4l2_util \<Rightarrow> u32 \<Rightarrow> u32 \<Rightarrow> ctrl_type \<Rightarrow> 'w \<Rightarrow> ctrl_value option \<times> 'w" where
  "v4l2_ctrl_get dev u cid wh TBool w = apfst (map_option VBool) (v4l2_ctrl_get_bool dev u cid wh w)"
| "v4l2_ctrl_get dev u cid wh TS32 w = apfst (map_option VS32) (v4l2_ctrl_get_s32 dev u cid wh w)"
| "v4l2_ctrl_get dev u cid wh TS64 w = apfst (map_option VS64) (v4l2_ctrl_get_s64 dev u cid wh w)"
| "v4l2_ctrl_get dev u cid wh TU8 w = apfst (map_option VU8) (v4l2_ctrl_get_u8 dev u cid wh w)"
| "v4l2_ctrl_get dev u cid wh TU16 w = apfst (map_option VU16) (v4l2_ctrl_get_u16 dev u cid wh w)"
| "v4l2_ctrl_get dev u cid wh TU32 w = apfst (map_option VU32) (v4l2_ctrl_get_u32 dev u cid wh w)"

definition v4l2_ctrl_get_cur ::
    "'w v4l2_dev \<Rightarrow> v4l2_util \<Rightarrow> u32 \<Rightarrow> ctrl_type \<Rightarrow> 'w \<Rightarrow> ctrl_value option \<times> 'w" where
  "v4l2_ctrl_get_cur dev u cid ty w = v4l2_ctrl_get dev u cid V4L2_CTRL_WHICH_CUR_VAL ty w"

definition v4l2_ctrl_get_def ::
    "'w v4l2_dev \<Rightarrow> v4l2_util \<Rightarrow> u32 \<Rightarrow> ctrl_type \<Rightarrow> 'w \<Rightarrow> ctrl_value option \<times> 'w" where
  "v4l2_ctrl_get_def dev u cid ty w = v4l2_ctrl_get dev u cid V4L2_CTRL_WHICH_DEF_VAL ty w"

lemmas ctrl_set_defs = v4l2_ctrl_set_bool_def v4l2_ctrl_set_s32_def v4l2_ctrl_set_s64_def
  v4l2_ctrl_set_u8_def v4l2_ctrl_set_u16_def v4l2_ctrl_set_u32_def
lemmas ctrl_get_defs = v4l2_ctrl_get_bool_def v4l2_ctrl_get_s32_def v4l2_ctrl_get_s64_def
  v4l2_ctrl_get_u8_def v4l2_ctrl_get_u16_def v4l2_ctrl_get_u32_def


text \<open>A driver whose state is the controls it keeps.\<close>

definition demo_ctrl_dev :: "(u32 \<rightharpoonup> v4l2_ext_control) v4l2_dev" where
  "demo_ctrl_dev = \<lparr>io_req = \<lambda>_ a w. (0, 0, a, w), io_enum_fmt = \<lambda>_ a w. (- 1, EINVAL, a, w),
     io_s_ext_ctrls = \<lambda>_ a w. (0, 0, a, w(ec_id (ecs_controls a) \<mapsto> ecs_controls a)),
     io_g_ext_ctrls = \<lambda>_ a w. (case w (ec_id (ecs_controls a)) of
         None \<Rightarrow> (- 1, EINVAL, a, w)
       | Some c \<Rightarrow> (0, 0, a\<lparr>ecs_controls := (ecs_controls a)
           \<lparr>ec_union := ec_union c, ec_buf := ec_buf c\<rparr>\<rparr>, w)),
     io_querycap = \<lambda>_ a w. (0, 0, a, w), io_query_ext_ctrl = \<lambda>_ a w. (- 1, EINVAL, a, w),
     io_querymenu = \<lambda>_ a w. (- 1, EINVAL, a, w)\<rparr>"


text \<open>
  The default-value getters read the current value. \<^verbatim>\<open>v4l2_ctrl_get(which, ctrl)\<close> stores
  \<^verbatim>\<open>which\<close> and then \<^verbatim>\<open>ctrl_class = 0\<close>, which is the same member of the kernel's
  struct: every \<^verbatim>\<open>v4l2_ctrl_get_def\<close> issues the request of \<^verbatim>\<open>v4l2_ctrl_get\<close> and
  returns its result, on every driver.
\<close>

theorem get_def_reads_current:
  "v4l2_ctrl_get_def dev u cid ty w = v4l2_ctrl_get_cur dev u cid ty w"
  by (cases ty) (simp_all add: v4l2_ctrl_get_def_def v4l2_ctrl_get_cur_def ctrl_get_defs ext_ctrl_get_def)


subsection \<open>What a probe finds\<close>

text \<open>
  The documented behaviour of \<^verbatim>\<open>VIDIOC_QUERY_EXT_CTRL\<close> on a device with the controls
  \<open>cs\<close>, in the order of their identifiers: without the flag the control with that identifier,
  with it the first control with a greater one, and \<^verbatim>\<open>EINVAL\<close> when there is none.
  \<open>serves_ctrls\<close> lets the device's state change with every query.
\<close>

definition ctrl_reply :: "v4l2_query_ext_ctrl list \<Rightarrow> u32 \<Rightarrow> v4l2_query_ext_ctrl option" where
  "ctrl_reply cs i =
     (if i AND V4L2_CTRL_FLAG_NEXT_CTRL = 0 then find (\<lambda>c. q_id c = i) cs
      else find (\<lambda>c. i AND NOT V4L2_CTRL_FLAG_NEXT_CTRL < q_id c) cs)"

definition serves_ctrls :: "'w v4l2_dev \<Rightarrow> int \<Rightarrow> v4l2_query_ext_ctrl list \<Rightarrow> bool" where
  "serves_ctrls dev fd cs \<longleftrightarrow>
     sorted_wrt (<) (map q_id cs) \<and> (\<forall>c \<in> set cs. q_id c < 0x80000000) \<and>
     (\<forall>i w. \<exists>w'. io_query_ext_ctrl dev fd (ctrl_query i) w =
        (case ctrl_reply cs i of Some c \<Rightarrow> (0, 0, c, w') | None \<Rightarrow> (- 1, EINVAL, ctrl_query i, w')))"

lemma serves_ctrlsD:
  "serves_ctrls dev fd cs \<Longrightarrow> \<exists>w'. io_query_ext_ctrl dev fd (ctrl_query i) w =
     (case ctrl_reply cs i of Some c \<Rightarrow> (0, 0, c, w') | None \<Rightarrow> (- 1, EINVAL, ctrl_query i, w'))"
  by (simp add: serves_ctrls_def)

lemma find_filter: "find P xs = (case filter P xs of [] \<Rightarrow> None | x # _ \<Rightarrow> Some x)"
  by (induction xs) auto

lemma sorted_filter_gt:
  "sorted_wrt (<) (map f cs) \<Longrightarrow> filter (\<lambda>c. k < f c) cs = c # rest \<Longrightarrow>
   filter (\<lambda>x. f c < f x) cs = rest \<and> k < (f c :: 'b::linorder)"
proof (induction cs)
  case (Cons d cs)
  show ?case
  proof (cases "k < f d")
    case True
    moreover from this have "\<forall>x \<in> set cs. k < f x" using Cons.prems(1) by fastforce
    ultimately show ?thesis using Cons.prems by auto
  next
    case False
    then have ih: "filter (\<lambda>x. f c < f x) cs = rest \<and> k < f c" using Cons by simp
    then have "\<not> f c < f d" using False by fastforce
    then show ?thesis using ih by simp
  qed
qed simp

lemma query_ctrls_next:
  assumes "serves_ctrls dev (m_v4l2_fd u) cs" and "k < 0x80000000"
  shows "\<exists>w'. query_ctrls dev (k OR V4L2_CTRL_FLAG_NEXT_CTRL) u w =
    Some (True, fold add_ctrl (filter (\<lambda>c. k < q_id c) cs) u, w')"
  using assms
proof (induction "filter (\<lambda>c. k < q_id c) cs" arbitrary: k u w)
  case Nil
  have "ctrl_reply cs (k OR V4L2_CTRL_FLAG_NEXT_CTRL) = None"
    using Nil.hyps [symmetric] Nil.prems(2) by (simp add: ctrl_reply_def find_filter next_flag_bits)
  with serves_ctrlsD [OF Nil.prems(1), of "k OR V4L2_CTRL_FLAG_NEXT_CTRL" w] obtain w' where "io_query_ext_ctrl dev (m_v4l2_fd u)
      (ctrl_query (k OR V4L2_CTRL_FLAG_NEXT_CTRL)) w =
      (- 1, EINVAL, ctrl_query (k OR V4L2_CTRL_FLAG_NEXT_CTRL), w')"
    by auto
  then show ?case using Nil.hyps [symmetric] by (subst query_ctrls.simps) simp
next
  case (Cons c rest)
  have r: "ctrl_reply cs (k OR V4L2_CTRL_FLAG_NEXT_CTRL) = Some c"
    using Cons.hyps(2) [symmetric] Cons.prems(2) by (simp add: ctrl_reply_def find_filter next_flag_bits)
  obtain w' where q: "io_query_ext_ctrl dev (m_v4l2_fd u)
      (ctrl_query (k OR V4L2_CTRL_FLAG_NEXT_CTRL)) w = (0, 0, c, w')"
    using serves_ctrlsD [OF Cons.prems(1), of "k OR V4L2_CTRL_FLAG_NEXT_CTRL" w] r by fastforce
  have f: "filter (\<lambda>x. q_id c < q_id x) cs = rest"
    using sorted_filter_gt [of q_id cs k c rest] Cons.prems(1) Cons.hyps(2)
    by (simp add: serves_ctrls_def)
  have "c \<in> set cs" using Cons.hyps(2) [symmetric] by (metis filter_is_subset list.set_intros(1) subsetD)
  then have b: "q_id c < 0x80000000" using Cons.prems(1) by (simp add: serves_ctrls_def)
  have "m_v4l2_fd (add_ctrl c u) = m_v4l2_fd u" by (simp add: add_ctrl_def)
  then obtain w'' where "query_ctrls dev (q_id c OR V4L2_CTRL_FLAG_NEXT_CTRL) (add_ctrl c u) w' =
      Some (True, fold add_ctrl rest (add_ctrl c u), w'')"
    using Cons.hyps(1) [of "q_id c" "add_ctrl c u" w'] f b Cons.prems(1) by auto
  then show ?case using q Cons.hyps(2) [symmetric] by (subst query_ctrls.simps) simp
qed


text \<open>Controls found in increasing order are appended; the first control of a name keeps it.\<close>

lemma fold_add_ctrl:
  assumes "sorted_wrt (<) (map q_id cs)"
    and "\<forall>k \<in> set (map fst (m_device_ctrl u)). \<forall>c \<in> set cs. k < q_id c"
  shows "m_device_ctrl (fold add_ctrl cs u) = m_device_ctrl u @ map (\<lambda>c. (q_id c, c)) cs"
  using assms
proof (induction cs arbitrary: u)
  case (Cons c cs)
  have a: "m_device_ctrl (add_ctrl c u) = m_device_ctrl u @ [(q_id c, c)]"
    using Cons.prems(2) by (simp add: add_ctrl_def smap_insert_greatest)
  have "m_device_ctrl (fold add_ctrl cs (add_ctrl c u)) =
      m_device_ctrl (add_ctrl c u) @ map (\<lambda>c. (q_id c, c)) cs"
    by (rule Cons.IH) (use Cons.prems a in auto)
  then show ?case by (simp add: a)
qed simp

lemma fold_add_ctrl_name:
  "m_device_ctrl_by_name (fold add_ctrl cs u) nm =
     (case m_device_ctrl_by_name u nm of
        Some i \<Rightarrow> Some i
      | None \<Rightarrow> map_option q_id (find (\<lambda>c. q_name c = nm) cs))"
  by (induction cs arbitrary: u) (auto simp: add_ctrl_def map_insert_def split: option.splits)

lemma fold_add_ctrl_rest [simp]:
  "m_v4l2_fd (fold add_ctrl cs u) = m_v4l2_fd u"
  "m_menu_entries (fold add_ctrl cs u) = m_menu_entries u"
  by (induction cs arbitrary: u) (simp_all add: add_ctrl_def)

text \<open>
  The entries a menu scan collects. \<open>M\<close> is what the driver answers for a menu index: the scan
  keeps the accepted indexes \<open>min, min + step, \<dots>\<close> up to \<open>max\<close>.
\<close>

function menu_scan :: "(int \<Rightarrow> v4l2_querymenu option) \<Rightarrow> int \<Rightarrow> int \<Rightarrow> int
    \<Rightarrow> (int \<times> v4l2_querymenu) list" where
  "menu_scan M hi st i = (if st \<le> 0 \<or> hi < i then []
     else (case M i of None \<Rightarrow> [] | Some m \<Rightarrow> [(i, m)]) @ menu_scan M hi st (i + st))"
  by pat_completeness auto
termination
  by (relation "measure (\<lambda>(M, hi, st, i). nat (hi + 1 - i))") auto

declare menu_scan.simps [simp del]

definition menu_bounds_ok :: "v4l2_query_ext_ctrl \<Rightarrow> bool" where
  "menu_bounds_ok c \<longleftrightarrow> 0 < uint (q_step c) \<and> in_s64 (q_minimum c) \<and>
     q_maximum c + uint (q_step c) < 2 ^ 63"

definition serves_menus ::
    "'w v4l2_dev \<Rightarrow> int \<Rightarrow> (u32 \<Rightarrow> int \<Rightarrow> v4l2_querymenu option) \<Rightarrow> bool" where
  "serves_menus dev fd M \<longleftrightarrow> (\<forall>cid i w. \<exists>w'. io_querymenu dev fd (menu_query cid i) w =
     (case M cid i of Some m \<Rightarrow> (0, 0, m, w') | None \<Rightarrow> (- 1, EINVAL, menu_query cid i, w')))"

lemma query_menu_scans:
  assumes "serves_menus dev fd M" and "is_menu_ctrl c" and "menu_bounds_ok c"
    and "in_s64 i" and "\<forall>k \<in> set (map fst es). k < i"
  shows "\<exists>w'. query_menu dev fd c i es w =
    Some (True, es @ menu_scan (M (q_id c)) (q_maximum c) (uint (q_step c)) i, w')"
  using assms(4,5)
proof (induction "M (q_id c)" "q_maximum c" "uint (q_step c)" i arbitrary: es w rule: menu_scan.induct)
  case (1 i)
  let ?i = "i + uint (q_step c)"
  have st: "0 < uint (q_step c)" using assms(3) by (simp add: menu_bounds_ok_def)
  show ?case
  proof (cases "i \<le> q_maximum c")
    case False
    then show ?thesis by (subst query_menu.simps) (simp add: menu_scan.simps)
  next
    case True
    have n: "in_s64 ?i"
      using assms(3) 1(2) True st by (simp add: menu_bounds_ok_def in_s64_def)
    note ih = 1(1) [OF _ n]
    obtain w' where q: "io_querymenu dev fd (menu_query (q_id c) i) w =
        (case M (q_id c) i of Some m \<Rightarrow> (0, 0, m, w')
         | None \<Rightarrow> (- 1, EINVAL, menu_query (q_id c) i, w'))"
      using assms(1) unfolding serves_menus_def by blast
    have less: "\<forall>k \<in> set (map fst es). k < ?i" using 1(3) st by fastforce
    show ?thesis
    proof (cases "M (q_id c) i")
      case None
      obtain w'' where "query_menu dev fd c ?i es w' =
          Some (True, es @ menu_scan (M (q_id c)) (q_maximum c) (uint (q_step c)) ?i, w'')"
        using ih [OF _ less, of w'] True st by auto
      then show ?thesis using None q True st n
        by (subst query_menu.simps) (simp add: to_s64_id menu_scan.simps [of _ _ _ i])
    next
      case (Some m)
      have "\<forall>k \<in> set (map fst (es @ [(i, m)])). k < ?i" using less st by auto
      then obtain w'' where "query_menu dev fd c ?i (es @ [(i, m)]) w' =
          Some (True, (es @ [(i, m)]) @ menu_scan (M (q_id c)) (q_maximum c) (uint (q_step c)) ?i, w'')"
        using ih [of "es @ [(i, m)]" w'] True st by auto
      then show ?thesis using Some q True st n assms(2) smap_insert_greatest [OF 1(3)]
        by (subst query_menu.simps) (simp add: to_s64_id menu_scan.simps [of _ _ _ i])
    qed
  qed
qed


definition ctrl_menu ::
    "(u32 \<Rightarrow> int \<Rightarrow> v4l2_querymenu option) \<Rightarrow> v4l2_query_ext_ctrl \<Rightarrow> (int \<times> v4l2_querymenu) list" where
  "ctrl_menu M c = menu_scan (M (q_id c)) (q_maximum c) (uint (q_step c)) (q_minimum c)"

lemma query_menus_scans:
  assumes "serves_menus dev (m_v4l2_fd u) M" and "\<forall>c \<in> set cs. is_menu_ctrl c \<longrightarrow> menu_bounds_ok c"
    and "distinct (map q_id cs)" and "\<forall>c \<in> set cs. m_menu_entries u (q_id c) = None"
  shows "\<exists>me w'. query_menus dev (map (\<lambda>c. (q_id c, c)) cs) u w =
      Some (True, u\<lparr>m_menu_entries := me\<rparr>, w') \<and>
    (\<forall>k. k \<notin> q_id ` set cs \<longrightarrow> me k = m_menu_entries u k) \<and>
    (\<forall>c \<in> set cs. is_menu_ctrl c \<longrightarrow> me (q_id c) = Some (ctrl_menu M c))"
  using assms
proof (induction cs arbitrary: u w)
  case Nil
  show ?case by (intro exI [of _ "m_menu_entries u"] exI [of _ w]) simp
next
  case (Cons c cs)
  show ?case
  proof (cases "is_menu_ctrl c")
    case False
    from Cons.IH [of u w] Cons.prems obtain me w' where
      "query_menus dev (map (\<lambda>c. (q_id c, c)) cs) u w = Some (True, u\<lparr>m_menu_entries := me\<rparr>, w')"
      "\<forall>k. k \<notin> q_id ` set cs \<longrightarrow> me k = m_menu_entries u k"
      "\<forall>c \<in> set cs. is_menu_ctrl c \<longrightarrow> me (q_id c) = Some (ctrl_menu M c)"
      by auto
    with False show ?thesis by (intro exI [of _ me] exI [of _ w']) simp
  next
    case True
    then have "menu_bounds_ok c" using Cons.prems(2) by simp
    moreover from this have "in_s64 (q_minimum c)" by (simp add: menu_bounds_ok_def)
    ultimately obtain w1 where m: "query_menu dev (m_v4l2_fd u) c (q_minimum c) [] w =
        Some (True, ctrl_menu M c, w1)"
      using query_menu_scans [OF Cons.prems(1) True, of "q_minimum c" "[]" w]
      by (auto simp: ctrl_menu_def)
    let ?u = "u\<lparr>m_menu_entries := (m_menu_entries u)(q_id c \<mapsto> ctrl_menu M c)\<rparr>"
    have nc: "q_id c \<notin> q_id ` set cs" using Cons.prems(3) by simp
    then have e: "\<forall>x \<in> set cs. m_menu_entries ?u (q_id x) = None"
      using Cons.prems(4) by (auto simp: image_iff)
    obtain me w' where r: "query_menus dev (map (\<lambda>c. (q_id c, c)) cs) ?u w1 =
          Some (True, ?u\<lparr>m_menu_entries := me\<rparr>, w')"
        "\<forall>k. k \<notin> q_id ` set cs \<longrightarrow> me k = m_menu_entries ?u k"
        "\<forall>c \<in> set cs. is_menu_ctrl c \<longrightarrow> me (q_id c) = Some (ctrl_menu M c)"
      using Cons.IH [OF _ _ _ e, of w1] Cons.prems(1-3) by auto
    with nc have "me (q_id c) = Some (ctrl_menu M c)" by simp
    moreover have "\<forall>k. k \<notin> q_id ` set (c # cs) \<longrightarrow> me k = m_menu_entries u k" using r(2) by simp
    ultimately show ?thesis using True m r(1,3) Cons.prems(4)
      by (intro exI [of _ me] exI [of _ w']) simp
  qed
qed

lemma query_ctrls_from_base:
  assumes "serves_ctrls dev (m_v4l2_fd u) cs"
  shows "\<exists>w'. query_ctrls dev V4L2_CID_BASE u w = Some (True,
    if V4L2_CID_BASE \<in> q_id ` set cs
    then fold add_ctrl (filter (\<lambda>c. V4L2_CID_BASE \<le> q_id c) cs) u else u, w')"
proof -
  have z: "V4L2_CID_BASE AND V4L2_CTRL_FLAG_NEXT_CTRL = 0"
    by (simp add: V4L2_CID_BASE_def V4L2_CTRL_FLAG_NEXT_CTRL_def)
  note q = serves_ctrlsD [OF assms, of V4L2_CID_BASE w]
  have srt: "sorted_wrt (<) (map q_id cs)" using assms by (simp add: serves_ctrls_def)
  show ?thesis
  proof (cases "V4L2_CID_BASE \<in> q_id ` set cs")
    case False
    then have "ctrl_reply cs V4L2_CID_BASE = None"
      using z by (auto simp: ctrl_reply_def find_None_iff image_iff)
    with q False show ?thesis by (subst query_ctrls.simps) auto
  next
    case True
    then obtain c where c: "c \<in> set cs" "q_id c = V4L2_CID_BASE" by auto
    then obtain as bs where s: "cs = as @ c # bs" by (meson split_list)
    then have ab: "\<forall>x \<in> set as. q_id x < V4L2_CID_BASE" "\<forall>x \<in> set bs. V4L2_CID_BASE < q_id x"
      using srt c(2) by (auto simp: sorted_wrt_append)
    have f: "filter (\<lambda>c. V4L2_CID_BASE \<le> q_id c) cs = c # bs"
      "filter (\<lambda>c. V4L2_CID_BASE < q_id c) cs = bs"
      using ab c(2) unfolding s by (auto simp: filter_empty_conv not_le not_less filter_id_conv)
    have "filter (\<lambda>x. q_id x = V4L2_CID_BASE) as = []" using ab(1) by (auto simp: filter_empty_conv)
    then have "find (\<lambda>x. q_id x = V4L2_CID_BASE) cs = Some c"
      using c(2) unfolding s find_filter by simp
    then have "ctrl_reply cs V4L2_CID_BASE = Some c" using z by (simp add: ctrl_reply_def)
    with q obtain w1 where w1: "io_query_ext_ctrl dev (m_v4l2_fd u) (ctrl_query V4L2_CID_BASE) w =
        (0, 0, c, w1)" by auto
    have "serves_ctrls dev (m_v4l2_fd (add_ctrl c u)) cs" using assms by (simp add: add_ctrl_def)
    from query_ctrls_next [OF this, of V4L2_CID_BASE w1] obtain w2 where
      "query_ctrls dev (V4L2_CID_BASE OR V4L2_CTRL_FLAG_NEXT_CTRL) (add_ctrl c u) w1 =
        Some (True, fold add_ctrl bs (add_ctrl c u), w2)"
      using f(2) by (auto simp: V4L2_CID_BASE_def)
    then show ?thesis using True w1 c(2) f(1) by (subst query_ctrls.simps) simp
  qed
qed


lemma map_of_ctrls:
  "distinct (map q_id cs) \<Longrightarrow> c \<in> set cs \<Longrightarrow> map_of (map (\<lambda>c. (q_id c, c)) cs) (q_id c) = Some c"
  by (rule map_of_is_SomeI) (auto simp: comp_def)

lemma by_name_first:
  assumes "distinct (map q_id cs)" and "m_device_ctrl u = map (\<lambda>c. (q_id c, c)) cs"
    and "m_device_ctrl_by_name u nm = map_option q_id (find (\<lambda>c. q_name c = nm) cs)"
  shows "get_ctrl_by_name u nm = find (\<lambda>c. q_name c = nm) cs"
proof (cases "find (\<lambda>c. q_name c = nm) cs")
  case (Some c)
  then have "c \<in> set cs" by (auto simp: find_Some_iff)
  with Some assms map_of_ctrls show ?thesis
    by (simp add: get_ctrl_by_name_def get_ctrl_id_by_name_def get_ctrl_by_id_def)
qed (simp add: assms get_ctrl_by_name_def get_ctrl_id_by_name_def)

lemma probe_outcome:
  assumes "\<forall>w. \<exists>r e cap w'. io_querycap dev (m_v4l2_fd u) 0 w = (r, e, cap, w') \<and> 0 \<le> r"
    and "serves_ctrls dev (m_v4l2_fd u) cs" and "serves_menus dev (m_v4l2_fd u) M"
    and "\<forall>c \<in> set cs. is_menu_ctrl c \<longrightarrow> menu_bounds_ok c"
    and "found = (if V4L2_CID_BASE \<in> q_id ` set cs
      then filter (\<lambda>c. V4L2_CID_BASE \<le> q_id c) cs else [])"
  shows "\<exists>u' w'. v4l2_probe_ctrl dev u w = Some (True, u', w') \<and>
    m_device_ctrl u' = map (\<lambda>c. (q_id c, c)) found \<and>
    (\<forall>nm. get_ctrl_by_name u' nm = find (\<lambda>c. q_name c = nm) found) \<and>
    (\<forall>c \<in> set found. is_menu_ctrl c \<longrightarrow> m_menu_entries u' (q_id c) = Some (ctrl_menu M c))"
proof -
  let ?u0 = "u\<lparr>m_device_ctrl := [], m_device_ctrl_by_name := Map.empty, m_menu_entries := Map.empty\<rparr>"
  let ?u1 = "fold add_ctrl found ?u0"
  have srt: "sorted_wrt (<) (map q_id found)"
    using assms(2) by (simp add: serves_ctrls_def assms(5) sorted_wrt_map sorted_wrt_filter)
  then have dst: "distinct (map q_id found)"
    by (simp add: strict_sorted_iff)
  obtain r e cap w0 where w0: "io_querycap dev (m_v4l2_fd u) 0 w = (r, e, cap, w0)" "0 \<le> r"
    using assms(1) by blast
  obtain w1 where w1: "query_ctrls dev V4L2_CID_BASE ?u0 w0 = Some (True, ?u1, w1)"
    using query_ctrls_from_base [of dev ?u0 cs w0] assms(2,5) by auto
  have d1: "m_device_ctrl ?u1 = map (\<lambda>c. (q_id c, c)) found"
    using fold_add_ctrl [OF srt, of ?u0] by simp
  let ?u2 = "?u1\<lparr>m_menu_entries := Map.empty\<rparr>"
  obtain me w2 where w2: "query_menus dev (map (\<lambda>c. (q_id c, c)) found) ?u2 w1 =
      Some (True, ?u2\<lparr>m_menu_entries := me\<rparr>, w2)"
    "\<forall>c \<in> set found. is_menu_ctrl c \<longrightarrow> me (q_id c) = Some (ctrl_menu M c)"
    using query_menus_scans [of dev ?u2 M found w1] dst assms(3-5) by auto
  have "v4l2_probe_ctrl dev u w = Some (True, ?u2\<lparr>m_menu_entries := me\<rparr>, w2)"
    using w0 w1 w2(1) d1 by (simp add: v4l2_probe_ctrl_def)
  moreover have "get_ctrl_by_name (?u2\<lparr>m_menu_entries := me\<rparr>) nm = find (\<lambda>c. q_name c = nm) found" for nm
    by (rule by_name_first [OF dst]) (simp_all add: d1 fold_add_ctrl_name)
  ultimately show ?thesis using d1 w2(2) by auto
qed


text \<open>A camera with the brightness control and a sparse menu, whose state counts the requests.\<close>

definition demo_ctrls :: "v4l2_query_ext_ctrl list" where
  "demo_ctrls = [(ctrl_query V4L2_CID_BASE)\<lparr>q_name := ''Brightness'', q_type := 1\<rparr>,
     (ctrl_query 0x009a0901)\<lparr>q_name := ''Exposure'', q_type := 3, q_maximum := 3, q_step := 1\<rparr>]"

definition demo_menu :: "u32 \<Rightarrow> int \<Rightarrow> v4l2_querymenu option" where
  "demo_menu cid i = (if i mod 2 ^ 32 \<in> {1, 3} then Some (menu_query cid i) else None)"

definition demo_probe_dev :: "v4l2_query_ext_ctrl list \<Rightarrow> nat v4l2_dev" where
  "demo_probe_dev cs = \<lparr>io_req = \<lambda>_ a w. (0, 0, a, w), io_enum_fmt = \<lambda>_ a w. (- 1, EINVAL, a, w),
     io_s_ext_ctrls = \<lambda>_ a w. (0, 0, a, w), io_g_ext_ctrls = \<lambda>_ a w. (0, 0, a, w),
     io_querycap = \<lambda>_ a w. (0, 0, a, Suc w),
     io_query_ext_ctrl = \<lambda>_ a w. (case ctrl_reply cs (q_id a) of
         Some c \<Rightarrow> (0, 0, c, Suc w) | None \<Rightarrow> (- 1, EINVAL, a, Suc w)),
     io_querymenu = \<lambda>_ a w. (if uint (qm_index a) \<in> {1, 3} then (0, 0, a, Suc w)
         else (- 1, EINVAL, a, Suc w))\<rparr>"


lemma demo_probe_serves:
  assumes "sorted_wrt (<) (map q_id cs)" and "\<forall>c \<in> set cs. q_id c < 0x80000000"
  shows "serves_ctrls (demo_probe_dev cs) fd cs" and "serves_menus (demo_probe_dev cs) fd demo_menu"
    and "\<exists>r e cap w'. io_querycap (demo_probe_dev cs) fd 0 w = (r, e, cap, w') \<and> 0 \<le> r"
proof -
  have "io_query_ext_ctrl (demo_probe_dev cs) fd (ctrl_query i) w =
      (case ctrl_reply cs i of Some c \<Rightarrow> (0, 0, c, Suc w) | None \<Rightarrow> (- 1, EINVAL, ctrl_query i, Suc w))"
    for i w by (simp add: demo_probe_dev_def ctrl_query_def split: option.split)
  then show "serves_ctrls (demo_probe_dev cs) fd cs"
    unfolding serves_ctrls_def using assms by blast
  have "io_querymenu (demo_probe_dev cs) fd (menu_query cid i) w = (case demo_menu cid i of
      Some m \<Rightarrow> (0, 0, m, Suc w) | None \<Rightarrow> (- 1, EINVAL, menu_query cid i, Suc w))" for cid i w
    by (simp add: demo_probe_dev_def demo_menu_def menu_query_def uint_word_of_int)
  then show "serves_menus (demo_probe_dev cs) fd demo_menu" unfolding serves_menus_def by blast
  show "\<exists>r e cap w'. io_querycap (demo_probe_dev cs) fd 0 w = (r, e, cap, w') \<and> 0 \<le> r"
    by (simp add: demo_probe_dev_def)
qed


text \<open>
  A camera without the brightness control appears to have no controls at all: the first query
  asks for \<^verbatim>\<open>V4L2_CID_BASE\<close> itself, without the flag for the next control, and the
  \<^verbatim>\<open>EINVAL\<close> ends the loop. The probe still reports success.
\<close>

theorem probe_without_base_empty:
  assumes "\<forall>w. \<exists>r e cap w'. io_querycap dev (m_v4l2_fd u) 0 w = (r, e, cap, w') \<and> 0 \<le> r"
    and "serves_ctrls dev (m_v4l2_fd u) cs" and "V4L2_CID_BASE \<notin> q_id ` set cs"
  shows "\<exists>u' w'. v4l2_probe_ctrl dev u w = Some (True, u', w') \<and> m_device_ctrl u' = [] \<and>
    get_ctrl_by_name u' nm = None"
proof -
  let ?u = "u\<lparr>m_device_ctrl := [], m_device_ctrl_by_name := Map.empty, m_menu_entries := Map.empty\<rparr>"
  obtain r e cap w0 where "io_querycap dev (m_v4l2_fd u) 0 w = (r, e, cap, w0)" "0 \<le> r"
    using assms(1) by blast
  moreover obtain w1 where "query_ctrls dev V4L2_CID_BASE ?u w0 = Some (True, ?u, w1)"
    using query_ctrls_from_base [of dev ?u cs w0] assms(2,3) by auto
  ultimately show ?thesis
    by (simp add: v4l2_probe_ctrl_def get_ctrl_by_name_def get_ctrl_id_by_name_def)
qed

theorem probe_without_base_empty_witness:
  "\<exists>u' w'. v4l2_probe_ctrl (demo_probe_dev (tl demo_ctrls)) v4l2_util_new 0 = Some (True, u', w') \<and>
     m_device_ctrl u' = [] \<and> get_ctrl_by_name u' ''Exposure'' = None"
proof (rule probe_without_base_empty)
  have s: "sorted_wrt (<) (map q_id (tl demo_ctrls))" "\<forall>c \<in> set (tl demo_ctrls). q_id c < 0x80000000"
    by (simp_all add: demo_ctrls_def ctrl_query_def)
  show "\<forall>w. \<exists>r e cap w'. io_querycap (demo_probe_dev (tl demo_ctrls)) (m_v4l2_fd v4l2_util_new) 0 w =
      (r, e, cap, w') \<and> 0 \<le> r" using demo_probe_serves(3) [OF s] by blast
  show "serves_ctrls (demo_probe_dev (tl demo_ctrls)) (m_v4l2_fd v4l2_util_new) (tl demo_ctrls)"
    by (rule demo_probe_serves(1) [OF s])
  show "V4L2_CID_BASE \<notin> q_id ` set (tl demo_ctrls)"
    by (simp add: demo_ctrls_def ctrl_query_def V4L2_CID_BASE_def)
qed


subsection \<open>The description is defined\<close>

lemma query_menus_keeps:
  assumes "query_menus dev ps u w = Some (b, u', w')"
  shows "m_v4l2_fd u' = m_v4l2_fd u \<and> m_device_ctrl u' = m_device_ctrl u \<and>
    dom (m_menu_entries u) \<subseteq> dom (m_menu_entries u') \<and>
    (b \<longrightarrow> (\<forall>(_, c) \<in> set ps. is_menu_ctrl c \<longrightarrow> q_id c \<in> dom (m_menu_entries u')))"
  using assms
proof (induction ps arbitrary: u w)
  case (Cons p ps)
  obtain i c where p: "p = (i, c)" by (cases p)
  show ?case
  proof (cases "is_menu_ctrl c")
    case False
    then show ?thesis using Cons.IH [of u w] Cons.prems by (simp add: p)
  next
    case True
    then obtain ok es w1 where
      s: "(if ok then query_menus dev ps (u\<lparr>m_menu_entries := (m_menu_entries u)(q_id c \<mapsto> es)\<rparr>) w1
         else Some (False, u\<lparr>m_menu_entries := (m_menu_entries u)(q_id c \<mapsto> es)\<rparr>, w1)) = Some (b, u', w')"
      using Cons.prems by (auto simp: p Let_def split: option.splits)
    show ?thesis
    proof (cases ok)
      case True
      let ?u = "u\<lparr>m_menu_entries := (m_menu_entries u)(q_id c \<mapsto> es)\<rparr>"
      from True s have q: "query_menus dev ps ?u w1 = Some (b, u', w')" by simp
      have d: "dom (m_menu_entries ?u) = insert (q_id c) (dom (m_menu_entries u))" by auto
      show ?thesis using Cons.IH [OF q] unfolding d by (simp add: p)
    next
      case False
      then show ?thesis using s by auto
    qed
  qed
qed simp

lemma probe_menus_present:
  assumes "v4l2_probe_ctrl dev u w = Some (True, u', w')" and "(i, c) \<in> set (m_device_ctrl u')"
    and "is_menu_ctrl c"
  shows "m_menu_entries u' (q_id c) \<noteq> None"
proof -
  obtain u1 w1 where "query_menus dev (m_device_ctrl u1) (u1\<lparr>m_menu_entries := Map.empty\<rparr>) w1 =
      Some (True, u', w')"
    using assms(1) by (auto simp: v4l2_probe_ctrl_def Let_def split: prod.splits if_splits option.splits)
  from query_menus_keeps [OF this] show ?thesis using assms(2,3) by fastforce
qed

lemma ctrl_desc_defined:
  "is_menu_ctrl c \<Longrightarrow> m_menu_entries u (q_id c) \<noteq> None \<Longrightarrow> ctrl_desc dev u c w \<noteq> None"
  "\<not> is_menu_ctrl c \<Longrightarrow> ctrl_desc dev u c w \<noteq> None"
  by (auto simp: ctrl_desc_def split: prod.splits)

lemma ctrl_descs_defined:
  "\<forall>(_, c) \<in> set ps. is_menu_ctrl c \<longrightarrow> m_menu_entries u (q_id c) \<noteq> None \<Longrightarrow>
   ctrl_descs dev u ps ds w \<noteq> None"
proof (induction ps arbitrary: ds w)
  case (Cons p ps)
  obtain i c where p: "p = (i, c)" by (cases p)
  then have "ctrl_desc dev u c w \<noteq> None"
    using Cons.prems ctrl_desc_defined [where c = c and u = u and dev = dev and w = w]
    by (cases "is_menu_ctrl c") simp_all
  then show ?case using Cons by (auto simp: p split: option.splits)
qed simp

text \<open>
  C23. After a successful probe the description never dereferences a missing menu: for every
  driver, and however it answers afterwards, \<^verbatim>\<open>get_property_description\<close> runs to its end.
\<close>

theorem description_after_probe:
  assumes "v4l2_probe_ctrl dev u w = Some (True, u', w')"
  shows "\<exists>doc w2. get_property_description dev' u' w1 = Some (doc, w2)"
proof -
  have "ctrl_descs dev' u' (m_device_ctrl u') [] w1 \<noteq> None"
    by (rule ctrl_descs_defined) (use probe_menus_present [OF assms] in auto)
  then show ?thesis by (auto simp: get_property_description_def)
qed

theorem description_after_probe_witness:
  "\<exists>u' w' doc w2. v4l2_probe_ctrl (demo_probe_dev []) v4l2_util_new 0 = Some (True, u', w') \<and>
     get_property_description (demo_probe_dev []) u' w' = Some (doc, w2)"
proof -
  have "v4l2_probe_ctrl (demo_probe_dev []) v4l2_util_new 0 = Some (True, v4l2_util_new, 2)"
    by (simp add: v4l2_probe_ctrl_def demo_probe_dev_def v4l2_util_new_def query_ctrls.simps
        ctrl_reply_def EINVAL_def)
  with description_after_probe [OF this, of "demo_probe_dev []" 2] show ?thesis by blast
qed

end
