(* ===== verification/V4l2_Metadata.thy ===== *)
theory V4l2_Metadata
  imports V4l2_Util Ptree_Util Chrono_Util
begin

unbundle bit_operations_syntax

section \<open>Frame metadata: \<^verbatim>\<open>v4l2_metadata\<close>\<close>

text \<open>
  \<^verbatim>\<open>src/libs/camera-pipes/util/v4l2_metadata.cpp\<close>: the kernel's buffer and format structs as
  property trees. In \<^verbatim>\<open>v4l2_format\<close> the members \<^verbatim>\<open>width\<close>, \<^verbatim>\<open>height\<close>,
  \<^verbatim>\<open>pixelformat\<close> and \<^verbatim>\<open>field\<close> of \<^verbatim>\<open>fmt.pix\<close> and \<^verbatim>\<open>fmt.pix_mp\<close>
  are at the same offsets of the union, so they are one set of fields here; what follows them
  differs and is kept in two records. In both, \<^verbatim>\<open>ycbcr_enc\<close> and \<^verbatim>\<open>hsv_enc\<close> are one
  union.
\<close>

definition V4L2_BUF_TYPE_VIDEO_CAPTURE :: u32 where "V4L2_BUF_TYPE_VIDEO_CAPTURE = 1"
definition V4L2_BUF_TYPE_VIDEO_CAPTURE_MPLANE :: u32 where "V4L2_BUF_TYPE_VIDEO_CAPTURE_MPLANE = 9"
definition V4L2_BUF_FLAG_TIMECODE :: u32 where "V4L2_BUF_FLAG_TIMECODE = 0x100"

lemma buf_types_differ [simp]:
  "V4L2_BUF_TYPE_VIDEO_CAPTURE \<noteq> V4L2_BUF_TYPE_VIDEO_CAPTURE_MPLANE"
  "V4L2_BUF_TYPE_VIDEO_CAPTURE_MPLANE \<noteq> V4L2_BUF_TYPE_VIDEO_CAPTURE"
  by (simp_all add: V4L2_BUF_TYPE_VIDEO_CAPTURE_def V4L2_BUF_TYPE_VIDEO_CAPTURE_MPLANE_def)

record v4l2_timecode =
  tc_type :: u32
  tc_flags :: u32
  tc_frames :: u8
  tc_seconds :: u8
  tc_minutes :: u8
  tc_hours :: u8

record v4l2_plane =
  pl_bytesused :: u32
  pl_length :: u32

record v4l2_buffer =
  vb_index :: u32
  vb_type :: u32
  vb_bytesused :: u32
  vb_flags :: u32
  vb_field :: u32
  vb_timestamp :: timeval
  vb_timecode :: v4l2_timecode
  vb_sequence :: u32
  vb_memory :: u32
  vb_offset :: u32
  vb_planes :: "v4l2_plane list"
  vb_length :: u32

record v4l2_plane_pix_format =
  ppf_sizeimage :: u32
  ppf_bytesperline :: u32

record v4l2_pix_tail =
  pix_bytesperline :: u32
  pix_sizeimage :: u32
  pix_colorspace :: u32
  pix_priv :: u32
  pix_flags :: u32
  pix_enc :: u32
  pix_quantization :: u32
  pix_xfer_func :: u32

record v4l2_mp_tail =
  mp_colorspace :: u32
  mp_plane_fmt :: "v4l2_plane_pix_format list"
  mp_num_planes :: u8
  mp_flags :: u8
  mp_enc :: u8
  mp_quantization :: u8
  mp_xfer_func :: u8

record v4l2_format =
  vf_type :: u32
  vf_width :: u32
  vf_height :: u32
  vf_pixelformat :: u32
  vf_field :: u32
  vf_pix :: v4l2_pix_tail
  vf_mp :: v4l2_mp_tail

text \<open>
  Decimal text of an unsigned value; boost's translator writes an \<^verbatim>\<open>unsigned char\<close> as a
  number too.
\<close>

definition put_u32 :: "u32 \<Rightarrow> string" where
  "put_u32 x = dec_of_nat (unat x)"

definition put_u8 :: "u8 \<Rightarrow> string" where
  "put_u8 x = dec_of_nat (unat x)"

definition v4l2_timecode_to_json :: "v4l2_timecode \<Rightarrow> ptree" where
  "v4l2_timecode_to_json tc =
     (let tc_str = (if tc_type tc = 1 then ''24FPS'' else if tc_type tc = 2 then ''25FPS''
            else if tc_type tc = 3 then ''30FPS'' else if tc_type tc = 4 then ''50FPS''
            else if tc_type tc = 5 then ''60FPS'' else ''UNKFPS'')
      in (pt_put ''hours'' (put_u8 (tc_hours tc)) \<circ> pt_put ''minutes'' (put_u8 (tc_minutes tc)) \<circ>
          pt_put ''seconds'' (put_u8 (tc_seconds tc)) \<circ> pt_put ''frames'' (put_u8 (tc_frames tc)) \<circ>
          pt_put ''flags'' (put_u32 (tc_flags tc)) \<circ> pt_put ''type'' tc_str) pt_empty)"

definition v4l2_plane_to_json :: "v4l2_plane \<Rightarrow> ptree" where
  "v4l2_plane_to_json p =
     (pt_put ''length'' (put_u32 (pl_length p)) \<circ> pt_put ''bytesused'' (put_u32 (pl_bytesused p))) pt_empty"

definition v4l2_plane_pix_format_to_json :: "v4l2_plane_pix_format \<Rightarrow> ptree" where
  "v4l2_plane_pix_format_to_json p =
     (pt_put ''bytesperline'' (put_u32 (ppf_bytesperline p)) \<circ>
      pt_put ''sizeimage'' (put_u32 (ppf_sizeimage p))) pt_empty"

definition tree_array :: "ptree list \<Rightarrow> ptree" where
  "tree_array ts = fold (pt_push_back []) ts pt_empty"

text \<open>
  \<^const>\<open>None\<close> is the read past the caller's plane array, when \<^verbatim>\<open>length\<close> exceeds it.
\<close>

definition v4l2_buffer_to_json :: "v4l2_buffer \<Rightarrow> ptree option" where
  "v4l2_buffer_to_json buf =
     (let t = (pt_put ''field'' (put_u32 (vb_field buf)) \<circ> pt_put ''flags'' (put_u32 (vb_flags buf)) \<circ>
          pt_put ''bytesused'' (put_u32 (vb_bytesused buf)) \<circ> pt_put ''type'' (put_u32 (vb_type buf)) \<circ>
          pt_put ''index'' (put_u32 (vb_index buf))) pt_empty;
        t = (if vb_flags buf AND V4L2_BUF_FLAG_TIMECODE \<noteq> 0
             then pt_put_child ''timecode'' (v4l2_timecode_to_json (vb_timecode buf)) t else t);
        t = (pt_put ''memory'' (put_u32 (vb_memory buf)) \<circ>
             pt_put ''sequence'' (put_u32 (vb_sequence buf)) \<circ>
             pt_put_path [''timestamp'', ''tv_usec''] (fmt_int (tv_usec (vb_timestamp buf))) \<circ>
             pt_put_path [''timestamp'', ''tv_sec''] (fmt_int (tv_sec (vb_timestamp buf)))) t
      in if vb_type buf = V4L2_BUF_TYPE_VIDEO_CAPTURE_MPLANE \<and> length (vb_planes buf) < unat (vb_length buf)
         then None
         else Some (pt_put ''length'' (put_u32 (vb_length buf))
           (if vb_type buf = V4L2_BUF_TYPE_VIDEO_CAPTURE_MPLANE
            then pt_put_child_path [''m'', ''planes''] (tree_array
              (map v4l2_plane_to_json (take (unat (vb_length buf)) (vb_planes buf)))) t
            else t)))"

definition v4l2_pix_format_to_json :: "v4l2_format \<Rightarrow> ptree" where
  "v4l2_pix_format_to_json f =
     (let p = vf_pix f in
      (pt_put ''xfer_func'' (v4l2_xfer_func_to_str (ucast (pix_xfer_func p))) \<circ>
       pt_put ''quantization'' (v4l2_quantization_to_str (ucast (pix_quantization p))) \<circ>
       pt_put ''hsv_enc'' (v4l2_hsv_encoding_to_str (ucast (pix_enc p))) \<circ>
       pt_put ''ycbcr_enc'' (v4l2_ycbcr_encoding_to_str (pix_enc p)) \<circ>
       pt_put ''flags'' (put_u32 (pix_flags p)) \<circ> pt_put ''priv'' (put_u32 (pix_priv p)) \<circ>
       pt_put ''colorspace'' (v4l2_colorspace_to_str (pix_colorspace p)) \<circ>
       pt_put ''sizeimage'' (put_u32 (pix_sizeimage p)) \<circ>
       pt_put ''bytesperline'' (put_u32 (pix_bytesperline p)) \<circ>
       pt_put ''field'' (v4l2_field_to_str (vf_field f)) \<circ>
       pt_put ''pixelformat'' (fourcc_to_str (vf_pixelformat f)) \<circ>
       pt_put ''height'' (put_u32 (vf_height f)) \<circ> pt_put ''width'' (put_u32 (vf_width f))) pt_empty)"

text \<open>\<^verbatim>\<open>plane_fmt\<close> is an array of eight; \<^const>\<open>None\<close> is the read past it.\<close>

definition v4l2_pix_format_mplane_to_json :: "v4l2_format \<Rightarrow> ptree option" where
  "v4l2_pix_format_mplane_to_json f =
     (let p = vf_mp f; n = unat (mp_num_planes p) in
      if length (mp_plane_fmt p) < n then None
      else Some ((pt_put ''xfer_func'' (v4l2_xfer_func_to_str (mp_xfer_func p)) \<circ>
       pt_put ''quantization'' (v4l2_quantization_to_str (mp_quantization p)) \<circ>
       pt_put ''hsv_enc'' (v4l2_hsv_encoding_to_str (mp_enc p)) \<circ>
       pt_put ''ycbcr_enc'' (v4l2_ycbcr_encoding_to_str (ucast (mp_enc p))) \<circ>
       pt_put ''flags'' (put_u8 (mp_flags p)) \<circ> pt_put ''num_planes'' (put_u8 (mp_num_planes p)) \<circ>
       pt_put_child ''plane_fmt'' (tree_array
         (map v4l2_plane_pix_format_to_json (take n (mp_plane_fmt p)))) \<circ>
       pt_put ''colorspace'' (v4l2_colorspace_to_str (mp_colorspace p)) \<circ>
       pt_put ''field'' (v4l2_field_to_str (vf_field f)) \<circ>
       pt_put ''pixelformat'' (fourcc_to_str (vf_pixelformat f)) \<circ>
       pt_put ''height'' (put_u32 (vf_height f)) \<circ> pt_put ''width'' (put_u32 (vf_width f))) pt_empty))"

definition v4l2_format_to_json :: "v4l2_format \<Rightarrow> ptree option" where
  "v4l2_format_to_json f =
     (if vf_type f = V4L2_BUF_TYPE_VIDEO_CAPTURE
        then Some (pt_put_child_path [''fmt'', ''pix''] (v4l2_pix_format_to_json f) pt_empty)
      else if vf_type f = V4L2_BUF_TYPE_VIDEO_CAPTURE_MPLANE
        then map_option (\<lambda>t. pt_put_child_path [''fmt'', ''pix_mp''] t pt_empty)
          (v4l2_pix_format_mplane_to_json f)
      else Some pt_empty)"

end
