(* ===== verification/Alvium_Camera.thy ===== *)
theory Alvium_Camera
  imports V4l2_Metadata Thread_Base
begin

unbundle bit_operations_syntax

section \<open>The Alvium camera: \<^verbatim>\<open>v4l2_mmap_buffer\<close> and \<^verbatim>\<open>Alvium_v4l2\<close>\<close>

text \<open>
  \<^verbatim>\<open>src/libs/camera-pipes/util/v4l2_mmap_buffer.cpp\<close> and
  \<^verbatim>\<open>src/libs/camera-pipes/cameras/Alvium_v4l2.cpp\<close>. The system calls and the requests of the
  camera are a record over the kernel's state \<open>'w\<close>; the format, control and buffer requests go
  through the retry loop of \<^const>\<open>ioctl_helper\<close>, so an operation has the value
  \<^const>\<open>None\<close> when a driver interrupts it for ever.

  The buffers are heap objects the two maps of the camera share: a map holds positions in
  \<open>al_heap\<close>, and a change made through one map is seen through the other. An object is destroyed,
  which unmaps it, when the last map gives it up.

  A C++ exception is an outcome: \<open>CamThrow\<close> carries the text.
\<close>

datatype cam_result = CamTrue | CamFalse | CamThrow string

definition cam_bool :: "bool \<Rightarrow> cam_result" where
  "cam_bool b = (if b then CamTrue else CamFalse)"

record v4l2_requestbuffers =
  req_count :: u32
  req_type :: u32
  req_memory :: u32

record 'w cam_sys =
  sys_v4l2 :: "'w v4l2_dev"
  sys_open :: "string \<Rightarrow> 'w \<Rightarrow> int \<times> 'w"
  sys_close :: "int \<Rightarrow> 'w \<Rightarrow> int \<times> 'w"
  sys_g_fmt :: "int \<Rightarrow> (v4l2_format, 'w) ioctl_call"
  sys_s_fmt :: "int \<Rightarrow> (v4l2_format, 'w) ioctl_call"
  sys_reqbufs :: "int \<Rightarrow> (v4l2_requestbuffers, 'w) ioctl_call"
  sys_querybuf :: "int \<Rightarrow> (v4l2_buffer, 'w) ioctl_call"
  sys_qbuf :: "int \<Rightarrow> (v4l2_buffer, 'w) ioctl_call"
  sys_dqbuf :: "int \<Rightarrow> (v4l2_buffer, 'w) ioctl_call"
  sys_streamon :: "int \<Rightarrow> (u32, 'w) ioctl_call"
  sys_streamoff :: "int \<Rightarrow> (u32, 'w) ioctl_call"
  sys_trigger_source :: "int \<Rightarrow> (int, 'w) ioctl_call"
  sys_trigger_activation :: "int \<Rightarrow> (int, 'w) ioctl_call"
  sys_mmap :: "int \<Rightarrow> u32 \<Rightarrow> u32 \<Rightarrow> 'w \<Rightarrow> ptr option \<times> 'w"
  sys_munmap :: "ptr \<Rightarrow> nat \<Rightarrow> 'w \<Rightarrow> int \<times> 'w"
  sys_select :: "int \<Rightarrow> timeval \<Rightarrow> 'w \<Rightarrow> int \<times> bool \<times> 'w"
  sys_bytes :: "ptr \<Rightarrow> nat \<Rightarrow> 'w \<Rightarrow> bytes"

subsection \<open>A mapped buffer\<close>

definition v4l2_buffer0 :: v4l2_buffer where
  "v4l2_buffer0 = \<lparr>vb_index = 0, vb_type = 0, vb_bytesused = 0, vb_flags = 0, vb_field = 0,
     vb_timestamp = \<lparr>tv_sec = 0, tv_usec = 0\<rparr>,
     vb_timecode = \<lparr>tc_type = 0, tc_flags = 0, tc_frames = 0, tc_seconds = 0, tc_minutes = 0,
       tc_hours = 0\<rparr>,
     vb_sequence = 0, vb_memory = 0, vb_offset = 0, vb_planes = [], vb_length = 0\<rparr>"

definition v4l2_format0 :: v4l2_format where
  "v4l2_format0 = \<lparr>vf_type = 0, vf_width = 0, vf_height = 0, vf_pixelformat = 0, vf_field = 0,
     vf_pix = \<lparr>pix_bytesperline = 0, pix_sizeimage = 0, pix_colorspace = 0, pix_priv = 0,
       pix_flags = 0, pix_enc = 0, pix_quantization = 0, pix_xfer_func = 0\<rparr>,
     vf_mp = \<lparr>mp_colorspace = 0,
       mp_plane_fmt = replicate 8 \<lparr>ppf_sizeimage = 0, ppf_bytesperline = 0\<rparr>,
       mp_num_planes = 0, mp_flags = 0, mp_enc = 0, mp_quantization = 0, mp_xfer_func = 0\<rparr>\<rparr>"

record v4l2_mmap_buffer =
  mb_buf :: v4l2_buffer
  mb_fmt :: v4l2_format
  mb_idx :: nat
  mb_ptr :: "ptr option"
  mb_size :: nat

definition v4l2_mmap_buffer_new :: v4l2_mmap_buffer where
  "v4l2_mmap_buffer_new = \<lparr>mb_buf = v4l2_buffer0, mb_fmt = v4l2_format0, mb_idx = 0, mb_ptr = None,
     mb_size = 0\<rparr>"

text \<open>The getters throw on a format of another type: \<^term>\<open>Inl e\<close>.\<close>

definition get_width :: "v4l2_mmap_buffer \<Rightarrow> string + u32" where
  "get_width b =
     (if vf_type (mb_fmt b) = V4L2_BUF_TYPE_VIDEO_CAPTURE then Inr (vf_width (mb_fmt b))
      else if vf_type (mb_fmt b) = V4L2_BUF_TYPE_VIDEO_CAPTURE_MPLANE then Inr (vf_width (mb_fmt b))
      else Inl ''fmt.type not supported'')"

definition get_height :: "v4l2_mmap_buffer \<Rightarrow> string + u32" where
  "get_height b =
     (if vf_type (mb_fmt b) = V4L2_BUF_TYPE_VIDEO_CAPTURE then Inr (vf_height (mb_fmt b))
      else if vf_type (mb_fmt b) = V4L2_BUF_TYPE_VIDEO_CAPTURE_MPLANE then Inr (vf_height (mb_fmt b))
      else Inl ''fmt.type not supported'')"

definition get_bytes_per_line :: "v4l2_mmap_buffer \<Rightarrow> string + u32" where
  "get_bytes_per_line b =
     (if vf_type (mb_fmt b) = V4L2_BUF_TYPE_VIDEO_CAPTURE
        then Inr (pix_bytesperline (vf_pix (mb_fmt b)))
      else if vf_type (mb_fmt b) = V4L2_BUF_TYPE_VIDEO_CAPTURE_MPLANE
        then Inr (ppf_bytesperline (mp_plane_fmt (vf_mp (mb_fmt b)) ! 0))
      else Inl ''fmt.type not supported'')"

definition get_pixel_format :: "v4l2_mmap_buffer \<Rightarrow> string + u32" where
  "get_pixel_format b =
     (if vf_type (mb_fmt b) = V4L2_BUF_TYPE_VIDEO_CAPTURE then Inr (vf_pixelformat (mb_fmt b))
      else if vf_type (mb_fmt b) = V4L2_BUF_TYPE_VIDEO_CAPTURE_MPLANE
        then Inr (vf_pixelformat (mb_fmt b))
      else Inl ''fmt.type not supported'')"

definition get_index :: "v4l2_mmap_buffer \<Rightarrow> u32" where
  "get_index b = of_nat (mb_idx b)"

definition unmap :: "'w cam_sys \<Rightarrow> v4l2_mmap_buffer \<Rightarrow> 'w \<Rightarrow> bool \<times> v4l2_mmap_buffer \<times> 'w" where
  "unmap sys b w = (case mb_ptr b of
     None \<Rightarrow> (True, b, w)
   | Some p \<Rightarrow> (let (r, w') = sys_munmap sys p (mb_size b) w in (r \<noteq> - 1, b\<lparr>mb_ptr := None\<rparr>, w')))"

definition mmap_init ::
    "'w cam_sys \<Rightarrow> int \<Rightarrow> v4l2_buffer \<Rightarrow> v4l2_format \<Rightarrow> nat \<Rightarrow> v4l2_mmap_buffer \<Rightarrow> 'w
     \<Rightarrow> cam_result \<times> v4l2_mmap_buffer \<times> 'w" where
  "mmap_init sys fd buf fmt idx b w =
     (let (b, w) = (if mb_ptr b \<noteq> None then snd (unmap sys b w) else (b, w));
          b = b\<lparr>mb_buf := buf, mb_fmt := fmt, mb_idx := idx\<rparr> in
      if vf_type fmt = V4L2_BUF_TYPE_VIDEO_CAPTURE then
        (case sys_mmap sys fd (vb_length buf) (vb_offset buf) w of
           (None, w) \<Rightarrow> (CamFalse, b, w)
         | (Some p, w) \<Rightarrow> (CamTrue, b\<lparr>mb_ptr := Some p, mb_size := unat (vb_length buf)\<rparr>, w))
      else if vf_type fmt = V4L2_BUF_TYPE_VIDEO_CAPTURE_MPLANE
        then (CamThrow ''this is not supported'', b, w)
      else (CamThrow ''fmt.type not supported'', b, w))"

definition set_buf :: "v4l2_buffer \<Rightarrow> v4l2_mmap_buffer \<Rightarrow> v4l2_mmap_buffer" where
  "set_buf buf b = b\<lparr>mb_buf := buf\<rparr>"

definition reset_buf :: "v4l2_mmap_buffer \<Rightarrow> v4l2_mmap_buffer" where
  "reset_buf b = b\<lparr>mb_buf := v4l2_buffer0\<lparr>vb_index := vb_index (mb_buf b), vb_type := vb_type (mb_buf b),
     vb_memory := vb_memory (mb_buf b)\<rparr>\<rparr>"

text \<open>\<^const>\<open>None\<close>: the copy reads through a null pointer.\<close>

definition copy_to_vec :: "'w cam_sys \<Rightarrow> v4l2_mmap_buffer \<Rightarrow> 'w \<Rightarrow> bytes option" where
  "copy_to_vec sys b w =
     (let n = unat (vb_bytesused (mb_buf b)) in
      case mb_ptr b of None \<Rightarrow> if n = 0 then Some [] else None | Some p \<Rightarrow> Some (sys_bytes sys p n w))"

subsection \<open>The camera\<close>

record alvium =
  al_fd :: int
  al_util :: v4l2_util
  al_cap :: u32
  al_buffer_type :: u32
  al_heap :: "v4l2_mmap_buffer list"
  al_by_idx :: "(u32 \<times> nat) list"
  al_by_ptr :: "(ptr \<times> nat) list"

text \<open>\<^verbatim>\<open>m_buffer_type\<close> is not initialised: its first value is an argument.\<close>

definition alvium_new :: "u32 \<Rightarrow> alvium" where
  "alvium_new indet = \<lparr>al_fd = - 1, al_util = v4l2_util_new, al_cap = 0, al_buffer_type = indet,
     al_heap = [], al_by_idx = [], al_by_ptr = []\<rparr>"

definition V4L2_CAP_VIDEO_CAPTURE :: u32 where "V4L2_CAP_VIDEO_CAPTURE = 0x00000001"
definition V4L2_CAP_VIDEO_CAPTURE_MPLANE :: u32 where "V4L2_CAP_VIDEO_CAPTURE_MPLANE = 0x00001000"
definition V4L2_CAP_STREAMING :: u32 where "V4L2_CAP_STREAMING = 0x04000000"
definition V4L2_MEMORY_MMAP :: u32 where "V4L2_MEMORY_MMAP = 1"
definition V4L2_FIELD_NONE :: u32 where "V4L2_FIELD_NONE = 1"
definition NUM_BUFFERS :: u32 where "NUM_BUFFERS = 3"

definition stop_streaming :: "'w cam_sys \<Rightarrow> alvium \<Rightarrow> 'w \<Rightarrow> (bool \<times> 'w) option" where
  "stop_streaming sys al w = do {
     (ret, _, _, w) \<leftarrow> ioctl_helper (sys_streamoff sys (al_fd al)) (al_buffer_type al) w;
     Some (ret \<noteq> - 1, w) }"

text \<open>The destructors that run when the maps give up their objects, in the order of the maps.\<close>

definition destroy :: "'w cam_sys \<Rightarrow> nat \<Rightarrow> alvium \<times> 'w \<Rightarrow> alvium \<times> 'w" where
  "destroy sys i s = (let (al, w) = s; (_, b, w') = unmap sys (al_heap al ! i) w in
     (al\<lparr>al_heap := (al_heap al)[i := b]\<rparr>, w'))"

definition clear_bufs :: "'w cam_sys \<Rightarrow> alvium \<Rightarrow> 'w \<Rightarrow> alvium \<times> 'w" where
  "clear_bufs sys al w =
     (let only_idx = filter (\<lambda>i. i \<notin> snd ` set (al_by_ptr al)) (map snd (al_by_idx al));
          (al, w) = fold (destroy sys) only_idx (al\<lparr>al_by_idx := []\<rparr>, w);
          (al, w) = fold (destroy sys) (map snd (al_by_ptr al)) (al, w)
      in (al\<lparr>al_by_ptr := []\<rparr>, w))"

definition alvium_close :: "'w cam_sys \<Rightarrow> alvium \<Rightarrow> 'w \<Rightarrow> (bool \<times> alvium \<times> 'w) option" where
  "alvium_close sys al w =
     (if al_fd al = - 1 then Some (True, al, w)
      else do {
        (_, w) \<leftarrow> stop_streaming sys al w;
        let (al, w) = clear_bufs sys al w;
        (ret, _, _, w) \<leftarrow> ioctl_helper (sys_reqbufs sys (al_fd al))
          \<lparr>req_count = 0, req_type = al_buffer_type al, req_memory = V4L2_MEMORY_MMAP\<rparr> w;
        if ret = - 1 then Some (False, al, w)
        else let (ret, w) = sys_close sys (al_fd al) w in Some (ret = 0, al\<lparr>al_fd := - 1\<rparr>, w) })"

definition close_and_fail :: "'w cam_sys \<Rightarrow> alvium \<Rightarrow> 'w \<Rightarrow> (bool \<times> alvium \<times> 'w) option" where
  "close_and_fail sys al w = do { (_, al, w) \<leftarrow> alvium_close sys al w; Some (False, al, w) }"

definition alvium_probe :: "'w cam_sys \<Rightarrow> alvium \<Rightarrow> 'w \<Rightarrow> (bool \<times> alvium \<times> 'w) option" where
  "alvium_probe sys al w = do {
     (ok, u, w) \<leftarrow> v4l2_probe_ctrl (sys_v4l2 sys) (al_util al) w;
     let al = al\<lparr>al_util := u\<rparr>;
     Some (ok \<and> al_fd al \<noteq> - 1, al, w) }"

definition alvium_formats ::
    "'w cam_sys \<Rightarrow> u32 \<Rightarrow> u32 \<Rightarrow> alvium \<Rightarrow> 'w \<Rightarrow> (alvium \<times> 'w) option" where
  "alvium_formats sys enum_type buffer_type al w = do {
     (_, u, w) \<leftarrow> enum_format_descs (sys_v4l2 sys) enum_type (al_util al) w;
     Some (al\<lparr>al_util := u, al_buffer_type := buffer_type\<rparr>, w) }"

definition alvium_open :: "'w cam_sys \<Rightarrow> string \<Rightarrow> alvium \<Rightarrow> 'w \<Rightarrow> (bool \<times> alvium \<times> 'w) option" where
  "alvium_open sys path al w =
     (if al_fd al \<noteq> - 1 then Some (False, al, w)
      else let (fd, w) = sys_open sys path w;
               al = al\<lparr>al_fd := fd, al_util := set_fd fd (al_util al)\<rparr> in do {
        (ret, _, cap, w) \<leftarrow> ioctl_helper (io_querycap (sys_v4l2 sys) fd) (al_cap al) w;
        let al = al\<lparr>al_cap := cap\<rparr>;
        if ret = - 1 then close_and_fail sys al w
        else if cap AND V4L2_CAP_VIDEO_CAPTURE = 0 \<or> cap AND V4L2_CAP_VIDEO_CAPTURE_MPLANE \<noteq> 0
          then close_and_fail sys al w
        else if cap AND V4L2_CAP_STREAMING = 0 then close_and_fail sys al w
        else if cap AND V4L2_CAP_VIDEO_CAPTURE \<noteq> 0 then do {
          (al, w) \<leftarrow> alvium_formats sys V4L2_BUF_TYPE_VIDEO_CAPTURE V4L2_CAP_VIDEO_CAPTURE al w;
          alvium_probe sys al w }
        else if cap AND V4L2_CAP_VIDEO_CAPTURE_MPLANE \<noteq> 0 then do {
          (al, w) \<leftarrow> alvium_formats sys V4L2_BUF_TYPE_VIDEO_CAPTURE_MPLANE
            V4L2_CAP_VIDEO_CAPTURE_MPLANE al w;
          alvium_probe sys al w }
        else Some (False, al, w) })"


subsection \<open>Setting the format and mapping the buffers\<close>

definition query_buffer :: "u32 \<Rightarrow> u32 \<Rightarrow> u8 \<Rightarrow> u32 \<Rightarrow> v4l2_buffer" where
  "query_buffer ftype buffer_type num_planes i =
     v4l2_buffer0\<lparr>vb_planes := (if ftype = V4L2_BUF_TYPE_VIDEO_CAPTURE_MPLANE
         then replicate (unat num_planes) \<lparr>pl_bytesused = 0, pl_length = 0\<rparr> else []),
       vb_length := ucast num_planes, vb_type := buffer_type, vb_memory := V4L2_MEMORY_MMAP,
       vb_index := i\<rparr>"

text \<open>The new object is entered in both maps; it is destroyed at once if neither takes it.\<close>

definition add_buf :: "'w cam_sys \<Rightarrow> v4l2_mmap_buffer \<Rightarrow> alvium \<Rightarrow> 'w \<Rightarrow> alvium \<times> 'w" where
  "add_buf sys b al w =
     (let i = length (al_heap al);
          al = al\<lparr>al_heap := al_heap al @ [b],
                  al_by_idx := smap_insert (get_index b) i (al_by_idx al),
                  al_by_ptr := (case mb_ptr b of None \<Rightarrow> smap_insert 0 i (al_by_ptr al)
                    | Some p \<Rightarrow> smap_insert p i (al_by_ptr al))\<rparr>
      in if i \<in> snd ` set (al_by_idx al) \<union> snd ` set (al_by_ptr al) then (al, w)
         else destroy sys i (al, w))"

fun map_bufs ::
    "'w cam_sys \<Rightarrow> v4l2_format \<Rightarrow> u8 \<Rightarrow> nat list \<Rightarrow> alvium \<Rightarrow> 'w \<Rightarrow> (cam_result \<times> alvium \<times> 'w) option" where
  "map_bufs sys fmt num_planes [] al w = Some (CamTrue, al, w)"
| "map_bufs sys fmt num_planes (i # is) al w =
     (if vf_type fmt \<noteq> V4L2_BUF_TYPE_VIDEO_CAPTURE \<and> vf_type fmt \<noteq> V4L2_BUF_TYPE_VIDEO_CAPTURE_MPLANE
        then Some (CamThrow ''fmt.type not supported'', al, w)
      else do {
        (ret, _, buf, w) \<leftarrow> ioctl_helper (sys_querybuf sys (al_fd al))
          (query_buffer (vf_type fmt) (al_buffer_type al) num_planes (of_nat i)) w;
        if ret = - 1 then Some (CamFalse, al, w)
        else (case mmap_init sys (al_fd al) buf fmt i v4l2_mmap_buffer_new w of
            (CamTrue, b, w) \<Rightarrow> (let (al, w) = add_buf sys b al w in map_bufs sys fmt num_planes is al w)
          | (r, _, w) \<Rightarrow> Some (r, al, w)) })"

definition alvium_init :: "'w cam_sys \<Rightarrow> u32 \<Rightarrow> alvium \<Rightarrow> 'w \<Rightarrow> (cam_result \<times> alvium \<times> 'w) option" where
  "alvium_init sys fcc al w =
     (if m_fmt_descs (al_util al) = [] then Some (CamFalse, al, w)
      else do {
        (ret, _, fmt, w) \<leftarrow> ioctl_helper (sys_g_fmt sys (al_fd al))
          (v4l2_format0\<lparr>vf_type := al_buffer_type al\<rparr>) w;
        if ret = - 1 then Some (CamFalse, al, w)
        else if vf_type fmt \<noteq> V4L2_BUF_TYPE_VIDEO_CAPTURE \<and>
            vf_type fmt \<noteq> V4L2_BUF_TYPE_VIDEO_CAPTURE_MPLANE then Some (CamFalse, al, w)
        else do {
          (ret, _, fmt, w) \<leftarrow> ioctl_helper (sys_s_fmt sys (al_fd al))
            (fmt\<lparr>vf_pixelformat := fcc, vf_field := V4L2_FIELD_NONE\<rparr>) w;
          if ret = - 1 then Some (CamFalse, al, w)
          else do {
            (ret, _, fmt, w) \<leftarrow> ioctl_helper (sys_g_fmt sys (al_fd al))
              (fmt\<lparr>vf_type := al_buffer_type al\<rparr>) w;
            if ret = - 1 then Some (CamFalse, al, w)
            else if vf_type fmt \<noteq> V4L2_BUF_TYPE_VIDEO_CAPTURE \<and>
                vf_type fmt \<noteq> V4L2_BUF_TYPE_VIDEO_CAPTURE_MPLANE then Some (CamFalse, al, w)
            else do {
              let num_planes = (if vf_type fmt = V4L2_BUF_TYPE_VIDEO_CAPTURE_MPLANE
                then mp_num_planes (vf_mp fmt) else 0);
              (ret, _, req, w) \<leftarrow> ioctl_helper (sys_reqbufs sys (al_fd al))
                \<lparr>req_count = NUM_BUFFERS, req_type = al_buffer_type al,
                  req_memory = V4L2_MEMORY_MMAP\<rparr> w;
              if ret = - 1 then Some (CamFalse, al, w)
              else if req_count req = 0 then Some (CamFalse, al, w)
              else map_bufs sys fmt num_planes [0..<unat (req_count req)] al w }}}})"

subsection \<open>Streaming\<close>

fun queue_bufs ::
    "'w cam_sys \<Rightarrow> (u32 \<times> nat) list \<Rightarrow> alvium \<Rightarrow> 'w \<Rightarrow> (bool \<times> alvium \<times> 'w) option" where
  "queue_bufs sys [] al w = Some (True, al, w)"
| "queue_bufs sys ((_, i) # bs) al w =
     (let b = reset_buf (al_heap al ! i); al = al\<lparr>al_heap := (al_heap al)[i := b]\<rparr> in do {
        (ret, _, _, w) \<leftarrow> ioctl_helper (sys_qbuf sys (al_fd al)) (mb_buf b) w;
        if ret = - 1 then Some (False, al, w) else queue_bufs sys bs al w })"

definition start_streaming :: "'w cam_sys \<Rightarrow> alvium \<Rightarrow> 'w \<Rightarrow> (bool \<times> alvium \<times> 'w) option" where
  "start_streaming sys al w = do {
     (ok, al, w) \<leftarrow> queue_bufs sys (al_by_idx al) al w;
     if \<not> ok then Some (False, al, w)
     else do {
       (ret, _, _, w) \<leftarrow> ioctl_helper (sys_streamon sys (al_fd al)) (al_buffer_type al) w;
       Some (ret \<noteq> - 1, al, w) }}"

text \<open>A frame callback runs on the frame and the world; \<^const>\<open>Some\<close> is an exception.\<close>

type_synonym 'w frame_cb = "v4l2_mmap_buffer \<Rightarrow> 'w \<Rightarrow> string option \<times> 'w"

definition wait_for_frame ::
    "'w cam_sys \<Rightarrow> int \<Rightarrow> 'w frame_cb option \<Rightarrow> alvium \<Rightarrow> 'w \<Rightarrow> (cam_result \<times> alvium \<times> 'w) option" where
  "wait_for_frame sys timeout cb al w =
     (let (_, ready, w) = sys_select sys (al_fd al) (chrono_to_timeval timeout) w in
      if \<not> ready then Some (CamTrue, al, w)
      else do {
        (ret, _, buf, w) \<leftarrow> ioctl_helper (sys_dqbuf sys (al_fd al))
          (v4l2_buffer0\<lparr>vb_type := al_buffer_type al, vb_memory := V4L2_MEMORY_MMAP\<rparr>) w;
        if ret = - 1 then Some (CamFalse, al, w)
        else (case map_of (al_by_idx al) (vb_index buf) of
            None \<Rightarrow> Some (CamFalse, al, w)
          | Some i \<Rightarrow> do {
              let frame = set_buf buf (al_heap al ! i);
              let al = al\<lparr>al_heap := (al_heap al)[i := frame]\<rparr>;
              let (exn, w) = (case cb of None \<Rightarrow> (None, w) | Some f \<Rightarrow> f frame w);
              (case exn of
                 Some e \<Rightarrow> Some (CamThrow e, al, w)
               | None \<Rightarrow> do {
                   let frame = reset_buf (al_heap al ! i);
                   let al = al\<lparr>al_heap := (al_heap al)[i := frame]\<rparr>;
                   (ret, _, _, w) \<leftarrow> ioctl_helper (sys_qbuf sys (al_fd al)) (mb_buf frame) w;
                   Some (cam_bool (ret \<noteq> - 1), al, w) }) }) })"

text \<open>
  The frame worker's loop: one reading of the interrupt flag per turn. Every outcome is ignored,
  exceptions are caught; the list records them.
\<close>

fun frame_worker_work ::
    "'w cam_sys \<Rightarrow> 'w frame_cb \<Rightarrow> bool list \<Rightarrow> alvium \<Rightarrow> 'w
     \<Rightarrow> (cam_result list \<times> alvium \<times> 'w) option" where
  "frame_worker_work sys cb [] al w = Some ([], al, w)"
| "frame_worker_work sys cb (interrupted # fs) al w =
     (if interrupted then Some ([], al, w)
      else do {
        (r, al, w) \<leftarrow> wait_for_frame sys 250000 (Some cb) al w;
        (rs, al, w) \<leftarrow> frame_worker_work sys cb fs al w;
        Some (r # rs, al, w) })"

subsection \<open>Triggers\<close>

datatype v4l2_trigger_source = V4L2_TRIGGER_SOURCE_SOFTWARE | V4L2_TRIGGER_SOURCE_LINE0
  | V4L2_TRIGGER_SOURCE_LINE1 | V4L2_TRIGGER_SOURCE_LINE2 | V4L2_TRIGGER_SOURCE_LINE3

datatype v4l2_trigger_activation = V4L2_TRIGGER_ACTIVATION_RISING_EDGE
  | V4L2_TRIGGER_ACTIVATION_FALLING_EDGE | V4L2_TRIGGER_ACTIVATION_ANY_EDGE
  | V4L2_TRIGGER_ACTIVATION_LEVEL_HIGH | V4L2_TRIGGER_ACTIVATION_LEVEL_LOW

fun trigger_source_code :: "v4l2_trigger_source \<Rightarrow> int" where
  "trigger_source_code V4L2_TRIGGER_SOURCE_SOFTWARE = 0"
| "trigger_source_code V4L2_TRIGGER_SOURCE_LINE0 = 1"
| "trigger_source_code V4L2_TRIGGER_SOURCE_LINE1 = 2"
| "trigger_source_code V4L2_TRIGGER_SOURCE_LINE2 = 3"
| "trigger_source_code V4L2_TRIGGER_SOURCE_LINE3 = 4"

fun trigger_activation_code :: "v4l2_trigger_activation \<Rightarrow> int" where
  "trigger_activation_code V4L2_TRIGGER_ACTIVATION_RISING_EDGE = 0"
| "trigger_activation_code V4L2_TRIGGER_ACTIVATION_FALLING_EDGE = 1"
| "trigger_activation_code V4L2_TRIGGER_ACTIVATION_ANY_EDGE = 2"
| "trigger_activation_code V4L2_TRIGGER_ACTIVATION_LEVEL_HIGH = 3"
| "trigger_activation_code V4L2_TRIGGER_ACTIVATION_LEVEL_LOW = 4"

text \<open>\<^verbatim>\<open>_IO('V', BASE_VIDIOC_PRIVATE + n)\<close> with \<^verbatim>\<open>BASE_VIDIOC_PRIVATE\<close> 192.\<close>

definition VIDIOC_TRIGGER_MODE_OFF :: int where "VIDIOC_TRIGGER_MODE_OFF = 0x56D4"
definition VIDIOC_TRIGGER_MODE_ON :: int where "VIDIOC_TRIGGER_MODE_ON = 0x56D5"
definition VIDIOC_TRIGGER_SOFTWARE :: int where "VIDIOC_TRIGGER_SOFTWARE = 0x56DA"

definition trigger_req :: "'w cam_sys \<Rightarrow> int \<Rightarrow> alvium \<Rightarrow> 'w \<Rightarrow> (bool \<times> 'w) option" where
  "trigger_req sys req al w = do {
     (ret, _, _, w) \<leftarrow> ioctl_helper_req (sys_v4l2 sys) (al_util al) req w;
     Some (ret \<noteq> - 1, w) }"

definition set_free_trigger :: "'w cam_sys \<Rightarrow> alvium \<Rightarrow> 'w \<Rightarrow> (bool \<times> 'w) option" where
  "set_free_trigger sys al w = trigger_req sys VIDIOC_TRIGGER_MODE_OFF al w"

definition send_software_trigger :: "'w cam_sys \<Rightarrow> alvium \<Rightarrow> 'w \<Rightarrow> (bool \<times> 'w) option" where
  "send_software_trigger sys al w = trigger_req sys VIDIOC_TRIGGER_SOFTWARE al w"

definition set_sw_trigger :: "'w cam_sys \<Rightarrow> alvium \<Rightarrow> 'w \<Rightarrow> (bool \<times> 'w) option" where
  "set_sw_trigger sys al w = do {
     (ok, w) \<leftarrow> trigger_req sys VIDIOC_TRIGGER_MODE_ON al w;
     if \<not> ok then Some (False, w)
     else do {
       (ret, _, _, w) \<leftarrow> ioctl_helper (sys_trigger_source sys (al_fd al))
         (trigger_source_code V4L2_TRIGGER_SOURCE_SOFTWARE) w;
       Some (ret \<noteq> - 1, w) }}"

definition set_hw_trigger ::
    "'w cam_sys \<Rightarrow> v4l2_trigger_source \<Rightarrow> v4l2_trigger_activation \<Rightarrow> alvium \<Rightarrow> 'w \<Rightarrow> (bool \<times> 'w) option" where
  "set_hw_trigger sys src act al w =
     (if src = V4L2_TRIGGER_SOURCE_SOFTWARE then Some (False, w)
      else do {
        (ok, w) \<leftarrow> trigger_req sys VIDIOC_TRIGGER_MODE_ON al w;
        if \<not> ok then Some (False, w)
        else do {
          (ret, _, _, w) \<leftarrow> ioctl_helper (sys_trigger_source sys (al_fd al)) (trigger_source_code src) w;
          if ret = - 1 then Some (False, w)
          else do {
            (ret, _, _, w) \<leftarrow> ioctl_helper (sys_trigger_activation sys (al_fd al))
              (trigger_activation_code act) w;
            Some (ret \<noteq> - 1, w) }}})"

definition frame_meta_to_ptree :: "v4l2_mmap_buffer \<Rightarrow> ptree option" where
  "frame_meta_to_ptree frame = do {
     buf_tree \<leftarrow> v4l2_buffer_to_json (mb_buf frame);
     fmt_tree \<leftarrow> v4l2_format_to_json (mb_fmt frame);
     Some (pt_put_child ''fmt'' fmt_tree (pt_put_child ''buf'' buf_tree pt_empty)) }"


subsection \<open>Who owns the buffers\<close>

text \<open>
  The driver's side: \<open>owned w\<close> are the indexes queued with the driver in state \<open>w\<close>. A
  successful \<^verbatim>\<open>VIDIOC_QBUF\<close> hands a buffer over, a successful \<^verbatim>\<open>VIDIOC_DQBUF\<close>
  gives one back, a failed request changes neither the queue nor its argument, and nothing else
  the streaming code calls touches the queue.
\<close>

definition queue_laws :: "'w cam_sys \<Rightarrow> int \<Rightarrow> ('w \<Rightarrow> u32 set) \<Rightarrow> bool" where
  "queue_laws sys fd owned \<longleftrightarrow>
     (\<forall>b w r e b' w'. sys_qbuf sys fd b w = (r, e, b', w') \<longrightarrow>
        (if r = - 1 then b' = b \<and> owned w' = owned w else owned w' = insert (vb_index b) (owned w))) \<and>
     (\<forall>b w r e b' w'. sys_dqbuf sys fd b w = (r, e, b', w') \<longrightarrow>
        (if r = - 1 then b' = b \<and> owned w' = owned w
         else vb_index b' \<in> owned w \<and> owned w' = owned w - {vb_index b'})) \<and>
     (\<forall>t w r f w'. sys_select sys fd t w = (r, f, w') \<longrightarrow> owned w' = owned w) \<and>
     (\<forall>t w r e t' w'. sys_streamon sys fd t w = (r, e, t', w') \<longrightarrow> owned w' = owned w)"

definition cb_keeps :: "'w frame_cb option \<Rightarrow> ('w \<Rightarrow> u32 set) \<Rightarrow> bool" where
  "cb_keeps cb owned \<longleftrightarrow> (\<forall>f b w. cb = Some f \<longrightarrow> owned (snd (f b w)) = owned w)"

definition idxs :: "alvium \<Rightarrow> u32 set" where
  "idxs al = fst ` set (al_by_idx al)"

text \<open>The type invariant of the camera: each index leads to its own object, which carries it.\<close>

definition alvium_inv :: "alvium \<Rightarrow> bool" where
  "alvium_inv al \<longleftrightarrow> distinct (map fst (al_by_idx al)) \<and> distinct (map snd (al_by_idx al)) \<and>
     (\<forall>(k, i) \<in> set (al_by_idx al). i < length (al_heap al) \<and> vb_index (mb_buf (al_heap al ! i)) = k)"

lemma ioctl_helper_last_raw:
  assumes "ioctl_helper call a w = Some y"
  shows "(\<forall>w b w1. call a w = (- 1, EINTR, b, w1) \<longrightarrow> b = a \<and> f w1 = f w) \<longrightarrow>
   (\<exists>w0. f w0 = f w \<and> call a w0 = y)"
proof (rule ioctl_helper.raw_induct [OF _ assms], goal_cases)
  case (1 helper call a w y)
  obtain r e b w1 where c: "call a w = (r, e, b, w1)" by (metis prod_cases4)
  show ?case
  proof (cases "r = - 1 \<and> e = EINTR")
    case True
    then have "helper call b w1 = Some y" using 1(2) c by simp
    from 1(1) [OF this] show ?thesis using True c by metis
  next
    case False
    then have "y = (r, e, b, w1)" using 1(2) c by (auto split: if_splits)
    then show ?thesis using c by blast
  qed
qed

lemma ioctl_helper_last:
  assumes "ioctl_helper call a w = Some (r, e, a', w')"
    and "\<And>w b w1. call a w = (- 1, EINTR, b, w1) \<Longrightarrow> b = a \<and> f w1 = f w"
  shows "\<exists>w0. f w0 = f w \<and> call a w0 = (r, e, a', w')"
  using ioctl_helper_last_raw [OF assms(1), of f] assms(2) by blast

lemma qbuf_owned:
  assumes "queue_laws sys fd owned" and "ioctl_helper (sys_qbuf sys fd) b w = Some (r, e, b', w')"
  shows "owned w' = (if r = - 1 then owned w else insert (vb_index b) (owned w))"
proof -
  have q: "if r = - 1 then b' = b \<and> owned w' = owned w else owned w' = insert (vb_index b) (owned w)"
    if "sys_qbuf sys fd b w = (r, e, b', w')" for b w r e b' w'
    using assms(1) that by (simp add: queue_laws_def)
  obtain w0 where "owned w0 = owned w" "sys_qbuf sys fd b w0 = (r, e, b', w')"
    using ioctl_helper_last [OF assms(2), of owned] q by fastforce
  with q show ?thesis by (metis (full_types))
qed

lemma dqbuf_owned:
  assumes "queue_laws sys fd owned" and "ioctl_helper (sys_dqbuf sys fd) b w = Some (r, e, b', w')"
  shows "if r = - 1 then owned w' = owned w
    else vb_index b' \<in> owned w \<and> owned w' = owned w - {vb_index b'}"
proof -
  have q: "if r = - 1 then b' = b \<and> owned w' = owned w
      else vb_index b' \<in> owned w \<and> owned w' = owned w - {vb_index b'}"
    if "sys_dqbuf sys fd b w = (r, e, b', w')" for b w r e b' w'
    using assms(1) that by (simp add: queue_laws_def)
  obtain w0 where "owned w0 = owned w" "sys_dqbuf sys fd b w0 = (r, e, b', w')"
    using ioctl_helper_last [OF assms(2), of owned] q by fastforce
  with q show ?thesis by (metis (full_types))
qed

lemma ioctl_helper_pres:
  assumes "ioctl_helper call a w = Some y"
  shows "(\<forall>a w r e a' w'. call a w = (r, e, a', w') \<longrightarrow> f w' = f w) \<longrightarrow>
    f (snd (snd (snd y))) = f w"
proof (rule ioctl_helper.raw_induct [OF _ assms], goal_cases)
  case (1 helper call a w y)
  obtain r e b w1 where c: "call a w = (r, e, b, w1)" by (metis prod_cases4)
  show ?case
  proof (cases "r = - 1 \<and> e = EINTR")
    case True
    then have "helper call b w1 = Some y" using 1(2) c by simp
    from 1(1) [OF this] show ?thesis using c by metis
  next
    case False
    then have "y = (r, e, b, w1)" using 1(2) c by (auto split: if_splits)
    then show ?thesis using c by auto
  qed
qed

lemma streamon_owned:
  assumes "queue_laws sys fd owned" and "ioctl_helper (sys_streamon sys fd) t w = Some (r, e, t', w')"
  shows "owned w' = owned w"
  using ioctl_helper_pres [OF assms(2), of owned] assms(1) unfolding queue_laws_def by auto


text \<open>Changing the buffer struct of one object, with the index it is filed under, keeps the invariant.\<close>

lemma alvium_inv_lookup:
  "alvium_inv al \<Longrightarrow> map_of (al_by_idx al) k = Some i \<Longrightarrow>
   i < length (al_heap al) \<and> vb_index (mb_buf (al_heap al ! i)) = k"
  by (auto simp: alvium_inv_def dest!: map_of_SomeD)

lemma alvium_inv_update:
  assumes "alvium_inv al" and "(k, i) \<in> set (al_by_idx al)" and "vb_index (mb_buf b) = k"
  shows "alvium_inv (al\<lparr>al_heap := (al_heap al)[i := b]\<rparr>)"
proof -
  have u: "k' = k" if "(k', i) \<in> set (al_by_idx al)" for k'
    using assms(1,2) that inj_onD [of snd "set (al_by_idx al)" "(k', i)" "(k, i)"]
    by (simp add: alvium_inv_def distinct_map)
  have "i' < length (al_heap al) \<and> vb_index (mb_buf ((al_heap al)[i := b] ! i')) = k'"
    if "(k', i') \<in> set (al_by_idx al)" for k' i'
    using assms(1,3) that u by (cases "i' = i") (auto simp: alvium_inv_def)
  then show ?thesis using assms(1) by (auto simp: alvium_inv_def)
qed

lemma vb_index_reset [simp]: "vb_index (mb_buf (reset_buf b)) = vb_index (mb_buf b)"
  by (simp add: reset_buf_def)

lemma mb_buf_set_buf [simp]: "mb_buf (set_buf buf b) = buf"
  by (simp add: set_buf_def)

lemma idxs_heap [simp]: "idxs (al\<lparr>al_heap := h\<rparr>) = idxs al"
  by (simp add: idxs_def)

lemma queue_bufs_owned:
  assumes "queue_laws sys (al_fd al) owned" and "alvium_inv al" and "set bs \<subseteq> set (al_by_idx al)"
    and "queue_bufs sys bs al w = Some (ok, al', w')"
  shows "alvium_inv al' \<and> al_fd al' = al_fd al \<and> al_by_idx al' = al_by_idx al \<and>
    (ok \<longrightarrow> owned w' = owned w \<union> fst ` set bs)"
  using assms
proof (induction bs arbitrary: al w)
  case (Cons p bs)
  obtain k i where p: "p = (k, i)" by (cases p)
  let ?b = "reset_buf (al_heap al ! i)"
  let ?al = "al\<lparr>al_heap := (al_heap al)[i := ?b]\<rparr>"
  have k: "(k, i) \<in> set (al_by_idx al)" "vb_index (mb_buf (al_heap al ! i)) = k"
    using Cons.prems(2,3) by (auto simp: p alvium_inv_def)
  then have inv: "alvium_inv ?al" using alvium_inv_update [OF Cons.prems(2) k(1)] by simp
  obtain r e b' w1 where q: "ioctl_helper (sys_qbuf sys (al_fd al)) (mb_buf ?b) w = Some (r, e, b', w1)"
      and s: "(if r = - 1 then Some (False, ?al, w1) else queue_bufs sys bs ?al w1) = Some (ok, al', w')"
    using Cons.prems(4) by (auto simp: p Let_def split: bind_splits)
  show ?case
  proof (cases "r = - 1")
    case True
    then show ?thesis using s inv by auto
  next
    case False
    then have "owned w1 = insert k (owned w)" using qbuf_owned [OF Cons.prems(1) q] k(2) by simp
    moreover have "queue_bufs sys bs ?al w1 = Some (ok, al', w')" using False s by simp
    ultimately show ?thesis using Cons.IH [of ?al w1] Cons.prems(1,3) inv by (auto simp: p)
  qed
qed simp

text \<open>
  When streaming starts, every buffer of the camera is in the driver's queue: on a driver that
  keeps the queueing contract, a successful \<^verbatim>\<open>start_streaming\<close> has handed over exactly the
  mapped buffers, and the camera's bookkeeping invariant still holds.
\<close>

lemma start_streaming_queues_all:
  assumes "queue_laws sys (al_fd al) owned" and "alvium_inv al"
    and "start_streaming sys al w = Some (True, al', w')"
  shows "owned w' = owned w \<union> idxs al \<and> alvium_inv al' \<and> idxs al' = idxs al \<and> al_fd al' = al_fd al"
proof -
  obtain al1 w1 r e t where q: "queue_bufs sys (al_by_idx al) al w = Some (True, al1, w1)"
    and s: "ioctl_helper (sys_streamon sys (al_fd al1)) (al_buffer_type al1) w1 = Some (r, e, t, w')"
    and al': "al' = al1"
    using assms(3) by (auto simp: start_streaming_def split: bind_splits if_splits)
  note qo = queue_bufs_owned [OF assms(1,2) subset_refl q]
  moreover have "owned w' = owned w1"
    using streamon_owned [OF assms(1), of "al_buffer_type al1" w1 r e t w'] qo s by simp
  ultimately show ?thesis by (simp add: al' idxs_def)
qed

lemma wait_for_frame_owned:
  assumes "queue_laws sys (al_fd al) owned" and "cb_keeps cb owned" and "alvium_inv al"
    and "wait_for_frame sys t cb al w = Some (r, al', w')"
  shows "alvium_inv al' \<and> al_by_idx al' = al_by_idx al \<and> al_fd al' = al_fd al \<and>
    (r = CamTrue \<longrightarrow> owned w' = owned w) \<and> (\<exists>k. owned w \<subseteq> insert k (owned w')) \<and>
    (\<forall>x. r = CamThrow x \<longrightarrow> (\<exists>k \<in> idxs al \<inter> owned w. owned w' = owned w - {k}))"
proof -
  obtain x ready w1 where sel: "sys_select sys (al_fd al) (chrono_to_timeval t) w = (x, ready, w1)"
    by (metis prod_cases3)
  then have w1: "owned w1 = owned w" using assms(1) by (simp add: queue_laws_def)
  show ?thesis
  proof (cases ready)
    case False
    then show ?thesis using assms(3,4) sel w1 by (auto simp: wait_for_frame_def)
  next
    case True
    then obtain ret e buf w2 where dq: "ioctl_helper (sys_dqbuf sys (al_fd al))
        (v4l2_buffer0\<lparr>vb_type := al_buffer_type al, vb_memory := V4L2_MEMORY_MMAP\<rparr>) w1 =
        Some (ret, e, buf, w2)"
      using assms(4) sel by (auto simp: wait_for_frame_def split: bind_splits)
    note o2 = dqbuf_owned [OF assms(1) dq]
    show ?thesis
    proof (cases "ret = - 1 \<or> map_of (al_by_idx al) (vb_index buf) = None")
      case True
      then have "r = CamFalse \<and> al' = al \<and> w' = w2"
        using assms(4) sel dq \<open>ready\<close> by (auto simp: wait_for_frame_def split: if_splits)
      then show ?thesis using o2 w1 assms(3) True by (auto split: if_splits)
    next
      case False
      then obtain i where i: "map_of (al_by_idx al) (vb_index buf) = Some i" and ret: "ret \<noteq> - 1"
        by auto
      have m: "(vb_index buf, i) \<in> set (al_by_idx al)" "i < length (al_heap al)"
        using i alvium_inv_lookup [OF assms(3) i] by (auto dest: map_of_SomeD)
      let ?f = "set_buf buf (al_heap al ! i)"
      let ?al = "al\<lparr>al_heap := (al_heap al)[i := ?f]\<rparr>"
      let ?g = "reset_buf ?f"
      let ?al2 = "?al\<lparr>al_heap := (al_heap ?al)[i := ?g]\<rparr>"
      have inv: "alvium_inv ?al" using alvium_inv_update [OF assms(3) m(1), of ?f] by simp
      then have inv2: "alvium_inv ?al2" using alvium_inv_update [OF inv, of "vb_index buf" i ?g] m by simp
      obtain exn w3 where c: "(case cb of None \<Rightarrow> (None, w2) | Some f \<Rightarrow> f ?f w2) = (exn, w3)"
        by (metis prod.exhaust)
      then have w3: "owned w3 = owned w2"
        using assms(2) by (cases cb) (simp_all add: cb_keeps_def, metis snd_conv)
      show ?thesis
      proof (cases exn)
        case (Some x)
        then have "r = CamThrow x \<and> al' = ?al \<and> w' = w3"
          using assms(4) sel dq \<open>ready\<close> ret i c by (auto simp: wait_for_frame_def)
        moreover have "vb_index buf \<in> idxs al" using m(1) by (force simp: idxs_def)
        ultimately show ?thesis using o2 ret w1 w3 inv by auto
      next
        case None
        obtain r4 e4 b4 w4 where qb: "ioctl_helper (sys_qbuf sys (al_fd al)) (mb_buf ?g) w3 =
            Some (r4, e4, b4, w4)"
          using assms(4) sel dq \<open>ready\<close> ret i c None m(2)
          by (auto simp: wait_for_frame_def Let_def split: bind_splits)
        then have "r = cam_bool (r4 \<noteq> - 1) \<and> al' = ?al2 \<and> w' = w4"
          using assms(4) sel dq \<open>ready\<close> ret i c None m(2) by (auto simp: wait_for_frame_def)
        moreover have "owned w4 = (if r4 = - 1 then owned w3 else insert (vb_index buf) (owned w3))"
          using qbuf_owned [OF assms(1) qb] by simp
        ultimately show ?thesis using o2 ret w1 w3 inv2 by (auto simp: cam_bool_def)
      qed
    qed
  qed
qed


lemma lost_buffers_step:
  assumes "finite I" and "owned w \<subseteq> insert k (owned w')"
  shows "card (I - owned w') \<le> Suc (card (I - owned w))"
proof -
  have "I - owned w' \<subseteq> insert k (I - owned w)" using assms(2) by auto
  then have "card (I - owned w') \<le> card (insert k (I - owned w))" using assms(1) by (simp add: card_mono)
  also have "\<dots> \<le> Suc (card (I - owned w))" using assms(1) by (simp add: card_insert_if)
  finally show ?thesis .
qed

text \<open>
  The frame worker loses no buffer as long as its waits succeed, and at most one per wait that
  fails or whose callback throws: after any number of turns of the loop the number of the camera's
  buffers that are not queued with the driver has grown by no more than the number of turns that
  did not return true. The bookkeeping invariant holds throughout.
\<close>

lemma frame_worker_buffers:
  assumes "queue_laws sys (al_fd al) owned" and "cb_keeps (Some cb) owned" and "alvium_inv al"
    and "frame_worker_work sys cb fs al w = Some (rs, al', w')"
  shows "alvium_inv al' \<and> idxs al' = idxs al \<and>
    card (idxs al - owned w') \<le> card (idxs al - owned w) + length (filter (\<lambda>r. r \<noteq> CamTrue) rs)"
  using assms(1,3,4)
proof (induction fs arbitrary: al w rs)
  case (Cons x fs)
  show ?case
  proof (cases x)
    case True
    then show ?thesis using Cons.prems by auto
  next
    case False
    then obtain r al1 w1 rs1 where st: "wait_for_frame sys 250000 (Some cb) al w = Some (r, al1, w1)"
      and rest: "frame_worker_work sys cb fs al1 w1 = Some (rs1, al', w')" and rs: "rs = r # rs1"
      using Cons.prems(3) by (auto split: bind_splits)
    note o1 = wait_for_frame_owned [OF Cons.prems(1) assms(2) Cons.prems(2) st]
    then have ix: "idxs al1 = idxs al" by (simp add: idxs_def)
    obtain k where "owned w \<subseteq> insert k (owned w1)" using o1 by blast
    moreover have "finite (idxs al)" by (simp add: idxs_def)
    ultimately have "card (idxs al - owned w1) \<le> Suc (card (idxs al - owned w))"
      by (rule lost_buffers_step [rotated])
    moreover have "alvium_inv al' \<and> idxs al' = idxs al \<and> card (idxs al - owned w') \<le>
        card (idxs al - owned w1) + length (filter (\<lambda>r. r \<noteq> CamTrue) rs1)"
      using Cons.IH [of al1 w1 rs1] o1 Cons.prems(1) rest ix by simp
    ultimately show ?thesis using o1 by (auto simp: rs)
  qed
qed simp


text \<open>A driver with one format and a queue, for the witnesses.\<close>

definition demo_v4l2 :: "u32 list v4l2_dev" where
  "demo_v4l2 = \<lparr>io_req = \<lambda>_ a w. (0, 0, a, w),
     io_enum_fmt = \<lambda>_ a w. if fmt_index a = 0 then (0, 0, a, w) else (- 1, EINVAL, a, w),
     io_s_ext_ctrls = \<lambda>_ a w. (0, 0, a, w), io_g_ext_ctrls = \<lambda>_ a w. (0, 0, a, w),
     io_querycap = \<lambda>_ a w. (0, 0, 0x04000001, w),
     io_query_ext_ctrl = \<lambda>_ a w. (- 1, EINVAL, a, w), io_querymenu = \<lambda>_ a w. (- 1, EINVAL, a, w)\<rparr>"

definition demo_cam :: "u32 list cam_sys" where
  "demo_cam = \<lparr>sys_v4l2 = demo_v4l2, sys_open = \<lambda>_ w. (7, w), sys_close = \<lambda>_ w. (0, w),
     sys_g_fmt = \<lambda>_ a w. (0, 0, a, w), sys_s_fmt = \<lambda>_ a w. (0, 0, a, w),
     sys_reqbufs = \<lambda>_ a w. (0, 0, a, w),
     sys_querybuf = \<lambda>_ a w. (0, 0, a\<lparr>vb_length := 4096, vb_offset := 4096 * vb_index a\<rparr>, w),
     sys_qbuf = \<lambda>_ a w. (0, 0, a, w @ [vb_index a]),
     sys_dqbuf = \<lambda>_ a w. (case w of [] \<Rightarrow> (- 1, 11, a, w) | k # w' \<Rightarrow>
       (0, 0, a\<lparr>vb_index := k, vb_bytesused := 16\<rparr>, filter (\<lambda>x. x \<noteq> k) w')),
     sys_streamon = \<lambda>_ a w. (0, 0, a, w), sys_streamoff = \<lambda>_ a w. (0, 0, a, []),
     sys_trigger_source = \<lambda>_ a w. (0, 0, a, w), sys_trigger_activation = \<lambda>_ a w. (0, 0, a, w),
     sys_mmap = \<lambda>_ _ off w. (Some (unat off + 1), w), sys_munmap = \<lambda>_ _ w. (0, w),
     sys_select = \<lambda>_ _ w. (1, w \<noteq> [], w), sys_bytes = \<lambda>_ n _. replicate n 0\<rparr>"

lemma demo_cam_laws: "queue_laws demo_cam fd set"
  by (auto simp: queue_laws_def demo_cam_def split: list.splits)

definition demo_alvium :: alvium where
  "demo_alvium = (alvium_new 1)\<lparr>al_fd := 7,
     al_heap := [v4l2_mmap_buffer_new, v4l2_mmap_buffer_new\<lparr>mb_buf := v4l2_buffer0\<lparr>vb_index := 1\<rparr>\<rparr>],
     al_by_idx := [(0, 0), (1, 1)]\<rparr>"

lemma demo_alvium_inv: "alvium_inv demo_alvium"
  by (simp add: alvium_inv_def demo_alvium_def alvium_new_def v4l2_mmap_buffer_new_def v4l2_buffer0_def)

text \<open>
  A callback that throws costs the camera a buffer for good: the frame it was given is not
  handed back, so the driver is left without one of the buffers it had. The worker swallows the
  exception, and after one per buffer the queue is empty and no frame can arrive.
\<close>

theorem throwing_callback_loses_buffer:
  assumes "queue_laws sys (al_fd al) owned" and "cb_keeps cb owned" and "alvium_inv al"
    and "wait_for_frame sys t cb al w = Some (CamThrow e, al', w')"
  shows "\<exists>k \<in> idxs al \<inter> owned w. owned w' = owned w - {k}"
  using wait_for_frame_owned [OF assms] by blast

theorem throwing_callback_loses_buffer_witness:
  "\<exists>al' w' k. wait_for_frame demo_cam 250000 (Some (\<lambda>_ w. (Some ''bad frame'', w))) demo_alvium [0, 1] =
     Some (CamThrow ''bad frame'', al', w') \<and> k \<in> {0, 1} \<and> set w' = {0, 1} - {k}"
proof -
  obtain al' w' where s: "wait_for_frame demo_cam 250000 (Some (\<lambda>_ w. (Some ''bad frame'', w)))
      demo_alvium [0, 1] = Some (CamThrow ''bad frame'', al', w')"
    by (simp add: wait_for_frame_def demo_alvium_def alvium_new_def demo_cam_def
        ioctl_helper.simps EINTR_def Let_def)
  have "cb_keeps (Some (\<lambda>_ w. (Some ''bad frame'', w))) set" by (simp add: cb_keeps_def)
  from throwing_callback_loses_buffer [OF demo_cam_laws this demo_alvium_inv s] s show ?thesis
    by auto
qed


subsection \<open>Opening, mapping and closing\<close>

lemma ioctl_helper_arg:
  assumes "ioctl_helper call a w = Some y"
  shows "(\<forall>a w r e a' w'. call a w = (r, e, a', w') \<longrightarrow> g a' = g a) \<longrightarrow>
    g (fst (snd (snd y))) = g a"
proof (rule ioctl_helper.raw_induct [OF _ assms], goal_cases)
  case (1 helper call a w y)
  obtain r e b w1 where c: "call a w = (r, e, b, w1)" by (metis prod_cases4)
  show ?case
  proof (cases "r = - 1 \<and> e = EINTR")
    case True
    then have "helper call b w1 = Some y" using 1(2) c by simp
    from 1(1) [OF this] show ?thesis using c by metis
  next
    case False
    then have "y = (r, e, b, w1)" using 1(2) c by (auto split: if_splits)
    then show ?thesis using c by fastforce
  qed
qed

text \<open>\<^verbatim>\<open>VIDIOC_QUERYBUF\<close> describes the buffer that was asked for.\<close>

definition querybuf_keeps :: "'w cam_sys \<Rightarrow> int \<Rightarrow> bool" where
  "querybuf_keeps sys fd \<longleftrightarrow>
     (\<forall>b w r e b' w'. sys_querybuf sys fd b w = (r, e, b', w') \<longrightarrow> vb_index b' = vb_index b)"

text \<open>What is mapped so far, in a camera that started without buffers.\<close>

definition mapped_upto :: "nat \<Rightarrow> alvium \<Rightarrow> bool" where
  "mapped_upto n al \<longleftrightarrow> al_by_idx al = map (\<lambda>i. (of_nat i, i)) [0..<n] \<and> length (al_heap al) = n \<and>
     (\<forall>i<n. vb_index (mb_buf (al_heap al ! i)) = of_nat i \<and> mb_ptr (al_heap al ! i) \<noteq> None)"

lemma unat_of_nat_u32: "n < 2 ^ 32 \<Longrightarrow> unat (of_nat n :: u32) = n"
  by (simp add: unat_of_nat)

lemma of_nat_u32_less: "i < n \<Longrightarrow> n < 2 ^ 32 \<Longrightarrow> (of_nat i :: u32) < of_nat n"
  by (simp add: word_less_nat_alt unat_of_nat_u32)

lemma mapped_upto_inv:
  assumes "mapped_upto n al" and "n \<le> 2 ^ 32"
  shows "alvium_inv al" and "idxs al = of_nat ` {0..<n}"
proof -
  have inj: "i = j" if "(of_nat i :: u32) = of_nat j" "i < n" "j < n" for i j
    using that assms(2) by (metis unat_of_nat_u32 order_less_le_trans)
  show "alvium_inv al"
    using assms(1) inj by (auto simp: mapped_upto_def alvium_inv_def comp_def distinct_map inj_on_def)
  show "idxs al = of_nat ` {0..<n}" using assms(1) by (auto simp: mapped_upto_def idxs_def image_image)
qed

lemma add_buf_mapped:
  assumes "mapped_upto n al" and "n < 2 ^ 32" and "mb_idx b = n" and "mb_ptr b \<noteq> None"
    and "vb_index (mb_buf b) = of_nat n"
  shows "\<exists>al'. add_buf sys b al w = (al', w) \<and> mapped_upto (Suc n) al' \<and> al_fd al' = al_fd al \<and>
    al_buffer_type al' = al_buffer_type al"
proof -
  have "\<forall>k \<in> set (map fst (al_by_idx al)). k < of_nat n"
    using assms(1,2) by (auto simp: mapped_upto_def of_nat_u32_less)
  then have i: "smap_insert (get_index b) n (al_by_idx al) = al_by_idx al @ [(of_nat n, n)]"
    using smap_insert_greatest by (metis assms(3) get_index_def)
  show ?thesis
    using assms i by (auto simp: add_buf_def Let_def mapped_upto_def nth_append less_Suc_eq)
qed

lemma mmap_init_true:
  "mmap_init sys fd buf fmt idx v4l2_mmap_buffer_new w = (CamTrue, b, w') \<Longrightarrow>
   mb_idx b = idx \<and> mb_ptr b \<noteq> None \<and> mb_buf b = buf"
  by (auto simp: mmap_init_def Let_def v4l2_mmap_buffer_new_def split: if_splits prod.splits option.splits)

lemma map_bufs_mapped:
  assumes "querybuf_keeps sys (al_fd al)"
    and "mapped_upto m al" and "m \<le> n" and "n \<le> 2 ^ 32 - 1"
    and "map_bufs sys fmt np [m..<n] al w = Some (CamTrue, al', w')"
  shows "mapped_upto n al' \<and> al_fd al' = al_fd al"
  using assms
proof (induction "n - m" arbitrary: m al w)
  case 0
  then show ?case by simp
next
  case (Suc d)
  then have m: "[m..<n] = m # [Suc m..<n]" by (simp add: upt_rec)
  obtain ret e buf w1 where q: "ioctl_helper (sys_querybuf sys (al_fd al))
        (query_buffer (vf_type fmt) (al_buffer_type al) np (of_nat m)) w = Some (ret, e, buf, w1)"
    and s: "ret \<noteq> - 1"
    using Suc.prems(5) by (auto simp: m split: if_splits bind_splits)
  have ix: "vb_index buf = of_nat m"
    using ioctl_helper_arg [OF q, of vb_index] Suc.prems(1)
    by (auto simp: query_buffer_def querybuf_keeps_def)
  obtain b w2 where mi: "mmap_init sys (al_fd al) buf fmt m v4l2_mmap_buffer_new w1 = (CamTrue, b, w2)"
    using Suc.prems(5) q s by (auto simp: m split: if_splits prod.splits cam_result.splits)
  obtain al1 where a: "add_buf sys b al w2 = (al1, w2)" "mapped_upto (Suc m) al1" "al_fd al1 = al_fd al"
    using add_buf_mapped [OF Suc.prems(2), of b sys w2] mmap_init_true [OF mi] ix Suc.prems(3,4) Suc.hyps(2)
    by auto
  have "map_bufs sys fmt np [Suc m..<n] al1 w2 = Some (CamTrue, al', w')"
    using Suc.prems(5) q s mi a(1) by (auto simp: m split: if_splits)
  then show ?case using Suc.hyps(1) [of "Suc m" al1 w2] Suc.hyps(2) Suc.prems(1,4) a by simp
qed


lemma alvium_init_mapped:
  assumes "querybuf_keeps sys (al_fd al)"
    and "al_by_idx al = []" and "al_heap al = []" and "alvium_init sys fcc al w = Some (CamTrue, al', w')"
  shows "\<exists>n>0. n < 2 ^ 32 \<and> mapped_upto n al' \<and> al_fd al' = al_fd al"
proof -
  obtain req :: v4l2_requestbuffers and fmt np w1 where r: "req_count req \<noteq> 0"
    "map_bufs sys fmt np [0..<unat (req_count req)] al w1 = Some (CamTrue, al', w')"
    using assms(4) by (auto simp: alvium_init_def Let_def split: if_splits bind_splits)
  have u: "unat (req_count req) < 2 ^ 32" using unsigned_less [of "req_count req"] by simp
  have "mapped_upto 0 al" using assms(2,3) by (simp add: mapped_upto_def)
  from map_bufs_mapped [OF assms(1) this _ _ r(2)] u
  have "mapped_upto (unat (req_count req)) al' \<and> al_fd al' = al_fd al" by simp
  then show ?thesis using r(1) u by (metis gr0I unat_eq_zero)
qed

text \<open>
  C18. A camera session keeps its buffers: after a successful initialisation and start of streaming
  on a driver with the documented queueing, the camera has at least one buffer, numbered from zero,
  its bookkeeping invariant holds, and after any number of turns of the frame worker the number of
  buffers missing from the driver's queue is at most the number of turns that failed or whose
  callback threw; in particular none is missing as long as the waits succeed.
\<close>

theorem alvium_session_buffers:
  assumes "queue_laws sys (al_fd al) owned" and "cb_keeps (Some cb) owned"
    and "querybuf_keeps sys (al_fd al)" and "al_by_idx al = []" and "al_heap al = []"
    and "alvium_init sys fcc al w = Some (CamTrue, al1, w1)"
    and "start_streaming sys al1 w1 = Some (True, al2, w2)"
    and "frame_worker_work sys cb fs al2 w2 = Some (rs, al3, w3)"
  shows "\<exists>n>0. idxs al3 = of_nat ` {0..<n} \<and> alvium_inv al3 \<and>
    card (idxs al3 - owned w3) \<le> length (filter (\<lambda>r. r \<noteq> CamTrue) rs)"
proof -
  obtain n where n: "0 < n" "n < 2 ^ 32" "mapped_upto n al1" "al_fd al1 = al_fd al"
    using alvium_init_mapped [OF assms(3-6)] by blast
  then have i1: "alvium_inv al1" "idxs al1 = of_nat ` {0..<n}" using mapped_upto_inv [of n al1] by simp_all
  have st: "owned w2 = owned w1 \<union> idxs al1" "alvium_inv al2" "idxs al2 = idxs al1" "al_fd al2 = al_fd al"
    using start_streaming_queues_all [OF _ i1(1) assms(7), of owned] assms(1) n(4) by simp_all
  have "queue_laws sys (al_fd al2) owned" using assms(1) st(4) by simp
  note f = frame_worker_buffers [OF this assms(2) st(2) assms(8)]
  have e: "idxs al2 - owned w2 = {}" using st(1,3) by auto
  have "card (idxs al3 - owned w3) \<le> length (filter (\<lambda>r. r \<noteq> CamTrue) rs)"
    using f unfolding e by simp
  moreover have "idxs al3 = of_nat ` {0..<n}" using f st(3) i1(2) by simp
  ultimately show ?thesis using f n(1) by blast
qed

definition demo_opened :: alvium where
  "demo_opened = (alvium_new V4L2_BUF_TYPE_VIDEO_CAPTURE)\<lparr>al_fd := 7,
     al_util := v4l2_util_new\<lparr>m_fmt_descs := [fmt_query 1 0]\<rparr>\<rparr>"

lemma ioctl_helper_ok: "call a w = (0, e, a', w') \<Longrightarrow> ioctl_helper call a w = Some (0, e, a', w')"
  by (subst ioctl_helper.simps) simp

lemma demo_opened_init:
  "\<exists>al1. alvium_init demo_cam fcc demo_opened [] = Some (CamTrue, al1, [])"
proof -
  have q: "ioctl_helper (sys_querybuf demo_cam fd) a w =
      Some (0, 0, a\<lparr>vb_length := 4096, vb_offset := 4096 * vb_index a\<rparr>, w)"
    "ioctl_helper (sys_g_fmt demo_cam fd) f w = Some (0, 0, f, w)"
    "ioctl_helper (sys_s_fmt demo_cam fd) f w = Some (0, 0, f, w)"
    "ioctl_helper (sys_reqbufs demo_cam fd) rq w = Some (0, 0, rq, w)" for fd a w f rq
    by (rule ioctl_helper_ok; simp add: demo_cam_def)+
  have mm: "sys_mmap demo_cam fd len off w = (Some (unat off + 1), w)" for fd len off w
    by (simp add: demo_cam_def)
  have "unat NUM_BUFFERS = 3" by (simp add: NUM_BUFFERS_def)
  moreover have "[0..<3] = [0, 1, 2 :: nat]" by (simp add: upt_rec)
  moreover have "NUM_BUFFERS \<noteq> 0" by (simp add: NUM_BUFFERS_def)
  ultimately show ?thesis
    by (simp add: alvium_init_def demo_opened_def alvium_new_def v4l2_util_new_def q mmap_init_def
        v4l2_format0_def Let_def add_buf_def v4l2_mmap_buffer_new_def mm get_index_def)
qed

theorem alvium_session_buffers_witness:
  "\<exists>al1 w1 al2 w2 rs al3 w3 n. alvium_init demo_cam 0x34325258 demo_opened [] = Some (CamTrue, al1, w1) \<and>
     start_streaming demo_cam al1 w1 = Some (True, al2, w2) \<and>
     frame_worker_work demo_cam (\<lambda>_ w. (None, w)) [True] al2 w2 = Some (rs, al3, w3) \<and>
     0 < n \<and> idxs al3 = of_nat ` {0..<n :: nat} \<and> idxs al3 \<subseteq> set w3"
proof -
  obtain al1 where i: "alvium_init demo_cam 0x34325258 demo_opened [] = Some (CamTrue, al1, [])"
    using demo_opened_init by blast
  have qb: "ioctl_helper (sys_qbuf demo_cam fd) b w = Some (0, 0, b, w @ [vb_index b])"
    "ioctl_helper (sys_streamon demo_cam fd) t w = Some (0, 0, t, w)" for fd b w t
    by (rule ioctl_helper_ok; simp add: demo_cam_def)+
  have "\<exists>al' w'. queue_bufs demo_cam bs al w = Some (True, al', w')" for bs al w
    by (induction bs arbitrary: al w) (auto simp: qb Let_def)
  from this [of "al_by_idx al1" al1 "[]"]
  obtain al2 w2 where s: "start_streaming demo_cam al1 [] = Some (True, al2, w2)"
    by (auto simp: start_streaming_def qb)
  have f: "frame_worker_work demo_cam (\<lambda>_ w. (None, w)) [True] al2 w2 = Some ([], al2, w2)" by simp
  have "cb_keeps (Some (\<lambda>_ w. (None, w))) set" by (simp add: cb_keeps_def)
  moreover have "querybuf_keeps demo_cam (al_fd demo_opened)"
    by (auto simp: querybuf_keeps_def demo_cam_def)
  moreover have "al_by_idx demo_opened = []" "al_heap demo_opened = []"
    by (simp_all add: demo_opened_def alvium_new_def)
  ultimately obtain n where "0 < n" "idxs al2 = of_nat ` {0..<n}" "card (idxs al2 - set w2) \<le> 0"
    using alvium_session_buffers [OF demo_cam_laws _ _ _ _ i s f] by auto
  moreover have "finite (idxs al2)" by (simp add: idxs_def)
  ultimately have "idxs al2 \<subseteq> set w2" by auto
  then show ?thesis using i s f \<open>0 < n\<close> \<open>idxs al2 = of_nat ` {0..<n}\<close>
    by (intro exI [of _ al1] exI [of _ "[]"] exI [of _ al2] exI [of _ w2] exI [of _ n] conjI) auto
qed


definition finitely_interrupted :: "('w \<Rightarrow> nat) \<Rightarrow> ('a, 'w) ioctl_call \<Rightarrow> bool" where
  "finitely_interrupted m call \<longleftrightarrow>
     (\<forall>a w a' w'. call a w = (- 1, EINTR, a', w') \<longrightarrow> m w' < m w)"

lemma ioctl_helper_total:
  "finitely_interrupted m call \<Longrightarrow> \<exists>y. ioctl_helper call a w = Some y"
proof (induction w arbitrary: a rule: measure_induct_rule [of m])
  case (less w)
  obtain r e b w1 where c: "call a w = (r, e, b, w1)" by (metis prod_cases4)
  show ?case
  proof (cases "r = - 1 \<and> e = EINTR")
    case True
    then have "m w1 < m w" using c less.prems by (auto simp: finitely_interrupted_def)
    from less.IH [OF this less.prems] show ?thesis using c True by (subst ioctl_helper.simps) simp
  next
    case False
    then show ?thesis using c by (subst ioctl_helper.simps) auto
  qed
qed

lemma wait_for_frame_total:
  assumes "finitely_interrupted m (sys_dqbuf sys (al_fd al))"
    and "finitely_interrupted m (sys_qbuf sys (al_fd al))"
  shows "\<exists>r al' w'. wait_for_frame sys t cb al w = Some (r, al', w') \<and> al_fd al' = al_fd al"
proof -
  have d: "\<exists>r e b w'. ioctl_helper (sys_dqbuf sys (al_fd al)) a w = Some (r, e, b, w')"
    and q: "\<exists>r e b w'. ioctl_helper (sys_qbuf sys (al_fd al)) a w = Some (r, e, b, w')" for a w
    using ioctl_helper_total [OF assms(1), of a w] ioctl_helper_total [OF assms(2), of a w] by auto
  obtain x ready w1 where sel: "sys_select sys (al_fd al) (chrono_to_timeval t) w = (x, ready, w1)"
    by (metis prod_cases3)
  obtain ret e buf w2 where dq: "ioctl_helper (sys_dqbuf sys (al_fd al))
      (v4l2_buffer0\<lparr>vb_type := al_buffer_type al, vb_memory := V4L2_MEMORY_MMAP\<rparr>) w1 =
      Some (ret, e, buf, w2)" using d by blast
  show ?thesis
  proof (cases "map_of (al_by_idx al) (vb_index buf)")
    case None
    then show ?thesis using sel dq by (auto simp: wait_for_frame_def)
  next
    case (Some i)
    obtain exn w3 where c: "(case cb of None \<Rightarrow> (None, w2)
        | Some f \<Rightarrow> f (set_buf buf (al_heap al ! i)) w2) = (exn, w3)" by (metis prod.exhaust)
    obtain r4 e4 b4 w4 where "ioctl_helper (sys_qbuf sys (al_fd al)) (mb_buf (reset_buf
        ((al_heap al)[i := set_buf buf (al_heap al ! i)] ! i))) w3 = Some (r4, e4, b4, w4)"
      using q by blast
    then show ?thesis using sel dq Some c by (cases exn) (auto simp: wait_for_frame_def Let_def)
  qed
qed

text \<open>
  C19. The frame worker always comes back to read its interrupt flag: on a driver that interrupts
  the queue requests only finitely often, every turn of the loop returns, whatever the frames, the
  errors and the callback's exceptions.
\<close>

theorem frame_worker_returns:
  assumes "finitely_interrupted m (sys_dqbuf sys (al_fd al))"
    and "finitely_interrupted m (sys_qbuf sys (al_fd al))"
  shows "\<exists>rs al' w'. frame_worker_work sys cb fs al w = Some (rs, al', w') \<and>
    length rs = length (takeWhile Not fs)"
  using assms
proof (induction fs arbitrary: al w)
  case (Cons x fs)
  show ?case
  proof (cases x)
    case False
    obtain r al1 w1 where w: "wait_for_frame sys 250000 (Some cb) al w = Some (r, al1, w1)"
        "al_fd al1 = al_fd al"
      using wait_for_frame_total [OF Cons.prems] by blast
    with Cons.IH [of al1 w1] Cons.prems show ?thesis using False by auto
  qed simp
qed simp

theorem frame_worker_returns_witness:
  "\<exists>rs al' w'. frame_worker_work demo_cam (\<lambda>_ w. (None, w)) [False, False, True, False] demo_alvium [0, 1] =
     Some (rs, al', w') \<and> length rs = 2"
proof -
  have "finitely_interrupted length (sys_dqbuf demo_cam (al_fd demo_alvium))"
    "finitely_interrupted length (sys_qbuf demo_cam (al_fd demo_alvium))"
    by (auto simp: finitely_interrupted_def demo_cam_def EINTR_def split: list.splits)
  from frame_worker_returns [OF this, of "\<lambda>_ w. (None, w)" "[False, False, True, False]" "[0, 1]"]
  show ?thesis by (simp add: numeral_2_eq_2 del: frame_worker_work.simps)
qed

lemma destroy_rest: "al_fd (fst (destroy sys i s)) = al_fd (fst s) \<and>
    al_by_idx (fst (destroy sys i s)) = al_by_idx (fst s)"
  by (auto simp: destroy_def split: prod.splits)

lemma fold_destroy_rest: "al_fd (fst (fold (destroy sys) is s)) = al_fd (fst s) \<and>
    al_by_idx (fst (fold (destroy sys) is s)) = al_by_idx (fst s)"
  by (induction "is" arbitrary: s) (simp_all add: destroy_rest)

lemma clear_bufs_rest:
  assumes "clear_bufs sys al w = (al', w')"
  shows "al_fd al' = al_fd al \<and> al_by_idx al' = [] \<and> al_by_ptr al' = []"
proof -
  obtain al1 w1 where f1: "fold (destroy sys) (filter (\<lambda>i. i \<notin> snd ` set (al_by_ptr al))
      (map snd (al_by_idx al))) (al\<lparr>al_by_idx := []\<rparr>, w) = (al1, w1)" by (metis prod.exhaust)
  obtain al2 w2 where f2: "fold (destroy sys) (map snd (al_by_ptr al1)) (al1, w1) = (al2, w2)"
    by (metis prod.exhaust)
  have "al_fd al1 = al_fd al \<and> al_by_idx al1 = []"
    using fold_destroy_rest [of sys "filter (\<lambda>i. i \<notin> snd ` set (al_by_ptr al)) (map snd (al_by_idx al))"
        "(al\<lparr>al_by_idx := []\<rparr>, w)"] unfolding f1 by simp
  moreover have "al_fd al2 = al_fd al1 \<and> al_by_idx al2 = al_by_idx al1"
    using fold_destroy_rest [of sys "map snd (al_by_ptr al1)" "(al1, w1)"] unfolding f2 by simp
  moreover have "al' = al2\<lparr>al_by_ptr := []\<rparr>" using assms f1 f2 by (simp add: clear_bufs_def)
  ultimately show ?thesis by simp
qed

text \<open>
  Closing is not retried: when the driver refuses to release the buffers,
  \<^verbatim>\<open>close\<close> returns false with the descriptor still open, but the camera has already forgotten
  every buffer, and from then on every \<^verbatim>\<open>open\<close> is refused. In all other cases the camera ends
  up without a descriptor.
\<close>

theorem close_keeps_descriptor_on_failure:
  assumes "al_fd al \<noteq> - 1" and "alvium_close sys al w = Some (ok, al', w')"
  shows "if al_fd al' = - 1 then True
    else \<not> ok \<and> al_fd al' = al_fd al \<and> al_by_idx al' = [] \<and> al_by_ptr al' = [] \<and>
      alvium_open sys path al' v = Some (False, al', v)"
proof -
  obtain b w1 where s: "stop_streaming sys al w = Some (b, w1)"
    using assms by (auto simp: alvium_close_def split: bind_splits)
  obtain al1 w2 where c: "clear_bufs sys al w1 = (al1, w2)" by (metis prod.exhaust)
  show ?thesis
    using assms s c clear_bufs_rest [OF c]
    by (auto simp: alvium_close_def alvium_open_def split: bind_splits if_splits prod.splits)
qed


theorem close_keeps_descriptor_on_failure_witness:
  "\<exists>al' w'. alvium_close (demo_cam\<lparr>sys_reqbufs := \<lambda>_ a w. (- 1, 16, a, w)\<rparr>) demo_opened [] =
     Some (False, al', w') \<and> al_fd al' = 7 \<and>
     alvium_open (demo_cam\<lparr>sys_reqbufs := \<lambda>_ a w. (- 1, 16, a, w)\<rparr>) ''/dev/video0'' al' [] = Some (False, al', [])"
proof -
  let ?sys = "demo_cam\<lparr>sys_reqbufs := \<lambda>_ a w. (- 1, 16, a, w)\<rparr>"
  have fd: "al_fd demo_opened \<noteq> - 1" "al_fd demo_opened = 7" by (simp_all add: demo_opened_def)
  have s: "stop_streaming ?sys demo_opened [] = Some (True, [])"
    by (simp add: stop_streaming_def demo_cam_def ioctl_helper.simps)
  have c: "clear_bufs ?sys demo_opened [] = (demo_opened, [])"
    by (simp add: clear_bufs_def demo_opened_def alvium_new_def)
  have r: "ioctl_helper (sys_reqbufs ?sys 7) q w = Some (- 1, 16, q, w)" for q w
    by (subst ioctl_helper.simps) (simp add: EINTR_def)
  have cl: "alvium_close ?sys demo_opened [] = Some (False, demo_opened, [])"
    using fd(1) s c r by (simp add: alvium_close_def fd(2))
  from close_keeps_descriptor_on_failure [OF fd(1) cl, of "''/dev/video0''" "[]"] cl fd
  show ?thesis by auto
qed

text \<open>
  A camera that opens is a streaming single-plane capture device, and its buffer type is the
  kernel's number for single-plane capture: the code stores a capability bit where a buffer type
  belongs, which is the same number in this case only. Multi-plane devices are always refused.
\<close>

theorem open_single_plane:
  assumes "alvium_open sys path al w = Some (True, al', w')"
  shows "al_buffer_type al' = V4L2_BUF_TYPE_VIDEO_CAPTURE \<and> al_fd al' \<noteq> - 1 \<and>
    al_cap al' AND V4L2_CAP_VIDEO_CAPTURE \<noteq> 0 \<and> al_cap al' AND V4L2_CAP_VIDEO_CAPTURE_MPLANE = 0 \<and>
    al_cap al' AND V4L2_CAP_STREAMING \<noteq> 0"
  using assms
  by (auto simp: alvium_open_def close_and_fail_def alvium_formats_def alvium_probe_def Let_def
      V4L2_BUF_TYPE_VIDEO_CAPTURE_def V4L2_CAP_VIDEO_CAPTURE_def split: if_splits bind_splits prod.splits)

theorem open_single_plane_witness:
  "\<exists>al' w'. alvium_open demo_cam ''/dev/video0'' (alvium_new 0) [] = Some (True, al', w') \<and>
     al_buffer_type al' = V4L2_BUF_TYPE_VIDEO_CAPTURE"
proof -
  have e: "enum_format_descs demo_v4l2 t u w = Some (True, u\<lparr>m_fmt_descs := [fmt_query t 0]\<rparr>, w)" for t u w
    by (simp add: enum_format_descs_def enum_fmt_loop.simps ioctl_helper.simps demo_v4l2_def
        fmt_query_def EINTR_def EINVAL_def)
  have p: "\<exists>u'. v4l2_probe_ctrl demo_v4l2 u w = Some (True, u', w)" for u w
    by (simp add: v4l2_probe_ctrl_def demo_v4l2_def query_ctrls.simps EINVAL_def)
  obtain u' where p': "v4l2_probe_ctrl demo_v4l2
      ((set_fd 7 v4l2_util_new)\<lparr>m_fmt_descs := [fmt_query V4L2_BUF_TYPE_VIDEO_CAPTURE 0]\<rparr>) [] =
      Some (True, u', [])" using p by blast
  have q: "ioctl_helper (io_querycap demo_v4l2 7) a w = Some (0, 0, 0x04000001, w)" for a w
    by (rule ioctl_helper_ok) (simp add: demo_v4l2_def)
  have "\<exists>al'. alvium_open demo_cam ''/dev/video0'' (alvium_new 0) [] = Some (True, al', [])"
    using p' by (simp add: alvium_open_def demo_cam_def alvium_new_def q alvium_formats_def e
        alvium_probe_def V4L2_CAP_VIDEO_CAPTURE_def V4L2_CAP_VIDEO_CAPTURE_MPLANE_def
        V4L2_CAP_STREAMING_def)
  with open_single_plane [of demo_cam "''/dev/video0''" "alvium_new 0" "[]"] show ?thesis by blast
qed

end
