(* ===== verification/Alvium_Pipe.thy ===== *)
theory Alvium_Pipe
  imports Alvium_Camera
begin

unbundle bit_operations_syntax

section \<open>Camera controls and the Alvium source: \<^verbatim>\<open>GST_v4l2_api\<close> and \<^verbatim>\<open>V4L2_alvium_pipe\<close>\<close>

text \<open>
  \<^verbatim>\<open>src/libs/camera-pipes/pipeline/camera/GST_v4l2_api.cpp\<close> and
  \<^verbatim>\<open>V4L2_alvium_pipe.cpp\<close>: the typed control accessors of a camera, and the source that opens
  the camera, copies its frames and hands them on. The accessors of the base class use the
  \<^verbatim>\<open>v4l2_util\<close> of the pipe, which is not the one inside the camera object.

  GStreamer is not modelled: \<open>gst_env\<close> says which elements can be created, and the buffers
  pushed to the \<^verbatim>\<open>appsrc\<close> are recorded. \<^const>\<open>None\<close> is an operation that does not
  return or is undefined (a null camera pointer).
\<close>

subsection \<open>Control accessors\<close>

definition V4L2_CID_BRIGHTNESS :: u32 where "V4L2_CID_BRIGHTNESS = 0x00980900"
definition V4L2_CID_AUTOGAIN :: u32 where "V4L2_CID_AUTOGAIN = 0x00980912"
definition V4L2_CID_GAIN :: u32 where "V4L2_CID_GAIN = 0x00980913"
definition V4L2_CID_EXPOSURE_AUTO :: u32 where "V4L2_CID_EXPOSURE_AUTO = 0x009a0901"
definition V4L2_CID_EXPOSURE_ABSOLUTE :: u32 where "V4L2_CID_EXPOSURE_ABSOLUTE = 0x009a0902"
definition V4L2_CID_FOCUS_ABSOLUTE :: u32 where "V4L2_CID_FOCUS_ABSOLUTE = 0x009a090a"
definition V4L2_CID_FOCUS_AUTO :: u32 where "V4L2_CID_FOCUS_AUTO = 0x009a090c"

type_synonym 'w set_s32 = "'w v4l2_dev \<Rightarrow> v4l2_util \<Rightarrow> int \<Rightarrow> 'w \<Rightarrow> bool \<times> 'w"
type_synonym 'w get_s32 = "'w v4l2_dev \<Rightarrow> v4l2_util \<Rightarrow> 'w \<Rightarrow> int option \<times> 'w"

definition set_brightness :: "'w set_s32" where
  "set_brightness dev u v w = v4l2_ctrl_set_s32 dev u V4L2_CID_BRIGHTNESS v w"

definition get_brightness :: "'w get_s32" where
  "get_brightness dev u w = v4l2_ctrl_get_s32 dev u V4L2_CID_BRIGHTNESS V4L2_CTRL_WHICH_CUR_VAL w"

definition set_gain :: "'w set_s32" where
  "set_gain dev u v w = v4l2_ctrl_set_s32 dev u V4L2_CID_GAIN v w"

definition get_gain :: "'w get_s32" where
  "get_gain dev u w = v4l2_ctrl_get_s32 dev u V4L2_CID_GAIN V4L2_CTRL_WHICH_CUR_VAL w"

definition set_gain_auto :: "'w v4l2_dev \<Rightarrow> v4l2_util \<Rightarrow> bool \<Rightarrow> 'w \<Rightarrow> bool \<times> 'w" where
  "set_gain_auto dev u v w = v4l2_ctrl_set_bool dev u V4L2_CID_AUTOGAIN v w"

definition get_gain_auto :: "'w v4l2_dev \<Rightarrow> v4l2_util \<Rightarrow> 'w \<Rightarrow> bool option \<times> 'w" where
  "get_gain_auto dev u w = v4l2_ctrl_get_bool dev u V4L2_CID_AUTOGAIN V4L2_CTRL_WHICH_CUR_VAL w"

definition set_exposure_auto :: "'w set_s32" where
  "set_exposure_auto dev u v w = v4l2_ctrl_set_s32 dev u V4L2_CID_EXPOSURE_AUTO v w"

definition get_exposure_auto :: "'w get_s32" where
  "get_exposure_auto dev u w = v4l2_ctrl_get_s32 dev u V4L2_CID_EXPOSURE_AUTO V4L2_CTRL_WHICH_CUR_VAL w"

definition set_exposure_absolute :: "'w set_s32" where
  "set_exposure_absolute dev u v w = v4l2_ctrl_set_s32 dev u V4L2_CID_EXPOSURE_ABSOLUTE v w"

definition get_exposure_absolute :: "'w get_s32" where
  "get_exposure_absolute dev u w =
     v4l2_ctrl_get_s32 dev u V4L2_CID_EXPOSURE_ABSOLUTE V4L2_CTRL_WHICH_CUR_VAL w"

text \<open>The four controls without a number of their own are looked up by name.\<close>

definition set_by_name :: "string \<Rightarrow> 'w set_s32" where
  "set_by_name name dev u v w = (case get_ctrl_id_by_name u name of
     None \<Rightarrow> (False, w) | Some cid \<Rightarrow> v4l2_ctrl_set_s32 dev u cid v w)"

definition get_by_name :: "string \<Rightarrow> 'w get_s32" where
  "get_by_name name dev u w = (case get_ctrl_id_by_name u name of
     None \<Rightarrow> (None, w) | Some cid \<Rightarrow> v4l2_ctrl_get_s32 dev u cid V4L2_CTRL_WHICH_CUR_VAL w)"

definition set_exposure_auto_min :: "'w set_s32" where
  "set_exposure_auto_min = set_by_name ''exposure_auto_min''"

definition get_exposure_auto_min :: "'w get_s32" where
  "get_exposure_auto_min = get_by_name ''exposure_auto_min''"

definition set_exposure_auto_max :: "'w set_s32" where
  "set_exposure_auto_max = set_by_name ''exposure_auto_max''"

definition get_exposure_auto_max :: "'w get_s32" where
  "get_exposure_auto_max = get_by_name ''exposure_auto_max''"

definition set_gain_auto_min :: "'w set_s32" where
  "set_gain_auto_min = set_by_name ''gain_auto_min''"

definition get_gain_auto_min :: "'w get_s32" where
  "get_gain_auto_min = get_by_name ''gain_auto_min''"

definition set_gain_auto_max :: "'w set_s32" where
  "set_gain_auto_max = set_by_name ''gain_auto_max''"

definition get_gain_auto_max :: "'w get_s32" where
  "get_gain_auto_max = get_by_name ''gain_auto_max''"

definition set_focus_absolute :: "'w set_s32" where
  "set_focus_absolute dev u v w = v4l2_ctrl_set_s32 dev u V4L2_CID_FOCUS_ABSOLUTE v w"

definition get_focus_absolute :: "'w get_s32" where
  "get_focus_absolute dev u w =
     v4l2_ctrl_get_s32 dev u V4L2_CID_FOCUS_ABSOLUTE V4L2_CTRL_WHICH_CUR_VAL w"

definition set_focus_auto :: "'w v4l2_dev \<Rightarrow> v4l2_util \<Rightarrow> bool \<Rightarrow> 'w \<Rightarrow> bool \<times> 'w" where
  "set_focus_auto dev u v w = v4l2_ctrl_set_bool dev u V4L2_CID_FOCUS_AUTO v w"

definition get_focus_auto :: "'w v4l2_dev \<Rightarrow> v4l2_util \<Rightarrow> 'w \<Rightarrow> bool option \<times> 'w" where
  "get_focus_auto dev u w = v4l2_ctrl_get_bool dev u V4L2_CID_FOCUS_AUTO V4L2_CTRL_WHICH_CUR_VAL w"

subsection \<open>The source\<close>

definition v4l2_fourcc :: "char \<Rightarrow> char \<Rightarrow> char \<Rightarrow> char \<Rightarrow> u32" where
  "v4l2_fourcc a b c d = of_char a OR push_bit 8 (of_char b) OR push_bit 16 (of_char c) OR
     push_bit 24 (of_char d)"

definition PIX_FMT_RGGB :: u32 where "PIX_FMT_RGGB = v4l2_fourcc (CHR ''R'') (CHR ''G'') (CHR ''G'') (CHR ''B'')"
definition PIX_FMT_JXR0 :: u32 where "PIX_FMT_JXR0 = v4l2_fourcc (CHR ''J'') (CHR ''X'') (CHR ''R'') (CHR ''0'')"
definition PIX_FMT_JXR2 :: u32 where "PIX_FMT_JXR2 = v4l2_fourcc (CHR ''J'') (CHR ''X'') (CHR ''R'') (CHR ''2'')"
definition PIX_FMT_GREY :: u32 where "PIX_FMT_GREY = v4l2_fourcc (CHR ''G'') (CHR ''R'') (CHR ''E'') (CHR ''Y'')"
definition PIX_FMT_JXY0 :: u32 where "PIX_FMT_JXY0 = v4l2_fourcc (CHR ''J'') (CHR ''X'') (CHR ''Y'') (CHR ''0'')"
definition PIX_FMT_JXY2 :: u32 where "PIX_FMT_JXY2 = v4l2_fourcc (CHR ''J'') (CHR ''X'') (CHR ''Y'') (CHR ''2'')"
definition PIX_FMT_XR24 :: u32 where "PIX_FMT_XR24 = v4l2_fourcc (CHR ''X'') (CHR ''R'') (CHR ''2'') (CHR ''4'')"

record gst_frame =
  gf_data :: bytes
  gf_width :: u32
  gf_height :: u32
  gf_stride :: u32

record alvium_pipe =
  ap_cam :: "alvium option"
  ap_util :: v4l2_util
  ap_dev_path :: string
  ap_fourcc :: u32
  ap_trigger_mode :: string
  ap_worker :: "u32 option"
  ap_need_data :: bool
  ap_frame_buffer :: "bytes option"
  ap_dispatch :: bool
  ap_dispatched :: "(string \<times> bytes) list"
  ap_pushed :: "gst_frame list"

text \<open>\<^verbatim>\<open>m_fourcc\<close> is not initialised before \<^verbatim>\<open>set_params\<close>.\<close>

definition alvium_pipe_new :: "u32 \<Rightarrow> alvium_pipe" where
  "alvium_pipe_new indet = \<lparr>ap_cam = None, ap_util = v4l2_util_new, ap_dev_path = [], ap_fourcc = indet,
     ap_trigger_mode = [], ap_worker = None, ap_need_data = False, ap_frame_buffer = None,
     ap_dispatch = False, ap_dispatched = [], ap_pushed = []\<rparr>"

definition set_params :: "string \<Rightarrow> u32 \<Rightarrow> string \<Rightarrow> alvium_pipe \<Rightarrow> alvium_pipe" where
  "set_params dev_path fourcc trigger_mode p =
     p\<lparr>ap_dev_path := dev_path, ap_fourcc := fourcc, ap_trigger_mode := trigger_mode\<rparr>"

definition set_framebuffer_callback :: "bool \<Rightarrow> alvium_pipe \<Rightarrow> alvium_pipe" where
  "set_framebuffer_callback cb p = p\<lparr>ap_dispatch := cb\<rparr>"

definition handle_need_data :: "alvium_pipe \<Rightarrow> alvium_pipe" where
  "handle_need_data p = p\<lparr>ap_need_data := True\<rparr>"

definition handle_enough_data :: "alvium_pipe \<Rightarrow> alvium_pipe" where
  "handle_enough_data p = p\<lparr>ap_need_data := False\<rparr>"

definition pipe_start_streaming :: "'w cam_sys \<Rightarrow> alvium_pipe \<Rightarrow> 'w \<Rightarrow> (bool \<times> alvium_pipe \<times> 'w) option" where
  "pipe_start_streaming sys p w = do {
     cam \<leftarrow> ap_cam p;
     (ok, cam, w) \<leftarrow> start_streaming sys cam w;
     Some (ok, p\<lparr>ap_cam := Some cam\<rparr>, w) }"

definition pipe_stop_streaming :: "'w cam_sys \<Rightarrow> alvium_pipe \<Rightarrow> 'w \<Rightarrow> (bool \<times> alvium_pipe \<times> 'w) option" where
  "pipe_stop_streaming sys p w = do {
     cam \<leftarrow> ap_cam p;
     (ok, w) \<leftarrow> stop_streaming sys cam w;
     Some (ok, p, w) }"

definition set_trigger_mode ::
    "'w cam_sys \<Rightarrow> string \<Rightarrow> alvium_pipe \<Rightarrow> 'w \<Rightarrow> (bool \<times> alvium_pipe \<times> 'w) option" where
  "set_trigger_mode sys mode p w =
     (if mode = ''free'' then do {
        cam \<leftarrow> ap_cam p; (ok, w) \<leftarrow> set_free_trigger sys cam w;
        Some (ok, if ok then p\<lparr>ap_trigger_mode := mode\<rparr> else p, w) }
      else if mode = ''hw'' then do {
        cam \<leftarrow> ap_cam p;
        (ok, w) \<leftarrow> set_hw_trigger sys V4L2_TRIGGER_SOURCE_LINE0 V4L2_TRIGGER_ACTIVATION_RISING_EDGE cam w;
        Some (ok, if ok then p\<lparr>ap_trigger_mode := mode\<rparr> else p, w) }
      else if mode = ''sw'' then do {
        cam \<leftarrow> ap_cam p; (ok, w) \<leftarrow> set_sw_trigger sys cam w;
        Some (ok, if ok then p\<lparr>ap_trigger_mode := mode\<rparr> else p, w) }
      else Some (False, p, w))"

definition set_camera_property ::
    "'w cam_sys \<Rightarrow> string \<Rightarrow> string \<Rightarrow> alvium_pipe \<Rightarrow> 'w \<Rightarrow> (bool \<times> alvium_pipe \<times> 'w) option" where
  "set_camera_property sys property_id val p w =
     (if property_id = ''streaming'' then
        (if val = ''on'' then pipe_start_streaming sys p w
         else if val = ''off'' then pipe_stop_streaming sys p w
         else Some (False, p, w))
      else if property_id = ''trigger'' then set_trigger_mode sys val p w
      else Some (False, p, w))"

text \<open>The worker is interrupted and joined before the camera is closed.\<close>

definition pipe_close :: "'w cam_sys \<Rightarrow> alvium_pipe \<Rightarrow> 'w \<Rightarrow> (bool \<times> alvium_pipe \<times> 'w) option" where
  "pipe_close sys p w = (case ap_cam p of
     None \<Rightarrow> Some (True, p\<lparr>ap_worker := None\<rparr>, w)
   | Some cam \<Rightarrow> do {
       (_, w) \<leftarrow> stop_streaming sys cam w;
       (_, w) \<leftarrow> set_sw_trigger sys cam w;
       let p = p\<lparr>ap_worker := None\<rparr>;
       (ok, cam, w) \<leftarrow> alvium_close sys cam w;
       Some (ok, p\<lparr>ap_cam := (if ok then None else Some cam)\<rparr>, w) })"

subsection \<open>Frames\<close>

text \<open>
  \<open>to_json\<close> is \<^verbatim>\<open>Ptree_util::ptree_to_json_str\<close>; \<^term>\<open>Inl e\<close> its exception. The
  callbacks for \<^verbatim>\<open>JXR0\<close>, \<^verbatim>\<open>JXR2\<close> and \<^verbatim>\<open>JXY2\<close> are the same.
\<close>

type_synonym to_json = "ptree \<Rightarrow> string + string"

definition frame_bytes :: "'w cam_sys \<Rightarrow> v4l2_mmap_buffer \<Rightarrow> 'w \<Rightarrow> bytes option" where
  "frame_bytes sys frame w = (case mb_ptr frame of
     None \<Rightarrow> (if vb_bytesused (mb_buf frame) = 0 then Some [] else None)
   | Some q \<Rightarrow> Some (sys_bytes sys q (unat (vb_bytesused (mb_buf frame))) w))"

definition new_frame_cb_cache ::
    "'w cam_sys \<Rightarrow> to_json \<Rightarrow> v4l2_mmap_buffer \<Rightarrow> alvium_pipe \<Rightarrow> 'w
     \<Rightarrow> (string option \<times> alvium_pipe) option" where
  "new_frame_cb_cache sys to_json frame p w = do {
     meta \<leftarrow> frame_meta_to_ptree frame;
     (case to_json meta of
        Inl e \<Rightarrow> Some (Some e, p)
      | Inr meta_str \<Rightarrow> do {
          data \<leftarrow> frame_bytes sys frame w;
          let p = p\<lparr>ap_frame_buffer := Some data\<rparr>;
          Some (None, if ap_dispatch p
            then p\<lparr>ap_dispatched := ap_dispatched p @ [(meta_str, data)]\<rparr> else p) }) }"

definition new_frame_cb_XR24 ::
    "'w cam_sys \<Rightarrow> to_json \<Rightarrow> v4l2_mmap_buffer \<Rightarrow> alvium_pipe \<Rightarrow> 'w
     \<Rightarrow> (string option \<times> alvium_pipe) option" where
  "new_frame_cb_XR24 sys to_json frame p w = do {
     meta \<leftarrow> frame_meta_to_ptree frame;
     (case to_json meta of
        Inl e \<Rightarrow> Some (Some e, p)
      | Inr meta_str \<Rightarrow> do {
          data \<leftarrow> frame_bytes sys frame w;
          let p = p\<lparr>ap_frame_buffer := Some data\<rparr>;
          let p = p\<lparr>ap_pushed := ap_pushed p @ [\<lparr>gf_data = data, gf_width = vf_width (mb_fmt frame),
            gf_height = vf_height (mb_fmt frame), gf_stride = vf_width (mb_fmt frame) * 4\<rparr>]\<rparr>;
          Some (None, if ap_dispatch p
            then p\<lparr>ap_dispatched := ap_dispatched p @ [(meta_str, data)]\<rparr> else p) }) }"

text \<open>The callback the worker is given for each pixel format.\<close>

definition new_frame_cb ::
    "'w cam_sys \<Rightarrow> to_json \<Rightarrow> u32 \<Rightarrow> v4l2_mmap_buffer \<Rightarrow> alvium_pipe \<Rightarrow> 'w
     \<Rightarrow> (string option \<times> alvium_pipe) option" where
  "new_frame_cb sys to_json fcc frame p w =
     (if fcc = PIX_FMT_RGGB then Some (None, p)
      else if fcc = PIX_FMT_JXR0 then new_frame_cb_cache sys to_json frame p w
      else if fcc = PIX_FMT_JXR2 then new_frame_cb_cache sys to_json frame p w
      else if fcc = PIX_FMT_GREY then Some (None, p)
      else if fcc = PIX_FMT_JXY0 then Some (None, p)
      else if fcc = PIX_FMT_JXY2 then new_frame_cb_cache sys to_json frame p w
      else if fcc = PIX_FMT_XR24 then new_frame_cb_XR24 sys to_json frame p w
      else Some (None, p))"

definition fourcc_supported :: "u32 \<Rightarrow> bool" where
  "fourcc_supported fcc \<longleftrightarrow> fcc \<in> {PIX_FMT_RGGB, PIX_FMT_JXR0, PIX_FMT_JXR2, PIX_FMT_GREY, PIX_FMT_JXY0,
     PIX_FMT_JXY2, PIX_FMT_XR24}"

subsection \<open>Initialisation\<close>

record gst_env =
  ge_in_queue :: bool
  ge_out_caps :: bool
  ge_out_capsfilter :: bool
  ge_out_queue :: bool
  ge_out_tee :: bool

definition pipe_start :: "'w cam_sys \<Rightarrow> gst_env \<Rightarrow> alvium_pipe \<Rightarrow> 'w \<Rightarrow> (cam_result \<times> alvium_pipe \<times> 'w) option" where
  "pipe_start sys ge p w =
     (if \<not> fourcc_supported (ap_fourcc p) then Some (CamFalse, p, w)
      else if \<not> ge_in_queue ge then Some (CamFalse, p, w)
      else if \<not> ge_out_caps ge then Some (CamFalse, p, w)
      else if \<not> ge_out_capsfilter ge then Some (CamFalse, p, w)
      else if \<not> ge_out_queue ge then Some (CamFalse, p, w)
      else if \<not> ge_out_tee ge then Some (CamFalse, p, w)
      else do {
        let p = p\<lparr>ap_worker := Some (ap_fourcc p)\<rparr>;
        (ok, p, w) \<leftarrow> pipe_start_streaming sys p w;
        Some (cam_bool ok, p, w) })"

text \<open>
  \<^verbatim>\<open>init\<close> on a pipe that has no camera yet, as the program calls it; \<open>indet\<close> is the camera's
  uninitialised buffer type. A camera that fails to open or to initialise is only logged.
\<close>

definition pipe_init ::
    "'w cam_sys \<Rightarrow> gst_env \<Rightarrow> u32 \<Rightarrow> alvium_pipe \<Rightarrow> 'w \<Rightarrow> (cam_result \<times> alvium_pipe \<times> 'w) option" where
  "pipe_init sys ge indet p w = do {
     (_, cam, w) \<leftarrow> alvium_open sys (ap_dev_path p) (alvium_new indet) w;
     (r, cam, w) \<leftarrow> alvium_init sys (ap_fourcc p) cam w;
     let p = p\<lparr>ap_cam := Some cam\<rparr>;
     (case r of
        CamThrow e \<Rightarrow> Some (CamThrow e, p, w)
      | _ \<Rightarrow> do {
          (ok, p, w) \<leftarrow> set_trigger_mode sys (ap_trigger_mode p) p w;
          if \<not> ok then Some (CamFalse, p, w)
          else let p = p\<lparr>ap_util := set_fd (al_fd cam) (ap_util p)\<rparr>;
                   (_, w) = set_gain_auto (sys_v4l2 sys) (ap_util p) True w;
                   (_, w) = set_exposure_auto (sys_v4l2 sys) (ap_util p) 0 w
               in pipe_start sys ge p w }) }"


subsection \<open>Reachable pipes\<close>

text \<open>
  Every sequence of operations on a pipe, from its construction on, under any driver; the frame
  callbacks run between the operations.
\<close>

inductive pipe_reachable :: "'w cam_sys \<Rightarrow> alvium_pipe \<Rightarrow> bool" for sys where
  created: "pipe_reachable sys (alvium_pipe_new indet)"
| params: "pipe_reachable sys p \<Longrightarrow> pipe_reachable sys (set_params path fcc mode p)"
| callback: "pipe_reachable sys p \<Longrightarrow> pipe_reachable sys (set_framebuffer_callback b p)"
| need: "pipe_reachable sys p \<Longrightarrow> pipe_reachable sys (handle_need_data p)"
| enough: "pipe_reachable sys p \<Longrightarrow> pipe_reachable sys (handle_enough_data p)"
| initialised: "pipe_reachable sys p \<Longrightarrow> pipe_init sys ge indet p w = Some (r, p', w') \<Longrightarrow> pipe_reachable sys p'"
| started: "pipe_reachable sys p \<Longrightarrow> pipe_start_streaming sys p w = Some (ok, p', w') \<Longrightarrow> pipe_reachable sys p'"
| stopped: "pipe_reachable sys p \<Longrightarrow> pipe_stop_streaming sys p w = Some (ok, p', w') \<Longrightarrow> pipe_reachable sys p'"
| triggered: "pipe_reachable sys p \<Longrightarrow> set_trigger_mode sys mode p w = Some (ok, p', w') \<Longrightarrow> pipe_reachable sys p'"
| property: "pipe_reachable sys p \<Longrightarrow> set_camera_property sys k v p w = Some (ok, p', w') \<Longrightarrow> pipe_reachable sys p'"
| framed: "pipe_reachable sys p \<Longrightarrow> new_frame_cb sys js fcc frame p w = Some (e, p') \<Longrightarrow> pipe_reachable sys p'"
| closed: "pipe_reachable sys p \<Longrightarrow> pipe_close sys p w = Some (ok, p', w') \<Longrightarrow> pipe_reachable sys p'"

named_theorems pipe_util \<open>operations leave the pipe's helper object alone\<close>

lemma start_util [pipe_util]: "pipe_start_streaming sys p w = Some (ok, p', w') \<Longrightarrow> ap_util p' = ap_util p"
  by (auto simp: pipe_start_streaming_def split: bind_splits)

lemma stop_util [pipe_util]: "pipe_stop_streaming sys p w = Some (ok, p', w') \<Longrightarrow> ap_util p' = ap_util p"
  by (auto simp: pipe_stop_streaming_def split: bind_splits)

lemma trigger_util [pipe_util]: "set_trigger_mode sys m p w = Some (ok, p', w') \<Longrightarrow> ap_util p' = ap_util p"
  by (auto simp: set_trigger_mode_def split: bind_splits if_splits)

lemma property_util [pipe_util]:
  "set_camera_property sys k v p w = Some (ok, p', w') \<Longrightarrow> ap_util p' = ap_util p"
  by (auto simp: set_camera_property_def pipe_util split: if_splits)

lemma cache_util: "new_frame_cb_cache sys js f p w = Some (e, p') \<Longrightarrow> ap_util p' = ap_util p"
  by (auto simp: new_frame_cb_cache_def Let_def split: bind_splits sum.splits if_splits)

lemma xr24_util: "new_frame_cb_XR24 sys js f p w = Some (e, p') \<Longrightarrow> ap_util p' = ap_util p"
  by (auto simp: new_frame_cb_XR24_def Let_def split: bind_splits sum.splits if_splits)

lemma frame_util [pipe_util]:
  "new_frame_cb sys js fcc f p w = Some (e, p') \<Longrightarrow> ap_util p' = ap_util p"
  by (auto simp: new_frame_cb_def dest: cache_util xr24_util split: if_splits)

lemma close_util [pipe_util]: "pipe_close sys p w = Some (ok, p', w') \<Longrightarrow> ap_util p' = ap_util p"
  by (auto simp: pipe_close_def split: bind_splits option.splits)

lemma pipe_start_util: "pipe_start sys ge p w = Some (r, p', w') \<Longrightarrow> ap_util p' = ap_util p"
  by (auto simp: pipe_start_def Let_def dest: start_util split: bind_splits if_splits)

lemma init_names:
  assumes "pipe_init sys ge indet p w = Some (r, p', w')"
  shows "m_device_ctrl_by_name (ap_util p') = m_device_ctrl_by_name (ap_util p)"
  using assms
  by (auto simp: pipe_init_def Let_def set_fd_def
      dest!: pipe_start_util trigger_util split: bind_splits cam_result.splits if_splits prod.splits)

lemma reachable_no_names:
  "pipe_reachable sys p \<Longrightarrow> m_device_ctrl_by_name (ap_util p) = Map.empty"
proof (induction rule: pipe_reachable.induct)
  case (initialised p ge indet w r p' w')
  then show ?case by (simp add: init_names)
qed (auto simp: alvium_pipe_new_def v4l2_util_new_def set_params_def set_framebuffer_callback_def
    handle_need_data_def handle_enough_data_def pipe_util)

text \<open>
  C37. The controls that are addressed by name never work on this camera. Only the helper object
  inside the camera is probed; the accessors look the name up in the pipe's own helper, whose table
  is empty in every reachable state, so each of the eight returns false without a request, whatever
  controls the camera has.
\<close>

theorem named_controls_never_found:
  assumes "pipe_reachable sys p"
  shows "set_exposure_auto_min dev (ap_util p) v w = (False, w) \<and>
    set_exposure_auto_max dev (ap_util p) v w = (False, w) \<and>
    set_gain_auto_min dev (ap_util p) v w = (False, w) \<and>
    set_gain_auto_max dev (ap_util p) v w = (False, w) \<and>
    get_exposure_auto_min dev (ap_util p) w = (None, w) \<and>
    get_exposure_auto_max dev (ap_util p) w = (None, w) \<and>
    get_gain_auto_min dev (ap_util p) w = (None, w) \<and>
    get_gain_auto_max dev (ap_util p) w = (None, w)"
  using reachable_no_names [OF assms]
  by (simp add: set_exposure_auto_min_def set_exposure_auto_max_def set_gain_auto_min_def
      set_gain_auto_max_def get_exposure_auto_min_def get_exposure_auto_max_def get_gain_auto_min_def
      get_gain_auto_max_def set_by_name_def get_by_name_def get_ctrl_id_by_name_def)

theorem named_controls_never_found_witness:
  "set_exposure_auto_min demo_ctrl_dev (ap_util (set_params ''/dev/video0'' PIX_FMT_XR24 ''sw''
     (alvium_pipe_new 0))) 5 Map.empty = (False, Map.empty)"
proof -
  have "pipe_reachable demo_cam (set_params ''/dev/video0'' PIX_FMT_XR24 ''sw'' (alvium_pipe_new 0))"
    by (intro pipe_reachable.intros)
  from named_controls_never_found [OF this, of demo_ctrl_dev 5 Map.empty] show ?thesis by simp
qed

lemma single_plane_meta:
  "vb_type (mb_buf f) \<noteq> V4L2_BUF_TYPE_VIDEO_CAPTURE_MPLANE \<Longrightarrow>
   vf_type (mb_fmt f) \<noteq> V4L2_BUF_TYPE_VIDEO_CAPTURE_MPLANE \<Longrightarrow> \<exists>t. frame_meta_to_ptree f = Some t"
  by (simp add: frame_meta_to_ptree_def v4l2_buffer_to_json_def v4l2_format_to_json_def Let_def)



definition demo_frame :: v4l2_mmap_buffer where
  "demo_frame = v4l2_mmap_buffer_new\<lparr>mb_ptr := Some 1, mb_buf := v4l2_buffer0\<lparr>vb_bytesused := 2\<rparr>\<rparr>"


end
