(* ===== verification/App_Config.thy ===== *)
theory App_Config
  imports Ptree_Util "HOL-Library.List_Lexorder" "HOL-Library.Char_ord"
begin

section \<open>The configuration: \<^verbatim>\<open>app_config\<close>\<close>

text \<open>
  \<^verbatim>\<open>src/opaleye/config/\<close>: the settings of the program, read from and written to a property
  tree. The XML reader and writer of boost are arguments. An operation of the tree that throws
  (\<^verbatim>\<open>ptree_bad_path\<close>, \<^verbatim>\<open>ptree_bad_data\<close>) leaves the object with the fields assigned up to that
  point, so a result carries the object: \<open>CfgThrow\<close>, \<open>CfgFalse\<close> for an early
  \<^verbatim>\<open>return false\<close>, or \<open>CfgOk\<close>.

  The three directories are \<^verbatim>\<open>boost::filesystem::path\<close>s. They are read as strings; the text that
  \<^verbatim>\<open>put\<close> makes of a path is the library's, the argument \<open>show_path\<close>.
\<close>

datatype 'c cfg_res = CfgThrow 'c | CfgFalse 'c | CfgOk 'c

fun cfg_bind :: "'c cfg_res \<Rightarrow> ('c \<Rightarrow> 'c cfg_res) \<Rightarrow> 'c cfg_res" where
  "cfg_bind (CfgOk c) f = f c"
| "cfg_bind r f = r"

definition get_int :: "string list \<Rightarrow> ptree \<Rightarrow> int option" where
  "get_int path t = Option.bind (pt_get path t) (\<lambda>s. case scan_int s of
     Some (v, r) \<Rightarrow> if in_s32 v \<and> (\<forall>c \<in> set r. is_space c) then Some v else None | None \<Rightarrow> None)"

definition cfg_get :: "string list \<Rightarrow> ptree \<Rightarrow> (string \<Rightarrow> 'c \<Rightarrow> 'c) \<Rightarrow> 'c \<Rightarrow> 'c cfg_res" where
  "cfg_get path t upd c = (case pt_get path t of None \<Rightarrow> CfgThrow c | Some s \<Rightarrow> CfgOk (upd s c))"

definition cfg_get_int :: "string list \<Rightarrow> ptree \<Rightarrow> (int \<Rightarrow> 'c \<Rightarrow> 'c) \<Rightarrow> 'c \<Rightarrow> 'c cfg_res" where
  "cfg_get_int path t upd c = (case get_int path t of None \<Rightarrow> CfgThrow c | Some v \<Rightarrow> CfgOk (upd v c))"

text \<open>\<^verbatim>\<open>equal_range(key)\<close>, in order, and \<^verbatim>\<open>add\<close> at a path.\<close>

definition pt_values :: "string \<Rightarrow> ptree \<Rightarrow> string list" where
  "pt_values k t = map (pt_data \<circ> snd) (filter (\<lambda>(k', _). k' = k) (pt_children t))"

fun pt_add_path :: "string list \<Rightarrow> string \<Rightarrow> ptree \<Rightarrow> ptree" where
  "pt_add_path [] v t = t"
| "pt_add_path [k] v t = pt_push_back k (PTree v []) t"
| "pt_add_path (k # ks) v t = PTree (pt_data t) (pt_set k (pt_add_path ks v) (pt_children t))"

subsection \<open>Pipelines and cameras\<close>

record pipeline_config =
  pl_name :: string
  pl_type :: string
  pl_tree :: ptree

record camera_config =
  cc_name :: string
  cc_type :: string
  cc_pipeline :: pipeline_config
  cc_tree :: ptree

definition pipeline_config_new :: pipeline_config where
  "pipeline_config_new = \<lparr>pl_name = [], pl_type = [], pl_tree = pt_empty\<rparr>"

definition camera_config_new :: camera_config where
  "camera_config_new = \<lparr>cc_name = [], cc_type = [], cc_pipeline = pipeline_config_new, cc_tree = pt_empty\<rparr>"

definition pipeline_is_valid :: "pipeline_config \<Rightarrow> bool" where
  "pipeline_is_valid p \<longleftrightarrow> True"

definition camera_is_valid :: "camera_config \<Rightarrow> bool" where
  "camera_is_valid c \<longleftrightarrow> pipeline_is_valid (cc_pipeline c)"

definition pipeline_deserialize :: "ptree \<Rightarrow> pipeline_config \<Rightarrow> pipeline_config cfg_res" where
  "pipeline_deserialize t p =
     cfg_bind (CfgOk (p\<lparr>pl_tree := t\<rparr>))
       (\<lambda>p. cfg_bind (cfg_get [''name''] t (\<lambda>s p. p\<lparr>pl_name := s\<rparr>) p)
       (cfg_get [''type''] t (\<lambda>s p. p\<lparr>pl_type := s\<rparr>)))"

definition pipeline_serialize :: "pipeline_config \<Rightarrow> ptree \<Rightarrow> ptree" where
  "pipeline_serialize p t = pt_put ''type'' (pl_type p) (pt_put ''name'' (pl_name p) t)"

definition camera_pipeline :: "ptree \<Rightarrow> camera_config \<Rightarrow> camera_config cfg_res" where
  "camera_pipeline t c = (case pt_find [''pipeline''] t of
     None \<Rightarrow> CfgThrow c
   | Some pt \<Rightarrow> (case pipeline_deserialize pt (cc_pipeline c) of
       CfgThrow p \<Rightarrow> CfgThrow (c\<lparr>cc_pipeline := p\<rparr>)
     | CfgFalse p \<Rightarrow> CfgFalse (c\<lparr>cc_pipeline := p\<rparr>)
     | CfgOk p \<Rightarrow> CfgOk (c\<lparr>cc_pipeline := p\<rparr>)))"

definition camera_deserialize :: "ptree \<Rightarrow> camera_config \<Rightarrow> camera_config cfg_res" where
  "camera_deserialize t c =
     cfg_bind (CfgOk (c\<lparr>cc_tree := t\<rparr>))
       (\<lambda>c. cfg_bind (cfg_get [''name''] t (\<lambda>s c. c\<lparr>cc_name := s\<rparr>) c)
       (\<lambda>c. cfg_bind (cfg_get [''type''] t (\<lambda>s c. c\<lparr>cc_type := s\<rparr>) c)
       (camera_pipeline t)))"

definition camera_serialize :: "camera_config \<Rightarrow> ptree \<Rightarrow> ptree" where
  "camera_serialize c t =
     pt_put_child ''pipeline'' (pipeline_serialize (cc_pipeline c) pt_empty)
       (pt_put ''type'' (cc_type c) (pt_put ''name'' (cc_name c) t))"

subsection \<open>The application's settings\<close>

record app_config =
  video_path :: string
  image_path :: string
  log_path :: string
  h264_mode :: string
  sensors_launch :: string
  zeromq_launch :: string
  zeromq_ep :: "string list"
  zcm_launch :: string
  zcm_ep :: "string list"
  master_clock :: string
  master_clock_latency :: int
  camera_configs :: "(string \<times> camera_config) list"
  nvpmodel_mode :: int
  cfg_tree :: ptree

text \<open>The two integers are not initialised.\<close>

definition app_config_new :: "int \<Rightarrow> int \<Rightarrow> app_config" where
  "app_config_new i1 i2 = \<lparr>video_path = [], image_path = [], log_path = [], h264_mode = [],
     sensors_launch = [], zeromq_launch = [], zeromq_ep = [], zcm_launch = [], zcm_ep = [],
     master_clock = [], master_clock_latency = i1, camera_configs = [], nvpmodel_mode = i2,
     cfg_tree = pt_empty\<rparr>"

fun all_valid :: "(string \<times> camera_config) list \<Rightarrow> bool \<Rightarrow> bool" where
  "all_valid [] ret = ret"
| "all_valid ((_, c) # cs) ret = all_valid cs (ret \<and> camera_is_valid c)"

text \<open>The result of the loop is computed and not returned.\<close>

definition app_config_is_valid :: "app_config \<Rightarrow> bool" where
  "app_config_is_valid c = (let ret = all_valid (camera_configs c) True in True)"

definition has_child :: "string list \<Rightarrow> app_config \<Rightarrow> bool" where
  "has_child path c \<longleftrightarrow> pt_find path (cfg_tree c) \<noteq> None"

definition cfg_endpoints ::
    "string list \<Rightarrow> ptree \<Rightarrow> (string \<Rightarrow> app_config \<Rightarrow> app_config)
     \<Rightarrow> (string list \<Rightarrow> app_config \<Rightarrow> app_config) \<Rightarrow> app_config \<Rightarrow> app_config cfg_res" where
  "cfg_endpoints path t launch eps c = (case pt_find path t of
     None \<Rightarrow> CfgThrow (eps [] c)
   | Some z \<Rightarrow> cfg_bind (cfg_get [''launch''] z launch (eps [] c))
       (\<lambda>c. CfgOk (eps (pt_values ''endpoint'' z) c)))"

definition cfg_clock :: "ptree \<Rightarrow> app_config \<Rightarrow> app_config cfg_res" where
  "cfg_clock t c =
     (if has_child [''config'', ''clock''] c then
        cfg_bind (cfg_get [''config'', ''clock'', ''source''] t (\<lambda>s c. c\<lparr>master_clock := s\<rparr>) c)
          (cfg_get_int [''config'', ''clock'', ''latency''] t (\<lambda>v c. c\<lparr>master_clock_latency := v\<rparr>))
      else CfgOk (c\<lparr>master_clock := ''system'', master_clock_latency := 500\<rparr>))"

fun cfg_cameras :: "(string \<times> ptree) list \<Rightarrow> app_config \<Rightarrow> app_config cfg_res" where
  "cfg_cameras [] c = CfgOk c"
| "cfg_cameras ((_, t) # ts) c = (case camera_deserialize t camera_config_new of
     CfgThrow _ \<Rightarrow> CfgThrow c
   | CfgFalse _ \<Rightarrow> CfgFalse c
   | CfgOk cam \<Rightarrow> cfg_cameras ts (c\<lparr>camera_configs := smap_put (cc_name cam) cam (camera_configs c)\<rparr>))"

definition app_deserialize :: "ptree \<Rightarrow> app_config \<Rightarrow> app_config cfg_res" where
  "app_deserialize t c =
     cfg_bind (cfg_get [''config'', ''video_path''] t (\<lambda>s c. c\<lparr>video_path := s\<rparr>) (c\<lparr>cfg_tree := t\<rparr>))
    (\<lambda>c. cfg_bind (cfg_get [''config'', ''image_path''] t (\<lambda>s c. c\<lparr>image_path := s\<rparr>) c)
    (\<lambda>c. cfg_bind (cfg_get [''config'', ''log_path''] t (\<lambda>s c. c\<lparr>log_path := s\<rparr>) c)
    (\<lambda>c. cfg_bind (cfg_get [''config'', ''h264_mode''] t (\<lambda>s c. c\<lparr>h264_mode := s\<rparr>) c)
    (\<lambda>c. cfg_bind (CfgOk (c\<lparr>nvpmodel_mode :=
        (case get_int [''config'', ''nvpmodel'', ''mode''] t of None \<Rightarrow> 3 | Some v \<Rightarrow> v)\<rparr>))
    (\<lambda>c. cfg_bind (cfg_get [''config'', ''sensors'', ''launch''] t (\<lambda>s c. c\<lparr>sensors_launch := s\<rparr>) c)
    (\<lambda>c. cfg_bind (cfg_endpoints [''config'', ''zeromq''] t
        (\<lambda>s c. c\<lparr>zeromq_launch := s\<rparr>) (\<lambda>es c. c\<lparr>zeromq_ep := es\<rparr>) c)
    (\<lambda>c. cfg_bind (cfg_endpoints [''config'', ''zcm''] t
        (\<lambda>s c. c\<lparr>zcm_launch := s\<rparr>) (\<lambda>es c. c\<lparr>zcm_ep := es\<rparr>) c)
    (\<lambda>c. cfg_bind (cfg_clock t c)
    (\<lambda>c. case pt_find [''config'', ''cameras''] t of
        None \<Rightarrow> CfgThrow c
      | Some ct \<Rightarrow> cfg_cameras (pt_children ct) c)))))))))"

definition cameras_tree :: "(string \<times> camera_config) list \<Rightarrow> ptree" where
  "cameras_tree cs = fold (\<lambda>(_, c). pt_push_back ''camera'' (camera_serialize c pt_empty)) cs pt_empty"

definition app_serialize :: "(string \<Rightarrow> string) \<Rightarrow> app_config \<Rightarrow> ptree" where
  "app_serialize show_path c =
     (let t = pt_put_path [''config'', ''<xmlattr>'', ''verson''] ''1.0'' pt_empty;
          t = pt_put_path [''config'', ''video_path''] (show_path (video_path c)) t;
          t = pt_put_path [''config'', ''image_path''] (show_path (image_path c)) t;
          t = pt_put_path [''config'', ''log_path''] (show_path (log_path c)) t;
          t = pt_put_path [''config'', ''h264_mode''] (h264_mode c) t;
          t = pt_put_path [''config'', ''sensors'', ''launch''] (sensors_launch c) t;
          t = pt_put_path [''config'', ''sensors'', ''launch''] (fmt_int (nvpmodel_mode c)) t;
          t = pt_put_path [''config'', ''zeromq'', ''launch''] (zeromq_launch c) t;
          t = fold (pt_add_path [''config'', ''zeromq'', ''endpoint'']) (zeromq_ep c) t;
          t = pt_put_path [''config'', ''zcm'', ''launch''] (zcm_launch c) t;
          t = fold (pt_add_path [''config'', ''zcm'', ''endpoint'']) (zcm_ep c) t;
          t = pt_put_path [''config'', ''clock'', ''source''] (master_clock c) t;
          t = pt_put_path [''config'', ''clock'', ''latency''] (fmt_int (master_clock_latency c)) t
      in pt_put_child_path [''config'', ''cameras''] (cameras_tree (camera_configs c)) t)"

definition app_make_default :: "app_config \<Rightarrow> app_config" where
  "app_make_default c =
     c\<lparr>video_path := ''/opt/suburbanmarine/opaleye/record/video'',
       image_path := ''/opt/suburbanmarine/opaleye/record/image'',
       log_path := ''/opt/suburbanmarine/opaleye/log'', h264_mode := ''cpu'', nvpmodel_mode := 3,
       sensors_launch := ''true'', zeromq_launch := ''true'',
       zeromq_ep := [''tcp://0.0.0.0:51000'', ''ipc:///opaleye/feeds/0''],
       zcm_launch := ''true'', zcm_ep := [''ipc''], master_clock := ''system'',
       master_clock_latency := 500,
       camera_configs := smap_put ''cam0'' (camera_config_new\<lparr>cc_name := ''cam0'', cc_type := ''brio'',
           cc_pipeline := pipeline_config_new\<lparr>pl_name := ''cam0-pipeline'', pl_type := ''brio''\<rparr>\<rparr>)
         (camera_configs c)\<rparr>"

definition to_xml_string :: "(string \<Rightarrow> string) \<Rightarrow> (ptree \<Rightarrow> 'x) \<Rightarrow> app_config \<Rightarrow> 'x" where
  "to_xml_string show_path write_xml c = write_xml (app_serialize show_path c)"

definition to_json_string :: "(string \<Rightarrow> string) \<Rightarrow> (ptree \<Rightarrow> 'x) \<Rightarrow> app_config \<Rightarrow> 'x" where
  "to_json_string show_path write_json c = write_json (app_serialize show_path c)"

subsection \<open>The manager\<close>

record app_config_mgr =
  mgr_tree :: ptree
  mgr_config :: "app_config option"

text \<open>\<open>read_xml\<close> gives the tree of a file, or \<^const>\<open>None\<close> for its exception.\<close>

definition mgr_deserialize ::
    "(string \<Rightarrow> ptree option) \<Rightarrow> int \<times> int \<Rightarrow> string \<Rightarrow> app_config_mgr \<Rightarrow> bool \<times> app_config_mgr" where
  "mgr_deserialize read_xml indet p m = (case read_xml p of
     None \<Rightarrow> (False, m)
   | Some t \<Rightarrow>
       (let m = m\<lparr>mgr_tree := t\<rparr>;
            c = (case mgr_config m of None \<Rightarrow> app_config_new (fst indet) (snd indet) | Some c \<Rightarrow> c)
        in case app_deserialize t c of
            CfgThrow c \<Rightarrow> (False, m\<lparr>mgr_config := Some c\<rparr>)
          | CfgFalse c \<Rightarrow> (False, m\<lparr>mgr_config := Some c\<rparr>)
          | CfgOk c \<Rightarrow> (True, m\<lparr>mgr_config := Some c\<rparr>)))"

definition mgr_serialize ::
    "(string \<Rightarrow> string) \<Rightarrow> (string \<Rightarrow> ptree \<Rightarrow> 'f \<Rightarrow> 'f) \<Rightarrow> string \<Rightarrow> app_config_mgr \<Rightarrow> 'f \<Rightarrow> bool \<times> app_config_mgr \<times> 'f" where
  "mgr_serialize show_path write_xml p m fs = (case mgr_config m of
     None \<Rightarrow> (False, m, fs)
   | Some c \<Rightarrow> (let t = app_serialize show_path c in (True, m\<lparr>mgr_tree := t\<rparr>, write_xml p t fs)))"


subsection \<open>What a saved configuration reads back as\<close>

lemma fold_add_path_last:
  "fold (pt_add_path [k]) es (PTree d cs) = PTree d (cs @ map (\<lambda>e. (k, PTree e [])) es)"
  by (induction es arbitrary: cs) (simp_all add: pt_push_back_def)

lemma pt_set_pt_set: "pt_set k f (pt_set k g cs) = pt_set k (f \<circ> g) cs"
  by (induction k g cs rule: pt_set.induct) simp_all

lemma pt_set_id: "k \<in> fst ` set cs \<Longrightarrow> pt_set k (\<lambda>t. t) cs = cs"
  by (induction k "\<lambda>t :: ptree. t" cs rule: pt_set.induct) auto

lemma pt_set_keys: "fst ` set (pt_set k f cs) = insert k (fst ` set cs)"
  by (induction k f cs rule: pt_set.induct) auto

lemma fold_add_path_inner:
  "k \<in> fst ` set cs \<Longrightarrow> fold (pt_add_path (k # k2 # ks)) es (PTree d cs) =
     PTree d (pt_set k (fold (pt_add_path (k2 # ks)) es) cs)"
proof (induction es arbitrary: cs)
  case Nil
  then show ?case by (simp add: pt_set_id id_def)
next
  case (Cons e es)
  then have "k \<in> fst ` set (pt_set k (pt_add_path (k2 # ks) e) cs)" by (simp add: pt_set_keys)
  from Cons.IH [OF this] show ?case by (simp add: pt_set_pt_set comp_def)
qed

lemma pt_values_append: "pt_values k (PTree d (cs @ ds)) = pt_values k (PTree d cs) @ pt_values k (PTree d ds)"
  by (simp add: pt_values_def)

lemma pt_values_same: "pt_values k (PTree d (map (\<lambda>e. (k, PTree e [])) es)) = es"
  by (induction es) (simp_all add: pt_values_def)

lemma get_int_fmt_int:
  "pt_get path t = Some (fmt_int v) \<Longrightarrow> in_s32 v \<Longrightarrow> get_int path t = Some v"
  using scan_int_fmt_int [of "[]" v] by (simp add: get_int_def)

text \<open>A camera as it is after it was written and read: its subtree is the one written.\<close>

definition reloaded :: "camera_config \<Rightarrow> camera_config" where
  "reloaded c = c\<lparr>cc_tree := camera_serialize c pt_empty,
     cc_pipeline := (cc_pipeline c)\<lparr>pl_tree := pipeline_serialize (cc_pipeline c) pt_empty\<rparr>\<rparr>"

lemma camera_roundtrip:
  "camera_deserialize (camera_serialize c pt_empty) camera_config_new = CfgOk (reloaded c)"
  by (simp add: camera_deserialize_def camera_pipeline_def pipeline_deserialize_def cfg_get_def pt_get_def
      camera_serialize_def pipeline_serialize_def pt_put_def pt_put_child_def pt_empty_def reloaded_def
      camera_config_new_def pipeline_config_new_def)

lemma cameras_tree_children:
  "pt_children (cameras_tree cs) = map (\<lambda>(_, c). (''camera'', camera_serialize c pt_empty)) cs"
proof -
  have "pt_children (fold (\<lambda>(_, c). pt_push_back ''camera'' (camera_serialize c pt_empty)) cs t) =
      pt_children t @ map (\<lambda>(_, c). (''camera'', camera_serialize c pt_empty)) cs" for t
    by (induction cs arbitrary: t) (auto simp: pt_push_back_def)
  then show ?thesis by (simp add: cameras_tree_def pt_empty_def)
qed

lemma cfg_cameras_written:
  assumes "sorted_wrt (<) (map fst (xs @ cs))" and "\<forall>(k, c) \<in> set cs. k = cc_name c"
    and "camera_configs a = xs"
  shows "cfg_cameras (map (\<lambda>(_, c). (''camera'', camera_serialize c pt_empty)) cs) a =
    CfgOk (a\<lparr>camera_configs := xs @ map (\<lambda>(k, c). (k, reloaded c)) cs\<rparr>)"
  using assms
proof (induction cs arbitrary: a xs)
  case Nil
  then show ?case by simp
next
  case (Cons x cs)
  obtain k c where x: "x = (k, c)" by (cases x)
  have k: "cc_name (reloaded c) = k" "\<forall>(k, c) \<in> set cs. k = cc_name c"
    using Cons.prems(2) x by (auto simp: reloaded_def)
  have "\<forall>k' \<in> set (map fst xs). k' < k" using Cons.prems(1) x by (auto simp: sorted_wrt_append)
  from smap_put_greatest [OF this] have p: "smap_put k (reloaded c) xs = xs @ [(k, reloaded c)]" .
  have "sorted_wrt (<) (map fst ((xs @ [(k, reloaded c)]) @ cs))" using Cons.prems(1) x by simp
  from Cons.IH [OF this, of "a\<lparr>camera_configs := xs @ [(k, reloaded c)]\<rparr>"] k(2)
  show ?case by (simp add: x camera_roundtrip k(1) p Cons.prems(3))
qed


fun cfg_obj :: "'c cfg_res \<Rightarrow> 'c" where
  "cfg_obj (CfgThrow c) = c"
| "cfg_obj (CfgFalse c) = c"
| "cfg_obj (CfgOk c) = c"

lemmas serialize_eval =
  app_serialize_def fold_add_path_inner fold_add_path_last pt_empty_def

lemmas deserialize_eval =
  app_deserialize_def cfg_get_def cfg_get_int_def cfg_endpoints_def cfg_clock_def has_child_def
  pt_get_def get_int_def pt_values_append pt_values_same



definition camera_names :: "ptree \<Rightarrow> string option list" where
  "camera_names t = (case pt_find [''config'', ''cameras''] t of
     None \<Rightarrow> [] | Some ct \<Rightarrow> map (pt_get [''name''] \<circ> snd) (pt_children ct))"

definition cam_kept :: "string \<Rightarrow> app_config \<Rightarrow> app_config cfg_res \<Rightarrow> bool" where
  "cam_kept k c r \<longleftrightarrow> map_of (camera_configs (cfg_obj r)) k = map_of (camera_configs c) k"

lemma cam_kept_bind:
  "cam_kept k c r \<Longrightarrow> (\<And>c'. cam_kept k c' (f c')) \<Longrightarrow> cam_kept k c (cfg_bind r f)"
  by (cases r) (simp_all add: cam_kept_def)

lemma cam_kept_get:
  "camera_configs c = camera_configs c' \<Longrightarrow> (\<And>s c. camera_configs (u s c) = camera_configs c) \<Longrightarrow>
     cam_kept k c (cfg_get path t u c')"
  "(\<And>v c. camera_configs (w v c) = camera_configs c) \<Longrightarrow> cam_kept k c (cfg_get_int path t w c)"
  by (simp_all add: cam_kept_def cfg_get_def cfg_get_int_def split: option.split)

lemma cam_kept_endpoints:
  "(\<And>s c. camera_configs (u s c) = camera_configs c) \<Longrightarrow> (\<And>s c. camera_configs (e s c) = camera_configs c) \<Longrightarrow>
     cam_kept k c (cfg_endpoints path t u e c)"
  by (simp add: cam_kept_def cfg_endpoints_def cfg_get_def split: option.split)

lemma cam_kept_clock: "cam_kept k c (cfg_clock t c)"
  by (simp add: cam_kept_def cfg_clock_def cfg_get_def cfg_get_int_def split: option.split)

lemma map_of_smap_put: "map_of (smap_put k v xs) = (map_of xs)(k \<mapsto> v)"
  by (induction k v xs rule: smap_put.induct) auto

lemma camera_deserialize_name:
  "camera_deserialize t c = CfgOk cam \<Longrightarrow> pt_get [''name''] t = Some (cc_name cam)"
  by (auto simp: camera_deserialize_def cfg_get_def camera_pipeline_def split: option.splits cfg_res.splits)

lemma cam_kept_cameras:
  "Some k \<notin> set (map (pt_get [''name''] \<circ> snd) ts) \<Longrightarrow> cam_kept k c (cfg_cameras ts c)"
proof (induction ts c rule: cfg_cameras.induct)
  case (2 n t ts c)
  show ?case
  proof (cases "camera_deserialize t camera_config_new")
    case (CfgOk cam)
    with 2 camera_deserialize_name [OF CfgOk] show ?thesis by (auto simp: cam_kept_def map_of_smap_put)
  qed (simp_all add: cam_kept_def)
qed (simp add: cam_kept_def)

text \<open>
  Reading a configuration into an object that holds one never removes or changes a camera the
  document does not name: the map is not cleared, so cameras deleted from the file stay configured,
  whether the reading succeeds, returns false or throws.
\<close>

theorem reload_keeps_cameras:
  assumes "Some k \<notin> set (camera_names t)"
  shows "map_of (camera_configs (cfg_obj (app_deserialize t c))) k = map_of (camera_configs c) k"
proof -
  have "cam_kept k c (app_deserialize t c)" unfolding app_deserialize_def
    by (intro cam_kept_bind cam_kept_get cam_kept_endpoints cam_kept_clock)
      (use assms in \<open>auto simp: camera_names_def cam_kept_def split: option.split
         intro: cam_kept_cameras [unfolded cam_kept_def]\<close>)
  then show ?thesis by (simp add: cam_kept_def)
qed

theorem reload_keeps_cameras_witness:
  "map_of (camera_configs (cfg_obj (app_deserialize (app_serialize (\<lambda>p. p) (app_config_new 1 1))
     (app_make_default (app_config_new 0 0))))) ''cam0'' \<noteq> None"
  using reload_keeps_cameras [of "''cam0''" "app_serialize (\<lambda>p. p) (app_config_new 1 1)"
      "app_make_default (app_config_new 0 0)"]
  by (simp add: camera_names_def serialize_eval cameras_tree_def app_make_default_def app_config_new_def)

end
