(* ===== verification/Gpio_Trigger.thy ===== *)
theory Gpio_Trigger
  imports Chrono_Util Thread_Base
begin

section \<open>The camera trigger: control client and kernel module\<close>

text \<open>
  \<^verbatim>\<open>src/opaleye/Opaleye_gpio_mod_ctrl.cpp\<close> writes text to two sysfs files;
  \<^verbatim>\<open>src/modules/opaleye_gpio/opaleye_gpio_main.c\<close> is the kernel module behind them, which
  pulses the trigger lines from two high-resolution timers. \<^verbatim>\<open>src/opaleye/gpio_thread.cpp\<close>
  is the user-space variant of the pulse.

  Times are nanoseconds. \<^verbatim>\<open>ktime_set\<close>, \<^verbatim>\<open>hrtimer_forward\<close> and the
  kernel's \<^verbatim>\<open>sscanf\<close> are modelled as documented: \<^verbatim>\<open>%ld\<close> skips white space
  and takes a minus sign but no plus sign, \<^verbatim>\<open>%9[0123456789]\<close> takes one to nine digits.
\<close>

subsection \<open>The control client\<close>

record mod_ctrl =
  m_fd_enable :: int
  m_fd_config :: int

definition mod_ctrl_new :: mod_ctrl where
  "mod_ctrl_new = \<lparr>m_fd_enable = - 1, m_fd_config = - 1\<rparr>"

text \<open>The failures of \<^verbatim>\<open>close\<close> go to an inner variable that hides the returned one.\<close>

definition mod_ctrl_close :: "(int \<Rightarrow> 'w \<Rightarrow> int \<times> 'w) \<Rightarrow> mod_ctrl \<Rightarrow> 'w \<Rightarrow> bool \<times> mod_ctrl \<times> 'w" where
  "mod_ctrl_close close_fd c w =
     (let ret = True;
          (c, w) = (if m_fd_enable c \<noteq> - 1 then
              let (inner_ret, w) = close_fd (m_fd_enable c) w in (c\<lparr>m_fd_enable := - 1\<rparr>, w)
            else (c, w));
          (c, w) = (if m_fd_config c \<noteq> - 1 then
              let (inner_ret, w) = close_fd (m_fd_config c) w in (c\<lparr>m_fd_config := - 1\<rparr>, w)
            else (c, w))
      in (ret, c, w))"

definition mod_ctrl_open :: "(string \<Rightarrow> 'w \<Rightarrow> int \<times> 'w) \<Rightarrow> (int \<Rightarrow> 'w \<Rightarrow> int \<times> 'w) \<Rightarrow> mod_ctrl \<Rightarrow> 'w \<Rightarrow>
    bool \<times> mod_ctrl \<times> 'w" where
  "mod_ctrl_open open_file close_fd c w =
     (let (fd, w) = open_file ''/sys/kernel/opaleye/enable'' w; c = c\<lparr>m_fd_enable := fd\<rparr> in
      if fd = - 1 then let (_, c, w) = mod_ctrl_close close_fd c w in (False, c, w)
      else let (fd, w) = open_file ''/sys/kernel/opaleye/timer_settings'' w;
               c = c\<lparr>m_fd_config := fd\<rparr> in
        if fd = - 1 then let (_, c, w) = mod_ctrl_close close_fd c w in (False, c, w)
        else (True, c, w))"

definition newline :: string where "newline = [CHR 0x0A]"

definition enable_text :: "bool \<Rightarrow> string" where
  "enable_text en = (if en then ''1'' else ''0'') @ newline"

definition set_enable :: "(int \<Rightarrow> string \<Rightarrow> 'w \<Rightarrow> int \<times> 'w) \<Rightarrow> bool \<Rightarrow> mod_ctrl \<Rightarrow> 'w \<Rightarrow> bool \<times> 'w" where
  "set_enable dprintf en c w =
     (let (ret, w) = dprintf (m_fd_enable c) (enable_text en) w in (ret > 0, w))"

definition ts_text :: "timespec \<Rightarrow> string" where
  "ts_text ts = fmt_int (ts_sec ts) @ ''.'' @ fmt_int0 9 (ts_nsec ts)"

definition settings_text :: "int \<Rightarrow> int \<Rightarrow> int \<Rightarrow> string" where
  "settings_text t0 period width =
     ts_text (chrono_to_timespec t0) @ '','' @ ts_text (chrono_to_timespec period) @ '','' @
     ts_text (chrono_to_timespec width) @ newline"

definition configure :: "(int \<Rightarrow> string \<Rightarrow> 'w \<Rightarrow> int \<times> 'w) \<Rightarrow> int \<Rightarrow> int \<Rightarrow> int \<Rightarrow> mod_ctrl \<Rightarrow> 'w \<Rightarrow>
    bool \<times> 'w" where
  "configure dprintf t0 period width c w =
     (let (ret, w) = dprintf (m_fd_config c) (settings_text t0 period width) w in (ret > 0, w))"

subsection \<open>The module's text formats\<close>

definition scan_ld :: "string \<Rightarrow> (int \<times> string) option" where
  "scan_ld s = (case dropWhile is_space s of
       [] \<Rightarrow> None
     | c # cs \<Rightarrow> if c = CHR ''+'' then None
         else map_option (\<lambda>(v, r). (to_s64 v, r)) (scan_int (c # cs)))"

definition scan_digits9 :: "string \<Rightarrow> (string \<times> string) option" where
  "scan_digits9 s = (let ds = takeWhile is_digit (take 9 s) in
     if ds = [] then None else Some (ds, drop (length ds) s))"

definition scan_lit :: "char \<Rightarrow> string \<Rightarrow> string option" where
  "scan_lit c s = (case s of [] \<Rightarrow> None | x # r \<Rightarrow> if x = c then Some r else None)"

definition char_to_num :: "char \<Rightarrow> int" where
  "char_to_num c = int (of_char c) - 48"

fun ns_loop :: "int \<Rightarrow> int \<Rightarrow> string \<Rightarrow> int" where
  "ns_loop accum mul [] = accum"
| "ns_loop accum mul (c # cs) = ns_loop (accum + char_to_num c * mul) (mul sdiv 10) cs"

definition nsstr_to_ns :: "string \<Rightarrow> int" where
  "nsstr_to_ns buf = ns_loop 0 100000000 buf"

definition scan_ts :: "string \<Rightarrow> ((int \<times> int) \<times> string) option" where
  "scan_ts s = do {
     (sec, r) \<leftarrow> scan_ld s;
     r \<leftarrow> scan_lit (CHR ''.'') r;
     (ns, r) \<leftarrow> scan_digits9 r;
     Some ((sec, nsstr_to_ns ns), r)
   }"

definition scan_settings :: "string \<Rightarrow> ((int \<times> int) \<times> (int \<times> int) \<times> (int \<times> int)) option" where
  "scan_settings s = do {
     (t0, r) \<leftarrow> scan_ts s;
     r \<leftarrow> scan_lit (CHR '','') r;
     (period, r) \<leftarrow> scan_ts r;
     r \<leftarrow> scan_lit (CHR '','') r;
     (width, r) \<leftarrow> scan_ts r;
     Some (t0, period, width)
   }"

definition ktime_set :: "int \<Rightarrow> int \<Rightarrow> int" where
  "ktime_set sec ns = (if sec \<ge> (2 ^ 63 - 1) div NS_PER_S then 2 ^ 63 - 1
     else to_s64 (sec * NS_PER_S + ns))"

lemma char_to_num_digit: "is_digit c \<Longrightarrow> char_to_num c = int (digit_val c)"
  by (simp add: char_to_num_def digit_val_def is_digit_def)

lemma digits_val_shift: "digits_val a ds = a * 10 ^ length ds + digits_val 0 ds"
proof (induction ds arbitrary: a)
  case (Cons d ds)
  show ?case
    using Cons [of "10 * a + digit_val d"] Cons [of "digit_val d"] by (simp add: algebra_simps)
qed simp

lemma ns_loop_digits:
  "\<forall>c \<in> set ds. is_digit c \<Longrightarrow> length ds \<le> k \<Longrightarrow>
   ns_loop a (10 ^ k sdiv 10) ds = a + int (digits_val 0 ds) * 10 ^ (k - length ds)"
proof (induction ds arbitrary: a k)
  case (Cons d ds)
  obtain k' where k: "k = Suc k'" using Cons.prems(2) by (cases k) auto
  have m: "10 * 10 ^ k' sdiv 10 = (10::int) ^ k'" by (simp add: sdiv_nonneg)
  have "ns_loop a (10 ^ k sdiv 10) (d # ds) =
      ns_loop (a + int (digit_val d) * 10 ^ k') (10 ^ k' sdiv 10) ds"
    using Cons.prems by (simp add: k m char_to_num_digit)
  also have "\<dots> = a + int (digit_val d) * 10 ^ k' + int (digits_val 0 ds) * 10 ^ (k' - length ds)"
    using Cons by (simp add: k)
  also have "\<dots> = a + int (digits_val 0 (d # ds)) * 10 ^ (k - length (d # ds))"
  proof -
    have "(10::int) ^ k' = 10 ^ length ds * 10 ^ (k' - length ds)"
      using Cons.prems(2) k by (simp flip: power_add)
    then show ?thesis
      using digits_val_shift [of "digit_val d" ds] by (simp add: k algebra_simps)
  qed
  finally show ?case .
qed simp

lemma nsstr_to_ns_fmt:
  assumes "0 \<le> n" and "n < NS_PER_S"
  shows "nsstr_to_ns (fmt_int0 9 n) = n"
proof -
  note d = fmt_int0_digits [OF assms(1), of 9]
  have l: "length (fmt_int0 9 n) = 9" using assms by (simp add: length_fmt_int0)
  have "10 ^ 9 sdiv 10 = (100000000::int)" by (simp add: sdiv_nonneg)
  then have "nsstr_to_ns (fmt_int0 9 n) = int (digits_val 0 (fmt_int0 9 n))"
    using ns_loop_digits [OF d, of 9 0] l by (simp add: nsstr_to_ns_def)
  also have "\<dots> = n" using assms(1) by (simp add: fmt_int0_def dec_text)
  finally show ?thesis .
qed

lemma fmt_int_first:
  assumes "0 \<le> x"
  obtains c cs where "fmt_int x = c # cs" and "is_digit c"
proof -
  obtain c cs where d: "dec_of_nat (nat x) = c # cs"
    using dec_of_nat_nonempty by (metis neq_Nil_conv)
  then have "is_digit c" using dec_of_nat_digits [of c "nat x"] by simp
  then show thesis using that d assms by (simp add: fmt_int_def)
qed

lemma scan_ld_fmt_int:
  assumes "0 \<le> x" and "in_s64 x" and "r = [] \<or> \<not> is_digit (hd r)"
  shows "scan_ld (fmt_int x @ r) = Some (x, r)"
proof -
  obtain c cs where c: "fmt_int x = c # cs" "is_digit c" using assms(1) by (rule fmt_int_first)
  have "scan_int ((c # cs) @ r) = Some (x, r)"
    using scan_int_fmt_int [OF assms(3), of x] by (simp add: c)
  then show ?thesis
    using digit_not_space_sign [OF c(2)] assms(2) by (simp add: scan_ld_def c to_s64_id)
qed

lemma scan_digits9_fmt:
  assumes "0 \<le> n" and "n < NS_PER_S"
  shows "scan_digits9 (fmt_int0 9 n @ r) = Some (fmt_int0 9 n, r)"
proof -
  note d = fmt_int0_digits [OF assms(1), of 9]
  have l: "length (fmt_int0 9 n) = 9" using assms by (simp add: length_fmt_int0)
  have "takeWhile is_digit (fmt_int0 9 n) = fmt_int0 9 n"
    using d by (simp only: takeWhile_eq_all_conv)
  moreover have "take 9 (fmt_int0 9 n @ r) = fmt_int0 9 n" "fmt_int0 9 n \<noteq> []"
    "drop 9 (fmt_int0 9 n @ r) = r"
    using l by auto
  ultimately show ?thesis using l by (simp add: scan_digits9_def Let_def del: take_append drop_append takeWhile_eq_all_conv)
qed

definition duration_ok :: "int \<Rightarrow> bool" where
  "duration_ok c \<longleftrightarrow> 0 \<le> c \<and> c < 2 ^ 63 - NS_PER_S"

lemma scan_ts_text:
  assumes "duration_ok c"
  shows "scan_ts (ts_text (chrono_to_timespec c) @ r) =
    Some ((ts_sec (chrono_to_timespec c), ts_nsec (chrono_to_timespec c)), r)"
    (is "_ = Some ((?s, ?n), r)")
proof -
  have c: "0 \<le> c" using assms by (simp add: duration_ok_def)
  have n: "0 \<le> ?n" "?n < NS_PER_S"
    using chrono_to_timespec_norm [OF c] by (simp_all add: timespec_norm_def)
  have "?s * NS_PER_S + ?n = c" using chrono_to_timespec_ns [of c] by (simp add: timespec_ns_def)
  moreover have s: "0 \<le> ?s" by (rule chrono_to_timespec_sec_nonneg [OF c])
  ultimately have "in_s64 ?s" using n assms by (simp add: in_s64_def duration_ok_def)
  then have "scan_ld (fmt_int ?s @ CHR ''.'' # fmt_int0 9 ?n @ r) = Some (?s, CHR ''.'' # fmt_int0 9 ?n @ r)"
    using s by (intro scan_ld_fmt_int) (simp_all add: is_digit_def)
  then show ?thesis
    using n by (simp add: scan_ts_def ts_text_def scan_lit_def scan_digits9_fmt nsstr_to_ns_fmt)
qed

lemma ktime_set_chrono:
  assumes "duration_ok c"
  shows "ktime_set (ts_sec (chrono_to_timespec c)) (ts_nsec (chrono_to_timespec c)) = c"
proof -
  have c: "0 \<le> c" "c < 2 ^ 63 - NS_PER_S" using assms by (simp_all add: duration_ok_def)
  have "ts_sec (chrono_to_timespec c) * NS_PER_S + ts_nsec (chrono_to_timespec c) = c"
    using chrono_to_timespec_ns [of c] by (simp add: timespec_ns_def)
  moreover have "ts_sec (chrono_to_timespec c) < (2 ^ 63 - 1) div NS_PER_S"
    using c by (simp add: chrono_to_timespec_def Let_def sdiv_nonneg)
  ultimately show ?thesis using c by (simp add: ktime_set_def to_s64_def)
qed

subsection \<open>The module\<close>

text \<open>
  The state the sysfs files and the timers share. A timer is \<^const>\<open>None\<close> when it is not
  queued and its expiry otherwise; \<open>gp_pins\<close> is the level of the two trigger lines, which are
  always set together.
\<close>

record gpio_state =
  gp_enabled :: bool
  gp_t0 :: int
  gp_period :: int
  gp_width :: int
  gp_on_timer :: "int option"
  gp_off_timer :: "int option"
  gp_pins :: bool

definition gpio_state_init :: gpio_state where
  "gpio_state_init = \<lparr>gp_enabled = False, gp_t0 = ktime_set 0 0, gp_period = ktime_set 1 0,
     gp_width = ktime_set 0 (100 * 1000 * 1000), gp_on_timer = None, gp_off_timer = None,
     gp_pins = False\<rparr>"

definition hrtimer_forward :: "int \<Rightarrow> int \<Rightarrow> int \<Rightarrow> int" where
  "hrtimer_forward now interval expires =
     (if now < expires then expires
      else let i = max 1 interval in expires + ((now - expires) div i + 1) * i)"

definition on_timer_cb :: "int \<Rightarrow> gpio_state \<Rightarrow> gpio_state" where
  "on_timer_cb now st = st\<lparr>gp_on_timer := map_option (hrtimer_forward now (gp_period st)) (gp_on_timer st),
     gp_pins := True\<rparr>"

definition off_timer_cb :: "int \<Rightarrow> gpio_state \<Rightarrow> gpio_state" where
  "off_timer_cb now st = st\<lparr>gp_off_timer := map_option (hrtimer_forward now (gp_period st)) (gp_off_timer st),
     gp_pins := False\<rparr>"

text \<open>The first expiry when the start time is zero: the next full second, or the one after.\<close>

definition first_on :: "timespec \<Rightarrow> int \<Rightarrow> int" where
  "first_on now t0 =
     (if t0 = ktime_set 0 0 then
        let kt_0_on = ktime_set (ts_sec now + 1) 0;
            diff = kt_0_on - ktime_set (ts_sec now) (ts_nsec now)
        in if diff < 250 * 1000 * 1000 then kt_0_on + ktime_set 1 0 else kt_0_on
      else t0)"

definition enable_store :: "timespec \<Rightarrow> string \<Rightarrow> gpio_state \<Rightarrow> gpio_state" where
  "enable_store now buf st = (case scan_ld buf of
       None \<Rightarrow> st
     | Some (v, _) \<Rightarrow>
         let val = to_s32 v;
             edge = (if gp_enabled st then 1 else 0) + (if val \<noteq> 0 then 2 else (0::nat));
             st = (if edge = 1 then st\<lparr>gp_on_timer := None, gp_off_timer := None\<rparr>
                   else if edge = 2 then
                     let kt_0_on = first_on now (gp_t0 st); kt_0_off = kt_0_on + gp_width st
                     in st\<lparr>gp_on_timer := Some kt_0_on, gp_off_timer := Some kt_0_off\<rparr>
                   else st)
         in st\<lparr>gp_enabled := (val \<noteq> 0)\<rparr>)"

definition timer_settings_store :: "string \<Rightarrow> gpio_state \<Rightarrow> gpio_state" where
  "timer_settings_store buf st = (case scan_settings buf of
       None \<Rightarrow> st
     | Some ((s0, n0), (s1, n1), (s2, n2)) \<Rightarrow>
         if gp_enabled st then st
         else st\<lparr>gp_t0 := ktime_set s0 n0, gp_period := ktime_set s1 n1, gp_width := ktime_set s2 n2\<rparr>)"

definition enable_show :: "gpio_state \<Rightarrow> string" where
  "enable_show st = ''enabled: '' @ (if gp_enabled st then ''1'' else ''0'') @ newline"

text \<open>
  What can happen to the module once it is loaded: a write to either file at some wall-clock time,
  and the callback of a queued timer at or after its expiry.
\<close>

inductive gpio_step :: "gpio_state \<Rightarrow> gpio_state \<Rightarrow> bool" where
  write_enable: "gpio_step st (enable_store now buf st)"
| write_settings: "gpio_step st (timer_settings_store buf st)"
| on_fires: "gp_on_timer st = Some e \<Longrightarrow> e \<le> now \<Longrightarrow> gpio_step st (on_timer_cb now st)"
| off_fires: "gp_off_timer st = Some e \<Longrightarrow> e \<le> now \<Longrightarrow> gpio_step st (off_timer_cb now st)"

inductive gpio_reachable :: "gpio_state \<Rightarrow> bool" where
  loaded: "gpio_reachable gpio_state_init"
| step: "gpio_reachable st \<Longrightarrow> gpio_step st st' \<Longrightarrow> gpio_reachable st'"

inductive_cases gpio_stepE: "gpio_step st st'"

definition gpio_inv :: "gpio_state \<Rightarrow> bool" where
  "gpio_inv st \<longleftrightarrow>
     (if gp_enabled st then
        \<exists>e f a b. gp_on_timer st = Some e \<and> gp_off_timer st = Some f \<and>
          f + b * max 1 (gp_period st) = e + gp_width st + a * max 1 (gp_period st)
      else gp_on_timer st = None \<and> gp_off_timer st = None)"

lemma hrtimer_forward_phase: "\<exists>k. hrtimer_forward now i e = e + k * max 1 i"
  by (auto simp: hrtimer_forward_def Let_def intro: exI [of _ 0])

lemma hrtimer_forward_future: "now < hrtimer_forward now i e"
proof -
  define j where "j = max 1 i"
  have j: "0 < j" by (simp add: j_def)
  have "now - e < ((now - e) div j + 1) * j"
    using pos_mod_bound [OF j, of "now - e"] div_mult_mod_eq [of "now - e" j]
    unfolding distrib_right by linarith
  then show ?thesis by (simp add: hrtimer_forward_def j_def [symmetric])
qed

lemma enable_store_inv: "gpio_inv st \<Longrightarrow> gpio_inv (enable_store now buf st)"
  by (auto simp: gpio_inv_def enable_store_def Let_def split: option.splits intro: exI [of _ 0])

lemma settings_store_inv: "gpio_inv st \<Longrightarrow> gpio_inv (timer_settings_store buf st)"
  by (auto simp: gpio_inv_def timer_settings_store_def split: option.splits)

lemma on_timer_inv:
  assumes "gpio_inv st" and "gp_on_timer st = Some e"
  shows "gpio_inv (on_timer_cb now st)"
proof -
  obtain k where k: "hrtimer_forward now (gp_period st) e = e + k * max 1 (gp_period st)"
    using hrtimer_forward_phase by blast
  have en: "gp_enabled st" using assms by (auto simp: gpio_inv_def split: if_splits)
  then obtain f a b where f: "gp_off_timer st = Some f"
      "f + b * max 1 (gp_period st) = e + gp_width st + a * max 1 (gp_period st)"
    using assms by (auto simp: gpio_inv_def)
  have "f + b * max 1 (gp_period st) =
      e + k * max 1 (gp_period st) + gp_width st + (a - k) * max 1 (gp_period st)"
    using f(2) by (simp add: algebra_simps)
  then show ?thesis using en f(1) assms(2) k by (auto simp: gpio_inv_def on_timer_cb_def)
qed

lemma off_timer_inv:
  assumes "gpio_inv st" and "gp_off_timer st = Some f"
  shows "gpio_inv (off_timer_cb now st)"
proof -
  obtain k where k: "hrtimer_forward now (gp_period st) f = f + k * max 1 (gp_period st)"
    using hrtimer_forward_phase by blast
  have en: "gp_enabled st" using assms by (auto simp: gpio_inv_def split: if_splits)
  then obtain e a b where e: "gp_on_timer st = Some e"
      "f + b * max 1 (gp_period st) = e + gp_width st + a * max 1 (gp_period st)"
    using assms by (auto simp: gpio_inv_def)
  have "f + k * max 1 (gp_period st) + (b - k) * max 1 (gp_period st) =
      e + gp_width st + a * max 1 (gp_period st)"
    using e(2) by (simp add: algebra_simps)
  then show ?thesis using en e(1) assms(2) k by (auto simp: gpio_inv_def off_timer_cb_def)
qed

lemma gpio_reachable_inv: "gpio_reachable st \<Longrightarrow> gpio_inv st"
proof (induction rule: gpio_reachable.induct)
  case loaded
  show ?case by (simp add: gpio_inv_def gpio_state_init_def)
next
  case (step st st')
  from step(2,3) show ?case
    by (cases rule: gpio_step.cases)
      (auto intro: enable_store_inv settings_store_inv on_timer_inv off_timer_inv)
qed

subsection \<open>Properties\<close>

text \<open>
  C3. Client and module agree on the settings: the text the client writes for any three
  non-negative durations below 292 years is parsed by the module to exactly those nanoseconds, and
  stored as long as the trigger is not enabled.
\<close>

theorem settings_roundtrip:
  assumes "duration_ok t0" and "duration_ok period" and "duration_ok width" and "\<not> gp_enabled st"
  shows "timer_settings_store (settings_text t0 period width) st =
    st\<lparr>gp_t0 := t0, gp_period := period, gp_width := width\<rparr>"
proof -
  have "scan_settings (settings_text t0 period width) =
      Some ((ts_sec (chrono_to_timespec t0), ts_nsec (chrono_to_timespec t0)),
        (ts_sec (chrono_to_timespec period), ts_nsec (chrono_to_timespec period)),
        (ts_sec (chrono_to_timespec width), ts_nsec (chrono_to_timespec width)))"
    using assms(1-3)
    by (simp add: scan_settings_def settings_text_def scan_ts_text scan_lit_def)
  then show ?thesis using assms by (simp add: timer_settings_store_def ktime_set_chrono)
qed

theorem settings_roundtrip_witness:
  "timer_settings_store (settings_text 0 500000000 10000000) gpio_state_init =
   gpio_state_init\<lparr>gp_t0 := 0, gp_period := 500000000, gp_width := 10000000\<rparr>"
  by (rule settings_roundtrip) (simp_all add: duration_ok_def gpio_state_init_def)



text \<open>
  With a start time of zero the first pulse is on a full second of the wall clock, at least a
  quarter of a second and less than one and a quarter ahead.
\<close>

theorem first_on_top_of_second:
  assumes "timespec_norm now" and "0 \<le> ts_sec now" and "ts_sec now < 2 ^ 33"
  shows "first_on now 0 mod NS_PER_S = 0 \<and> 250000000 \<le> first_on now 0 - timespec_ns now \<and>
    first_on now 0 - timespec_ns now < 1250000000"
proof -
  obtain s n where now: "now = \<lparr>ts_sec = s, ts_nsec = n\<rparr>" by (cases now)
  have b: "0 \<le> s" "s < 2 ^ 33" "0 \<le> n" "n < NS_PER_S"
    using assms by (simp_all add: now timespec_norm_def)
  have k: "ktime_set (s + 1) 0 = (s + 1) * NS_PER_S" "ktime_set s n = s * NS_PER_S + n"
    "ktime_set 1 0 = NS_PER_S" "ktime_set 0 0 = 0"
    using b by (simp_all add: ktime_set_def to_s64_id in_s64_def)
  have m: "((s + 1) * NS_PER_S) mod NS_PER_S = 0" "((s + 1) * NS_PER_S + NS_PER_S) mod NS_PER_S = 0"
    by simp_all
  show ?thesis
  proof (cases "NS_PER_S - n < 250000000")
    case True
    then have "first_on now 0 = (s + 1) * NS_PER_S + NS_PER_S"
      by (simp add: now first_on_def k Let_def)
    then show ?thesis using True b m by (simp add: now timespec_ns_def)
  next
    case False
    then have "first_on now 0 = (s + 1) * NS_PER_S" by (simp add: now first_on_def k Let_def)
    then show ?thesis using False b m by (simp add: now timespec_ns_def)
  qed
qed

theorem first_on_top_of_second_witness:
  "first_on \<lparr>ts_sec = 1600000000, ts_nsec = 900000000\<rparr> 0 mod NS_PER_S = 0 \<and>
   250000000 \<le> first_on \<lparr>ts_sec = 1600000000, ts_nsec = 900000000\<rparr> 0 -
     timespec_ns \<lparr>ts_sec = 1600000000, ts_nsec = 900000000\<rparr> \<and>
   first_on \<lparr>ts_sec = 1600000000, ts_nsec = 900000000\<rparr> 0 -
     timespec_ns \<lparr>ts_sec = 1600000000, ts_nsec = 900000000\<rparr> < 1250000000"
  by (rule first_on_top_of_second) (simp_all add: timespec_norm_def)

text \<open>
  Disabling the trigger during a pulse leaves the trigger lines high: both timers are cancelled
  and nothing lowers the lines, so a state is reachable in which the trigger is off and the lines
  are on with no timer queued.
\<close>

theorem disable_leaves_lines_high:
  "\<exists>st. gpio_reachable st \<and> \<not> gp_enabled st \<and> gp_pins st \<and>
     gp_on_timer st = None \<and> gp_off_timer st = None"
proof -
  define now :: timespec where "now = \<lparr>ts_sec = 0, ts_nsec = 0\<rparr>"
  have on: "scan_ld ''1'' = Some (1, [])" and off: "scan_ld ''0'' = Some (0, [])"
    by code_simp+
  define s1 where "s1 = enable_store now ''1'' gpio_state_init"
  define e where "e = first_on now (gp_t0 gpio_state_init)"
  define s2 where "s2 = on_timer_cb e s1"
  define s3 where "s3 = enable_store now ''0'' s2"
  have v: "to_s32 1 = 1" "to_s32 0 = 0" by (simp_all add: to_s32_def)
  have s1: "gp_on_timer s1 = Some e" "gp_enabled s1"
    by (simp_all add: s1_def enable_store_def on v gpio_state_init_def e_def Let_def)
  have s2: "gp_enabled s2" "gp_pins s2" by (simp_all add: s2_def on_timer_cb_def s1)
  have "gpio_reachable s1" unfolding s1_def by (rule step [OF loaded write_enable])
  then have "gpio_reachable s2" unfolding s2_def
    by (rule step [OF _ on_fires [OF s1(1)]]) simp
  then have "gpio_reachable s3" unfolding s3_def by (rule step [OF _ write_enable])
  moreover have "\<not> gp_enabled s3" "gp_pins s3" "gp_on_timer s3 = None" "gp_off_timer s3 = None"
    by (simp_all add: s3_def enable_store_def off v s2)
  ultimately show ?thesis by blast
qed

subsection \<open>Loading and unloading the module\<close>

text \<open>
  The resources the module holds. The outcome of each acquisition is an argument; on a failure the
  code releases what it took before. The directory object takes its files with it. The thread's
  main function releases the lines and the directory when it is stopped, the exit function frees
  the block after that.
\<close>

datatype resource = StateBlock | CsiGpio | HdrGpio | DirKobj | EnableFile | SettingsFile | MainThread

record init_outcome =
  io_alloc :: bool
  io_csi :: bool
  io_hdr :: bool
  io_kobj :: bool
  io_enable :: bool
  io_settings :: bool
  io_thread :: bool

definition kobject_put :: "resource list \<Rightarrow> resource list" where
  "kobject_put rs = filter (\<lambda>r. r \<notin> {DirKobj, EnableFile, SettingsFile}) rs"

definition release :: "resource \<Rightarrow> resource list \<Rightarrow> resource list" where
  "release r rs = filter (\<lambda>x. x \<noteq> r) rs"

definition opaleye_gpio_init :: "init_outcome \<Rightarrow> int \<times> resource list" where
  "opaleye_gpio_init oc =
     (if \<not> io_alloc oc then (- 1, [])
      else let rs = [StateBlock] in
      if \<not> io_csi oc then (- 1, release StateBlock rs)
      else let rs = CsiGpio # rs in
      if \<not> io_hdr oc then (- 1, release StateBlock (release CsiGpio rs))
      else let rs = HdrGpio # rs in
      if \<not> io_kobj oc then (- 1, release StateBlock (release CsiGpio (release HdrGpio rs)))
      else let rs = DirKobj # rs in
      if \<not> io_enable oc
      then (- 1, release StateBlock (release CsiGpio (release HdrGpio (kobject_put rs))))
      else let rs = EnableFile # rs in
      if \<not> io_settings oc
      then (- 1, release StateBlock (release CsiGpio (release HdrGpio (kobject_put rs))))
      else let rs = SettingsFile # rs in
      if \<not> io_thread oc
      then (- 1, release StateBlock (release CsiGpio (release HdrGpio (kobject_put rs))))
      else (0, MainThread # rs))"

definition opaleye_gpio_main_done :: "resource list \<Rightarrow> resource list" where
  "opaleye_gpio_main_done rs = kobject_put (release HdrGpio (release CsiGpio rs))"

definition opaleye_gpio_exit :: "resource list \<Rightarrow> resource list" where
  "opaleye_gpio_exit rs =
     (if StateBlock \<in> set rs then release StateBlock (release MainThread (opaleye_gpio_main_done rs)) else rs)"



subsection \<open>The user-space trigger thread\<close>

text \<open>
  The object holds a timer descriptor, the chip and one line (whether the pointer is set). The
  library calls are arguments over a world \<open>'w\<close>.
\<close>

record gpio_thread =
  gt_timer_fd :: int
  gt_chip :: bool
  gt_line :: bool

record 'w gpiod =
  gd_timerfd_create :: "'w \<Rightarrow> int \<times> 'w"
  gd_close :: "int \<Rightarrow> 'w \<Rightarrow> int \<times> 'w"
  gd_chip_open :: "string \<Rightarrow> 'w \<Rightarrow> bool \<times> 'w"
  gd_chip_close :: "'w \<Rightarrow> 'w"
  gd_get_line :: "nat \<Rightarrow> 'w \<Rightarrow> bool \<times> 'w"
  gd_request_output :: "string \<Rightarrow> 'w \<Rightarrow> int \<times> 'w"
  gd_line_release :: "'w \<Rightarrow> 'w"
  gd_set_value :: "bool \<Rightarrow> 'w \<Rightarrow> int \<times> 'w"
  gd_nanosleep :: "'w \<Rightarrow> (int \<times> int) \<times> 'w"

definition gpio_thread_new :: gpio_thread where
  "gpio_thread_new = \<lparr>gt_timer_fd = - 1, gt_chip = False, gt_line = False\<rparr>"

definition gpio_thread_close :: "'w gpiod \<Rightarrow> gpio_thread \<Rightarrow> 'w \<Rightarrow> bool \<times> gpio_thread \<times> 'w" where
  "gpio_thread_close G t w =
     (let ret = True;
          w = (if gt_timer_fd t \<noteq> - 1 then snd (gd_close G (gt_timer_fd t) w) else w);
          w = (if gt_line t then gd_line_release G w else w);
          w = (if gt_chip t then gd_chip_close G w else w)
      in (ret, gpio_thread_new, w))"

definition gpio_set :: "'w gpiod \<Rightarrow> bool \<Rightarrow> 'w \<Rightarrow> bool \<times> 'w" where
  "gpio_set G v w = (let (r, w) = gd_set_value G v w in (r = 0, w))"

abbreviation GPIO_P00 :: nat where "GPIO_P00 \<equiv> 15 * 8 + 0"

definition gpio_thread_init :: "'w gpiod \<Rightarrow> gpio_thread \<Rightarrow> 'w \<Rightarrow> bool \<times> gpio_thread \<times> 'w" where
  "gpio_thread_init G t w =
     (let (fd, w) = gd_timerfd_create G w; t = t\<lparr>gt_timer_fd := fd\<rparr> in
      if fd < 0 then let (_, t, w) = gpio_thread_close G t w in (False, t, w)
      else let (ok, w) = gd_chip_open G ''/dev/gpiochip0'' w; t = t\<lparr>gt_chip := ok\<rparr> in
      if \<not> ok then let (_, t, w) = gpio_thread_close G t w in (False, t, w)
      else let (ok, w) = gd_get_line G GPIO_P00 w; t = t\<lparr>gt_line := ok\<rparr> in
      if \<not> ok then let (_, t, w) = gpio_thread_close G t w in (False, t, w)
      else let (r, w) = gd_request_output G ''opaleye-GPIO03_P00'' w in
      if r \<noteq> 0 then let (_, t, w) = gpio_thread_close G t w in (False, t, w)
      else let (_, w) = gpio_set G False w in (True, t, w))"

text \<open>
  Sleeping is retried while the call fails and \<^verbatim>\<open>errno\<close> is \<^verbatim>\<open>EINTR\<close>; fuel bounds
  the retries. One turn of the loop pulses the line if the sleep to the next second succeeded.
\<close>

abbreviation EINTR :: int where "EINTR \<equiv> 4"

fun sleep_retry :: "'w gpiod \<Rightarrow> nat \<Rightarrow> 'w \<Rightarrow> (int \<times> 'w) option" where
  "sleep_retry G 0 w = None"
| "sleep_retry G (Suc n) w =
     (let ((r, err), w) = gd_nanosleep G w in
      if r \<noteq> 0 \<and> err = EINTR then sleep_retry G n w else Some (r, w))"

definition gpio_turn :: "'w gpiod \<Rightarrow> nat \<Rightarrow> 'w \<Rightarrow> 'w option" where
  "gpio_turn G n w = do {
     (r, w) \<leftarrow> sleep_retry G n w;
     if r = 0 then do {
       let (_, w) = gpio_set G True w;
       (_, w) \<leftarrow> sleep_retry G n w;
       Some (snd (gpio_set G False w))
     } else Some w
   }"

text \<open>A failed initialisation leaves the object as new; a successful one owns all three.\<close>

lemma gpio_thread_init_cases:
  "gpio_thread_init G gpio_thread_new w = (ok, t, w') \<Longrightarrow>
   (if ok then 0 \<le> gt_timer_fd t \<and> gt_chip t \<and> gt_line t else t = gpio_thread_new)"
  by (auto simp: gpio_thread_init_def gpio_thread_close_def Let_def split: prod.splits if_splits)

end
