(* ===== verification/Mux_Storage.thy ===== *)
theory Mux_Storage
  imports Opaleye_Prelude
begin

section \<open>Numbering the recordings: the split-mux sinks\<close>

text \<open>
  \<^verbatim>\<open>mp4_splitmuxsink.cpp\<close> and \<^verbatim>\<open>mkv_splitmuxsink.cpp\<close> under
  \<^verbatim>\<open>src/libs/camera-pipes/pipeline/storage/\<close>, which treat the storage directory alike. At
  start-up the directory of the day is scanned for numbered recordings and the next free number
  becomes the base of the fragment numbers. The directory is an argument: its entries with whether
  each is a regular file, or \<^const>\<open>None\<close> if it does not exist yet. Numbers are
  \<^verbatim>\<open>guint\<close>, 32 bits.

  \<^verbatim>\<open>sscanf(name, "file-%06u.mp4", &num)\<close> returns 1 as soon as the number was converted:
  the text after it need not match. The width 6 bounds the characters taken, a sign included.
\<close>

record splitmux =
  top_storage_dir :: string
  starting_id :: u32
  current_filename :: string
  current_path :: string

definition splitmux_new :: splitmux where
  "splitmux_new = \<lparr>top_storage_dir = ''/opt/suburbanmarine/opaleye/video'', starting_id = 0,
     current_filename = [], current_path = []\<rparr>"

definition set_top_storage_dir :: "string \<Rightarrow> splitmux \<Rightarrow> splitmux" where
  "set_top_storage_dir d m = m\<lparr>top_storage_dir := d\<rparr>"

definition path_join :: "string \<Rightarrow> string \<Rightarrow> string" where
  "path_join a b = (if a = [] \<or> last a = CHR ''/'' then a @ b else a @ ''/'' @ b)"

definition scan_u6 :: "string \<Rightarrow> u32 option" where
  "scan_u6 s = (case dropWhile is_space s of
       [] \<Rightarrow> None
     | c # cs \<Rightarrow>
         if c = CHR ''-'' then map_option (\<lambda>(n, _). - of_nat n) (scan_nat_w 5 cs)
         else if c = CHR ''+'' then map_option (\<lambda>(n, _). of_nat n) (scan_nat_w 5 cs)
         else map_option (\<lambda>(n, _). of_nat n) (scan_nat_w 6 (c # cs)))"

definition scan_filename :: "string \<Rightarrow> u32 option" where
  "scan_filename name =
     (if take 5 name = ''file-'' then scan_u6 (drop 5 name) else None)"

fun scan_dir :: "(string \<times> bool) list \<Rightarrow> u32 \<Rightarrow> u32" where
  "scan_dir [] sid = sid"
| "scan_dir ((name, regular) # es) sid =
     (if regular then
        case scan_filename name of
          Some num \<Rightarrow> scan_dir es (max sid (num + 1))
        | None \<Rightarrow> scan_dir es sid
      else scan_dir es sid)"

text \<open>
  The date is year, month and day; the last component of the result is the directory to create.
\<close>

definition splitmux_init :: "int \<times> int \<times> int \<Rightarrow> (string \<Rightarrow> (string \<times> bool) list option) \<Rightarrow>
    splitmux \<Rightarrow> bool \<times> splitmux \<times> string option" where
  "splitmux_init date dir m =
     (let (y, mo, d) = date;
          date_str = fmt_int0 4 y @ fmt_int0 2 mo @ fmt_int0 2 d;
          m = m\<lparr>top_storage_dir := path_join (top_storage_dir m) date_str\<rparr>
      in case dir (top_storage_dir m) of
           Some es \<Rightarrow> (True, m\<lparr>starting_id := scan_dir es (starting_id m)\<rparr>, None)
         | None \<Rightarrow> (True, m, Some (top_storage_dir m)))"

definition fragment_name :: "u32 \<Rightarrow> string" where
  "fragment_name n = ''file-'' @ pad0 6 (dec_of_nat (unat n)) @ ''.avi''"

definition handle_format_location :: "u32 \<Rightarrow> splitmux \<Rightarrow> string \<times> splitmux" where
  "handle_format_location fragment_id m =
     (let current_fragment_id = fragment_id + starting_id m;
          name = fragment_name current_fragment_id;
          path = path_join (top_storage_dir m) name
      in (path, m\<lparr>current_filename := name, current_path := path\<rparr>))"

subsection \<open>The scan finds every recording\<close>

lemma scan_dir_ge: "sid \<le> scan_dir es sid"
proof (induction es sid rule: scan_dir.induct)
  case (2 name regular es sid)
  show ?case
  proof (cases "regular \<and> scan_filename name \<noteq> None")
    case True
    then obtain num where n: "scan_filename name = Some num" by blast
    have "sid \<le> max sid (num + 1)" by simp
    also have "\<dots> \<le> scan_dir es (max sid (num + 1))" using 2 True n by fast
    finally show ?thesis using True n by simp
  next
    case False
    then show ?thesis using 2 by (auto split: option.split)
  qed
qed simp

lemma scan_dir_covers:
  "(name, True) \<in> set es \<Longrightarrow> scan_filename name = Some num \<Longrightarrow> num + 1 \<le> scan_dir es sid"
proof (induction es sid rule: scan_dir.induct)
  case (2 name' regular es sid)
  show ?case
  proof (cases "(name, True) = (name', regular)")
    case True
    have "num + 1 \<le> max sid (num + 1)" by simp
    also have "\<dots> \<le> scan_dir es (max sid (num + 1))" by (rule scan_dir_ge)
    finally show ?thesis using True 2 by simp
  next
    case False
    then show ?thesis using 2 by (auto split: option.split)
  qed
qed simp

lemma scan_u6_digits:
  assumes "\<forall>c \<in> set ds. is_digit c" and "length ds = 6"
  shows "scan_u6 (ds @ r) = Some (of_nat (digits_val 0 ds))"
proof -
  have ne: "ds \<noteq> []" using assms(2) by auto
  then obtain c cs where c: "ds = c # cs" "is_digit c" using assms(1) by (cases ds) auto
  have "scan_nat_w 6 (ds @ r) = Some (digits_val 0 ds, r)"
    by (rule scan_nat_w_append [OF assms(1) ne assms(2)])
  then show ?thesis using digit_not_space_sign [OF c(2)] by (simp add: scan_u6_def c(1))
qed

lemma scan_filename_fragment:
  assumes "unat n < 10 ^ 6"
  shows "scan_filename (fragment_name n) = Some n"
proof -
  let ?ds = "pad0 6 (dec_of_nat (unat n))"
  have "length ?ds = 6" using length_dec_of_nat [of "unat n" 6] assms by (simp add: length_pad0)
  moreover have "\<forall>c \<in> set ?ds. is_digit c" using pad0_digits dec_of_nat_digits by blast
  ultimately have "scan_u6 (?ds @ ''.avi'') = Some (of_nat (unat n))"
    by (simp add: scan_u6_digits dec_text)
  then show ?thesis by (simp add: scan_filename_def fragment_name_def)
qed

lemma fragment_name_inj:
  assumes "unat m < 10 ^ 6" and "unat n < 10 ^ 6" and "fragment_name m = fragment_name n"
  shows "m = n"
  using assms scan_filename_fragment by (metis option.inject)


definition demo_dir :: "(string \<times> bool) list" where
  "demo_dir = [(fragment_name 4, True), (''notes.txt'', True), (''file-000009.avi'', False)]"


lemma fragment_name_million: "fragment_name 1000000 = ''file-1000000.avi''"
proof -
  have "char_of (49::nat) = CHR ''1''" "char_of (48::nat) = CHR ''0''" by code_simp+
  then have "dec_of_nat 1000000 = ''1000000''" by (simp add: dec_of_nat.simps digit_def)
  then show ?thesis by (simp add: fragment_name_def pad0_def)
qed

text \<open>
  Beyond six digits the scan no longer works: a recording numbered 1000000 is read as 100000,
  so a recorder restarted in that directory resumes at 100001 and reuses numbers.
\<close>

theorem seven_digit_recording_misread:
  "scan_filename (fragment_name 1000000) = Some 100000 \<and>
   scan_dir [(fragment_name 1000000, True)] 0 = 100001"
proof -
  have "scan_filename ''file-1000000.avi'' = Some 100000"
    by (simp add: scan_filename_def scan_u6_def scan_nat_w_def is_space_def is_digit_def digit_val_def)
  then show ?thesis by (simp add: fragment_name_million)
qed

end
