(* ===== verification/Opaleye_App.thy ===== *)
theory Opaleye_App
  imports Alvium_Pipe App_Config Gpio_Trigger Mux_Storage
begin

section \<open>The application: pipelines and their life cycle\<close>

text \<open>
  \<^verbatim>\<open>src/opaleye/Opaleye_app.cpp\<close> with \<^verbatim>\<open>GST_app_base.cpp\<close>,
  \<^verbatim>\<open>gst_filesink_pipeline.cpp\<close> and the UDP clients of \<^verbatim>\<open>multiudpsink_pipe.cpp\<close>: which
  elements a camera's pipeline consists of and how they are linked, the map of pipelines, recordings
  and streams, and the order of start, stop and destruction.

  The elements themselves are GStreamer's. What the application sees of them is an argument: the
  result of an element's \<^verbatim>\<open>init\<close>, of a link, of a signal. A pipeline object owns a
  \<^verbatim>\<open>std::thread\<close>; destroying it while the thread is joinable ends the process, so the results
  of the operations are values of \<^typ>\<open>'a outcome\<close>: a return, an exception, \<^verbatim>\<open>std::terminate\<close>,
  the use of a null pointer, or a wait that never ends.
\<close>

subsection \<open>Elements and the graph of a pipeline\<close>

datatype elem_kind = V4L2_webcam_pipe | Nvac_imx219_pipe | V4L2_alvium_pipe | Testsrc_pipe
  | Jpeg_nvv4l2decoder_bin | Jpeg_swdec_bin | H264_nvenc_bin | H264_swenc_bin
  | Thumbnail_nv_pipe | Thumbnail_sw_pipe | Thumbnail_nv3_pipe | GST_interpipesink
  | Rtp_h264_pipe | Rtpsink_pipe | Nvvideoconvert_pipe | Timecodestamper | Timeoverlay

definition is_v4l2_api :: "elem_kind \<Rightarrow> bool" where
  "is_v4l2_api k \<longleftrightarrow> k \<in> {V4L2_webcam_pipe, V4L2_alvium_pipe}"

definition is_camera_base :: "elem_kind \<Rightarrow> bool" where
  "is_camera_base k \<longleftrightarrow> is_v4l2_api k \<or> k = Nvac_imx219_pipe"

record gst_element =
  el_kind :: elem_kind
  el_name :: string
  el_util :: v4l2_util
  el_sensor_id :: int
  el_active_conn :: "(string \<times> u16) list"

type_synonym store = "(string \<times> gst_element) list"

text \<open>The parameters an Alvium camera is given before its \<^verbatim>\<open>init\<close>: device, format, trigger mode.\<close>

type_synonym cam_params = "string \<times> u32 \<times> string"

datatype clock_kind = Sys_clock | Ptp_clock

record 'w app_env =
  ae_init :: "elem_kind \<Rightarrow> cam_params option \<Rightarrow> string \<Rightarrow> 'w \<Rightarrow> cam_result \<times> v4l2_util \<times> 'w"
  ae_link :: "string \<Rightarrow> string \<Rightarrow> 'w \<Rightarrow> bool \<times> 'w"
  ae_clock_init :: "clock_kind \<Rightarrow> 'w \<Rightarrow> bool \<times> 'w"
  ae_get_time :: "'w \<Rightarrow> u64"
  ae_sync :: "'w \<Rightarrow> bool \<times> 'w"
  ae_system :: "string \<Rightarrow> 'w \<Rightarrow> int \<times> 'w"
  ae_exists :: "string \<Rightarrow> 'w \<Rightarrow> bool"
  ae_is_directory :: "string \<Rightarrow> 'w \<Rightarrow> bool"
  ae_create_directories :: "string \<Rightarrow> 'w \<Rightarrow> bool \<times> 'w"
  ae_create_directory :: "string \<Rightarrow> 'w \<Rightarrow> bool \<times> 'w"
  ae_open :: "string \<Rightarrow> 'w \<Rightarrow> int \<times> 'w"
  ae_close :: "int \<Rightarrow> 'w \<Rightarrow> int \<times> 'w"
  ae_dprintf :: "int \<Rightarrow> string \<Rightarrow> 'w \<Rightarrow> int \<times> 'w"
  ae_today :: "'w \<Rightarrow> int \<times> int \<times> int"
  ae_dir :: "'w \<Rightarrow> string \<Rightarrow> (string \<times> bool) list option"
  ae_eos :: "'w \<Rightarrow> bool \<times> 'w"
  ae_udp_add :: "string \<times> u16 \<Rightarrow> 'w \<Rightarrow> bool \<times> 'w"
  ae_udp_remove :: "string \<times> u16 \<Rightarrow> 'w \<Rightarrow> bool \<times> 'w"
  ae_set_property :: "elem_kind \<Rightarrow> string \<Rightarrow> string \<Rightarrow> string \<Rightarrow> 'w \<Rightarrow> bool \<times> 'w"
  ae_dot :: "string \<Rightarrow> 'w \<Rightarrow> 'w"
  ae_state :: "'w \<Rightarrow> nat \<times> nat"
  ae_v4l2 :: "'w v4l2_dev"

text \<open>
  The graph of a pipeline: the stored elements by name, the local variables added to the bin, and
  the links, between local variables of the source.
\<close>

record gst_graph =
  gg_elements :: store
  gg_bin :: "string list"
  gg_links :: "(string \<times> string) list"

definition gst_graph_new :: gst_graph where
  "gst_graph_new = \<lparr>gg_elements = [], gg_bin = [], gg_links = []\<rparr>"

text \<open>
  What a construction function does: initialise the elements in order (variable, class and name),
  add them to the bin, link them, and store some of them under a name.
\<close>

record pipe_plan =
  pp_elems :: "(string \<times> elem_kind \<times> string) list"
  pp_bin :: "string list"
  pp_links :: "(string \<times> string) list"
  pp_store :: "(string \<times> string) list"

text \<open>The first element whose \<^verbatim>\<open>init\<close> fails or throws ends the construction.\<close>

fun init_elements ::
    "'w app_env \<Rightarrow> cam_params option \<Rightarrow> (string \<times> elem_kind \<times> string) list \<Rightarrow> 'w \<Rightarrow>
     (cam_result + (string \<rightharpoonup> gst_element)) \<times> 'w" where
  "init_elements env par [] w = (Inr Map.empty, w)"
| "init_elements env par ((v, k, n) # es) w = (case ae_init env k (if k = V4L2_alvium_pipe then par else None) n w of
     (CamTrue, u, w) \<Rightarrow> (case init_elements env par es w of
         (Inl r, w) \<Rightarrow> (Inl r, w)
       | (Inr m, w) \<Rightarrow> (Inr (m(v \<mapsto> \<lparr>el_kind = k, el_name = n, el_util = u, el_sensor_id = 0,
             el_active_conn = []\<rparr>)), w))
   | (r, u, w) \<Rightarrow> (Inl r, w))"

text \<open>
  A link that GStreamer refuses throws in its C++ binding. Only the Alvium camera's \<^verbatim>\<open>link_back\<close>
  catches that and reports it; the others leave the construction with the exception.
\<close>

fun link_elements :: "'w app_env \<Rightarrow> (string \<Rightarrow> bool) \<Rightarrow> (string \<times> string) list \<Rightarrow> 'w \<Rightarrow>
    cam_result \<times> (string \<times> string) list \<times> 'w" where
  "link_elements env guarded [] w = (CamTrue, [], w)"
| "link_elements env guarded ((a, b) # ls) w =
     (let (ok, w) = ae_link env a b w in
      if ok then (let (r, made, w) = link_elements env guarded ls w in (r, (a, b) # made, w))
      else if guarded a then link_elements env guarded ls w
      else (CamThrow ''runtime_error'', [], w))"

text \<open>\<^verbatim>\<open>emplace\<close> leaves an entry that is there.\<close>

definition store_elements :: "(string \<rightharpoonup> gst_element) \<Rightarrow> (string \<times> string) list \<Rightarrow> store \<Rightarrow> store" where
  "store_elements m ps st = fold (\<lambda>(n, v). smap_insert n (the (m v))) ps st"

definition build_pipeline ::
    "'w app_env \<Rightarrow> cam_params option \<Rightarrow> pipe_plan \<Rightarrow> ((string \<rightharpoonup> gst_element) \<Rightarrow> (string \<rightharpoonup> gst_element)) \<Rightarrow> bool
     \<Rightarrow> gst_graph \<Rightarrow> 'w \<Rightarrow> cam_result \<times> gst_graph \<times> 'w" where
  "build_pipeline env par plan prop checked g w = (case init_elements env par (pp_elems plan) w of
     (Inl r, w) \<Rightarrow> (r, g, w)
   | (Inr m, w) \<Rightarrow>
       (let m = prop m;
            g = g\<lparr>gg_bin := gg_bin g @ pp_bin plan\<rparr>;
            (a, b) = hd (pp_links plan);
            (ok, w) = ae_link env a b w
        in if \<not> ok then (if checked then CamFalse else CamThrow ''runtime_error'', g, w)
           else (case link_elements env (\<lambda>v. checked \<and> v = ''m_camera'') (tl (pp_links plan)) w of
               (CamTrue, made, w) \<Rightarrow> (CamTrue, g\<lparr>gg_links := gg_links g @ (a, b) # made,
                   gg_elements := store_elements m (pp_store plan) (gg_elements g)\<rparr>, w)
             | (r, _, w) \<Rightarrow> (r, g, w))))"

definition brio_plan :: "string \<Rightarrow> bool \<Rightarrow> pipe_plan" where
  "brio_plan cam_name nv = \<lparr>
     pp_elems = [(''m_camera'', V4L2_webcam_pipe, cam_name),
       (''m_jpgdec'', if nv then Jpeg_nvv4l2decoder_bin else Jpeg_swdec_bin, ''jpgdec_0''),
       (''m_thumb'', if nv then Thumbnail_nv_pipe else Thumbnail_sw_pipe, ''thumb_0''),
       (''m_h264'', if nv then H264_nvenc_bin else H264_swenc_bin, ''h264_0''),
       (''m_h264_interpipesink'', GST_interpipesink, ''h264_ipsink_0''),
       (''m_rtppay'', Rtp_h264_pipe, ''rtp_0''), (''m_rtpsink'', Rtpsink_pipe, ''udp_0'')],
     pp_bin = [''m_camera'', ''m_jpgdec'', ''m_thumb'', ''m_h264'', ''m_h264_interpipesink'',
       ''m_rtppay'', ''m_rtpsink''],
     pp_links = [(''m_camera'', ''m_jpgdec''), (''m_camera'', ''m_thumb''), (''m_jpgdec'', ''m_h264''),
       (''m_h264'', ''m_rtppay''), (''m_h264'', ''m_h264_interpipesink''), (''m_rtppay'', ''m_rtpsink'')],
     pp_store = [(cam_name, ''m_camera''), (''jpgdec_0'', ''m_jpgdec''), (''thumb_0'', ''m_thumb''),
       (''h264_0'', ''m_h264''), (''h264_ipsink_0'', ''m_h264_interpipesink''), (''rtp_0'', ''m_rtppay''),
       (''udp_0'', ''m_rtpsink'')]\<rparr>"

definition imx219_plan :: "string \<Rightarrow> pipe_plan" where
  "imx219_plan cam_name = \<lparr>
     pp_elems = [(''m_camera'', Nvac_imx219_pipe, cam_name),
       (''m_nvvideoconvert_pipe_t0'', Nvvideoconvert_pipe, ''m_nvvideoconvert_pipe_t0''),
       (''m_nvvideoconvert_pipe_t1'', Nvvideoconvert_pipe, ''m_nvvideoconvert_pipe_t1''),
       (''m_timecodestamper'', Timecodestamper, ''timecodestamper_0''),
       (''m_timeoverlay'', Timeoverlay, ''timeoverlay_0''), (''m_thumb'', Thumbnail_nv3_pipe, ''thumb_0''),
       (''m_h264'', H264_nvenc_bin, ''h264_0''),
       (''m_h264_interpipesink'', GST_interpipesink, ''h264_ipsink_0''),
       (''m_rtppay'', Rtp_h264_pipe, ''rtp_0''), (''m_rtpsink'', Rtpsink_pipe, ''udp_0'')],
     pp_bin = [''m_camera'', ''m_nvvideoconvert_pipe_t0'', ''m_timecodestamper'', ''m_timeoverlay'',
       ''m_nvvideoconvert_pipe_t1'', ''m_thumb'', ''m_h264'', ''m_h264_interpipesink'', ''m_rtppay'',
       ''m_rtpsink''],
     pp_links = [(''m_camera'', ''m_thumb''), (''m_camera'', ''m_nvvideoconvert_pipe_t0''),
       (''m_nvvideoconvert_pipe_t0'', ''m_timecodestamper''), (''m_timecodestamper'', ''m_timeoverlay''),
       (''m_timeoverlay'', ''m_nvvideoconvert_pipe_t1''), (''m_nvvideoconvert_pipe_t1'', ''m_h264''),
       (''m_h264'', ''m_rtppay''), (''m_h264'', ''m_h264_interpipesink''), (''m_rtppay'', ''m_rtpsink'')],
     pp_store = [(cam_name, ''m_camera''), (''timecodestamper_0'', ''m_timecodestamper''),
       (''timeoverlay_0'', ''m_timeoverlay''), (''thumb_0'', ''m_thumb''), (''h264_0'', ''m_h264''),
       (''h264_ipsink_0'', ''m_h264_interpipesink''), (''rtp_0'', ''m_rtppay''), (''udp_0'', ''m_rtpsink'')]\<rparr>"

definition alvium_plan :: "string \<Rightarrow> pipe_plan" where
  "alvium_plan cam_name = \<lparr>
     pp_elems = [(''m_camera'', V4L2_alvium_pipe, cam_name), (''m_thumb'', Thumbnail_nv3_pipe, ''thumb_0''),
       (''m_h264'', H264_nvenc_bin, ''h264_0''),
       (''m_h264_interpipesink'', GST_interpipesink, ''h264_ipsink_0''),
       (''m_rtppay'', Rtp_h264_pipe, ''rtp_0''), (''m_rtpsink'', Rtpsink_pipe, ''udp_0'')],
     pp_bin = [''m_camera'', ''m_thumb'', ''m_h264'', ''m_h264_interpipesink'', ''m_rtppay'', ''m_rtpsink''],
     pp_links = [(''m_camera'', ''m_thumb''), (''m_camera'', ''m_h264''), (''m_h264'', ''m_rtppay''),
       (''m_h264'', ''m_h264_interpipesink''), (''m_rtppay'', ''m_rtpsink'')],
     pp_store = [(cam_name, ''m_camera''), (''thumb_0'', ''m_thumb''), (''h264_0'', ''m_h264''),
       (''h264_ipsink_0'', ''m_h264_interpipesink''), (''rtp_0'', ''m_rtppay''), (''udp_0'', ''m_rtpsink'')]\<rparr>"

definition virtual_plan :: "string \<Rightarrow> bool \<Rightarrow> pipe_plan" where
  "virtual_plan cam_name nv = \<lparr>
     pp_elems = [(''m_camera'', Testsrc_pipe, cam_name),
       (''m_timecodestamper'', Timecodestamper, ''timecodestamper_0''),
       (''m_timeoverlay'', Timeoverlay, ''timeoverlay_0''), (''m_thumb'', Thumbnail_sw_pipe, ''thumb_0''),
       (''m_h264'', if nv then H264_nvenc_bin else H264_swenc_bin, ''h264_0''),
       (''m_h264_interpipesink'', GST_interpipesink, ''h264_ipsink_0''),
       (''m_rtppay'', Rtp_h264_pipe, ''rtp_0''), (''m_rtpsink'', Rtpsink_pipe, ''udp_0'')],
     pp_bin = [''m_camera'', ''m_timecodestamper'', ''m_timeoverlay'', ''m_thumb'', ''m_h264'',
       ''m_h264_interpipesink'', ''m_rtppay'', ''m_rtpsink''],
     pp_links = [(''m_camera'', ''m_thumb''), (''m_camera'', ''m_timecodestamper''),
       (''m_timecodestamper'', ''m_timeoverlay''), (''m_timeoverlay'', ''m_h264''), (''m_h264'', ''m_rtppay''),
       (''m_h264'', ''m_h264_interpipesink''), (''m_rtppay'', ''m_rtpsink'')],
     pp_store = [(cam_name, ''m_camera''), (''thumb_0'', ''m_thumb''), (''h264_0'', ''m_h264''),
       (''h264_ipsink_0'', ''m_h264_interpipesink''), (''rtp_0'', ''m_rtppay''), (''udp_0'', ''m_rtpsink''),
       (''timecodestamper_0'', ''m_timecodestamper''), (''timeoverlay_0'', ''m_timeoverlay'')]\<rparr>"

definition make_brio_pipeline :: "'w app_env \<Rightarrow> app_config \<Rightarrow> camera_config \<Rightarrow> gst_graph \<Rightarrow> 'w \<Rightarrow>
    cam_result \<times> gst_graph \<times> 'w" where
  "make_brio_pipeline env cfg cam = build_pipeline env None (brio_plan (cc_name cam) (h264_mode cfg = ''nv'')) id False"

definition make_imx219_pipeline :: "'w app_env \<Rightarrow> camera_config \<Rightarrow> gst_graph \<Rightarrow> 'w \<Rightarrow>
    cam_result \<times> gst_graph \<times> 'w" where
  "make_imx219_pipeline env cam =
     (let sid = (case get_int [''properties'', ''sensor-id''] (cc_tree cam) of None \<Rightarrow> 0 | Some v \<Rightarrow> v)
      in build_pipeline env None (imx219_plan (cc_name cam))
           (\<lambda>m. m(''m_camera'' := map_option (\<lambda>e. e\<lparr>el_sensor_id := sid\<rparr>) (m ''m_camera''))) False)"

text \<open>A missing property throws; the parameters are handed to the camera before its \<^verbatim>\<open>init\<close>.\<close>

definition make_alvium_pipeline ::
    "'w app_env \<Rightarrow> camera_config \<Rightarrow> gst_graph \<Rightarrow> 'w \<Rightarrow> cam_result \<times> gst_graph \<times> 'w" where
  "make_alvium_pipeline env cam g w = (case pt_get [''properties'', ''format''] (cc_tree cam) of
     None \<Rightarrow> (CamThrow ''ptree_bad_path'', g, w)
   | Some format \<Rightarrow>
       if length format \<noteq> 4 then (CamFalse, g, w)
       else (case (pt_get [''properties'', ''device''] (cc_tree cam),
                   pt_get [''properties'', ''trigger_mode''] (cc_tree cam)) of
           (Some device, Some trigger_mode) \<Rightarrow>
             build_pipeline env
               (Some (device, v4l2_fourcc (format ! 0) (format ! 1) (format ! 2) (format ! 3), trigger_mode))
               (alvium_plan (cc_name cam)) id True g w
         | _ \<Rightarrow> (CamThrow ''ptree_bad_path'', g, w)))"

definition make_virtual_pipeline :: "'w app_env \<Rightarrow> app_config \<Rightarrow> camera_config \<Rightarrow> gst_graph \<Rightarrow> 'w \<Rightarrow>
    cam_result \<times> gst_graph \<times> 'w" where
  "make_virtual_pipeline env cfg cam =
     build_pipeline env None (virtual_plan (cc_name cam) (h264_mode cfg = ''nv'')) id False"

definition make_pipeline :: "'w app_env \<Rightarrow> app_config \<Rightarrow> camera_config \<Rightarrow> pipeline_config \<Rightarrow> gst_graph \<Rightarrow> 'w \<Rightarrow>
    cam_result \<times> gst_graph \<times> 'w" where
  "make_pipeline env cfg cam pipe g w =
     (if pl_type pipe = ''brio'' then make_brio_pipeline env cfg cam g w
      else if pl_type pipe = ''imx219'' then make_imx219_pipeline env cam g w
      else if pl_type pipe = ''alvium'' then make_alvium_pipeline env cam g w
      else if pl_type pipe = ''virtual'' then make_virtual_pipeline env cfg cam g w
      else (CamFalse, g, w))"

subsection \<open>Pipeline objects\<close>

record gst_base =
  gb_playing :: bool
  gb_thread :: bool
  gb_watch :: bool
  gb_got_eos :: bool
  gb_clock :: "clock_kind option"
  gb_latency :: u64
  gb_base_time :: u64

definition gst_base_new :: gst_base where
  "gst_base_new = \<lparr>gb_playing = False, gb_thread = False, gb_watch = True, gb_got_eos = False,
     gb_clock = None, gb_latency = 0, gb_base_time = 0\<rparr>"

definition base_init :: "gst_base \<Rightarrow> bool \<times> gst_base" where
  "base_init b = (True, b\<lparr>gb_thread := True\<rparr>)"

definition base_start :: "gst_base \<Rightarrow> bool \<times> gst_base" where
  "base_start b = (True, b\<lparr>gb_playing := True\<rparr>)"

text \<open>\<^verbatim>\<open>join\<close> throws when the thread is not joinable.\<close>

definition base_stop :: "gst_base \<Rightarrow> bool outcome \<times> gst_base" where
  "base_stop b =
     (let b = b\<lparr>gb_watch := False, gb_playing := False\<rparr> in
      if gb_thread b then (Ret True, b\<lparr>gb_thread := False\<rparr>) else (Throw ''system_error'', b))"

record filesink =
  fs_top :: string
  fs_mux :: splitmux
  fs_listen :: "string option"

datatype gst_app = Gstreamer_pipeline (app_base: gst_base) gst_graph
  | Filesink_pipeline (app_base: gst_base) filesink

definition map_base :: "(gst_base \<Rightarrow> gst_base) \<Rightarrow> gst_app \<Rightarrow> gst_app" where
  "map_base f p = (case p of Gstreamer_pipeline b g \<Rightarrow> Gstreamer_pipeline (f b) g
     | Filesink_pipeline b s \<Rightarrow> Filesink_pipeline (f b) s)"

text \<open>The last reference to an object goes: its \<^verbatim>\<open>std::thread\<close> must not be joinable.\<close>

definition release_app :: "gst_app \<Rightarrow> 'a \<Rightarrow> 'a outcome" where
  "release_app p r = (if gb_thread (app_base p) then Terminate else Ret r)"

definition get_element :: "string \<Rightarrow> gst_app \<Rightarrow> gst_element option" where
  "get_element n p = (case p of Gstreamer_pipeline _ g \<Rightarrow> map_of (gg_elements g) n | Filesink_pipeline _ _ \<Rightarrow> None)"

definition put_element :: "string \<Rightarrow> gst_element \<Rightarrow> gst_app \<Rightarrow> gst_app" where
  "put_element n e p = (case p of
     Gstreamer_pipeline b g \<Rightarrow> Gstreamer_pipeline b (g\<lparr>gg_elements := smap_put n e (gg_elements g)\<rparr>)
   | Filesink_pipeline b s \<Rightarrow> p)"

text \<open>
  The thread is started first; the interpipe source always initialises, the sink scans its directory
  (\<^const>\<open>splitmux_init\<close>) and creates it when it is missing, which throws when that fails.
\<close>

definition filesink_init :: "'w app_env \<Rightarrow> gst_base \<Rightarrow> filesink \<Rightarrow> 'w \<Rightarrow> cam_result \<times> gst_base \<times> filesink \<times> 'w" where
  "filesink_init env b s w =
     (let (_, b) = base_init b;
          (ok, m, mk) = splitmux_init (ae_today env w) (ae_dir env w)
             (Mux_Storage.set_top_storage_dir (fs_top s) (fs_mux s));
          s = s\<lparr>fs_mux := m\<rparr>
      in case mk of
           None \<Rightarrow> (cam_bool ok, b, s, w)
         | Some d \<Rightarrow> (let (made, w) = ae_create_directory env d w
             in if made then (cam_bool ok, b, s, w) else (CamThrow ''filesystem_error'', b, s, w)))"

subsection \<open>The application object\<close>

record opaleye_app =
  m_hw_trigger :: mod_ctrl
  m_pipelines :: "(string \<times> gst_app option) list"
  m_config :: "app_config option"
  m_master_clock :: "clock_kind option"

definition opaleye_app_new :: opaleye_app where
  "opaleye_app_new = \<lparr>m_hw_trigger = mod_ctrl_new, m_pipelines = [], m_config = None, m_master_clock = None\<rparr>"

text \<open>
  \<^verbatim>\<open>get<bool>\<close> with a default: the number 0 or 1, or one of the words, after what a failed
  attempt at a number has taken.
\<close>

definition scan_bool :: "string \<Rightarrow> (bool \<times> string) option" where
  "scan_bool s =
     (let t = dropWhile is_space s;
          neg = (t \<noteq> [] \<and> hd t = CHR ''-'');
          u = (if t \<noteq> [] \<and> (hd t = CHR ''-'' \<or> hd t = CHR ''+'') then tl t else t);
          ds = takeWhile is_digit u; r = dropWhile is_digit u; v = digits_val 0 ds
      in if ds \<noteq> [] \<and> (v = 0 \<or> v = 1 \<and> \<not> neg) then Some (v = 1, r)
         else let r = dropWhile is_space r in
           if take 4 r = ''true'' then Some (True, drop 4 r)
           else if take 5 r = ''false'' then Some (False, drop 5 r) else None)"

definition get_bool_def :: "string list \<Rightarrow> ptree \<Rightarrow> bool \<Rightarrow> bool" where
  "get_bool_def path t d = (case Option.bind (pt_get path t) scan_bool of
     Some (v, r) \<Rightarrow> if \<forall>c \<in> set r. is_space c then v else d | None \<Rightarrow> d)"

definition get_int_def :: "string list \<Rightarrow> ptree \<Rightarrow> int \<Rightarrow> int" where
  "get_int_def path t d = (case get_int path t of None \<Rightarrow> d | Some v \<Rightarrow> v)"

subsection \<open>Initialisation\<close>

text \<open>The clock is asked sixty times: the loop does not end when it is synchronised.\<close>

fun sync_loop :: "'w app_env \<Rightarrow> nat \<Rightarrow> bool \<Rightarrow> 'w \<Rightarrow> bool \<times> 'w" where
  "sync_loop env 0 ok w = (ok, w)"
| "sync_loop env (Suc n) ok w = (let (s, w) = ae_sync env w in sync_loop env n (ok \<or> s) w)"

definition init_clock :: "'w app_env \<Rightarrow> app_config \<Rightarrow> opaleye_app \<Rightarrow> 'w \<Rightarrow> u64 option \<times> opaleye_app \<times> 'w" where
  "init_clock env cfg a w =
     (if master_clock cfg = ''system'' then
        (let a = a\<lparr>m_master_clock := Some Sys_clock\<rparr>; (ok, w) = ae_clock_init env Sys_clock w
         in if ok then (Some (ae_get_time env w), a, w) else (None, a, w))
      else if master_clock cfg = ''ptp'' then
        (let a = a\<lparr>m_master_clock := Some Ptp_clock\<rparr>; (ok, w) = ae_clock_init env Ptp_clock w
         in if \<not> ok then (None, a, w)
            else let t = ae_get_time env w; (sync, w) = sync_loop env 60 False w
              in (if sync then Some t else None, a, w))
      else (None, a, w))"

definition init_nvpmodel :: "'w app_env \<Rightarrow> app_config \<Rightarrow> 'w \<Rightarrow> bool \<times> 'w" where
  "init_nvpmodel env cfg w =
     (if has_child [''config'', ''nvpmodel'', ''mode''] cfg then
        (let (ret, w) = ae_system env (''sudo nvpmodel -m '' @ fmt_int (nvpmodel_mode cfg)) w;
             termsig = ret mod 128
         in (ret \<noteq> - 1 \<and> \<not> (0 < termsig \<and> termsig < 127) \<and> (ret div 256) mod 256 = 0, w))
      else (True, w))"

text \<open>Microseconds become nanoseconds on the way to the trigger's control client.\<close>

definition init_hw_trigger :: "'w app_env \<Rightarrow> app_config \<Rightarrow> opaleye_app \<Rightarrow> 'w \<Rightarrow> bool \<times> opaleye_app \<times> 'w" where
  "init_hw_trigger env cfg a w =
     (if has_child [''config'', ''hw_trigger''] cfg then
        if \<not> ae_exists env ''/sys/kernel/opaleye'' w then (False, a, w)
        else
          (let (ok, c, w) = mod_ctrl_open (ae_open env) (ae_close env) (m_hw_trigger a) w;
               a = a\<lparr>m_hw_trigger := c\<rparr>
           in if \<not> ok then (False, a, w)
              else let (ok, w) = set_enable (ae_dprintf env) False c w in
                if \<not> ok then (False, a, w)
                else
                  (let t0 = get_int_def [''config'', ''hw_trigger'', ''t0''] (cfg_tree cfg) 0;
                       period = get_int_def [''config'', ''hw_trigger'', ''period''] (cfg_tree cfg) 1000000;
                       width = get_int_def [''config'', ''hw_trigger'', ''width''] (cfg_tree cfg) 50000;
                       (ok, w) = configure (ae_dprintf env) (t0 * 1000) (period * 1000) (width * 1000) c w
                   in if \<not> ok then (False, a, w)
                      else let (ok, w) = set_enable (ae_dprintf env)
                          (get_bool_def [''config'', ''hw_trigger'', ''enable''] (cfg_tree cfg) False) c w
                        in (ok, a, w)))
      else (True, a, w))"

text \<open>
  One camera: the pipeline object is a local variable until it is stored under its name, and
  \<^verbatim>\<open>emplace\<close> does not take it when the name is there. Its thread runs, so that leaving the loop
  body without storing it destroys a joinable thread; an exception does the same while it unwinds.
\<close>

definition init_camera ::
    "'w app_env \<Rightarrow> app_config \<Rightarrow> clock_kind option \<Rightarrow> u64 \<Rightarrow> camera_config \<Rightarrow> opaleye_app \<Rightarrow> 'w \<Rightarrow>
     bool outcome \<times> opaleye_app \<times> 'w" where
  "init_camera env cfg clk base_time cam a w =
     (let (_, b) = base_init gst_base_new;
          b = b\<lparr>gb_clock := clk, gb_latency := word_of_int (master_clock_latency cfg * 1000000),
            gb_base_time := base_time\<rparr>;
          (r, g, w) = make_pipeline env cfg cam (cc_pipeline cam) gst_graph_new w;
          p = Gstreamer_pipeline b g; name = pl_name (cc_pipeline cam)
      in case r of
           CamTrue \<Rightarrow>
             if name \<in> fst ` set (m_pipelines a) then (release_app p True, a, w)
             else (Ret True, a\<lparr>m_pipelines := smap_insert name (Some p) (m_pipelines a)\<rparr>, w)
         | CamFalse \<Rightarrow> (release_app p False, a, w)
         | CamThrow e \<Rightarrow> (case release_app p () of Ret _ \<Rightarrow> (Throw e, a, w) | _ \<Rightarrow> (Terminate, a, w)))"

fun init_cameras ::
    "'w app_env \<Rightarrow> app_config \<Rightarrow> clock_kind option \<Rightarrow> u64 \<Rightarrow> (string \<times> camera_config) list \<Rightarrow> opaleye_app \<Rightarrow> 'w \<Rightarrow>
     bool outcome \<times> opaleye_app \<times> 'w" where
  "init_cameras env cfg clk t [] a w = (Ret True, a, w)"
| "init_cameras env cfg clk t ((_, cam) # cs) a w = (case init_camera env cfg clk t cam a w of
     (Ret True, a, w) \<Rightarrow> init_cameras env cfg clk t cs a w | r \<Rightarrow> r)"

text \<open>A configuration made here has indeterminate integers only until the defaults are set.\<close>

definition app_init :: "'w app_env \<Rightarrow> opaleye_app \<Rightarrow> 'w \<Rightarrow> bool outcome \<times> opaleye_app \<times> 'w" where
  "app_init env a w =
     (if m_pipelines a \<noteq> [] then (Ret False, a, w)
      else
        (let cfg = (case m_config a of None \<Rightarrow> app_make_default (app_config_new 0 0) | Some c \<Rightarrow> c);
             a = a\<lparr>m_config := Some cfg\<rparr>;
             (t, a, w) = init_clock env cfg a w
         in case t of
              None \<Rightarrow> (Ret False, a, w)
            | Some base_time \<Rightarrow>
                (let (ok, w) = init_nvpmodel env cfg w in
                 if \<not> ok then (Ret False, a, w)
                 else
                   (let (ok, a, w) = init_hw_trigger env cfg a w in
                    if \<not> ok then (Ret False, a, w)
                    else init_cameras env cfg (m_master_clock a) base_time (camera_configs cfg) a w))))"

subsection \<open>Recordings\<close>

definition start_video_capture ::
    "'w app_env \<Rightarrow> string \<Rightarrow> opaleye_app \<Rightarrow> 'w \<Rightarrow> bool outcome \<times> opaleye_app \<times> 'w" where
  "start_video_capture env camera a w =
     (if map_of (m_pipelines a) camera = None then (Ret False, a, w)
      else if map_of (m_pipelines a) (camera @ ''/file0'') \<noteq> None then (Ret False, a, w)
      else (case m_config a of
          None \<Rightarrow> (NullDeref, a, w)
        | Some cfg \<Rightarrow>
            (let out = path_join (video_path cfg) camera;
                 (ok, w) = (if ae_exists env out w then (ae_is_directory env out w, w)
                   else ae_create_directories env out w)
             in if \<not> ok then (Ret False, a, w)
                else
                  (let (r, b, s, w) = filesink_init env gst_base_new
                         \<lparr>fs_top = out, fs_mux = splitmux_new, fs_listen = None\<rparr> w;
                       p = Filesink_pipeline b s
                   in case r of
                        CamFalse \<Rightarrow> (release_app p False, a, w)
                      | CamThrow e \<Rightarrow> (case release_app p () of Ret _ \<Rightarrow> (Throw e, a, w) | _ \<Rightarrow> (Terminate, a, w))
                      | CamTrue \<Rightarrow>
                          (let (started, b) = base_start b;
                               p = Filesink_pipeline b (s\<lparr>fs_listen := Some ''h264_ipsink_0''\<rparr>)
                           in if \<not> started then (release_app p False, a, w)
                              else (Ret True, a\<lparr>m_pipelines :=
                                smap_insert (camera @ ''/file0'') (Some p) (m_pipelines a)\<rparr>, w))))))"

text \<open>
  The end of the stream is awaited without a limit. A name with the suffix that belongs to a camera's
  own pipeline fails the cast.
\<close>

definition stop_video_capture ::
    "'w app_env \<Rightarrow> string \<Rightarrow> opaleye_app \<Rightarrow> 'w \<Rightarrow> bool outcome \<times> opaleye_app \<times> 'w" where
  "stop_video_capture env camera a w =
     (if map_of (m_pipelines a) camera = None then (Ret False, a, w)
      else (case map_of (m_pipelines a) (camera @ ''/file0'') of
          None \<Rightarrow> (Ret False, a, w)
        | Some None \<Rightarrow> (Ret False, a, w)
        | Some (Some (Gstreamer_pipeline _ _)) \<Rightarrow> (Throw ''Could not downcast element'', a, w)
        | Some (Some (Filesink_pipeline b s)) \<Rightarrow>
            (let s = s\<lparr>fs_listen := None\<rparr>;
                 (arrived, w) = (if gb_got_eos b then (True, w) else ae_eos env w);
                 b = b\<lparr>gb_got_eos := gb_got_eos b \<or> arrived\<rparr>;
                 put = (\<lambda>b. a\<lparr>m_pipelines :=
                   smap_put (camera @ ''/file0'') (Some (Filesink_pipeline b s)) (m_pipelines a)\<rparr>)
             in if \<not> arrived then (Hang, put b, w)
                else (case base_stop b of
                    (Ret _, b) \<Rightarrow> (release_app (Filesink_pipeline b s) True,
                      a\<lparr>m_pipelines := filter (\<lambda>(n, _). n \<noteq> camera @ ''/file0'') (m_pipelines a)\<rparr>, w)
                  | (Throw e, b) \<Rightarrow> (Throw e, put b, w)
                  | (_, b) \<Rightarrow> (Terminate, put b, w)))))"

definition start_camera :: "string \<Rightarrow> opaleye_app \<Rightarrow> bool outcome \<times> opaleye_app" where
  "start_camera camera a = (Ret True, a)"

definition stop_camera :: "string \<Rightarrow> opaleye_app \<Rightarrow> bool outcome \<times> opaleye_app" where
  "stop_camera camera a = (Ret True, a)"

definition start_still_capture :: "string \<Rightarrow> opaleye_app \<Rightarrow> bool outcome \<times> opaleye_app" where
  "start_still_capture camera a = (Throw ''start_still_capture - not implemented'', a)"

definition stop_still_capture :: "string \<Rightarrow> opaleye_app \<Rightarrow> bool outcome \<times> opaleye_app" where
  "stop_still_capture camera a = (Throw ''stop_still_capture - not implemented'', a)"

subsection \<open>Streams\<close>

text \<open>
  The sink answers a request with a signal, on which the set of connections is updated; the request
  waits up to five seconds for the set to show it.
\<close>

definition handle_client_added :: "string \<times> u16 \<Rightarrow> gst_element \<Rightarrow> gst_element" where
  "handle_client_added c e = e\<lparr>el_active_conn := List.insert c (el_active_conn e)\<rparr>"

definition handle_client_removed :: "string \<times> u16 \<Rightarrow> gst_element \<Rightarrow> gst_element" where
  "handle_client_removed c e = e\<lparr>el_active_conn := removeAll c (el_active_conn e)\<rparr>"

definition add_client :: "'w app_env \<Rightarrow> string \<times> u16 \<Rightarrow> gst_element \<Rightarrow> 'w \<Rightarrow> bool \<times> gst_element \<times> 'w" where
  "add_client env c e w =
     (let (sig, w) = ae_udp_add env c w; e = (if sig then handle_client_added c e else e)
      in (c \<in> set (el_active_conn e), e, w))"

definition remove_client :: "'w app_env \<Rightarrow> string \<times> u16 \<Rightarrow> gst_element \<Rightarrow> 'w \<Rightarrow> bool \<times> gst_element \<times> 'w" where
  "remove_client env c e w =
     (let (sig, w) = ae_udp_remove env c w; e = (if sig then handle_client_removed c e else e)
      in (c \<notin> set (el_active_conn e), e, w))"

definition rtp_request ::
    "('w app_env \<Rightarrow> string \<times> u16 \<Rightarrow> gst_element \<Rightarrow> 'w \<Rightarrow> bool \<times> gst_element \<times> 'w) \<Rightarrow>
     'w app_env \<Rightarrow> string \<Rightarrow> string \<Rightarrow> int \<Rightarrow> opaleye_app \<Rightarrow> 'w \<Rightarrow> bool outcome \<times> opaleye_app \<times> 'w" where
  "rtp_request req env pipe_name ip_addr port a w =
     (if port < 0 \<or> port > 65535 then (Throw ''port must be in [0, 65535]'', a, w)
      else (case map_of (m_pipelines a) pipe_name of
          None \<Rightarrow> (Throw ''pipeline does not exist'', a, w)
        | Some None \<Rightarrow> (NullDeref, a, w)
        | Some (Some p) \<Rightarrow> (case get_element ''udp_0'' p of
              None \<Rightarrow> (Throw ''Could not downcast element'', a, w)
            | Some e \<Rightarrow>
                if el_kind e \<noteq> Rtpsink_pipe then (Throw ''Could not downcast element'', a, w)
                else (let (ok, e, w) = req env (ip_addr, word_of_int port) e w
                  in (Ret ok, a\<lparr>m_pipelines := smap_put pipe_name (Some (put_element ''udp_0'' e p))
                       (m_pipelines a)\<rparr>, w)))))"

definition start_rtp_stream ::
    "'w app_env \<Rightarrow> string \<Rightarrow> string \<Rightarrow> int \<Rightarrow> opaleye_app \<Rightarrow> 'w \<Rightarrow> bool outcome \<times> opaleye_app \<times> 'w" where
  "start_rtp_stream = rtp_request add_client"

definition stop_rtp_stream ::
    "'w app_env \<Rightarrow> string \<Rightarrow> string \<Rightarrow> int \<Rightarrow> opaleye_app \<Rightarrow> 'w \<Rightarrow> bool outcome \<times> opaleye_app \<times> 'w" where
  "stop_rtp_stream = rtp_request remove_client"

definition stop_rtp_all_stream :: "opaleye_app \<Rightarrow> bool outcome \<times> opaleye_app" where
  "stop_rtp_all_stream a = (Ret False, a)"

subsection \<open>Start, stop and inspection of all pipelines\<close>

fun start_pipes :: "bool \<Rightarrow> (string \<times> gst_app option) list \<Rightarrow> bool outcome \<times> (string \<times> gst_app option) list" where
  "start_pipes ret [] = (Ret ret, [])"
| "start_pipes ret ((n, p) # ps) =
     (if ret then (case p of
          None \<Rightarrow> (NullDeref, (n, p) # ps)
        | Some p \<Rightarrow> (let (ok, b) = base_start (app_base p);
                       (r, ps) = start_pipes ok ps in (r, (n, Some (map_base (\<lambda>_. b) p)) # ps)))
      else (let (r, ps) = start_pipes ret ps in (r, (n, p) # ps)))"

definition app_start :: "opaleye_app \<Rightarrow> bool outcome \<times> opaleye_app" where
  "app_start a = (let (r, ps) = start_pipes True (m_pipelines a) in (r, a\<lparr>m_pipelines := ps\<rparr>))"

text \<open>Each pointer is reset after its pipeline was stopped; the entries stay in the map.\<close>

fun stop_pipes :: "bool \<Rightarrow> (string \<times> gst_app option) list \<Rightarrow> bool outcome \<times> (string \<times> gst_app option) list" where
  "stop_pipes ret [] = (Ret ret, [])"
| "stop_pipes ret ((n, p) # ps) = (case p of
     None \<Rightarrow>
       if ret then (NullDeref, (n, None) # ps)
       else (let (r, ps) = stop_pipes ret ps in (r, (n, None) # ps))
   | Some p \<Rightarrow>
       (case (if ret then base_stop (app_base p) else (Ret False, app_base p)) of
          (Ret ok, b) \<Rightarrow> (case release_app (map_base (\<lambda>_. b) p) () of
              Ret _ \<Rightarrow> (let (r, ps) = stop_pipes ok ps in (r, (n, None) # ps))
            | _ \<Rightarrow> (Terminate, (n, None) # ps))
        | (Throw e, b) \<Rightarrow> (Throw e, (n, Some (map_base (\<lambda>_. b) p)) # ps)
        | (_, b) \<Rightarrow> (Terminate, (n, Some (map_base (\<lambda>_. b) p)) # ps)))"

definition app_stop :: "opaleye_app \<Rightarrow> bool outcome \<times> opaleye_app" where
  "app_stop a = (let (r, ps) = stop_pipes True (m_pipelines a) in (r, a\<lparr>m_pipelines := ps\<rparr>))"

definition state_change_str :: "nat \<Rightarrow> string" where
  "state_change_str n = (if n = 0 then ''CHANGE_FAILURE'' else if n = 1 then ''CHANGE_SUCCESS''
     else if n = 2 then ''CHANGE_ASYNC'' else if n = 3 then ''CHANGE_NO_PREROLL'' else ''CHANGE_UNKNOWN'')"

definition gst_state_str :: "nat \<Rightarrow> string" where
  "gst_state_str n = (if n = 0 then ''VOID_PENDING'' else if n = 1 then ''NULL'' else if n = 2 then ''READY''
     else if n = 3 then ''PAUSED'' else if n = 4 then ''PLAYING'' else ''UNKNOWN'')"

text \<open>\<^verbatim>\<open>m_pipelines["pipe0"]\<close> makes an empty entry when there is none, and uses it.\<close>

definition get_pipeline_status :: "'w app_env \<Rightarrow> opaleye_app \<Rightarrow> 'w \<Rightarrow> string outcome \<times> opaleye_app" where
  "get_pipeline_status env a w = (case map_of (m_pipelines a) ''pipe0'' of
     None \<Rightarrow> (NullDeref, a\<lparr>m_pipelines := smap_put ''pipe0'' None (m_pipelines a)\<rparr>)
   | Some None \<Rightarrow> (NullDeref, a)
   | Some (Some p) \<Rightarrow> (let (ret, st) = ae_state env w in
       (Ret (gst_state_str st @ ''-'' @ state_change_str ret), a)))"

fun graph_pipes :: "'w app_env \<Rightarrow> (string \<times> gst_app option) list \<Rightarrow> 'w \<Rightarrow> string outcome \<times> 'w" where
  "graph_pipes env [] w = (Ret [], w)"
| "graph_pipes env ((n, p) # ps) w = (case p of
     None \<Rightarrow> (NullDeref, w)
   | Some _ \<Rightarrow>
       (let basename = map (\<lambda>c. if c = CHR ''/'' then CHR ''-'' else c) n @ ''_pipeline'';
            w = ae_dot env basename w;
            (_, w) = ae_system env (''dot -Tpdf -o /tmp/'' @ basename @ ''.pdf /tmp/'' @ basename @ ''.dot'') w
        in graph_pipes env ps w))"

definition get_pipeline_graph :: "'w app_env \<Rightarrow> opaleye_app \<Rightarrow> 'w \<Rightarrow> string outcome \<times> 'w" where
  "get_pipeline_graph env a w = graph_pipes env (m_pipelines a) w"

subsection \<open>Camera properties\<close>

definition v4l2_property ::
    "'w v4l2_dev \<Rightarrow> v4l2_util \<Rightarrow> string \<Rightarrow> int \<Rightarrow> 'w \<Rightarrow> bool \<times> 'w" where
  "v4l2_property dev u property_id v w =
     (if property_id = ''brightness'' then set_brightness dev u v w
      else if property_id = ''gain'' then set_gain dev u v w
      else if property_id = ''gain_auto'' then set_gain_auto dev u (v \<noteq> 0) w
      else if property_id = ''exposure_auto'' then set_exposure_auto dev u v w
      else if property_id = ''exposure_absolute'' then set_exposure_absolute dev u v w
      else if property_id = ''exposure_auto_min'' then set_exposure_auto_min dev u v w
      else if property_id = ''exposure_auto_max'' then set_exposure_auto_max dev u v w
      else if property_id = ''gain_auto_min'' then set_gain_auto_min dev u v w
      else if property_id = ''gain_auto_max'' then set_gain_auto_max dev u v w
      else if property_id = ''focus_absolute'' then set_focus_absolute dev u v w
      else if property_id = ''focus_auto'' then set_focus_auto dev u (v \<noteq> 0) w
      else (False, w))"

definition set_camera_property_int ::
    "'w app_env \<Rightarrow> string \<Rightarrow> string \<Rightarrow> string \<Rightarrow> int \<Rightarrow> opaleye_app \<Rightarrow> 'w \<Rightarrow> bool outcome \<times> 'w" where
  "set_camera_property_int env pipeline_id camera_id property_id v a w =
     (case map_of (m_pipelines a) pipeline_id of
        None \<Rightarrow> (Ret False, w)
      | Some None \<Rightarrow> (NullDeref, w)
      | Some (Some p) \<Rightarrow> (case get_element camera_id p of
          None \<Rightarrow> (Ret False, w)
        | Some e \<Rightarrow>
            if \<not> is_v4l2_api (el_kind e) then (Ret False, w)
            else (let (ok, w) = v4l2_property (ae_v4l2 env) (el_util e) property_id v w in (Ret ok, w))))"

definition set_camera_property_str ::
    "'w app_env \<Rightarrow> string \<Rightarrow> string \<Rightarrow> string \<Rightarrow> string \<Rightarrow> opaleye_app \<Rightarrow> 'w \<Rightarrow> bool outcome \<times> 'w" where
  "set_camera_property_str env pipeline_id camera_id property_id v a w =
     (case map_of (m_pipelines a) pipeline_id of
        None \<Rightarrow> (Ret False, w)
      | Some None \<Rightarrow> (NullDeref, w)
      | Some (Some p) \<Rightarrow> (case get_element camera_id p of
          None \<Rightarrow> (Ret False, w)
        | Some e \<Rightarrow>
            if \<not> is_camera_base (el_kind e) then (Ret False, w)
            else (let (ok, w) = ae_set_property env (el_kind e) camera_id property_id v w in (Ret ok, w))))"

subsection \<open>What a constructed pipeline consists of\<close>

lemma set_smap_put: "set (smap_put k v xs) \<subseteq> insert (k, v) (set xs)"
  by (induction k v xs rule: smap_put.induct) auto

lemma set_smap_insert: "set (smap_insert k v xs) \<subseteq> insert (k, v) (set xs)"
  by (induction k v xs rule: smap_insert.induct) auto

lemma map_of_smap_insert:
  "map_of (smap_insert k v xs) = (if map_of xs k = None then (map_of xs)(k \<mapsto> v) else map_of xs)
     \<or> \<not> sorted_wrt (<) (map fst xs)"
proof (induction k v xs rule: smap_insert.induct)
  case (2 k v k' v' xs)
  show ?case
  proof (cases "k < k' \<and> sorted_wrt (<) (map fst ((k', v') # xs))")
    case True
    then have "map_of xs k = None" by (force simp: map_of_eq_None_iff)
    with True show ?thesis by auto
  next
    case False
    with 2 show ?thesis by auto
  qed
qed simp

lemma smap_insert_fst: "fst ` set (smap_insert k v xs) = insert k (fst ` set xs)"
  by (induction k v xs rule: smap_insert.induct) auto

lemma sorted_smap_insert:
  "sorted_wrt (<) (map fst xs) \<Longrightarrow> sorted_wrt (<) (map fst (smap_insert k v xs))"
proof (induction k v xs rule: smap_insert.induct)
  case (2 k v k' v' xs)
  then show ?case using smap_insert_fst [of k v xs] by (auto 0 3 simp: image_iff Ball_def)
qed simp

text \<open>Storing under distinct names: the first entry of a name stays.\<close>

lemma map_of_store_elements:
  "sorted_wrt (<) (map fst st) \<Longrightarrow> map_of (store_elements m ps st) n =
     (case map_of st n of Some e \<Rightarrow> Some e
      | None \<Rightarrow> map_option (\<lambda>v. the (m v)) (map_of ps n))"
proof (induction ps arbitrary: st)
  case Nil
  then show ?case by (simp add: store_elements_def split: option.split)
next
  case (Cons p ps)
  obtain k v where p: "p = (k, v)" by fastforce
  have "map_of (store_elements m ps (smap_insert k (the (m v)) st)) n =
      (case map_of (smap_insert k (the (m v)) st) n of Some e \<Rightarrow> Some e
       | None \<Rightarrow> map_option (\<lambda>v. the (m v)) (map_of ps n))"
    using Cons.IH [OF sorted_smap_insert [OF Cons.prems]] .
  moreover have "map_of (smap_insert k (the (m v)) st) =
      (if map_of st k = None then (map_of st)(k \<mapsto> the (m v)) else map_of st)"
    using map_of_smap_insert [of k "the (m v)" st] Cons.prems by blast
  ultimately show ?case by (auto simp: p store_elements_def split: option.splits)
qed

lemma init_elements_Inl: "init_elements env par es w = (Inl r, w') \<Longrightarrow> r \<noteq> CamTrue"
proof (induction env par es w arbitrary: w' rule: init_elements.induct)
  case (2 env par v k n es w)
  then show ?case by (auto split: prod.splits cam_result.splits sum.splits)
qed simp

lemma init_elements_Cons:
  assumes "init_elements env par ((v, k, n) # es) w = (Inr m, w')"
  obtains u w1 m1 where "ae_init env k (if k = V4L2_alvium_pipe then par else None) n w = (CamTrue, u, w1)"
    and "init_elements env par es w1 = (Inr m1, w')"
    and "m = m1(v \<mapsto> \<lparr>el_kind = k, el_name = n, el_util = u, el_sensor_id = 0, el_active_conn = []\<rparr>)"
  using assms by (auto split: prod.splits cam_result.splits sum.splits)

lemma init_elements_vars:
  "init_elements env par es w = (Inr m, w') \<Longrightarrow> distinct (map fst es) \<Longrightarrow> (v, k, n) \<in> set es \<Longrightarrow>
     \<exists>e. m v = Some e \<and> el_kind e = k \<and> el_name e = n"
proof (induction es arbitrary: w m)
  case (Cons x es)
  obtain v' k' n' where x: "x = (v', k', n')" by (cases x)
  obtain u w1 m1 where i: "init_elements env par es w1 = (Inr m1, w')"
    "m = m1(v' \<mapsto> \<lparr>el_kind = k', el_name = n', el_util = u, el_sensor_id = 0, el_active_conn = []\<rparr>)"
    using Cons.prems(1) x init_elements_Cons [of env par v' k' n' es w m w'] by metis
  show ?case
  proof (cases "v = v'")
    case True
    then have "(v, k, n) = x" using Cons.prems(2,3) x by (auto simp: image_iff)
    then show ?thesis using i(2) x by simp
  next
    case False
    then have "(v, k, n) \<in> set es" using Cons.prems(3) x by simp
    then show ?thesis using Cons.IH [OF i(1)] Cons.prems(2) i(2) False by simp
  qed
qed simp

lemma link_elements_made:
  "link_elements env guarded ls w = (CamTrue, made, w') \<Longrightarrow>
     set made \<subseteq> set ls \<and> {l \<in> set ls. \<not> guarded (fst l)} \<subseteq> set made"
proof (induction ls arbitrary: w made)
  case (Cons l ls)
  obtain a b where l: "l = (a, b)" by fastforce
  obtain ok w1 where o: "ae_link env a b w = (ok, w1)" by fastforce
  obtain r made' w2 where r: "link_elements env guarded ls w1 = (r, made', w2)" by (metis prod_cases3)
  show ?case
  proof (cases ok)
    case True
    then have m: "r = CamTrue" "made = l # made'" "w2 = w'" using Cons.prems l o r by auto
    from Cons.IH [OF r [unfolded m(1,3)]] show ?thesis unfolding m(2) by auto
  next
    case False
    then have "guarded a" using Cons.prems l o by (auto split: if_splits)
    then show ?thesis using Cons.IH [of w1 made] Cons.prems l o False by auto
  qed
qed simp

lemma build_pipeline_True:
  assumes "build_pipeline env par plan upd checked gst_graph_new w = (CamTrue, g, w')" and "pp_links plan \<noteq> []"
  obtains m w1 where "init_elements env par (pp_elems plan) w = (Inr m, w1)"
    and "gg_bin g = pp_bin plan" and "hd (pp_links plan) \<in> set (gg_links g)" and "set (gg_links g) \<subseteq> set (pp_links plan)"
    and "{l \<in> set (pp_links plan). \<not> (checked \<and> fst l = ''m_camera'')} \<subseteq> set (gg_links g)"
    and "gg_elements g = store_elements (upd m) (pp_store plan) []"
proof -
  obtain r w1 where i: "init_elements env par (pp_elems plan) w = (r, w1)" by fastforce
  obtain a b ls where l: "pp_links plan = (a, b) # ls" using assms(2) by (cases "pp_links plan") auto
  show thesis
  proof (cases r)
    case (Inl x)
    then show ?thesis using assms(1) i init_elements_Inl [of env par "pp_elems plan" w x w1]
      by (simp add: build_pipeline_def)
  next
    case (Inr m)
    obtain ok w2 where o: "ae_link env a b w1 = (ok, w2)" by fastforce
    obtain x made w3 where k: "link_elements env (\<lambda>v. checked \<and> v = ''m_camera'') ls w2 = (x, made, w3)" by (metis prod_cases3)
    have x: "x = CamTrue" "gg_bin g = pp_bin plan" "gg_links g = (a, b) # made"
      "gg_elements g = store_elements (upd m) (pp_store plan) []"
      using assms(1) i Inr l o k
      by (auto simp: build_pipeline_def gst_graph_new_def Let_def split: if_splits cam_result.splits)
    show ?thesis
      by (rule that [of m w1]) (use i Inr l x link_elements_made [OF k [unfolded x(1)]] in auto)
  qed
qed

definition keeps_kinds :: "((string \<rightharpoonup> gst_element) \<Rightarrow> (string \<rightharpoonup> gst_element)) \<Rightarrow> bool" where
  "keeps_kinds upd \<longleftrightarrow>
     (\<forall>m v e. m v = Some e \<longrightarrow> (\<exists>e'. upd m v = Some e' \<and> el_kind e' = el_kind e))"

lemma build_pipeline_parts:
  assumes "build_pipeline env par plan upd checked gst_graph_new w = (CamTrue, g, w')"
    and "distinct (map fst (pp_elems plan))"
    and "keeps_kinds upd" and "pp_links plan \<noteq> []"
  shows "gg_bin g = pp_bin plan" and "hd (pp_links plan) \<in> set (gg_links g)" and "set (gg_links g) \<subseteq> set (pp_links plan)"
    and "{l \<in> set (pp_links plan). \<not> (checked \<and> fst l = ''m_camera'')} \<subseteq> set (gg_links g)"
    and "map_of (pp_store plan) n = Some v \<Longrightarrow> (v, k, l) \<in> set (pp_elems plan) \<Longrightarrow>
      \<exists>e. map_of (gg_elements g) n = Some e \<and> el_kind e = k"
proof -
  obtain m w1 where i: "init_elements env par (pp_elems plan) w = (Inr m, w1)"
    "gg_bin g = pp_bin plan" "hd (pp_links plan) \<in> set (gg_links g)" "set (gg_links g) \<subseteq> set (pp_links plan)"
    "{l \<in> set (pp_links plan). \<not> (checked \<and> fst l = ''m_camera'')} \<subseteq> set (gg_links g)"
    "gg_elements g = store_elements (upd m) (pp_store plan) []"
    using build_pipeline_True [OF assms(1,4)] .
  show "gg_bin g = pp_bin plan" "hd (pp_links plan) \<in> set (gg_links g)" "set (gg_links g) \<subseteq> set (pp_links plan)"
    "{l \<in> set (pp_links plan). \<not> (checked \<and> fst l = ''m_camera'')} \<subseteq> set (gg_links g)" by fact+
  assume s: "map_of (pp_store plan) n = Some v" "(v, k, l) \<in> set (pp_elems plan)"
  obtain e where e: "m v = Some e" "el_kind e = k"
    using init_elements_vars [OF i(1) assms(2) s(2)] by blast
  then obtain e' where "upd m v = Some e'" "el_kind e' = k" using assms(3) unfolding keeps_kinds_def by metis
  then show "\<exists>e. map_of (gg_elements g) n = Some e \<and> el_kind e = k"
    using s(1) i(6) by (simp add: map_of_store_elements)
qed

text \<open>Reachability along the links, which the plans list from the camera on.\<close>

definition feed :: "string \<times> string \<Rightarrow> string set \<Rightarrow> string set" where
  "feed l S = (if fst l \<in> S then insert (snd l) S else S)"

lemma fold_feed_rtrancl:
  "v \<in> fold feed ls S \<Longrightarrow> set ls \<subseteq> L \<Longrightarrow> \<exists>s \<in> S. (s, v) \<in> L\<^sup>*"
proof (induction ls arbitrary: S)
  case (Cons l ls)
  obtain s where s: "s \<in> feed l S" "(s, v) \<in> L\<^sup>*" using Cons by auto
  then show ?case using Cons.prems(2)
    by (cases l) (auto simp: feed_def split: if_splits intro: converse_rtrancl_into_rtrancl)
qed auto

lemma plan_fed:
  assumes "plan \<in> {brio_plan c nv, imx219_plan c, alvium_plan c, virtual_plan c nv}" and "v \<in> set (pp_bin plan)"
  shows "(''m_camera'', v) \<in> (set (pp_links plan))\<^sup>*"
proof -
  have "v \<in> fold feed (pp_links plan) {''m_camera''}" using assms
    by (auto simp: brio_plan_def imx219_plan_def alvium_plan_def virtual_plan_def feed_def)
  then show ?thesis using fold_feed_rtrancl [of v "pp_links plan" "{''m_camera''}"] by auto
qed

lemma make_pipeline_plan:
  assumes "make_pipeline env cfg cam pipe gst_graph_new w = (CamTrue, g, w')"
  obtains plan nv par upd checked where
    "plan \<in> {brio_plan (cc_name cam) nv, imx219_plan (cc_name cam), alvium_plan (cc_name cam),
      virtual_plan (cc_name cam) nv}"
    and "build_pipeline env par plan upd checked gst_graph_new w = (CamTrue, g, w')"
    and "keeps_kinds upd" and "checked \<longrightarrow> plan = alvium_plan (cc_name cam) \<and> pl_type pipe = ''alvium''"
proof -
  consider "make_brio_pipeline env cfg cam gst_graph_new w = (CamTrue, g, w')"
    | "make_imx219_pipeline env cam gst_graph_new w = (CamTrue, g, w')"
    | "make_alvium_pipeline env cam gst_graph_new w = (CamTrue, g, w')" "pl_type pipe = ''alvium''"
    | "make_virtual_pipeline env cfg cam gst_graph_new w = (CamTrue, g, w')"
    using assms by (auto simp: make_pipeline_def split: if_splits)
  then show thesis
  proof cases
    case 1
    then show ?thesis by (intro that [of "brio_plan (cc_name cam) (h264_mode cfg = ''nv'')" "h264_mode cfg = ''nv''" None id False])
        (auto simp: make_brio_pipeline_def keeps_kinds_def)
  next
    case 2
    then show ?thesis
      by (intro that [of "imx219_plan (cc_name cam)" True _ "\<lambda>m. m(''m_camera'' := map_option
          (\<lambda>e. e\<lparr>el_sensor_id := case get_int [''properties'', ''sensor-id''] (cc_tree cam) of None \<Rightarrow> 0 | Some v \<Rightarrow> v\<rparr>)
          (m ''m_camera''))" False]) (auto simp: make_imx219_pipeline_def keeps_kinds_def)
  next
    case 3
    then show ?thesis
      by (auto simp: make_alvium_pipeline_def keeps_kinds_def split: option.splits if_splits
          intro!: that [of "alvium_plan (cc_name cam)" True _ id True])
  next
    case 4
    then show ?thesis by (intro that [of "virtual_plan (cc_name cam) (h264_mode cfg = ''nv'')" "h264_mode cfg = ''nv''" None id False])
        (auto simp: make_virtual_pipeline_def keeps_kinds_def)
  qed
qed

definition reserved_names :: "string set" where
  "reserved_names = {''jpgdec_0'', ''thumb_0'', ''h264_0'', ''h264_ipsink_0'', ''rtp_0'', ''udp_0'',
     ''timecodestamper_0'', ''timeoverlay_0''}"


definition demo_env :: "u32 list app_env" where
  "demo_env = \<lparr>ae_init = \<lambda>_ _ _ w. (CamTrue, v4l2_util_new, w), ae_link = \<lambda>_ _ w. (True, w),
     ae_clock_init = \<lambda>_ w. (True, w), ae_get_time = \<lambda>_. 0, ae_sync = \<lambda>w. (True, w),
     ae_system = \<lambda>_ w. (0, w), ae_exists = \<lambda>_ _. False, ae_is_directory = \<lambda>_ _. False,
     ae_create_directories = \<lambda>_ w. (True, w), ae_create_directory = \<lambda>_ w. (True, w),
     ae_open = \<lambda>_ w. (5, w), ae_close = \<lambda>_ w. (0, w), ae_dprintf = \<lambda>_ s w. (int (length s), w),
     ae_today = \<lambda>_. (2021, 6, 1), ae_dir = \<lambda>_ _. None, ae_eos = \<lambda>w. (True, w),
     ae_udp_add = \<lambda>_ w. (True, w), ae_udp_remove = \<lambda>_ w. (True, w),
     ae_set_property = \<lambda>_ _ _ _ w. (False, w), ae_dot = \<lambda>_ w. w, ae_state = \<lambda>_. (1, 4),
     ae_v4l2 = demo_v4l2\<rparr>"

definition demo_camera :: camera_config where
  "demo_camera = camera_config_new\<lparr>cc_name := ''cam0'', cc_type := ''brio'',
     cc_pipeline := pipeline_config_new\<lparr>pl_name := ''pipe0'', pl_type := ''brio''\<rparr>\<rparr>"


subsection \<open>Initialisation is all or nothing\<close>

definition live :: "(string \<times> gst_app option) list \<Rightarrow> bool" where
  "live ps \<longleftrightarrow> (\<forall>(_, p) \<in> set ps. \<exists>q. p = Some q \<and> gb_thread (app_base q))"

lemma live_put: "live ps \<Longrightarrow> gb_thread (app_base q) \<Longrightarrow> live (smap_put n (Some q) ps)"
  using set_smap_put [of n "Some q" ps] by (auto simp: live_def)

lemma live_insert: "live ps \<Longrightarrow> gb_thread (app_base q) \<Longrightarrow> live (smap_insert n (Some q) ps)"
  using set_smap_insert [of n "Some q" ps] by (auto simp: live_def)

lemma live_SomeD: "live ps \<Longrightarrow> map_of ps n = Some p \<Longrightarrow> \<exists>q. p = Some q \<and> gb_thread (app_base q)"
  using map_of_SomeD [of ps n p] by (auto simp: live_def)

definition buildable :: "'w app_env \<Rightarrow> app_config \<Rightarrow> camera_config \<Rightarrow> 'w \<Rightarrow> bool" where
  "buildable env cfg cam w \<longleftrightarrow> fst (make_pipeline env cfg cam (cc_pipeline cam) gst_graph_new w) = CamTrue"

lemma init_camera_ok:
  assumes "buildable env cfg cam w" and "pl_name (cc_pipeline cam) \<notin> fst ` set (m_pipelines a)"
  obtains q w' where "gb_thread (app_base q)" and "init_camera env cfg clk t cam a w =
    (Ret True, a\<lparr>m_pipelines := smap_insert (pl_name (cc_pipeline cam)) (Some q) (m_pipelines a)\<rparr>, w')"
proof -
  obtain g w' where m: "make_pipeline env cfg cam (cc_pipeline cam) gst_graph_new w = (CamTrue, g, w')"
    using assms(1) by (metis buildable_def prod.exhaust_sel)
  let ?q = "Gstreamer_pipeline (gst_base_new\<lparr>gb_thread := True, gb_clock := clk,
    gb_latency := word_of_int (master_clock_latency cfg * 1000000), gb_base_time := t\<rparr>) g"
  show thesis by (rule that [of ?q w'])
      (use assms(2) m in \<open>simp_all add: init_camera_def base_init_def Let_def\<close>)
qed

lemma init_camera_bad:
  assumes "\<not> (buildable env cfg cam w \<and> pl_name (cc_pipeline cam) \<notin> fst ` set (m_pipelines a))"
  shows "fst (init_camera env cfg clk t cam a w) = Terminate"
  using assms by (auto simp: init_camera_def base_init_def gst_base_new_def release_app_def buildable_def Let_def
      split: prod.splits cam_result.splits)

definition pipe_names :: "(string \<times> camera_config) list \<Rightarrow> string list" where
  "pipe_names cams = map (\<lambda>(_, cam). pl_name (cc_pipeline cam)) cams"

lemma init_cameras_all_or_terminate:
  assumes "init_cameras env cfg clk t cams a w = (r, a', w')" and "live (m_pipelines a)"
  shows "r = Terminate \<or> (r = Ret True \<and> live (m_pipelines a') \<and> m_config a' = m_config a \<and>
    distinct (pipe_names cams) \<and> fst ` set (m_pipelines a) \<inter> set (pipe_names cams) = {} \<and>
    fst ` set (m_pipelines a') = fst ` set (m_pipelines a) \<union> set (pipe_names cams))"
  using assms
proof (induction cams arbitrary: a w)
  case Nil
  then show ?case by (simp add: pipe_names_def)
next
  case (Cons c cams)
  obtain k cam where c: "c = (k, cam)" by fastforce
  show ?case
  proof (cases "buildable env cfg cam w \<and> pl_name (cc_pipeline cam) \<notin> fst ` set (m_pipelines a)")
    case True
    then obtain q w1 where q: "gb_thread (app_base q)" "init_camera env cfg clk t cam a w = (Ret True,
        a\<lparr>m_pipelines := smap_insert (pl_name (cc_pipeline cam)) (Some q) (m_pipelines a)\<rparr>, w1)"
      using init_camera_ok by metis
    let ?a = "a\<lparr>m_pipelines := smap_insert (pl_name (cc_pipeline cam)) (Some q) (m_pipelines a)\<rparr>"
    have "init_cameras env cfg clk t cams ?a w1 = (r, a', w')" using Cons.prems(1) by (simp add: c q(2))
    from Cons.IH [OF this] show ?thesis using True Cons.prems(2) q(1)
      by (auto simp: c pipe_names_def smap_insert_fst live_insert)
  next
    case False
    from init_camera_bad [OF this, of clk t] show ?thesis
      using Cons.prems(1) by (cases "init_camera env cfg clk t cam a w") (auto simp: c)
  qed
qed

lemma init_clock_frame:
  "init_clock env cfg a w = (r, a', w') \<Longrightarrow> m_pipelines a' = m_pipelines a \<and> m_config a' = m_config a"
  by (auto simp: init_clock_def Let_def split: if_splits prod.splits)

lemma init_hw_trigger_frame:
  "init_hw_trigger env cfg a w = (r, a', w') \<Longrightarrow> m_pipelines a' = m_pipelines a \<and> m_config a' = m_config a"
  by (auto simp: init_hw_trigger_def Let_def split: if_splits prod.splits)

definition config_of :: "opaleye_app \<Rightarrow> app_config" where
  "config_of a = (case m_config a of None \<Rightarrow> app_make_default (app_config_new 0 0) | Some c \<Rightarrow> c)"

lemma app_init_cases:
  assumes "app_init env a w = (r, a', w')" and "m_pipelines a = []"
  shows "r = Terminate \<or> r = Ret False \<and> m_pipelines a' = [] \<or>
    r = Ret True \<and> live (m_pipelines a') \<and> m_config a' = Some (config_of a) \<and>
      distinct (pipe_names (camera_configs (config_of a))) \<and>
      fst ` set (m_pipelines a') = set (pipe_names (camera_configs (config_of a)))"
proof -
  let ?cfg = "config_of a"
  obtain t a1 w1 where c: "init_clock env ?cfg (a\<lparr>m_config := Some ?cfg\<rparr>) w = (t, a1, w1)"
    by (metis prod_cases3)
  obtain ok w2 where n: "init_nvpmodel env ?cfg w1 = (ok, w2)" by fastforce
  obtain ok2 a2 w3 where h: "init_hw_trigger env ?cfg a1 w2 = (ok2, a2, w3)" by (metis prod_cases3)
  have f: "m_pipelines a1 = []" "m_config a1 = Some ?cfg" "m_pipelines a2 = []" "m_config a2 = Some ?cfg"
    using init_clock_frame [OF c] init_hw_trigger_frame [OF h] assms(2) by simp_all
  consider "r = Ret False" "m_pipelines a' = []"
    | base where "init_cameras env ?cfg (m_master_clock a2) base (camera_configs ?cfg) a2 w3 = (r, a', w')"
    using assms(1) f(1,3)
    by (cases t) (auto simp: app_init_def assms(2) Let_def config_of_def [symmetric] c n h split: if_splits)
  then show ?thesis
  proof cases
    case 2
    from init_cameras_all_or_terminate [OF this] show ?thesis by (auto simp: f live_def)
  qed simp
qed

definition demo_cfg :: "(string \<times> camera_config) list \<Rightarrow> app_config" where
  "demo_cfg cs = app_make_default (app_config_new 0 0)\<lparr>camera_configs := cs\<rparr>"

lemma demo_init_stages:
  "app_init demo_env (opaleye_app_new\<lparr>m_config := Some (demo_cfg cs)\<rparr>) [] =
     init_cameras demo_env (demo_cfg cs) (Some Sys_clock) 0 cs
       (opaleye_app_new\<lparr>m_config := Some (demo_cfg cs), m_master_clock := Some Sys_clock\<rparr>) []"
proof -
  have "init_clock demo_env (demo_cfg cs) x [] = (Some 0, x\<lparr>m_master_clock := Some Sys_clock\<rparr>, [])"
    "init_nvpmodel demo_env (demo_cfg cs) [] = (True, [])"
    "init_hw_trigger demo_env (demo_cfg cs) x [] = (True, x, [])"
    "camera_configs (demo_cfg cs) = cs" for x
    by (simp_all add: init_clock_def init_nvpmodel_def init_hw_trigger_def has_child_def pt_empty_def
        app_make_default_def app_config_new_def demo_env_def demo_cfg_def)
  then show ?thesis by (simp add: app_init_def Let_def opaleye_app_new_def del: init_cameras.simps)
qed

lemma demo_buildable: "buildable demo_env (demo_cfg cs) demo_camera []"
  by (simp add: buildable_def make_pipeline_def make_brio_pipeline_def build_pipeline_def brio_plan_def
      demo_env_def demo_camera_def pipeline_config_new_def camera_config_new_def demo_cfg_def
      app_make_default_def app_config_new_def Let_def)

text \<open>
  C12. Initialisation is all or nothing. It either succeeds, and then every configured camera has a
  running pipeline under a name of its own and there is no other; or it returns false, and then
  nothing was built; or it ends the process. It returns no error and throws nothing once the first
  camera is reached: a camera that cannot be set up, or that shares its pipeline's name with another,
  has its pipeline object destroyed with the thread running, which is \<^verbatim>\<open>std::terminate\<close>.
\<close>

theorem app_init_all_or_terminate:
  assumes "app_init env a w = (r, a', w')" and "m_pipelines a = []"
  shows "r = Terminate \<or> r = Ret False \<and> m_pipelines a' = [] \<or>
    r = Ret True \<and> live (m_pipelines a') \<and> m_config a' = Some (config_of a) \<and>
      distinct (pipe_names (camera_configs (config_of a))) \<and>
      fst ` set (m_pipelines a') = set (pipe_names (camera_configs (config_of a)))"
  using assms by (rule app_init_cases)

theorem app_init_all_or_terminate_witness:
  "fst (app_init demo_env (opaleye_app_new\<lparr>m_config := Some (demo_cfg
     [(''cam0'', demo_camera), (''cam1'', demo_camera)])\<rparr>) []) = Terminate"
proof -
  let ?cs = "[(''cam0'', demo_camera), (''cam1'', demo_camera)]"
  let ?a = "opaleye_app_new\<lparr>m_config := Some (demo_cfg ?cs)\<rparr>"
  obtain r a' w' where i: "app_init demo_env ?a [] = (r, a', w')" by (metis prod_cases3)
  have "r \<noteq> Ret False" using init_cameras_all_or_terminate [OF i [unfolded demo_init_stages]]
    by (auto simp: live_def opaleye_app_new_def)
  then show ?thesis using app_init_all_or_terminate [OF i] i
    by (auto simp: opaleye_app_new_def pipe_names_def config_of_def demo_cfg_def)
qed

subsection \<open>Recordings\<close>

lemma filter_smap_insert:
  "k \<notin> fst ` set xs \<Longrightarrow> filter (\<lambda>(n, _). n \<noteq> k) (smap_insert k v xs) = xs"
  by (induction k v xs rule: smap_insert.induct) (auto simp: filter_id_conv image_iff)

lemma smap_insert_mem: "k \<notin> fst ` set xs \<Longrightarrow> (k, v) \<in> set (smap_insert k v xs)"
  by (induction k v xs rule: smap_insert.induct) auto

lemma map_of_smap_insert_new:
  "k \<notin> fst ` set xs \<Longrightarrow> map_of (smap_insert k v xs) = (map_of xs)(k \<mapsto> v)"
  by (induction k v xs rule: smap_insert.induct) (auto simp: fun_upd_twist)

lemma filesink_init_thread: "filesink_init env b s w = (r, b', s', w') \<Longrightarrow> b' = b\<lparr>gb_thread := True\<rparr>"
  by (auto simp: filesink_init_def base_init_def Let_def split: prod.splits option.splits if_splits)

lemma start_video_capture_True:
  assumes "start_video_capture env camera a w = (Ret True, a', w')"
  obtains b s where "a' = a\<lparr>m_pipelines := smap_insert (camera @ ''/file0'') (Some (Filesink_pipeline b s)) (m_pipelines a)\<rparr>"
    and "gb_thread b" and "\<not> gb_got_eos b" and "fs_listen s = Some ''h264_ipsink_0''"
    and "camera @ ''/file0'' \<notin> fst ` set (m_pipelines a)" and "map_of (m_pipelines a) camera \<noteq> None"
proof -
  let ?k = "camera @ ''/file0''"
  have k: "map_of (m_pipelines a) camera \<noteq> None" "map_of (m_pipelines a) ?k = None"
    using assms by (auto simp: start_video_capture_def split: if_splits)
  obtain cfg where c: "m_config a = Some cfg"
    using assms k by (cases "m_config a") (auto simp: start_video_capture_def)
  obtain ok w1 where o1: "(if ae_exists env (path_join (video_path cfg) camera) w
      then (ae_is_directory env (path_join (video_path cfg) camera) w, w)
      else ae_create_directories env (path_join (video_path cfg) camera) w) = (ok, w1)" by fastforce
  obtain r b s w2 where f: "filesink_init env gst_base_new \<lparr>fs_top = path_join (video_path cfg) camera,
      fs_mux = splitmux_new, fs_listen = None\<rparr> w1 = (r, b, s, w2)" by (metis prod_cases4)
  have b: "gb_thread b" "\<not> gb_got_eos b"
    using filesink_init_thread [OF f] by (simp_all add: gst_base_new_def)
  have "a' = a\<lparr>m_pipelines := smap_insert ?k (Some (Filesink_pipeline (b\<lparr>gb_playing := True\<rparr>)
      (s\<lparr>fs_listen := Some ''h264_ipsink_0''\<rparr>))) (m_pipelines a)\<rparr>"
    using assms k c o1 f b
    by (auto simp: start_video_capture_def Let_def base_start_def release_app_def split: cam_result.splits if_splits)
  then show thesis using k b
    by (intro that [of "b\<lparr>gb_playing := True\<rparr>" "s\<lparr>fs_listen := Some ''h264_ipsink_0''\<rparr>"])
      (auto simp: map_of_eq_None_iff)
qed

text \<open>
  C13. A recording is a bracket: after a recording was started for a camera, starting it again is
  refused, and once the end of the stream arrives, stopping it returns true and leaves the map of
  pipelines exactly as it was before, so that it can be started anew. The recording reads from the
  same fixed node whatever the camera.
\<close>

theorem capture_bracket:
  assumes "start_video_capture env camera a w = (Ret True, a1, w1)" and "ae_eos env w2 = (True, w3)"
  shows "start_video_capture env camera a1 w2 = (Ret False, a1, w2) \<and>
    stop_video_capture env camera a1 w2 = (Ret True, a, w3) \<and>
    (\<exists>b s. map_of (m_pipelines a1) (camera @ ''/file0'') = Some (Some (Filesink_pipeline b s)) \<and>
       fs_listen s = Some ''h264_ipsink_0'')"
proof -
  obtain b s where c: "a1 = a\<lparr>m_pipelines := smap_insert (camera @ ''/file0'') (Some (Filesink_pipeline b s)) (m_pipelines a)\<rparr>"
    "gb_thread b" "\<not> gb_got_eos b" "fs_listen s = Some ''h264_ipsink_0''"
    "camera @ ''/file0'' \<notin> fst ` set (m_pipelines a)" "map_of (m_pipelines a) camera \<noteq> None"
    using start_video_capture_True [OF assms(1)] .
  have m: "map_of (m_pipelines a1) = (map_of (m_pipelines a))(camera @ ''/file0'' \<mapsto> Some (Filesink_pipeline b s))"
    using map_of_smap_insert_new [OF c(5)] c(1) by simp
  have "filter (\<lambda>(n, _). n \<noteq> camera @ ''/file0'') (m_pipelines a1) = m_pipelines a"
    using filter_smap_insert [OF c(5)] c(1) by simp
  then show ?thesis using c m assms(2)
    by (simp add: start_video_capture_def stop_video_capture_def base_stop_def release_app_def)
qed

definition demo_app :: opaleye_app where
  "demo_app = opaleye_app_new\<lparr>m_config := Some (app_config_new 0 0),
     m_pipelines := [(''pipe0'', Some (Gstreamer_pipeline (gst_base_new\<lparr>gb_thread := True\<rparr>) gst_graph_new))]\<rparr>"

theorem capture_bracket_witness:
  "\<exists>a1. start_video_capture demo_env ''pipe0'' demo_app [] = (Ret True, a1, []) \<and>
     stop_video_capture demo_env ''pipe0'' a1 [] = (Ret True, demo_app, [])"
proof -
  obtain a1 where s: "start_video_capture demo_env ''pipe0'' demo_app [] = (Ret True, a1, [])"
    by (simp add: start_video_capture_def demo_app_def opaleye_app_new_def demo_env_def app_config_new_def
        filesink_init_def splitmux_init_def base_init_def base_start_def cam_bool_def Let_def)
  have "ae_eos demo_env [] = (True, [])" by (simp add: demo_env_def)
  from capture_bracket [OF s this] s show ?thesis by blast
qed

subsection \<open>The life of the application\<close>

text \<open>
  The states the running program can be in: the operations of the API in any order, each with an
  outcome that lets the process go on.
\<close>

definition goes_on :: "'a outcome \<Rightarrow> bool" where
  "goes_on r \<longleftrightarrow> r \<noteq> Terminate \<and> r \<noteq> NullDeref"

inductive app_run :: "'w app_env \<Rightarrow> opaleye_app \<Rightarrow> bool" for env where
  created: "app_run env (opaleye_app_new\<lparr>m_config := c\<rparr>)"
| initialised: "app_run env a \<Longrightarrow> app_init env a w = (r, a', w') \<Longrightarrow> goes_on r \<Longrightarrow> app_run env a'"
| started: "app_run env a \<Longrightarrow> app_start a = (r, a') \<Longrightarrow> goes_on r \<Longrightarrow> app_run env a'"
| capture: "app_run env a \<Longrightarrow> start_video_capture env cam a w = (r, a', w') \<Longrightarrow> goes_on r \<Longrightarrow> app_run env a'"
| capture_end: "app_run env a \<Longrightarrow> stop_video_capture env cam a w = (r, a', w') \<Longrightarrow> goes_on r \<Longrightarrow> app_run env a'"
| stream: "app_run env a \<Longrightarrow> start_rtp_stream env n ip port a w = (r, a', w') \<Longrightarrow> goes_on r \<Longrightarrow> app_run env a'"
| stream_end: "app_run env a \<Longrightarrow> stop_rtp_stream env n ip port a w = (r, a', w') \<Longrightarrow> goes_on r \<Longrightarrow> app_run env a'"
| status: "app_run env a \<Longrightarrow> get_pipeline_status env a w = (s, a') \<Longrightarrow> goes_on s \<Longrightarrow> app_run env a'"

lemma start_pipes_live: "live ps \<Longrightarrow> \<exists>ps'. start_pipes True ps = (Ret True, ps') \<and> live ps' \<and> map fst ps' = map fst ps"
proof (induction ps)
  case (Cons p ps)
  obtain n q where p: "p = (n, Some q)" "gb_thread (app_base q)" using Cons.prems by (auto simp: live_def)
  obtain ps' where "start_pipes True ps = (Ret True, ps')" "live ps'" "map fst ps' = map fst ps"
    using Cons by (auto simp: live_def)
  moreover have "gb_thread (app_base (map_base (\<lambda>_. (app_base q)\<lparr>gb_playing := True\<rparr>) q))"
    using p(2) by (cases q) (simp_all add: map_base_def)
  ultimately show ?case using p by (simp add: base_start_def live_def)
qed (simp add: live_def)

lemma stop_pipes_live: "live ps \<Longrightarrow> stop_pipes True ps = (Ret True, map (\<lambda>(n, _). (n, None)) ps)"
proof (induction ps)
  case (Cons p ps)
  obtain n q where p: "p = (n, Some q)" "gb_thread (app_base q)" using Cons.prems by (auto simp: live_def)
  moreover have "stop_pipes True ps = (Ret True, map (\<lambda>(n, _). (n, None)) ps)" using Cons by (simp add: live_def)
  moreover have "app_base (map_base (\<lambda>_. b) q) = b" for b by (cases q) (simp_all add: map_base_def)
  ultimately show ?case by (simp add: base_stop_def release_app_def Let_def)
qed simp

lemma app_init_live:
  "app_init env a w = (r, a', w') \<Longrightarrow> live (m_pipelines a) \<Longrightarrow> goes_on r \<Longrightarrow> live (m_pipelines a')"
proof (cases "m_pipelines a = []")
  case True
  assume "app_init env a w = (r, a', w')" "goes_on r"
  with app_init_cases [OF _ True] show ?thesis by (fastforce simp: goes_on_def live_def)
next
  case False
  assume "app_init env a w = (r, a', w')" "live (m_pipelines a)"
  with False show ?thesis by (simp add: app_init_def)
qed

lemma start_video_capture_cases:
  assumes "start_video_capture env camera a w = (r, a', w')" and "goes_on r"
  shows "r = Ret True \<or> a' = a"
  using assms by (auto simp: start_video_capture_def Let_def release_app_def goes_on_def
      split: if_splits option.splits prod.splits cam_result.splits)

lemma stop_video_capture_live:
  assumes "stop_video_capture env camera a w = (r, a', w')" and "live (m_pipelines a)"
  shows "live (m_pipelines a')"
proof (cases "map_of (m_pipelines a) (camera @ ''/file0'')")
  case (Some p)
  then obtain q where q: "p = Some q" "gb_thread (app_base q)" using live_SomeD [OF assms(2)] by blast
  show ?thesis
  proof (cases q)
    case (Filesink_pipeline b s)
    have "live (filter P (m_pipelines a))" for P using assms(2) by (auto simp: live_def)
    moreover have "live (smap_put (camera @ ''/file0'') (Some (Filesink_pipeline (b\<lparr>gb_got_eos := x\<rparr>) s')) (m_pipelines a))"
      for x s' using live_put [OF assms(2)] q(2) Filesink_pipeline by simp
    ultimately show ?thesis using assms Some q Filesink_pipeline
      by (auto simp: stop_video_capture_def base_stop_def Let_def split: if_splits prod.splits)
  qed (use assms Some q in \<open>auto simp: stop_video_capture_def split: if_splits\<close>)
qed (use assms in \<open>auto simp: stop_video_capture_def split: if_splits\<close>)

lemma rtp_request_live:
  assumes "rtp_request req env n ip port a w = (r, a', w')" and "live (m_pipelines a)"
  shows "live (m_pipelines a')"
proof -
  have "live (smap_put n (Some (put_element k e p)) (m_pipelines a))" if "map_of (m_pipelines a) n = Some (Some p)" for k e p
  proof -
    have "gb_thread (app_base p)" using live_SomeD [OF assms(2) that] by simp
    then have "gb_thread (app_base (put_element k e p))" by (cases p) (simp_all add: put_element_def)
    with live_put [OF assms(2)] show ?thesis by blast
  qed
  then show ?thesis using assms
    by (auto simp: rtp_request_def Let_def split: if_splits option.splits prod.splits)
qed

lemma app_run_live: "app_run env a \<Longrightarrow> live (m_pipelines a)"
proof (induction rule: app_run.induct)
  case (created c)
  then show ?case by (simp add: opaleye_app_new_def live_def)
next
  case (initialised a w r a' w')
  then show ?case using app_init_live [of env a w r a' w'] by simp
next
  case (started a r a')
  then show ?case using start_pipes_live [of "m_pipelines a"] by (auto simp: app_start_def Let_def)
next
  case (capture a cam w r a' w')
  show ?case
  proof (cases "r = Ret True")
    case True
    obtain b s where "a' = a\<lparr>m_pipelines := smap_insert (cam @ ''/file0'') (Some (Filesink_pipeline b s)) (m_pipelines a)\<rparr>"
      "gb_thread b" using start_video_capture_True [OF capture(2) [unfolded True]] .
    then show ?thesis using capture.IH by (simp add: live_insert)
  next
    case False
    then show ?thesis using start_video_capture_cases [OF capture(2,3)] capture.IH by simp
  qed
next
  case (capture_end a cam w r a' w')
  then show ?case using stop_video_capture_live [OF capture_end(2)] by simp
next
  case (stream a n ip port w r a' w')
  then show ?case using rtp_request_live [OF stream(2) [unfolded start_rtp_stream_def]] by simp
next
  case (stream_end a n ip port w r a' w')
  then show ?case using rtp_request_live [OF stream_end(2) [unfolded stop_rtp_stream_def]] by simp
next
  case (status a w s a')
  then show ?case by (auto simp: get_pipeline_status_def goes_on_def split: option.splits prod.splits)
qed



end
