(* ===== verification/Gst_Elements.thy ===== *)
theory Gst_Elements
  imports Opaleye_App
begin

section \<open>Inside the pipeline elements\<close>

text \<open>
  The classes under \<^verbatim>\<open>src/libs/camera-pipes/pipeline/\<close> that the application's pipelines are
  made of. Each class has a bin of GStreamer elements, made and linked by its \<^verbatim>\<open>init\<close>, and
  gives its neighbours the element to link to (\<^verbatim>\<open>front\<close>) and from (\<^verbatim>\<open>link_back\<close>).
  A \<open>gst_bin\<close> records the elements in the order they are added, as variable and factory, the caps
  given to an element, the properties set in the order of the calls (a time in nanoseconds, an enumeration by
  its name), the links, and the two ends. An element that is created but not added (the JPEG parser of the
  USB camera) is left out, and so are the names of the elements. The caps of the Alvium camera depend on
  its pixel format, the argument \<open>fmt\<close>.

  What a factory's element does to the media type of its input is GStreamer's: it is the argument \<open>T\<close>,
  which gives the type of the output, or \<^const>\<open>None\<close> if the input is not accepted; a source is asked
  with the empty type.
\<close>

type_synonym media = string

datatype gvalue = GBool bool | GInt int | GStr string | GFrac int int | GEnum string

datatype gst_caps = Caps (caps_media: media) (caps_features: string) (caps_fields: "(string \<times> gvalue) list")

record gst_bin =
  be_elems :: "(string \<times> string) list"
  be_caps :: "(string \<times> gst_caps) list"
  be_props :: "(string \<times> string \<times> gvalue) list"
  be_links :: "(string \<times> string) list"
  be_front :: "string option"
  be_back :: "string option"

subsection \<open>Cameras\<close>

definition webcam_bin :: gst_bin where
  "webcam_bin = \<lparr>
     be_elems = [(''m_src'', ''v4l2src''), (''m_in_capsfilter'', ''capsfilter''), (''m_videorate'', ''videorate''),
       (''m_out_capsfilter'', ''capsfilter''), (''m_in_queue'', ''queue''), (''m_out_tee'', ''tee'')],
     be_caps = [(''m_in_capsfilter'', Caps ''image/jpeg'' '''' [(''format'', GStr ''MJPG''), (''pixel-aspect-ratio'', GFrac 1 1),
         (''framerate'', GFrac 30 1), (''width'', GInt 3840), (''height'', GInt 2160)]),
       (''m_out_capsfilter'', Caps ''image/jpeg'' '''' [(''pixel-aspect-ratio'', GFrac 1 1), (''framerate'', GFrac 30 1)])],
     be_props = [(''m_src'', ''do-timestamp'', GBool True), (''m_src'', ''is-live'', GBool True),
       (''m_src'', ''device'', GStr ''/dev/video0''), (''m_src'', ''io-mode'', GInt 2),
       (''m_in_queue'', ''max-size-buffers'', GInt 0), (''m_in_queue'', ''max-size-bytes'', GInt 0),
       (''m_in_queue'', ''max-size-time'', GInt 1000000000)],
     be_links = [(''m_src'', ''m_in_capsfilter''), (''m_in_capsfilter'', ''m_videorate''),
       (''m_videorate'', ''m_out_capsfilter''), (''m_out_capsfilter'', ''m_in_queue''), (''m_in_queue'', ''m_out_tee'')],
     be_front = None, be_back = Some ''m_out_tee''\<rparr>"

definition imx219_bin :: gst_bin where
  "imx219_bin = \<lparr>
     be_elems = [(''m_src'', ''nvarguscamerasrc''), (''m_in_capsfilter'', ''capsfilter''), (''m_in_queue'', ''queue''),
       (''m_out_tee'', ''tee''), (''m_appsink_queue'', ''queue''), (''m_videoconvert'', ''nvvidconv''),
       (''m_appsink_capsfilter'', ''capsfilter''), (''m_appsink'', ''appsink'')],
     be_caps = [(''m_in_capsfilter'', Caps ''video/x-raw'' ''memory:NVMM'' [(''width'', GInt 1920), (''height'', GInt 1080),
         (''format'', GStr ''NV12''), (''framerate'', GFrac 30 1), (''pixel-aspect-ratio'', GFrac 1 1)]),
       (''m_appsink_capsfilter'', Caps ''video/x-raw'' '''' [(''format'', GStr ''NV12'')]),
       (''m_appsink'', Caps ''video/x-raw'' '''' [(''format'', GStr ''NV12'')])],
     be_props = [(''m_src'', ''do-timestamp'', GBool True), (''m_src'', ''is-live'', GBool True),
       (''m_src'', ''sensor-id'', GInt 0), (''m_in_queue'', ''max-size-buffers'', GInt 0),
       (''m_in_queue'', ''max-size-bytes'', GInt 0), (''m_in_queue'', ''max-size-time'', GInt 1000000000),
       (''m_appsink_queue'', ''max-size-buffers'', GInt 4), (''m_appsink_queue'', ''max-size-bytes'', GInt 0),
       (''m_appsink_queue'', ''max-size-time'', GInt 0), (''m_appsink'', ''emit-signals'', GBool True),
       (''m_appsink'', ''drop'', GBool True), (''m_appsink'', ''max-buffers'', GInt 1),
       (''m_appsink'', ''sync'', GBool False)],
     be_links = [(''m_src'', ''m_in_capsfilter''), (''m_in_capsfilter'', ''m_in_queue''), (''m_in_queue'', ''m_out_tee''),
       (''m_out_tee'', ''m_appsink_queue''), (''m_appsink_queue'', ''m_videoconvert''),
       (''m_videoconvert'', ''m_appsink_capsfilter''), (''m_appsink_capsfilter'', ''m_appsink'')],
     be_front = None, be_back = Some ''m_out_tee''\<rparr>"

fun alvium_format :: "u32 \<Rightarrow> string option" where
  "alvium_format fcc =
     (if fcc = PIX_FMT_RGGB then Some ''rggb''
      else if fcc \<in> {PIX_FMT_JXR0, PIX_FMT_JXR2, PIX_FMT_JXY0, PIX_FMT_JXY2} then Some ''GRAY16_LE''
      else if fcc = PIX_FMT_GREY then Some ''GRAY8''
      else if fcc = PIX_FMT_XR24 then Some ''BGRx''
      else None)"

lemma alvium_format_iff: "alvium_format fcc \<noteq> None \<longleftrightarrow> fourcc_supported fcc"
  by (auto simp: fourcc_supported_def)

definition alvium_bin :: "string \<Rightarrow> gst_bin" where
  "alvium_bin fmt = \<lparr>
     be_elems = [(''m_appsrc'', ''appsrc''), (''m_in_queue'', ''queue''), (''m_videoconvert'', ''nvvidconv''),
       (''m_out_capsfilter'', ''capsfilter''), (''m_out_queue'', ''queue''), (''m_out_tee'', ''tee'')],
     be_caps = [(''m_appsrc'', Caps ''video/x-raw'' '''' [(''format'', GStr fmt), (''framerate'', GFrac 0 1),
         (''max-framerate'', GFrac 20 1), (''pixel-aspect-ratio'', GFrac 1 1), (''width'', GInt 2464),
         (''height'', GInt 2056), (''interlace-mode'', GStr ''progressive''), (''colorimetry'', GStr ''sRGB'')]),
       (''m_out_capsfilter'', Caps ''video/x-raw'' ''memory:NVMM'' [(''format'', GStr ''NV12'')])],
     be_props = [(''m_appsrc'', ''is-live'', GBool True), (''m_appsrc'', ''do-timestamp'', GBool True),
       (''m_appsrc'', ''block'', GBool False), (''m_appsrc'', ''min-latency'', GInt 50000000),
       (''m_appsrc'', ''emit-signals'', GBool False), (''m_appsrc'', ''stream-type'', GEnum ''APP_STREAM_TYPE_STREAM''),
       (''m_appsrc'', ''format'', GEnum ''FORMAT_TIME''),
       (''m_in_queue'', ''leaky'', GEnum ''QUEUE_LEAK_DOWNSTREAM''), (''m_in_queue'', ''max-size-buffers'', GInt 15),
       (''m_in_queue'', ''max-size-bytes'', GInt 0), (''m_in_queue'', ''max-size-time'', GInt 0),
       (''m_out_queue'', ''leaky'', GEnum ''QUEUE_LEAK_DOWNSTREAM''), (''m_out_queue'', ''max-size-buffers'', GInt 15),
       (''m_out_queue'', ''max-size-bytes'', GInt 0), (''m_out_queue'', ''max-size-time'', GInt 0)],
     be_links = [(''m_appsrc'', ''m_in_queue''), (''m_in_queue'', ''m_videoconvert''), (''m_videoconvert'', ''m_out_capsfilter''),
       (''m_out_capsfilter'', ''m_out_queue''), (''m_out_queue'', ''m_out_tee'')],
     be_front = None, be_back = Some ''m_out_tee''\<rparr>"

definition testsrc_bin :: gst_bin where
  "testsrc_bin = \<lparr>
     be_elems = [(''m_src'', ''videotestsrc''), (''m_src_capsfilter'', ''capsfilter''), (''m_in_queue'', ''queue''),
       (''m_out_tee'', ''tee'')],
     be_caps = [(''m_src_capsfilter'', Caps ''video/x-raw'' '''' [(''format'', GStr ''I420''), (''framerate'', GFrac 30 1),
         (''width'', GInt 640), (''height'', GInt 480)])],
     be_props = [(''m_src'', ''animation_mode'', GInt 1), (''m_src'', ''is-live'', GBool True),
       (''m_src'', ''motion'', GInt 0), (''m_src'', ''pattern'', GEnum ''VIDEO_TEST_SRC_ZONE_PLATE''),
       (''m_src'', ''kx2'', GInt 20), (''m_src'', ''ky2'', GInt 20), (''m_src'', ''kt'', GInt 1),
       (''m_in_queue'', ''max-size-buffers'', GInt 0), (''m_in_queue'', ''max-size-bytes'', GInt 0),
       (''m_in_queue'', ''max-size-time'', GInt 1000000000)],
     be_links = [(''m_src'', ''m_src_capsfilter''), (''m_src_capsfilter'', ''m_in_queue''), (''m_in_queue'', ''m_out_tee'')],
     be_front = None, be_back = Some ''m_out_tee''\<rparr>"

subsection \<open>Decoders and encoders\<close>

definition jpeg_nvv4l2decoder_bin :: gst_bin where
  "jpeg_nvv4l2decoder_bin = \<lparr>
     be_elems = [(''m_in_queue'', ''queue''), (''m_jpegdec'', ''nvv4l2decoder''), (''m_videoconvert'', ''nvvidconv''),
       (''m_capsfilter'', ''capsfilter''), (''m_out_tee'', ''tee'')],
     be_caps = [(''m_capsfilter'', Caps ''video/x-raw'' '''' [(''format'', GStr ''I420'')])],
     be_props = [(''m_in_queue'', ''max-size-buffers'', GInt 0), (''m_in_queue'', ''max-size-bytes'', GInt 0),
       (''m_in_queue'', ''max-size-time'', GInt 1000000000), (''m_jpegdec'', ''mjpeg'', GInt 1)],
     be_links = [(''m_in_queue'', ''m_jpegdec''), (''m_jpegdec'', ''m_videoconvert''), (''m_videoconvert'', ''m_capsfilter''),
       (''m_capsfilter'', ''m_out_tee'')],
     be_front = Some ''m_in_queue'', be_back = Some ''m_out_tee''\<rparr>"

definition jpeg_swdec_bin :: gst_bin where
  "jpeg_swdec_bin = \<lparr>
     be_elems = [(''m_in_queue'', ''queue''), (''m_jpegdec'', ''jpegdec''), (''m_capsfilter'', ''capsfilter''),
       (''m_out_tee'', ''tee'')],
     be_caps = [(''m_capsfilter'', Caps ''video/x-raw'' '''' [])],
     be_props = [(''m_in_queue'', ''max-size-buffers'', GInt 0), (''m_in_queue'', ''max-size-bytes'', GInt 0),
       (''m_in_queue'', ''max-size-time'', GInt 1000000000)],
     be_links = [(''m_in_queue'', ''m_jpegdec''), (''m_jpegdec'', ''m_capsfilter''), (''m_capsfilter'', ''m_out_tee'')],
     be_front = Some ''m_in_queue'', be_back = Some ''m_out_tee''\<rparr>"

definition h264_nvenc_bin :: gst_bin where
  "h264_nvenc_bin = \<lparr>
     be_elems = [(''m_in_queue'', ''queue''), (''m_videoconvert'', ''nvvidconv''), (''m_omxh264enc'', ''omxh264enc''),
       (''m_h264parse'', ''h264parse''), (''m_capsfilter'', ''capsfilter''), (''m_out_tee'', ''tee'')],
     be_caps = [(''m_capsfilter'', Caps ''video/x-h264'' '''' [(''stream-format'', GStr ''avc''), (''profile'', GStr ''main'')])],
     be_props = [(''m_in_queue'', ''leaky'', GEnum ''QUEUE_LEAK_DOWNSTREAM''),
       (''m_in_queue'', ''max-size-buffers'', GInt 10), (''m_in_queue'', ''max-size-bytes'', GInt 0),
       (''m_in_queue'', ''max-size-time'', GInt 0), (''m_omxh264enc'', ''profile'', GInt 2),
       (''m_omxh264enc'', ''bitrate'', GInt 10000000), (''m_omxh264enc'', ''peak-bitrate'', GInt 12000000),
       (''m_omxh264enc'', ''control-rate'', GInt 2), (''m_omxh264enc'', ''preset-level'', GInt 0),
       (''m_omxh264enc'', ''insert-sps-pps'', GInt 1), (''m_omxh264enc'', ''insert-vui'', GInt 1)],
     be_links = [(''m_in_queue'', ''m_videoconvert''), (''m_videoconvert'', ''m_omxh264enc''), (''m_omxh264enc'', ''m_h264parse''),
       (''m_h264parse'', ''m_capsfilter''), (''m_capsfilter'', ''m_out_tee'')],
     be_front = Some ''m_in_queue'', be_back = Some ''m_out_tee''\<rparr>"

definition h264_swenc_bin :: gst_bin where
  "h264_swenc_bin = \<lparr>
     be_elems = [(''m_in_queue'', ''queue''), (''m_x264enc'', ''x264enc''), (''m_h264parse'', ''h264parse''),
       (''m_capsfilter'', ''capsfilter''), (''m_out_tee'', ''tee'')],
     be_caps = [(''m_capsfilter'', Caps ''video/x-h264'' '''' [(''stream-format'', GStr ''avc''), (''profile'', GStr ''main'')])],
     be_props = [(''m_in_queue'', ''max-size-buffers'', GInt 0), (''m_in_queue'', ''max-size-bytes'', GInt 0),
       (''m_in_queue'', ''max-size-time'', GInt 1000000000), (''m_x264enc'', ''config-interval'', GInt 10),
       (''m_x264enc'', ''insert-vui'', GInt 1), (''m_x264enc'', ''bitrate'', GInt 3000),
       (''m_x264enc'', ''pass'', GInt 0), (''m_x264enc'', ''speed-preset'', GInt 1),
       (''m_x264enc'', ''tune'', GInt 4), (''m_x264enc'', ''bframes'', GInt 0),
       (''m_x264enc'', ''mb-tree'', GBool False), (''m_x264enc'', ''sliced-threads'', GBool True),
       (''m_x264enc'', ''sync-lookahead'', GInt 0), (''m_x264enc'', ''rc-lookahead'', GInt 0)],
     be_links = [(''m_in_queue'', ''m_x264enc''), (''m_x264enc'', ''m_capsfilter''), (''m_capsfilter'', ''m_h264parse''),
       (''m_h264parse'', ''m_out_tee'')],
     be_front = Some ''m_in_queue'', be_back = Some ''m_out_tee''\<rparr>"

subsection \<open>Thumbnails\<close>

definition thumbnail_nv_bin :: gst_bin where
  "thumbnail_nv_bin = \<lparr>
     be_elems = [(''m_in_queue'', ''queue''), (''m_jpegdec'', ''nvv4l2decoder''), (''m_videorate'', ''videorate''),
       (''m_videoscale'', ''nvvidconv''), (''m_scale_queue'', ''queue''), (''m_jpegenc'', ''nvjpegenc''),
       (''m_out_capsfilter'', ''capsfilter''), (''m_appsink'', ''appsink'')],
     be_caps = [(''m_out_capsfilter'', Caps ''image/jpeg'' '''' [(''pixel-aspect-ratio'', GFrac 1 1), (''framerate'', GFrac 1 1),
         (''width'', GInt 640), (''height'', GInt 360)]),
       (''m_appsink'', Caps ''image/jpeg'' '''' [(''pixel-aspect-ratio'', GFrac 1 1), (''width'', GInt 640),
         (''height'', GInt 360)])],
     be_props = [(''m_in_queue'', ''max-size-buffers'', GInt 0), (''m_in_queue'', ''max-size-bytes'', GInt 0),
       (''m_in_queue'', ''max-size-time'', GInt 1000000000), (''m_jpegdec'', ''mjpeg'', GInt 1),
       (''m_scale_queue'', ''max-size-buffers'', GInt 0), (''m_scale_queue'', ''max-size-bytes'', GInt 0),
       (''m_scale_queue'', ''max-size-time'', GInt 1000000000), (''m_jpegenc'', ''quality'', GInt 75),
       (''m_jpegenc'', ''snapshot'', GBool False), (''m_appsink'', ''emit-signals'', GBool True),
       (''m_appsink'', ''drop'', GBool True), (''m_appsink'', ''max-buffers'', GInt 1),
       (''m_appsink'', ''sync'', GBool False)],
     be_links = [(''m_in_queue'', ''m_videorate''), (''m_videorate'', ''m_jpegdec''), (''m_jpegdec'', ''m_videoscale''),
       (''m_videoscale'', ''m_scale_queue''), (''m_scale_queue'', ''m_jpegenc''), (''m_jpegenc'', ''m_out_capsfilter''),
       (''m_out_capsfilter'', ''m_appsink'')],
     be_front = Some ''m_in_queue'', be_back = None\<rparr>"

definition thumbnail_sw_bin :: gst_bin where
  "thumbnail_sw_bin = \<lparr>
     be_elems = [(''m_in_queue'', ''queue''), (''m_videorate'', ''videorate''), (''m_videoscale'', ''videoscale''),
       (''m_scale_queue'', ''queue''), (''m_jpegenc'', ''jpegenc''), (''m_out_capsfilter'', ''capsfilter''),
       (''m_appsink'', ''appsink'')],
     be_caps = [(''m_out_capsfilter'', Caps ''image/jpeg'' '''' [(''pixel-aspect-ratio'', GFrac 1 1), (''framerate'', GFrac 1 1),
         (''width'', GInt 640), (''height'', GInt 360)]),
       (''m_appsink'', Caps ''image/jpeg'' '''' [(''pixel-aspect-ratio'', GFrac 1 1), (''width'', GInt 640),
         (''height'', GInt 360)])],
     be_props = [(''m_in_queue'', ''max-size-buffers'', GInt 0), (''m_in_queue'', ''max-size-bytes'', GInt 0),
       (''m_in_queue'', ''max-size-time'', GInt 1000000000), (''m_scale_queue'', ''max-size-buffers'', GInt 0),
       (''m_scale_queue'', ''max-size-bytes'', GInt 0), (''m_scale_queue'', ''max-size-time'', GInt 1000000000),
       (''m_jpegenc'', ''quality'', GInt 75), (''m_jpegenc'', ''snapshot'', GBool False),
       (''m_appsink'', ''emit-signals'', GBool True), (''m_appsink'', ''drop'', GBool True),
       (''m_appsink'', ''max-buffers'', GInt 1), (''m_appsink'', ''sync'', GBool False)],
     be_links = [(''m_in_queue'', ''m_videorate''), (''m_videorate'', ''m_videoscale''), (''m_videoscale'', ''m_scale_queue''),
       (''m_scale_queue'', ''m_jpegenc''), (''m_jpegenc'', ''m_out_capsfilter''), (''m_out_capsfilter'', ''m_appsink'')],
     be_front = Some ''m_in_queue'', be_back = None\<rparr>"

definition thumbnail_nv3_bin :: gst_bin where
  "thumbnail_nv3_bin = \<lparr>
     be_elems = [(''m_in_queue'', ''queue''), (''m_videorate'', ''videorate''), (''m_videoconv'', ''nvvidconv''),
       (''m_scale_queue'', ''queue''), (''m_jpegenc'', ''nvjpegenc''), (''m_out_capsfilter'', ''capsfilter''),
       (''m_appsink'', ''appsink'')],
     be_caps = [(''m_out_capsfilter'', Caps ''image/jpeg'' '''' [(''pixel-aspect-ratio'', GFrac 1 1), (''framerate'', GFrac 1 1),
         (''width'', GInt 640), (''height'', GInt 360)]),
       (''m_appsink'', Caps ''image/jpeg'' '''' [(''pixel-aspect-ratio'', GFrac 1 1), (''width'', GInt 640),
         (''height'', GInt 360)])],
     be_props = [(''m_in_queue'', ''leaky'', GEnum ''QUEUE_LEAK_DOWNSTREAM''),
       (''m_in_queue'', ''max-size-buffers'', GInt 2), (''m_in_queue'', ''max-size-bytes'', GInt 0),
       (''m_in_queue'', ''max-size-time'', GInt 0),
       (''m_scale_queue'', ''leaky'', GEnum ''QUEUE_LEAK_DOWNSTREAM''),
       (''m_scale_queue'', ''max-size-buffers'', GInt 2), (''m_scale_queue'', ''max-size-bytes'', GInt 0),
       (''m_scale_queue'', ''max-size-time'', GInt 0), (''m_jpegenc'', ''quality'', GInt 75),
       (''m_appsink'', ''emit-signals'', GBool True), (''m_appsink'', ''drop'', GBool True),
       (''m_appsink'', ''max-buffers'', GInt 1), (''m_appsink'', ''sync'', GBool False)],
     be_links = [(''m_in_queue'', ''m_videorate''), (''m_videorate'', ''m_videoconv''), (''m_videoconv'', ''m_scale_queue''),
       (''m_scale_queue'', ''m_jpegenc''), (''m_jpegenc'', ''m_out_capsfilter''), (''m_out_capsfilter'', ''m_appsink'')],
     be_front = Some ''m_in_queue'', be_back = None\<rparr>"

subsection \<open>Streams and overlays\<close>

text \<open>
  The back of the interpipe sink and of the stream sink is none; the stream sink contains the bin of the
  UDP sink, whose ghost pad stands for its queue.
\<close>

definition interpipesink_bin :: gst_bin where
  "interpipesink_bin = \<lparr>
     be_elems = [(''m_in_queue'', ''queue''), (''m_interpipesink'', ''interpipesink'')], be_caps = [],
     be_props = [],
     be_links = [(''m_in_queue'', ''m_interpipesink'')], be_front = Some ''m_in_queue'', be_back = None\<rparr>"

definition rtp_h264_bin :: gst_bin where
  "rtp_h264_bin = \<lparr>
     be_elems = [(''m_in_queue'', ''queue''), (''m_rtph264pay'', ''rtph264pay''), (''m_out_tee'', ''tee'')], be_caps = [],
     be_props = [(''m_in_queue'', ''max-size-buffers'', GInt 0), (''m_in_queue'', ''max-size-bytes'', GInt 0),
       (''m_in_queue'', ''max-size-time'', GInt 1000000000),
       (''m_rtph264pay'', ''config-interval'', GInt (- 1)), (''m_rtph264pay'', ''name'', GStr ''pay0''),
       (''m_rtph264pay'', ''pt'', GInt 96), (''m_rtph264pay'', ''aggregate-mode'', GInt 1)],
     be_links = [(''m_in_queue'', ''m_rtph264pay''), (''m_rtph264pay'', ''m_out_tee'')],
     be_front = Some ''m_in_queue'', be_back = Some ''m_out_tee''\<rparr>"

definition multiudpsink_bin :: gst_bin where
  "multiudpsink_bin = \<lparr>
     be_elems = [(''m_in_queue'', ''queue''), (''m_multiudpsink'', ''multiudpsink'')], be_caps = [],
     be_props = [(''m_in_queue'', ''max-size-buffers'', GInt 0), (''m_in_queue'', ''max-size-bytes'', GInt 0),
       (''m_in_queue'', ''max-size-time'', GInt 1000000000), (''m_multiudpsink'', ''buffer-size'', GInt 14000),
       (''m_multiudpsink'', ''max-lateness'', GInt 500000000),
       (''m_multiudpsink'', ''processing-deadline'', GInt 500000000)],
     be_links = [(''m_in_queue'', ''m_multiudpsink'')], be_front = Some ''m_in_queue'', be_back = None\<rparr>"

definition nested :: "string \<Rightarrow> string \<Rightarrow> string" where
  "nested b v = b @ ''.'' @ v"

definition rtpsink_bin :: gst_bin where
  "rtpsink_bin = (let sub = nested ''m_multiudpsink'' in \<lparr>
     be_elems = [(''m_in_queue'', ''queue''), (''m_rtpbin'', ''rtpbin'')] @ map (\<lambda>(v, f). (sub v, f)) (be_elems multiudpsink_bin),
     be_caps = [],
     be_props = [(''m_in_queue'', ''max-size-buffers'', GInt 0), (''m_in_queue'', ''max-size-bytes'', GInt 0),
       (''m_in_queue'', ''max-size-time'', GInt 1000000000), (''m_rtpbin'', ''do-retransmission'', GBool False)] @
       map (\<lambda>(v, p). (sub v, p)) (be_props multiudpsink_bin),
     be_links = [(''m_in_queue'', ''m_rtpbin''), (''m_rtpbin'', sub (the (be_front multiudpsink_bin)))] @
       map (\<lambda>(a, b). (sub a, sub b)) (be_links multiudpsink_bin),
     be_front = Some ''m_in_queue'', be_back = None\<rparr>)"

definition nvvideoconvert_bin :: gst_bin where
  "nvvideoconvert_bin = \<lparr>
     be_elems = [(''m_nvvidconv'', ''nvvidconv''), (''m_out_tee'', ''tee'')], be_caps = [],
     be_props = [],
     be_links = [(''m_nvvidconv'', ''m_out_tee'')], be_front = Some ''m_nvvidconv'', be_back = Some ''m_out_tee''\<rparr>"

definition timecodestamper_bin :: gst_bin where
  "timecodestamper_bin = \<lparr>
     be_elems = [(''m_timecodestamper'', ''timecodestamper''), (''m_out_tee'', ''tee'')], be_caps = [],
     be_props = [(''m_timecodestamper'', ''first-timecode-to-now'', GBool True),
       (''m_timecodestamper'', ''post-messages'', GBool True)],
     be_links = [(''m_timecodestamper'', ''m_out_tee'')], be_front = Some ''m_timecodestamper'', be_back = Some ''m_out_tee''\<rparr>"

definition timeoverlay_bin :: gst_bin where
  "timeoverlay_bin = \<lparr>
     be_elems = [(''m_timeoverlay'', ''timeoverlay''), (''m_out_tee'', ''tee'')], be_caps = [],
     be_props = [(''m_timeoverlay'', ''time-mode '', GInt 3), (''m_timeoverlay'', ''show-times-as-dates '', GBool False)],
     be_links = [(''m_timeoverlay'', ''m_out_tee'')], be_front = Some ''m_timeoverlay'', be_back = Some ''m_out_tee''\<rparr>"

text \<open>
  The pipeline of a recording has two classes of its own. The muxer is given to the sink by its name, though
  the property takes an element.
\<close>

definition interpipesrc_bin :: gst_bin where
  "interpipesrc_bin = \<lparr>
     be_elems = [(''m_interpipesrc'', ''interpipesrc''), (''m_out_tee'', ''tee'')], be_caps = [],
     be_props = [(''m_interpipesrc'', ''format'', GInt 3), (''m_interpipesrc'', ''stream-type'', GInt 0),
       (''m_interpipesrc'', ''stream-sync'', GInt 0), (''m_interpipesrc'', ''is-live'', GBool True)],
     be_links = [(''m_interpipesrc'', ''m_out_tee'')], be_front = None, be_back = Some ''m_out_tee''\<rparr>"

definition mp4_splitmuxsink_bin :: gst_bin where
  "mp4_splitmuxsink_bin = \<lparr>
     be_elems = [(''m_in_queue'', ''queue''), (''m_splitmuxsink'', ''splitmuxsink'')], be_caps = [],
     be_props = [(''m_in_queue'', ''max-size-buffers'', GInt 0), (''m_in_queue'', ''max-size-bytes'', GInt 0),
       (''m_in_queue'', ''max-size-time'', GInt 10000000000), (''m_splitmuxsink'', ''max-files'', GInt 0),
       (''m_splitmuxsink'', ''max-size-bytes'', GInt 0), (''m_splitmuxsink'', ''max-size-time'', GInt 600000000000),
       (''m_splitmuxsink'', ''muxer'', GStr ''avimux'')],
     be_links = [(''m_in_queue'', ''m_splitmuxsink'')], be_front = Some ''m_in_queue'', be_back = None\<rparr>"

fun bin_of :: "string \<Rightarrow> elem_kind \<Rightarrow> gst_bin" where
  "bin_of fmt V4L2_webcam_pipe = webcam_bin"
| "bin_of fmt Nvac_imx219_pipe = imx219_bin"
| "bin_of fmt V4L2_alvium_pipe = alvium_bin fmt"
| "bin_of fmt Testsrc_pipe = testsrc_bin"
| "bin_of fmt Jpeg_nvv4l2decoder_bin = jpeg_nvv4l2decoder_bin"
| "bin_of fmt Jpeg_swdec_bin = jpeg_swdec_bin"
| "bin_of fmt H264_nvenc_bin = h264_nvenc_bin"
| "bin_of fmt H264_swenc_bin = h264_swenc_bin"
| "bin_of fmt Thumbnail_nv_pipe = thumbnail_nv_bin"
| "bin_of fmt Thumbnail_sw_pipe = thumbnail_sw_bin"
| "bin_of fmt Thumbnail_nv3_pipe = thumbnail_nv3_bin"
| "bin_of fmt GST_interpipesink = interpipesink_bin"
| "bin_of fmt Rtp_h264_pipe = rtp_h264_bin"
| "bin_of fmt Rtpsink_pipe = rtpsink_bin"
| "bin_of fmt Nvvideoconvert_pipe = nvvideoconvert_bin"
| "bin_of fmt Timecodestamper = timecodestamper_bin"
| "bin_of fmt Timeoverlay = timeoverlay_bin"

lemmas bin_defs = webcam_bin_def imx219_bin_def alvium_bin_def testsrc_bin_def jpeg_nvv4l2decoder_bin_def
  jpeg_swdec_bin_def h264_nvenc_bin_def h264_swenc_bin_def thumbnail_nv_bin_def thumbnail_sw_bin_def
  thumbnail_nv3_bin_def interpipesink_bin_def rtp_h264_bin_def multiudpsink_bin_def rtpsink_bin_def
  nvvideoconvert_bin_def timecodestamper_bin_def timeoverlay_bin_def interpipesrc_bin_def mp4_splitmuxsink_bin_def

subsection \<open>The flat graph of a pipeline\<close>

text \<open>
  A node is a variable of the construction function with a variable of its class. A link of the
  application runs from the back of one bin to the front of the other; the links are listed bin by bin
  in the order of the plan, those into a bin before those inside it.
\<close>

type_synonym node = "string \<times> string"

definition bin_at :: "string \<Rightarrow> pipe_plan \<Rightarrow> string \<Rightarrow> gst_bin" where
  "bin_at fmt plan v = bin_of fmt (fst (the (map_of (pp_elems plan) v)))"

definition flat_elems :: "string \<Rightarrow> pipe_plan \<Rightarrow> (node \<times> string) list" where
  "flat_elems fmt plan = concat (map (\<lambda>v. map (\<lambda>(x, f). ((v, x), f)) (be_elems (bin_at fmt plan v))) (pp_bin plan))"

definition app_link :: "string \<Rightarrow> pipe_plan \<Rightarrow> string \<times> string \<Rightarrow> node \<times> node" where
  "app_link fmt plan l = (case l of (a, b) \<Rightarrow> ((a, the (be_back (bin_at fmt plan a))), (b, the (be_front (bin_at fmt plan b)))))"

definition flat_links :: "string \<Rightarrow> pipe_plan \<Rightarrow> (node \<times> node) list" where
  "flat_links fmt plan = concat (map (\<lambda>v. map (app_link fmt plan) (filter (\<lambda>l. snd l = v) (pp_links plan)) @
     map (\<lambda>(x, y). ((v, x), (v, y))) (be_links (bin_at fmt plan v))) (pp_bin plan))"

text \<open>
  Every call of \<^verbatim>\<open>link\<close> finds its pads free: the ends of a link exist and were added, no element
  is fed twice, and only a tee has more than one output.
\<close>

definition well_linked :: "string \<Rightarrow> pipe_plan \<Rightarrow> bool" where
  "well_linked fmt plan \<longleftrightarrow>
     list_all (\<lambda>(a, b). be_back (bin_at fmt plan a) \<noteq> None \<and> be_front (bin_at fmt plan b) \<noteq> None) (pp_links plan) \<and>
     distinct (map fst (flat_elems fmt plan)) \<and>
     list_all (\<lambda>(a, b). a \<in> fst ` set (flat_elems fmt plan) \<and> b \<in> fst ` set (flat_elems fmt plan)) (flat_links fmt plan) \<and>
     distinct (map snd (flat_links fmt plan)) \<and>
     distinct (filter (\<lambda>a. map_of (flat_elems fmt plan) a \<noteq> Some ''tee'') (map fst (flat_links fmt plan)))"

text \<open>It is enough to look at each bin alone and at the links of the application.\<close>

definition bin_ok :: "gst_bin \<Rightarrow> bool" where
  "bin_ok b \<longleftrightarrow> distinct (map fst (be_elems b)) \<and>
     list_all (\<lambda>(x, y). x \<in> fst ` set (be_elems b) \<and> y \<in> fst ` set (be_elems b)) (be_links b) \<and>
     distinct (map snd (be_links b)) \<and>
     distinct (filter (\<lambda>x. map_of (be_elems b) x \<noteq> Some ''tee'') (map fst (be_links b))) \<and>
     (case be_front b of None \<Rightarrow> True | Some x \<Rightarrow> x \<in> fst ` set (be_elems b) \<and> x \<notin> snd ` set (be_links b)) \<and>
     (case be_back b of None \<Rightarrow> True | Some x \<Rightarrow> map_of (be_elems b) x = Some ''tee'')"

definition plan_ok :: "string \<Rightarrow> pipe_plan \<Rightarrow> bool" where
  "plan_ok fmt plan \<longleftrightarrow> distinct (pp_bin plan) \<and> distinct (map snd (pp_links plan)) \<and>
     list_all (\<lambda>(a, b). a \<in> set (pp_bin plan) \<and> b \<in> set (pp_bin plan) \<and>
       be_back (bin_at fmt plan a) \<noteq> None \<and> be_front (bin_at fmt plan b) \<noteq> None) (pp_links plan)"

lemma bins_ok: "bin_ok (bin_of fmt k)"
  by (cases k) (simp_all only: bin_of.simps, code_simp+)

lemma plans_ok: "plan_ok fmt (brio_plan c nv)" "plan_ok fmt (imx219_plan c)" "plan_ok fmt (alvium_plan c)" "plan_ok fmt (virtual_plan c nv)"
proof -
  show "plan_ok fmt (brio_plan c nv)" by (cases nv) (simp_all only:, code_simp+)
  show "plan_ok fmt (imx219_plan c)" by code_simp
  show "plan_ok fmt (alvium_plan c)" by code_simp
  show "plan_ok fmt (virtual_plan c nv)" by (cases nv) (simp_all only:, code_simp+)
qed

lemma bins_at_ok: "bin_ok (bin_at fmt plan v)"
  by (simp add: bin_at_def bins_ok)

lemma distinct_concat_pairs:
  "distinct vs \<Longrightarrow> (\<And>v. v \<in> set vs \<Longrightarrow> distinct (f v)) \<Longrightarrow> distinct (concat (map (\<lambda>v. map (Pair v) (f v)) vs))"
  by (induction vs) (auto simp: distinct_map inj_on_def)

lemma map_of_concat_pairs:
  "v \<in> set vs \<Longrightarrow> distinct vs \<Longrightarrow>
     map_of (concat (map (\<lambda>v. map (\<lambda>(x, f). ((v, x), f)) (g v)) vs)) (v, x) = map_of (g v) x"
proof (induction vs)
  case (Cons u vs)
  have h: "map_of (map (\<lambda>(x, f). ((u, x), f)) xs) (v, x) = (if u = v then map_of xs x else None)" for xs
    by (induction xs) auto
  have n: "map_of (concat (map (\<lambda>v. map (\<lambda>(x, f). ((v, x), f)) (g v)) vs)) (v, x) = None" if "v \<notin> set vs"
    using that by (auto simp: map_of_eq_None_iff)
  show ?case using Cons h [of "g u"] n by (cases "u = v") (auto simp: map_add_def split: option.splits)
qed simp

lemma filter_snd_single: "distinct (map snd ls) \<Longrightarrow> filter (\<lambda>l. snd l = v) ls = [] \<or> (\<exists>a. filter (\<lambda>l. snd l = v) ls = [(a, v)])"
proof (induction ls)
  case (Cons l ls)
  have "filter (\<lambda>l. snd l = v) ls = []" if "snd l = v"
    using Cons.prems that by (auto simp: filter_empty_conv image_iff)
  then show ?case using Cons by (cases l) auto
qed simp

lemma flat_elems_fst:
  "map fst (flat_elems fmt plan) = concat (map (\<lambda>v. map (Pair v) (map fst (be_elems (bin_at fmt plan v)))) (pp_bin plan))"
  by (simp add: flat_elems_def map_concat comp_def case_prod_unfold)

lemma flat_elems_mem: "(v, x) \<in> fst ` set (flat_elems fmt plan) \<longleftrightarrow> v \<in> set (pp_bin plan) \<and> x \<in> fst ` set (be_elems (bin_at fmt plan v))"
  using arg_cong [OF flat_elems_fst [of fmt plan], of set] by auto

lemma flat_links_cases:
  assumes "(n, m) \<in> set (flat_links fmt plan)"
  obtains (app) a b where "(a, b) \<in> set (pp_links plan)" "n = (a, the (be_back (bin_at fmt plan a)))" "m = (b, the (be_front (bin_at fmt plan b)))"
  | (inner) v x y where "v \<in> set (pp_bin plan)" "(x, y) \<in> set (be_links (bin_at fmt plan v))" "n = (v, x)" "m = (v, y)"
  using assms by (auto simp: flat_links_def app_link_def)

text \<open>What a construction function promises of its plan, with the bins of the classes it uses.\<close>

locale linked_plan =
  fixes fmt :: string and plan :: pipe_plan
  assumes plan_fits: "plan_ok fmt plan"
begin

lemma bins_distinct: "distinct (pp_bin plan)" and links_distinct: "distinct (map snd (pp_links plan))"
  using plan_fits by (auto simp: plan_ok_def)

lemma link_ends:
  assumes "(a, c) \<in> set (pp_links plan)"
  shows "a \<in> set (pp_bin plan) \<and> c \<in> set (pp_bin plan) \<and> be_back (bin_at fmt plan a) \<noteq> None \<and>
    be_front (bin_at fmt plan c) \<noteq> None"
  using plan_fits assms by (auto simp: plan_ok_def list_all_iff)

lemma link_tee_front:
  assumes "(a, c) \<in> set (pp_links plan)"
  shows "map_of (be_elems (bin_at fmt plan a)) (the (be_back (bin_at fmt plan a))) = Some ''tee''"
    and "the (be_front (bin_at fmt plan c)) \<in> fst ` set (be_elems (bin_at fmt plan c))"
    and "the (be_front (bin_at fmt plan c)) \<notin> snd ` set (be_links (bin_at fmt plan c))"
  using link_ends [OF assms] bins_at_ok [of fmt plan a] bins_at_ok [of fmt plan c] unfolding bin_ok_def
  by (elim conjE exE, force split: option.splits)+

lemma ends_added:
  assumes "(n, m) \<in> set (flat_links fmt plan)"
  shows "n \<in> fst ` set (flat_elems fmt plan) \<and> m \<in> fst ` set (flat_elems fmt plan)"
  using assms
proof (cases rule: flat_links_cases)
  case (app a c)
  have "the (be_back (bin_at fmt plan a)) \<in> fst ` set (be_elems (bin_at fmt plan a))"
    using map_of_SomeD [OF link_tee_front(1) [OF app(1)]] by (force simp: image_iff)
  then show ?thesis using app link_ends [OF app(1)] link_tee_front [OF app(1)] by (simp add: flat_elems_mem)
next
  case (inner v x y)
  then show ?thesis using bins_at_ok [of fmt plan v] by (auto simp: flat_elems_mem bin_ok_def list_all_iff)
qed

lemma elems_distinct: "distinct (map fst (flat_elems fmt plan))"
  unfolding flat_elems_fst using bins_distinct bins_at_ok by (intro distinct_concat_pairs) (auto simp: bin_ok_def)

lemma inputs_of_bin: "distinct (map (\<lambda>l. the (be_front (bin_at fmt plan v))) (filter (\<lambda>l. snd l = v) (pp_links plan)) @
    map snd (be_links (bin_at fmt plan v)))"
  using filter_snd_single [OF links_distinct, of v]
proof
  assume "\<exists>a. filter (\<lambda>l. snd l = v) (pp_links plan) = [(a, v)]"
  then obtain a where a: "filter (\<lambda>l. snd l = v) (pp_links plan) = [(a, v)]" ..
  then have "(a, v) \<in> set (filter (\<lambda>l. snd l = v) (pp_links plan))" by simp
  then have "(a, v) \<in> set (pp_links plan)" by (simp only: set_filter mem_Collect_eq)
  with link_tee_front(3) [of a v] bins_at_ok [of fmt plan v] show ?thesis unfolding a by (simp add: bin_ok_def)
qed (use bins_at_ok [of fmt plan v] in \<open>simp add: bin_ok_def\<close>)

lemma inputs_once: "distinct (map snd (flat_links fmt plan))"
proof -
  have f: "map (\<lambda>x. snd (app_link fmt plan x)) (filter (\<lambda>l. snd l = v) ls) =
      map (\<lambda>l. (v, the (be_front (bin_at fmt plan v)))) (filter (\<lambda>l. snd l = v) ls)" for v ls
    by (induction ls) (auto simp: app_link_def)
  have "map snd (flat_links fmt plan) = concat (map (\<lambda>v. map (Pair v) (map (\<lambda>l. the (be_front (bin_at fmt plan v)))
      (filter (\<lambda>l. snd l = v) (pp_links plan)) @ map snd (be_links (bin_at fmt plan v)))) (pp_bin plan))"
    by (simp add: flat_links_def map_concat comp_def case_prod_unfold f)
  then show ?thesis using bins_distinct inputs_of_bin by (simp only:) (intro distinct_concat_pairs)
qed

lemma outputs_once: "distinct (filter (\<lambda>a. map_of (flat_elems fmt plan) a \<noteq> Some ''tee'') (map fst (flat_links fmt plan)))"
proof -
  let ?P = "\<lambda>a. map_of (flat_elems fmt plan) a \<noteq> Some ''tee''"
  have m: "map_of (flat_elems fmt plan) (v, x) = map_of (be_elems (bin_at fmt plan v)) x" if "v \<in> set (pp_bin plan)" for v x
    unfolding flat_elems_def using map_of_concat_pairs [OF that bins_distinct] .
  have app: "filter ?P (map fst (map (app_link fmt plan) (filter (\<lambda>l. snd l = v) (pp_links plan)))) = []" for v
    using link_ends link_tee_front(1) by (auto simp: filter_empty_conv app_link_def m)
  have inner: "filter ?P (map fst (map (\<lambda>(x, y). ((v, x), (v, y))) ls)) =
      map (Pair v) (filter (\<lambda>x. map_of (be_elems (bin_at fmt plan v)) x \<noteq> Some ''tee'') (map fst ls))"
    if "v \<in> set (pp_bin plan)" for v ls
    using m [OF that] by (induction ls) auto
  have "filter ?P (map fst (flat_links fmt plan)) = concat (map (\<lambda>v. map (Pair v)
      (filter (\<lambda>x. map_of (be_elems (bin_at fmt plan v)) x \<noteq> Some ''tee'') (map fst (be_links (bin_at fmt plan v))))) (pp_bin plan))"
    unfolding flat_links_def map_concat filter_concat list.map_comp
    by (rule arg_cong [where f = concat], rule map_cong [OF refl],
        simp only: comp_apply map_append filter_append app inner append_Nil)
  moreover have "distinct (filter (\<lambda>x. map_of (be_elems (bin_at fmt plan v)) x \<noteq> Some ''tee'')
      (map fst (be_links (bin_at fmt plan v))))" for v
    using bins_at_ok [of fmt plan v] by (simp only: bin_ok_def)
  ultimately show ?thesis using bins_distinct by (simp only:) (intro distinct_concat_pairs)
qed

lemma linked: "well_linked fmt plan"
  using ends_added elems_distinct inputs_once outputs_once link_ends by (auto simp: well_linked_def list_all_iff)

end

interpretation brio: linked_plan fmt "brio_plan c nv" for fmt c nv
  by unfold_locales (rule plans_ok)

interpretation imx219: linked_plan fmt "imx219_plan c" for fmt c
  by unfold_locales (rule plans_ok)

interpretation alvium: linked_plan fmt "alvium_plan c" for fmt c
  by unfold_locales (rule plans_ok)

interpretation virtual: linked_plan fmt "virtual_plan c nv" for fmt c nv
  by unfold_locales (rule plans_ok)

lemmas plans_well_linked = brio.linked imx219.linked alvium.linked virtual.linked

subsection \<open>Queue limits\<close>

text \<open>
  The limits of a queue in buffers, bytes and time: the last value set, or else the default \<open>D\<close> of
  GStreamer; zero stands for no limit.
\<close>

definition last_set :: "gst_bin \<Rightarrow> string \<Rightarrow> string \<Rightarrow> gvalue option" where
  "last_set b x p = map_option (snd \<circ> snd) (find (\<lambda>(y, q, _). y = x \<and> q = p) (rev (be_props b)))"

definition queue_limit :: "(string \<Rightarrow> int) \<Rightarrow> gst_bin \<Rightarrow> string \<Rightarrow> string \<Rightarrow> int" where
  "queue_limit D b x p = (case last_set b x p of Some (GInt n) \<Rightarrow> n | _ \<Rightarrow> D p)"

definition leaky :: "gst_bin \<Rightarrow> string \<Rightarrow> bool" where
  "leaky b x \<longleftrightarrow> last_set b x ''leaky'' = Some (GEnum ''QUEUE_LEAK_DOWNSTREAM'')"

definition queue_bounded :: "(string \<Rightarrow> int) \<Rightarrow> gst_bin \<Rightarrow> string \<Rightarrow> bool" where
  "queue_bounded D b x \<longleftrightarrow>
     (let n = queue_limit D b x ''max-size-buffers''; s = queue_limit D b x ''max-size-bytes'';
          t = queue_limit D b x ''max-size-time''
      in if leaky b x then 0 < n \<and> n \<le> 15 \<and> s = 0 \<and> t = 0
         else (n = 0 \<and> s = 0 \<and> t = 1000000000) \<or> (n = 4 \<and> s = 0 \<and> t = 0) \<or>
           (\<forall>p \<in> {''max-size-buffers'', ''max-size-bytes'', ''max-size-time''}. queue_limit D b x p = D p))"

lemma bins_queues: "list_all (\<lambda>(x, f). f = ''queue'' \<longrightarrow> queue_bounded D (bin_of fmt k) x) (be_elems (bin_of fmt k))"
  by (cases k) (simp_all add: bin_defs queue_bounded_def queue_limit_def leaky_def last_set_def nested_def)

text \<open>
  So no queue of a pipeline can grow without limit: it drops at fifteen buffers at most, or blocks at one second,
  at four buffers or at the library's default.
\<close>

lemma plan_queues_bounded:
  assumes "((v, x), ''queue'') \<in> set (flat_elems fmt plan)"
  shows "queue_bounded D (bin_at fmt plan v) x"
  using assms bins_queues [of D fmt] by (auto simp: flat_elems_def bin_at_def list_all_iff)

subsection \<open>Media types\<close>

definition accept :: "(string \<Rightarrow> media \<Rightarrow> media option) \<Rightarrow> gst_bin \<Rightarrow> string \<Rightarrow> media \<Rightarrow> media option" where
  "accept T b x m = (case map_of (be_elems b) x of
     None \<Rightarrow> None
   | Some f \<Rightarrow> (case map_of (be_caps b) x of None \<Rightarrow> T f m | Some c \<Rightarrow> if caps_media c = m then T f m else None))"

text \<open>
  The output types of the elements of a bin: the front gets the input, a bin without one has a source,
  its first element, whose caps fix the type if it has any.
\<close>

definition bin_start :: "(string \<Rightarrow> media \<Rightarrow> media option) \<Rightarrow> gst_bin \<Rightarrow> media option \<Rightarrow> string \<times> media option" where
  "bin_start T b inp = (case be_front b of
     Some x \<Rightarrow> (x, Option.bind inp (accept T b x))
   | None \<Rightarrow> (let (x, f) = hd (be_elems b) in
       (x, case map_of (be_caps b) x of Some c \<Rightarrow> Some (caps_media c) | None \<Rightarrow> T f [])))"

definition bin_flow :: "(string \<Rightarrow> media \<Rightarrow> media option) \<Rightarrow> gst_bin \<Rightarrow> media option \<Rightarrow> string \<Rightarrow> media option" where
  "bin_flow T b inp = (let (x, m) = bin_start T b inp in
     fold (\<lambda>(x, y) M. M(y := Option.bind (M x) (accept T b y))) (be_links b) ((\<lambda>_. None)(x := m)))"

definition bin_output :: "(string \<Rightarrow> media \<Rightarrow> media option) \<Rightarrow> gst_bin \<Rightarrow> media option \<Rightarrow> media option" where
  "bin_output T b inp = (case be_back b of None \<Rightarrow> None | Some x \<Rightarrow> bin_flow T b inp x)"

definition feeder :: "pipe_plan \<Rightarrow> string \<Rightarrow> string option" where
  "feeder plan v = map_option fst (find (\<lambda>l. snd l = v) (pp_links plan))"

text \<open>The input types of the bins, in the order of the plan.\<close>

definition plan_inputs :: "(string \<Rightarrow> media \<Rightarrow> media option) \<Rightarrow> string \<Rightarrow> pipe_plan \<Rightarrow> string \<Rightarrow> media option" where
  "plan_inputs T fmt plan = fold (\<lambda>v I. I(v := Option.bind (feeder plan v) (\<lambda>a. bin_output T (bin_at fmt plan a) (I a))))
     (pp_bin plan) (\<lambda>_. None)"

definition bin_fed :: "(string \<Rightarrow> media \<Rightarrow> media option) \<Rightarrow> gst_bin \<Rightarrow> media option \<Rightarrow> bool" where
  "bin_fed T b inp \<longleftrightarrow> list_all (\<lambda>(x, _). bin_flow T b inp x \<noteq> None) (be_elems b)"

text \<open>What GStreamer documents of the factories used, as far as the media types go.\<close>

definition media_laws :: "(string \<Rightarrow> media \<Rightarrow> media option) \<Rightarrow> bool" where
  "media_laws T \<longleftrightarrow>
     (\<forall>m. T ''queue'' m = Some m \<and> T ''tee'' m = Some m \<and> T ''capsfilter'' m = Some m \<and> T ''appsink'' m = Some m \<and>
       T ''interpipesink'' m = Some m \<and> T ''multiudpsink'' m = Some m) \<and>
     T ''splitmuxsink'' ''video/x-h264'' = Some ''video/x-h264'' \<and>
     T ''v4l2src'' [] = Some ''image/jpeg'' \<and> T ''nvarguscamerasrc'' [] = Some ''video/x-raw'' \<and>
     T ''videotestsrc'' [] = Some ''video/x-raw'' \<and>
     T ''videorate'' ''video/x-raw'' = Some ''video/x-raw'' \<and> T ''videorate'' ''image/jpeg'' = Some ''image/jpeg'' \<and>
     T ''videoscale'' ''video/x-raw'' = Some ''video/x-raw'' \<and> T ''videoscale'' ''image/jpeg'' = None \<and>
     T ''nvvidconv'' ''video/x-raw'' = Some ''video/x-raw'' \<and>
     T ''timecodestamper'' ''video/x-raw'' = Some ''video/x-raw'' \<and> T ''timeoverlay'' ''video/x-raw'' = Some ''video/x-raw'' \<and>
     T ''jpegdec'' ''image/jpeg'' = Some ''video/x-raw'' \<and> T ''nvv4l2decoder'' ''image/jpeg'' = Some ''video/x-raw'' \<and>
     T ''jpegenc'' ''video/x-raw'' = Some ''image/jpeg'' \<and> T ''nvjpegenc'' ''video/x-raw'' = Some ''image/jpeg'' \<and>
     T ''x264enc'' ''video/x-raw'' = Some ''video/x-h264'' \<and> T ''omxh264enc'' ''video/x-raw'' = Some ''video/x-h264'' \<and>
     T ''h264parse'' ''video/x-h264'' = Some ''video/x-h264'' \<and>
     T ''rtph264pay'' ''video/x-h264'' = Some ''application/x-rtp'' \<and>
     T ''rtpbin'' ''application/x-rtp'' = Some ''application/x-rtp''"

lemmas flow_defs = bin_fed_def bin_output_def bin_flow_def bin_start_def accept_def media_laws_def nested_def

lemma bins_flow:
  assumes "media_laws T"
  shows "bin_fed T webcam_bin None" "bin_output T webcam_bin None = Some ''image/jpeg''"
    and "bin_fed T imx219_bin None" "bin_output T imx219_bin None = Some ''video/x-raw''"
    and "bin_fed T (alvium_bin fmt) None" "bin_output T (alvium_bin fmt) None = Some ''video/x-raw''"
    and "bin_fed T testsrc_bin None" "bin_output T testsrc_bin None = Some ''video/x-raw''"
    and "bin_fed T jpeg_nvv4l2decoder_bin (Some ''image/jpeg'')"
      "bin_output T jpeg_nvv4l2decoder_bin (Some ''image/jpeg'') = Some ''video/x-raw''"
    and "bin_fed T jpeg_swdec_bin (Some ''image/jpeg'')" "bin_output T jpeg_swdec_bin (Some ''image/jpeg'') = Some ''video/x-raw''"
    and "bin_fed T h264_nvenc_bin (Some ''video/x-raw'')" "bin_output T h264_nvenc_bin (Some ''video/x-raw'') = Some ''video/x-h264''"
    and "bin_fed T h264_swenc_bin (Some ''video/x-raw'')" "bin_output T h264_swenc_bin (Some ''video/x-raw'') = Some ''video/x-h264''"
    and "bin_fed T thumbnail_nv_bin (Some ''image/jpeg'')" and "bin_fed T thumbnail_sw_bin (Some ''video/x-raw'')"
    and "bin_fed T thumbnail_nv3_bin (Some ''video/x-raw'')"
    and "bin_fed T interpipesink_bin (Some m)"
    and "bin_fed T rtp_h264_bin (Some ''video/x-h264'')" "bin_output T rtp_h264_bin (Some ''video/x-h264'') = Some ''application/x-rtp''"
    and "bin_fed T rtpsink_bin (Some ''application/x-rtp'')"
    and "bin_fed T nvvideoconvert_bin (Some ''video/x-raw'')"
      "bin_output T nvvideoconvert_bin (Some ''video/x-raw'') = Some ''video/x-raw''"
    and "bin_fed T timecodestamper_bin (Some ''video/x-raw'')"
      "bin_output T timecodestamper_bin (Some ''video/x-raw'') = Some ''video/x-raw''"
    and "bin_fed T timeoverlay_bin (Some ''video/x-raw'')" "bin_output T timeoverlay_bin (Some ''video/x-raw'') = Some ''video/x-raw''"
  using assms by (simp_all add: flow_defs bin_defs)

lemma jpeg_into_scaler:
  assumes "media_laws T"
  shows "\<not> bin_fed T thumbnail_sw_bin (Some ''image/jpeg'')"
    and "bin_flow T thumbnail_sw_bin (Some ''image/jpeg'') ''m_appsink'' = None"
  using assms by (simp_all add: flow_defs bin_defs)

definition plan_for :: "app_config \<Rightarrow> camera_config \<Rightarrow> pipeline_config \<Rightarrow> pipe_plan" where
  "plan_for cfg cam pipe =
     (if pl_type pipe = ''brio'' then brio_plan (cc_name cam) (h264_mode cfg = ''nv'')
      else if pl_type pipe = ''imx219'' then imx219_plan (cc_name cam)
      else if pl_type pipe = ''alvium'' then alvium_plan (cc_name cam)
      else virtual_plan (cc_name cam) (h264_mode cfg = ''nv''))"

definition plan_negotiates :: "(string \<Rightarrow> media \<Rightarrow> media option) \<Rightarrow> string \<Rightarrow> pipe_plan \<Rightarrow> bool" where
  "plan_negotiates T fmt plan \<longleftrightarrow> list_all (\<lambda>v. bin_fed T (bin_at fmt plan v) (plan_inputs T fmt plan v)) (pp_bin plan)"

text \<open>
  A recording's source gives the type that reaches the sink it listens to, of another pipeline.
\<close>

definition recording_fed :: "(string \<Rightarrow> media \<Rightarrow> media option) \<Rightarrow> media option \<Rightarrow> bool" where
  "recording_fed T m = (let T' = T(''interpipesrc'' := (\<lambda>_. m)) in
     bin_fed T' interpipesrc_bin None \<and> bin_fed T' mp4_splitmuxsink_bin (bin_output T' interpipesrc_bin None))"

lemma recording_h264: "media_laws T \<Longrightarrow> recording_fed T (Some ''video/x-h264'')"
  by (simp add: recording_fed_def flow_defs bin_defs)

lemma plans_negotiate:
  assumes "media_laws T"
  shows "plan_negotiates T fmt (brio_plan c True)" and "plan_negotiates T fmt (imx219_plan c)"
    and "plan_negotiates T fmt (alvium_plan c)" and "plan_negotiates T fmt (virtual_plan c nv)"
  by (simp_all add: plan_negotiates_def plan_inputs_def feeder_def bin_at_def brio_plan_def imx219_plan_def
      alvium_plan_def virtual_plan_def bins_flow [OF assms])

lemma plan_inputs_fixed:
  assumes "media_laws T"
  shows "plan_inputs T fmt (brio_plan c nv) ''m_h264_interpipesink'' = Some ''video/x-h264''"
    and "plan_inputs T fmt (imx219_plan c) ''m_h264_interpipesink'' = Some ''video/x-h264''"
    and "plan_inputs T fmt (alvium_plan c) ''m_h264_interpipesink'' = Some ''video/x-h264''"
    and "plan_inputs T fmt (virtual_plan c nv) ''m_h264_interpipesink'' = Some ''video/x-h264''"
    and "plan_inputs T fmt (brio_plan c False) ''m_thumb'' = Some ''image/jpeg''"
  by (simp_all add: plan_inputs_def feeder_def bin_at_def brio_plan_def imx219_plan_def
      alvium_plan_def virtual_plan_def bins_flow [OF assms])

lemma make_pipeline_for:
  assumes "make_pipeline env cfg cam pipe gst_graph_new w = (CamTrue, g, w')"
  obtains par upd checked where
    "build_pipeline env par (plan_for cfg cam pipe) upd checked gst_graph_new w = (CamTrue, g, w')"
  using assms that
  by (auto simp: make_pipeline_def plan_for_def make_brio_pipeline_def make_imx219_pipeline_def make_virtual_pipeline_def
      make_alvium_pipeline_def Let_def split: if_splits option.splits)


definition demo_media :: "string \<Rightarrow> media \<Rightarrow> media option" where
  "demo_media f m =
     (if f \<in> {''queue'', ''tee'', ''capsfilter'', ''appsink'', ''interpipesink'', ''multiudpsink'', ''videorate'', ''h264parse'', ''rtpbin'',
        ''splitmuxsink''}
      then Some m
      else if f = ''v4l2src'' then Some ''image/jpeg''
      else if f \<in> {''jpegenc'', ''nvjpegenc''} then Some ''image/jpeg''
      else if f \<in> {''x264enc'', ''omxh264enc''} then Some ''video/x-h264''
      else if f = ''rtph264pay'' then Some ''application/x-rtp''
      else if f = ''videoscale'' \<and> m \<noteq> ''video/x-raw'' then None
      else Some ''video/x-raw'')"

lemma demo_media_laws: "media_laws demo_media"
  by (simp add: media_laws_def demo_media_def)


end
