(* ===== verification/Still_Images.thy ===== *)
theory Still_Images
  imports Http_Handlers Message_Servers Gst_Elements
begin

section \<open>Still images and live frames\<close>

text \<open>
  How the encoded frames leave the pipelines: the new-sample handlers of the thumbnail classes
  (\<^verbatim>\<open>src/libs/camera-pipes/pipeline/Thumbnail_sw_pipe.cpp\<close>, \<^verbatim>\<open>Thumbnail_nv_pipe.cpp\<close>,
  \<^verbatim>\<open>Thumbnail_nv3_pipe.cpp\<close>) and of the CSI camera (\<^verbatim>\<open>camera/nvac_imx219_pipe.cpp\<close>), which copy
  the memory blocks of a GStreamer buffer into the frame kept by the object, the access of the HTTP
  threads to that frame, and the callback of \<^verbatim>\<open>main.cpp\<close> that publishes the camera's frames.

  A buffer is what the library reports of it: its size and the contents of its blocks. The pointer to the
  output is an offset into the frame, and a copy that leaves the frame is undefined behaviour, the
  value \<^const>\<open>None\<close>. A null pointer is \<^const>\<open>None\<close> too, as a frame or as an output argument. The frame
  is used under its mutex only, so every handler and every access is one step.
\<close>

record gst_buffer =
  gb_size :: nat
  gb_blocks :: "string list"

definition vec_resize :: "nat \<Rightarrow> string \<Rightarrow> string" where
  "vec_resize n v = take n v @ replicate (n - length v) (CHR 0x00)"

definition copy_n :: "string \<Rightarrow> nat \<Rightarrow> string \<Rightarrow> string option" where
  "copy_n blk out v =
     (if out + length blk \<le> length v then Some (take out v @ blk @ drop (out + length blk) v) else None)"

fun copy_blocks :: "string list \<Rightarrow> nat \<Rightarrow> string \<Rightarrow> string option" where
  "copy_blocks [] out v = Some v"
| "copy_blocks (b # bs) out v = Option.bind (copy_n b out v) (copy_blocks bs (out + length b))"

definition store_sample :: "gst_buffer \<Rightarrow> string option \<Rightarrow> string option option" where
  "store_sample b fb = (case fb of
     None \<Rightarrow> None
   | Some v \<Rightarrow> map_option Some (copy_blocks (gb_blocks b) 0 (vec_resize (gb_size b) v)))"

subsection \<open>The thumbnail classes\<close>

definition sw_handle_new_sample :: "gst_buffer option \<Rightarrow> string option \<Rightarrow> string option option" where
  "sw_handle_new_sample sample fb = (case sample of None \<Rightarrow> Some fb | Some b \<Rightarrow> store_sample b fb)"

definition nv_handle_new_sample :: "gst_buffer option \<Rightarrow> string option \<Rightarrow> string option option" where
  "nv_handle_new_sample sample fb = (case sample of None \<Rightarrow> Some fb | Some b \<Rightarrow> store_sample b fb)"

definition nv3_handle_new_sample :: "gst_buffer option \<Rightarrow> string option \<Rightarrow> string option option" where
  "nv3_handle_new_sample sample fb = (case sample of None \<Rightarrow> Some fb | Some b \<Rightarrow> store_sample b fb)"

text \<open>The software class clears the output if it or the frame is null, the others leave it.\<close>

definition sw_copy_frame_buffer :: "string option \<Rightarrow> string option \<Rightarrow> string option option" where
  "sw_copy_frame_buffer fb out = (case (fb, out) of
     (Some v, Some _) \<Rightarrow> Some (Some v)
   | (_, Some _) \<Rightarrow> Some (Some [])
   | (_, None) \<Rightarrow> None)"

definition nv_copy_frame_buffer :: "string option \<Rightarrow> string option \<Rightarrow> string option option" where
  "nv_copy_frame_buffer fb out = (case (fb, out) of (Some v, Some _) \<Rightarrow> Some (Some v) | _ \<Rightarrow> Some out)"

definition nv3_copy_frame_buffer :: "string option \<Rightarrow> string option \<Rightarrow> string option option" where
  "nv3_copy_frame_buffer fb out = (case (fb, out) of (Some v, Some _) \<Rightarrow> Some (Some v) | _ \<Rightarrow> Some out)"

text \<open>The virtual calls: the methods of the object that is stored as the thumbnail of a pipeline.\<close>

fun thumb_handle :: "elem_kind \<Rightarrow> gst_buffer option \<Rightarrow> string option \<Rightarrow> string option option" where
  "thumb_handle Thumbnail_sw_pipe = sw_handle_new_sample"
| "thumb_handle Thumbnail_nv_pipe = nv_handle_new_sample"
| "thumb_handle Thumbnail_nv3_pipe = nv3_handle_new_sample"
| "thumb_handle _ = (\<lambda>_ _. None)"

fun thumb_copy :: "elem_kind \<Rightarrow> string option \<Rightarrow> string option \<Rightarrow> string option option" where
  "thumb_copy Thumbnail_sw_pipe = sw_copy_frame_buffer"
| "thumb_copy Thumbnail_nv_pipe = nv_copy_frame_buffer"
| "thumb_copy Thumbnail_nv3_pipe = nv3_copy_frame_buffer"
| "thumb_copy _ = (\<lambda>_ _. None)"

text \<open>The HTTP handler passes the address of a local, empty vector.\<close>

definition image_cb :: "elem_kind \<Rightarrow> string option \<Rightarrow> string \<times> string option" where
  "image_cb k fb = (case thumb_copy k fb (Some []) of Some (Some f) \<Rightarrow> (f, fb) | _ \<Rightarrow> ([], fb))"

text \<open>The GStreamer thread and the HTTP threads in any order.\<close>

datatype image_event = Sample "gst_buffer option" | Get

fun image_run ::
    "(gst_buffer option \<Rightarrow> string option \<Rightarrow> string option option) \<Rightarrow>
     (string option \<Rightarrow> string option \<Rightarrow> string option option) \<Rightarrow>
     image_event list \<Rightarrow> string option \<Rightarrow> (string option list \<times> string option) option" where
  "image_run handle copy [] fb = Some ([], fb)"
| "image_run handle copy (Sample s # es) fb = Option.bind (handle s fb) (image_run handle copy es)"
| "image_run handle copy (Get # es) fb = Option.bind (copy fb (Some []))
     (\<lambda>f. map_option (apfst (Cons f)) (image_run handle copy es fb))"

subsection \<open>The CSI camera and the publisher\<close>

definition zmq_frame_cb :: "'w zmq_lib \<Rightarrow> zeromq_svr \<Rightarrow> string \<Rightarrow> string \<Rightarrow> string option \<Rightarrow> 'w \<Rightarrow> 'w outcome" where
  "zmq_frame_cb L z topic metadata frame_ptr w = (case frame_ptr of
     None \<Rightarrow> Ret w
   | Some f \<Rightarrow> (case zeromq_send L topic metadata f z w of
       (Ret _, w) \<Rightarrow> Ret w
     | (Throw e, w) \<Rightarrow> Throw e
     | (Terminate, w) \<Rightarrow> Terminate
     | (NullDeref, w) \<Rightarrow> NullDeref
     | (Hang, w) \<Rightarrow> Hang))"

definition imx219_handle_new_sample ::
    "(string \<Rightarrow> string option \<Rightarrow> 'w \<Rightarrow> 'w outcome) option \<Rightarrow> gst_buffer option \<Rightarrow> string option \<Rightarrow> 'w \<Rightarrow>
     (string option \<times> 'w outcome) option" where
  "imx219_handle_new_sample m_buffer_dispatch_cb sample fb w = (case sample of
     None \<Rightarrow> Some (fb, Ret w)
   | Some b \<Rightarrow> (case store_sample b fb of
       None \<Rightarrow> None
     | Some fb \<Rightarrow> (case m_buffer_dispatch_cb of
         None \<Rightarrow> Some (fb, Ret w)
       | Some cb \<Rightarrow> (let metadata = '''' in Some (fb, cb metadata fb w)))))"

fun imx219_run ::
    "(string \<Rightarrow> string option \<Rightarrow> 'w \<Rightarrow> 'w outcome) option \<Rightarrow> gst_buffer option list \<Rightarrow> string option \<Rightarrow> 'w \<Rightarrow>
     (string option \<times> 'w outcome) option" where
  "imx219_run cb [] fb w = Some (fb, Ret w)"
| "imx219_run cb (s # ss) fb w = (case imx219_handle_new_sample cb s fb w of
     Some (fb, Ret w) \<Rightarrow> imx219_run cb ss fb w
   | r \<Rightarrow> r)"

subsection \<open>What the copies do\<close>

text \<open>The size of a buffer is documented to be the sum of the sizes of its blocks.\<close>

definition gb_ok :: "gst_buffer \<Rightarrow> bool" where
  "gb_ok b \<longleftrightarrow> gb_size b = length (concat (gb_blocks b))"

lemma vec_resize_length [simp]: "length (vec_resize n v) = n"
  by (simp add: vec_resize_def)

lemma copy_blocks_exact:
  "out \<le> length v \<Longrightarrow> copy_blocks bs out v =
     (if out + length (concat bs) \<le> length v
      then Some (take out v @ concat bs @ drop (out + length (concat bs)) v) else None)"
proof (induction bs arbitrary: out v)
  case (Cons b bs)
  show ?case
  proof (cases "out + length b \<le> length v")
    case True
    let ?v = "take out v @ b @ drop (out + length b) v"
    have "length ?v = length v" using True by simp
    moreover have "take (out + length b) ?v = take out v @ b"
      using True by simp
    moreover have "drop (out + length b + length (concat bs)) ?v = drop (out + length b + length (concat bs)) v"
      using True by (simp add: add.commute add.left_commute)
    ultimately show ?thesis
      using Cons.IH [of "out + length b" ?v] True by (simp add: copy_n_def add.assoc)
  qed (simp add: copy_n_def)
qed simp

lemma store_sample_exact:
  "store_sample b (Some v) = (if length (concat (gb_blocks b)) \<le> gb_size b
     then Some (Some (concat (gb_blocks b) @ drop (length (concat (gb_blocks b))) (vec_resize (gb_size b) v))) else None)"
  by (simp add: store_sample_def copy_blocks_exact del: length_concat)

lemma store_sample_ok: "gb_ok b \<Longrightarrow> store_sample b (Some v) = Some (Some (concat (gb_blocks b)))"
  by (simp add: store_sample_exact gb_ok_def del: length_concat)

subsection \<open>The contract of a frame source\<close>

text \<open>
  The specification: the frame is the contents of the last buffer that came, and a request gets the
  frame as it is.
\<close>

definition newest :: "gst_buffer option \<Rightarrow> string \<Rightarrow> string" where
  "newest s f = (case s of None \<Rightarrow> f | Some b \<Rightarrow> concat (gb_blocks b))"

fun images :: "image_event list \<Rightarrow> string \<Rightarrow> string option list \<times> string" where
  "images [] f = ([], f)"
| "images (Sample s # es) f = images es (newest s f)"
| "images (Get # es) f = apfst (Cons (Some f)) (images es f)"

fun event_ok :: "image_event \<Rightarrow> bool" where
  "event_ok (Sample (Some b)) \<longleftrightarrow> gb_ok b"
| "event_ok _ \<longleftrightarrow> True"

locale frame_source =
  fixes handle :: "gst_buffer option \<Rightarrow> string option \<Rightarrow> string option option"
    and copy :: "string option \<Rightarrow> string option \<Rightarrow> string option option"
  assumes handle_none: "handle None fb = Some fb"
    and handle_some: "handle (Some b) fb = store_sample b fb"
    and copy_frame: "copy (Some v) (Some out) = Some (Some v)"
begin

lemma handle_newest: "event_ok (Sample s) \<Longrightarrow> handle s (Some v) = Some (Some (newest s v))"
  by (cases s) (simp_all add: handle_none handle_some store_sample_ok newest_def)

lemma run_images: "list_all event_ok es \<Longrightarrow> image_run handle copy es (Some v) = Some (map_prod (\<lambda>fs. fs) Some (images es v))"
proof (induction es arbitrary: v)
  case (Cons e es)
  then show ?case
    by (cases e) (simp_all add: handle_newest copy_frame apfst_def map_prod_def case_prod_unfold)
qed simp

lemma run_undefined:
  "image_run handle copy (Sample (Some b) # es) (Some v) = None" if "gb_size b < length (concat (gb_blocks b))"
  using that by (simp add: handle_some store_sample_exact del: length_concat)

end

lemmas thumb_defs = sw_handle_new_sample_def nv_handle_new_sample_def nv3_handle_new_sample_def
  sw_copy_frame_buffer_def nv_copy_frame_buffer_def nv3_copy_frame_buffer_def

interpretation sw: frame_source sw_handle_new_sample sw_copy_frame_buffer
  by unfold_locales (simp_all add: thumb_defs)

interpretation nv: frame_source nv_handle_new_sample nv_copy_frame_buffer
  by unfold_locales (simp_all add: thumb_defs)

interpretation nv3: frame_source nv3_handle_new_sample nv3_copy_frame_buffer
  by unfold_locales (simp_all add: thumb_defs)

lemma thumb_cases:
  assumes "k \<in> {Thumbnail_sw_pipe, Thumbnail_nv_pipe, Thumbnail_nv3_pipe}"
  shows "frame_source (thumb_handle k) (thumb_copy k)"
  using assms sw.frame_source_axioms nv.frame_source_axioms nv3.frame_source_axioms by auto

lemma image_cb_frame:
  "k \<in> {Thumbnail_sw_pipe, Thumbnail_nv_pipe, Thumbnail_nv3_pipe} \<Longrightarrow> image_cb k (Some f) = (f, Some f)"
  using frame_source.copy_frame [OF thumb_cases] by (simp add: image_cb_def)

definition jpeg_head :: "string \<Rightarrow> nat \<Rightarrow> string" where
  "jpeg_head date n = ''Content-Type: image/jpeg'' @ crlf @ ''Content-Length: '' @ fmt_int (int n) @ crlf @
     ''Cache-Control: max-age=0, no-store'' @ crlf @ ''Last-Modified: '' @ date @ crlf @ crlf"

lemma jpeg_reply:
  assumes "load_and_log r = Some u" and "request_method_enum u = GET" and "time_to_httpdate t = Some (True, date)"
    and "k \<in> {Thumbnail_sw_pipe, Thumbnail_nv_pipe, Thumbnail_nv3_pipe}" and "length f < 2 ^ 31"
  shows "\<exists>r'. jpeg_handle (image_cb k) t r (Some f) = (None, r', Some f) \<and> rq_finished r' = Suc (rq_finished r) \<and>
    rq_out r' = rq_out r @ (if f = [] then ''Status: 500 Internal Error'' @ crlf else jpeg_head date (length f) @ f)"
proof -
  have "to_s32 (int (length f)) = int (length f)" using assms(5) by (intro to_s32_id) (simp add: in_s32_def)
  then show ?thesis using assms by (simp add: jpeg_handle_def image_cb_frame jpeg_head_def Let_def)
qed

subsection \<open>Properties\<close>

text \<open>
  C16. Still images are copied in bounds and served whole. For every thumbnail class, with buffers of the
  documented size, every interleaving of new samples and requests runs without leaving the frame, however the
  sizes of successive images vary; each request gets the contents of the last image that came before it,
  never a mixture of two, and the HTTP reply to it carries exactly these bytes with their number as the
  content length, or the error status while there is no image yet. The bound is needed: a buffer with more
  data than its size makes the copy run past the frame.
\<close>

theorem still_images_served:
  assumes "list_all event_ok es" and "k \<in> {Thumbnail_sw_pipe, Thumbnail_nv_pipe, Thumbnail_nv3_pipe}"
    and "load_and_log r = Some u" and "request_method_enum u = GET" and "time_to_httpdate t = Some (True, date)"
    and "images es [] = (fs, f)" and "length f < 2 ^ 31"
  shows "image_run (thumb_handle k) (thumb_copy k) es (Some []) = Some (fs, Some f) \<and>
    (\<exists>r'. jpeg_handle (image_cb k) t r (Some f) = (None, r', Some f) \<and> rq_finished r' = Suc (rq_finished r) \<and>
      rq_out r' = rq_out r @ (if f = [] then ''Status: 500 Internal Error'' @ crlf else jpeg_head date (length f) @ f)) \<and>
    (gb_size b < length (concat (gb_blocks b)) \<longrightarrow>
      image_run (thumb_handle k) (thumb_copy k) (Sample (Some b) # es) (Some v) = None)"
  using frame_source.run_images [OF thumb_cases [OF assms(2)] assms(1), of "[]"]
    frame_source.run_undefined [OF thumb_cases [OF assms(2)], of b es v] jpeg_reply [OF assms(3,4,5,2,7)]
  by (simp add: assms(6) del: length_concat)

definition demo_events :: "image_event list" where
  "demo_events = [Get, Sample (Some \<lparr>gb_size = 5, gb_blocks = [''abc'', ''de'']\<rparr>), Get, Sample None,
     Sample (Some \<lparr>gb_size = 2, gb_blocks = [''xy'']\<rparr>), Get]"

definition demo_get :: fcgx_request where
  "demo_get = \<lparr>rq_env = (\<lambda>k. Some (if k = ''REQUEST_METHOD'' then ''GET'' else ''/x'')), rq_in = [], rq_out = [],
     rq_finished = 0\<rparr>"

theorem still_images_served_witness:
  "image_run (thumb_handle Thumbnail_nv3_pipe) (thumb_copy Thumbnail_nv3_pipe) demo_events (Some []) =
     Some ([Some [], Some ''abcde'', Some ''xy''], Some ''xy'') \<and>
   (\<exists>r' date. jpeg_handle (image_cb Thumbnail_nv3_pipe) 784111777 demo_get (Some ''xy'') = (None, r', Some ''xy'') \<and>
     rq_out r' = jpeg_head date (length ''xy'') @ ''xy'') \<and>
   image_run (thumb_handle Thumbnail_nv3_pipe) (thumb_copy Thumbnail_nv3_pipe)
     (Sample (Some \<lparr>gb_size = 1, gb_blocks = [''xy'']\<rparr>) # demo_events) (Some []) = None"
proof -
  have ev: "list_all event_ok demo_events" by (simp add: demo_events_def gb_ok_def)
  have m: "parse_req_method ''GET'' = GET" by code_simp
  obtain u where u: "load_and_log demo_get = Some u" "request_method_enum u = GET"
    by (simp add: demo_get_def load_and_log_def req_util_load_def log_request_env_def REQ_PARAMS_def Let_def m)
  obtain date where d: "time_to_httpdate 784111777 = Some (True, date)"
    using time_to_httpdate_fits_witness by blast
  have i: "images demo_events [] = ([Some [], Some ''abcde'', Some ''xy''], ''xy'')"
    by (simp add: demo_events_def newest_def)
  show ?thesis
    using still_images_served [OF ev _ u d i, of Thumbnail_nv3_pipe "\<lparr>gb_size = 1, gb_blocks = [''xy'']\<rparr>" "[]"]
    by (fastforce simp: demo_get_def simp del: image_run.simps thumb_handle.simps thumb_copy.simps)
qed

text \<open>
  C17. A frame of the CSI camera reaches the subscribers unchanged and in order. With a ZeroMQ server whose
  socket is open, and buffers of the documented size, the camera's handler sends one message for every
  sample that has a buffer: the topic, empty metadata, and the contents of the buffer; what the server
  answers does not stop it.
\<close>

theorem imx219_frames_published:
  assumes "list_all (\<lambda>s. event_ok (Sample s)) samples" and "zs_socket z"
  shows "imx219_run (Some (zmq_frame_cb L z topic)) samples (Some v) w =
    Some (Some (fold newest samples v),
      Ret (fold (\<lambda>b w. snd (zl_send L [topic, '''', concat (gb_blocks b)] w)) (List.map_filter (\<lambda>s. s) samples) w))"
  using assms(1)
proof (induction samples arbitrary: v w)
  case (Cons s samples)
  have "zmq_frame_cb L z topic m (Some f) w = Ret (snd (zl_send L [topic, m, f] w))" for m f w
    using assms(2) by (simp add: zmq_frame_cb_def zeromq_send_def case_prod_unfold Let_def)
  then show ?case using Cons
    by (cases s) (simp_all add: imx219_handle_new_sample_def store_sample_ok newest_def map_filter_simps)
qed (simp add: map_filter_simps)

theorem imx219_frames_published_witness:
  "imx219_run (Some (zmq_frame_cb demo_zmq (zeromq_new\<lparr>zs_socket := True\<rparr>) ''t''))
     [Some \<lparr>gb_size = 2, gb_blocks = [''a'', ''b'']\<rparr>, None, Some \<lparr>gb_size = 1, gb_blocks = [''c'']\<rparr>] (Some []) [] =
   Some (Some ''c'', Ret (snd (zl_send demo_zmq [''t'', '''', ''c''] (snd (zl_send demo_zmq [''t'', '''', ''ab''] [])))))"
  using imx219_frames_published [of "[Some \<lparr>gb_size = 2, gb_blocks = [''a'', ''b'']\<rparr>, None,
      Some \<lparr>gb_size = 1, gb_blocks = [''c'']\<rparr>]" "zeromq_new\<lparr>zs_socket := True\<rparr>" demo_zmq "''t''" "[]" "[]"]
  by (simp add: gb_ok_def newest_def map_filter_simps)

end
