(* ===== verification/Opaleye_Main.thy ===== *)
theory Opaleye_Main
  imports Http_Handlers
begin

section \<open>The routes of the program\<close>

text \<open>
  The registrations of \<^verbatim>\<open>src/opaleye/main.cpp\<close>: the file handler, the sensors handler
  under its address and under the directory below it, the still images of the cameras whose
  pipeline has a thumbnail element, and last the JSON-RPC handler.
\<close>

datatype route_cb = FileCb | SensorsCb | JpegCb nat | JsonrpcCb

definition camera_routes :: "nat \<Rightarrow> string \<Rightarrow> (string \<times> route_cb) list" where
  "camera_routes i cam =
     [(''/cameras/'' @ cam @ ''.jpg'', JpegCb i),
      (''/api/v1/cameras/'' @ cam @ ''/live/full'', JpegCb i),
      (''/api/v1/cameras/'' @ cam @ ''/live/thumb'', JpegCb i)]"

definition main_routes :: "bool \<Rightarrow> bool \<Rightarrow> (string \<times> route_cb) list" where
  "main_routes thumb0 thumb1 =
     [(''/foo'', FileCb), (''/api/v1/sensor_types'', SensorsCb),
      (''/api/v1/sensor_types/'', SensorsCb)] @
     (if thumb0 then camera_routes 0 ''cam0'' else []) @
     (if thumb1 then camera_routes 1 ''cam1'' else []) @
     [(''/api/v1'', JsonrpcCb)]"

definition main_svr :: "bool \<Rightarrow> bool \<Rightarrow> (string, route_cb) http_fcgi_svr" where
  "main_svr thumb0 thumb1 =
     register_all posix_paths (main_routes thumb0 thumb1) (fcgi_svr_new posix_paths)"

abbreviation types_node :: "string list" where
  "types_node \<equiv> [''api'', ''v1'', ''sensor_types'']"

lemma main_table_types:
  "map_option (\<lambda>n. (map fst (dn_children n), node_cb n)) (dlookup types_node (m_cb_table (main_svr a b))) =
     Some ([''.''], Some SensorsCb)"
  by (cases a; cases b) (simp_all only:, code_simp+)

lemma main_table_dir:
  "map_option node_cb (dlookup (types_node @ [''.'']) (m_cb_table (main_svr a b))) =
     Some (Some SensorsCb)"
  by (cases a; cases b) (simp_all only:, code_simp+)

lemma main_svr_inv: "dtree_inv posix_paths (m_cb_table (main_svr a b))"
proof -
  have "list_all (\<lambda>(p, _). path_valid posix_paths p)
     (map (\<lambda>(u, c). (p_of_string posix_paths u, Some (Some c))) (main_routes a b))"
    by (simp add: main_routes_def camera_routes_def path_valid_def posix_elems_def)
  then show ?thesis
    using posix.table_invar_install
    by (simp add: main_svr_def register_all_table fcgi_svr_new_def)
qed

text \<open>The elements of a sensor address.\<close>

definition uri_elems :: "sensor_uri \<Rightarrow> string list" where
  "uri_elems u = (case u of TypeList \<Rightarrow> [] | OneType t \<Rightarrow> [t] | SensorList t \<Rightarrow> [t, ''sensors'']
     | OneSensor t i \<Rightarrow> [t, ''sensors'', i])"

lemma word_ordinary:
  assumes "t \<noteq> []" and "list_all is_word t"
  shows "ordinary t \<and> last t \<noteq> CHR ''/'' \<and> t \<noteq> ''.''"
proof -
  have w: "\<forall>x \<in> set t. is_word x" using assms(2) by (simp add: list_all_iff)
  have "\<not> is_word (CHR ''.'')" by (simp add: is_word_def is_digit_def)
  then have "t \<noteq> ''.''" using w by auto
  moreover have "last t \<noteq> CHR ''/''" using w last_in_set [OF assms(1)] is_word_slash by metis
  moreover have "CHR ''/'' \<notin> set t" using w is_word_slash by blast
  ultimately show ?thesis using assms(1) by (simp add: ordinary_def)
qed

lemma digits_word: "list_all is_digit i \<Longrightarrow> list_all is_word i"
  by (auto simp: list_all_iff is_word_def)

lemma segs_types: "segs ''/api/v1/sensor_types'' = types_node"
  by code_simp

lemma print_sensor_uri_elems:
  assumes "sensor_uri_wf u"
  shows "posix_elems (print_sensor_uri u) = ''/'' # types_node @ uri_elems u"
proof -
  define p where "p = ''/api/v1/sensor_types''"
  have p: "p \<noteq> []" "hd p = CHR ''/''" "segs p = types_node"
    by (simp_all add: p_def segs_types)
  have abs: "posix_elems (p @ r) = ''/'' # segs (p @ r)" if "r \<noteq> []" "last r \<noteq> CHR ''/''" for r
    using that p by (simp add: posix_elems_def)
  have sg: "segs ''sensors'' = [''sensors'']" by code_simp
  note sl = segs_slash [of p] segs_slash
  show ?thesis
  proof (cases u)
    case TypeList
    then show ?thesis by (simp add: print_sensor_uri_def uri_elems_def posix_elems_def segs_types)
  next
    case (OneType t)
    then have t: "ordinary t" "last t \<noteq> CHR ''/''" "t \<noteq> []"
      using assms word_ordinary by (auto simp: sensor_uri_wf_def)
    have "posix_elems (p @ CHR ''/'' # t) = ''/'' # types_node @ [t]"
      using t p by (simp add: abs sl segs_single)
    then show ?thesis by (simp add: OneType print_sensor_uri_def uri_elems_def p_def)
  next
    case (SensorList t)
    then have t: "ordinary t"
      using assms word_ordinary by (auto simp: sensor_uri_wf_def)
    have "posix_elems (p @ CHR ''/'' # t @ CHR ''/'' # ''sensors'') = ''/'' # types_node @ [t, ''sensors'']"
      using t p by (simp add: abs sl segs_single sg del: segs.simps)
    then show ?thesis by (simp add: SensorList print_sensor_uri_def uri_elems_def p_def)
  next
    case (OneSensor t i)
    then have t: "ordinary t" "ordinary i" "last i \<noteq> CHR ''/''" "i \<noteq> []"
      using assms word_ordinary digits_word by (auto simp: sensor_uri_wf_def)
    have "posix_elems (p @ CHR ''/'' # t @ CHR ''/'' # ''sensors'' @ CHR ''/'' # i) =
        ''/'' # types_node @ [t, ''sensors'', i]"
      using t p by (simp add: abs sl segs_single sg del: segs.simps append_Cons)
    then show ?thesis by (simp add: OneSensor print_sensor_uri_def uri_elems_def p_def)
  qed
qed

lemma main_table_below:
  assumes "x \<noteq> ''.''"
  shows "dlookup types_node (m_cb_table (main_svr a b)) \<noteq> None"
    and "dlookup (types_node @ [x]) (m_cb_table (main_svr a b)) = None"
proof -
  obtain n where n: "dlookup types_node (m_cb_table (main_svr a b)) = Some n"
      "map fst (dn_children n) = [''.'']"
    using main_table_types [of a b] by (auto simp del: dlookup.simps)
  then have "get_child_by_name x n = None"
    using assms by (auto simp: get_child_none_iff simp flip: set_map)
  then show "dlookup (types_node @ [x]) (m_cb_table (main_svr a b)) = None"
    using n(1) by (simp only: dlookup_append) simp
  show "dlookup types_node (m_cb_table (main_svr a b)) \<noteq> None" using n(1) by simp
qed

text \<open>
  Every sensor address the sensors handler understands reaches that handler, whatever cameras
  are configured: the table of the program and the grammar of the handler agree.
\<close>

lemma sensor_uris_routed:
  assumes "sensor_uri_wf u"
  shows "get_cb_for_doc_uri posix_paths (print_sensor_uri u) (main_svr a b) = Inr (Some SensorsCb)"
proof -
  let ?t = "m_cb_table (main_svr a b)"
  note el = print_sensor_uri_elems [OF assms]
  have "path_valid posix_paths (print_sensor_uri u)"
    using el by (simp add: path_valid_def) (simp add: print_sensor_uri_def)
  then have r: "get_cb_for_doc_uri posix_paths (print_sensor_uri u) (main_svr a b) =
      Inr (Option.bind (dir_spec (types_node @ uri_elems u) ?t) node_cb)"
    using get_cb_routes [OF posix_path_laws main_svr_inv] el by simp
  have "Option.bind (dir_spec (types_node @ uri_elems u) ?t) node_cb = Some SensorsCb"
  proof (cases "uri_elems u")
    case Nil
    then show ?thesis
      using main_table_types [of a b] by (auto simp: dir_spec_def simp del: dlookup.simps)
  next
    case (Cons x xs)
    have x: "x \<noteq> ''.''"
      using Cons assms word_ordinary
      by (auto simp: uri_elems_def sensor_uri_wf_def split: sensor_uri.splits)
    note b = main_table_below [OF x, of a b]
    have "dlookup (types_node @ x # xs) ?t = None"
      using b(2) dlookup_append [of "types_node @ [x]" xs ?t] by simp
    then have "dir_spec (types_node @ uri_elems u) ?t = dlookup (types_node @ [''.'']) ?t"
      using deepest_prefix [OF b, of xs] Cons by (simp add: dir_spec_def del: dlookup.simps append_Cons)
    then show ?thesis using main_table_dir [of a b] by (auto simp del: dlookup.simps append_Cons)
  qed
  then show ?thesis using r by simp
qed

end
