(* ===== verification/Signal_Handler.thy ===== *)
theory Signal_Handler
  imports Opaleye_Prelude
begin

section \<open>Signals: \<^verbatim>\<open>Signal_handler\<close>\<close>

text \<open>
  \<^verbatim>\<open>src/opaleye/signal_handler.cpp\<close>. Signal sets are sets of signal numbers as glibc has them
  on Linux: \<^verbatim>\<open>sigfillset\<close> leaves out the two the thread library keeps for itself, and the
  real-time signals begin after them. \<^verbatim>\<open>pthread_sigmask\<close> is an argument, and what the
  successive calls of \<^verbatim>\<open>sigwaitinfo\<close> return, with \<^verbatim>\<open>errno\<close>, is a list; a wait
  that uses the list up has not returned, which is \<^const>\<open>None\<close>.
\<close>

definition SIGHUP :: int where "SIGHUP = 1"
definition SIGINT :: int where "SIGINT = 2"
definition SIGUSR1 :: int where "SIGUSR1 = 10"
definition SIGUSR2 :: int where "SIGUSR2 = 12"
definition SIGALRM :: int where "SIGALRM = 14"
definition SIGTERM :: int where "SIGTERM = 15"
definition SIGRTMIN :: int where "SIGRTMIN = 34"
definition SIGRTMAX :: int where "SIGRTMAX = 64"

definition EAGAIN_wait :: int where "EAGAIN_wait = 11"
definition EINTR_wait :: int where "EINTR_wait = 4"

record signal_handler =
  got_sigint :: bool

definition signal_handler_new :: signal_handler where
  "signal_handler_new = \<lparr>got_sigint = False\<rparr>"

definition sigfillset :: "int set" where
  "sigfillset = {1..64} - {32, 33}"

definition mask_all_signals :: "(int set \<Rightarrow> 'w \<Rightarrow> int \<times> 'w) \<Rightarrow> 'w \<Rightarrow> bool \<times> 'w" where
  "mask_all_signals sigmask w = (let (ret, w) = sigmask sigfillset w in (ret = 0, w))"

definition def_signals :: "int set" where
  "def_signals = {SIGALRM, SIGHUP, SIGINT, SIGUSR1, SIGUSR2} \<union> {SIGRTMIN..SIGRTMAX}"

definition mask_def_signals :: "(int set \<Rightarrow> 'w \<Rightarrow> int \<times> 'w) \<Rightarrow> 'w \<Rightarrow> bool \<times> 'w" where
  "mask_def_signals sigmask w = (let (ret, w) = sigmask def_signals w in (ret = 0, w))"

fun wait_for_signal ::
    "(int \<times> int) list \<Rightarrow> signal_handler \<Rightarrow> (bool \<times> signal_handler \<times> (int \<times> int) list) option" where
  "wait_for_signal [] h = None"
| "wait_for_signal ((ret, err) # evs) h =
     (if ret < 0 then
        if err = EAGAIN_wait \<or> err = EINTR_wait then wait_for_signal evs h
        else Some (False, h, evs)
      else Some (True, if ret = SIGINT then h\<lparr>got_sigint := True\<rparr> else h, evs))"

definition has_sigint :: "signal_handler \<Rightarrow> bool \<times> signal_handler" where
  "has_sigint h = (got_sigint h, h\<lparr>got_sigint := False\<rparr>)"

lemma wait_for_signal_shorter:
  "wait_for_signal evs h = Some (r, h', rest) \<Longrightarrow> length rest < length evs"
  by (induction evs h rule: wait_for_signal.induct) (auto split: if_splits)

text \<open>The loop of \<^verbatim>\<open>main\<close>, which ignores the result of the wait.\<close>

function main_wait :: "(int \<times> int) list \<Rightarrow> signal_handler \<Rightarrow> (signal_handler \<times> (int \<times> int) list) option" where
  "main_wait evs h =
     (let (got, h) = has_sigint h in
      if got then Some (h, evs)
      else (case wait_for_signal evs h of None \<Rightarrow> None | Some (_, h, evs) \<Rightarrow> main_wait evs h))"
  by pat_completeness auto
termination
  by (relation "measure (\<lambda>(evs, _). length evs)") (auto simp: wait_for_signal_shorter)

declare main_wait.simps [simp del]

lemma wait_for_signal_cases:
  "wait_for_signal evs \<lparr>got_sigint = False\<rparr> = r \<Longrightarrow>
   (r = None \<and> SIGINT \<notin> fst ` set evs) \<or>
   (\<exists>ok pre e rest. evs = pre @ e # rest \<and> SIGINT \<notin> fst ` set pre \<and>
      r = Some (ok, \<lparr>got_sigint = (fst e = SIGINT)\<rparr>, rest))"
proof (induction evs)
  case (Cons e evs)
  obtain ret err where e: "e = (ret, err)" by fastforce
  show ?case
  proof (cases "ret < 0 \<and> (err = EAGAIN_wait \<or> err = EINTR_wait)")
    case True
    then have n: "ret \<noteq> SIGINT" and w: "wait_for_signal evs \<lparr>got_sigint = False\<rparr> = r"
      using Cons.prems by (auto simp: e SIGINT_def)
    from Cons.IH [OF w] show ?thesis
    proof (elim disjE exE conjE)
      fix ok pre e' rest
      assume "evs = pre @ e' # rest" "SIGINT \<notin> fst ` set pre"
        "r = Some (ok, \<lparr>got_sigint = (fst e' = SIGINT)\<rparr>, rest)"
      then show ?thesis using n e
        by (intro disjI2 exI [of _ ok] exI [of _ "e # pre"] exI [of _ e'] exI [of _ rest]) auto
    qed (use n e in auto)
  next
    case False
    have "r = Some (0 \<le> ret, \<lparr>got_sigint = (ret = SIGINT)\<rparr>, evs)"
      using Cons.prems False by (auto simp: e SIGINT_def)
    then show ?thesis using e by (intro disjI2 exI [of _ "0 \<le> ret"] exI [of _ "[]"] exI [of _ e] exI [of _ evs]) auto
  qed
qed auto

text \<open>
  The program runs until the first interrupt signal and no longer: the loop of \<^verbatim>\<open>main\<close>
  returns exactly when the waits report it, having consumed what came before, and neither other
  signals, nor interrupted calls, nor errors of the wait end it; the flag is cleared again.
\<close>

lemma main_wait_first:
  "main_wait evs signal_handler_new =
     (case dropWhile (\<lambda>e. fst e \<noteq> SIGINT) evs of [] \<Rightarrow> None | _ # rest \<Rightarrow> Some (signal_handler_new, rest))"
proof (induction evs rule: length_induct)
  case (1 evs)
  let ?h = "\<lparr>got_sigint = False\<rparr>"
  have step: "main_wait evs ?h = (case wait_for_signal evs ?h of None \<Rightarrow> None
      | Some (_, h, evs) \<Rightarrow> main_wait evs h)"
    by (subst main_wait.simps) (simp add: has_sigint_def)
  consider (stuck) "wait_for_signal evs ?h = None" "SIGINT \<notin> fst ` set evs"
    | (woken) ok pre e rest where "evs = pre @ e # rest" "SIGINT \<notin> fst ` set pre"
        "wait_for_signal evs ?h = Some (ok, \<lparr>got_sigint = (fst e = SIGINT)\<rparr>, rest)"
    using wait_for_signal_cases [OF refl, of evs] by (elim disjE conjE exE) simp_all
  then show ?case
  proof cases
    case stuck
    then have n: "dropWhile (\<lambda>e. fst e \<noteq> SIGINT) evs = []" by (force simp: dropWhile_eq_Nil_conv)
    show ?thesis unfolding n using stuck(1) step by (simp add: signal_handler_new_def)
  next
    case woken
    have d: "dropWhile (\<lambda>e. fst e \<noteq> SIGINT) evs = dropWhile (\<lambda>e. fst e \<noteq> SIGINT) (e # rest)"
      unfolding woken(1) by (rule dropWhile_append2) (use woken(2) in \<open>force\<close>)
    show ?thesis
    proof (cases "fst e = SIGINT")
      case True
      have "main_wait rest \<lparr>got_sigint = True\<rparr> = Some (?h, rest)"
        by (subst main_wait.simps) (simp add: has_sigint_def)
      then show ?thesis using step woken(3) d True by (simp add: signal_handler_new_def)
    next
      case False
      have "length rest < length evs" using woken(1) by simp
      then have "main_wait rest signal_handler_new = (case dropWhile (\<lambda>e. fst e \<noteq> SIGINT) rest of
          [] \<Rightarrow> None | _ # rest \<Rightarrow> Some (signal_handler_new, rest))" using 1 by blast
      then show ?thesis using step woken(3) d False by (simp add: signal_handler_new_def)
    qed
  qed
qed

lemma no_sigint: "dropWhile (\<lambda>e. fst e \<noteq> SIGINT) evs = [] \<longleftrightarrow> SIGINT \<notin> fst ` set evs"
  by (force simp: dropWhile_eq_Nil_conv)

lemma main_wait_SomeD: "main_wait evs signal_handler_new = Some (h, rest) \<Longrightarrow> SIGINT \<in> fst ` set evs"
  using no_sigint [of evs] by (cases "dropWhile (\<lambda>e. fst e \<noteq> SIGINT) evs") (simp_all add: main_wait_first)

lemma main_wait_returns:
  "SIGINT \<in> fst ` set evs \<Longrightarrow> \<exists>rest. main_wait evs signal_handler_new = Some (signal_handler_new, rest)"
  using no_sigint [of evs] by (auto simp: main_wait_first split: list.split)

text \<open>A termination signal is waited for but left unmasked, so its default action ends the process.\<close>

lemma sigterm_not_masked: "SIGTERM \<in> sigfillset \<and> SIGTERM \<notin> def_signals \<and> SIGINT \<in> def_signals"
  by (simp add: sigfillset_def def_signals_def SIGTERM_def SIGINT_def SIGALRM_def SIGHUP_def SIGUSR1_def
      SIGUSR2_def SIGRTMIN_def SIGRTMAX_def)

end
