(* ===== verification/Opaleye_Program.thy ===== *)
theory Opaleye_Program
  imports Opaleye_Main Opaleye_App Signal_Handler Message_Servers Sensors
begin

section \<open>The program: \<^verbatim>\<open>main\<close>\<close>

text \<open>
  \<^verbatim>\<open>src/opaleye/main.cpp\<close> from the parsed command line to the return value, over the models of
  the parts it puts together. A step of the start-up either goes on or ends the program with an
  outcome. Ending it by \<^verbatim>\<open>return\<close> runs the destructors of what was created: an object whose
  \<^verbatim>\<open>std::thread\<close> still runs ends the process instead, as does an exception, since
  \<^verbatim>\<open>main\<close> catches none.
\<close>

subsection \<open>State and environment\<close>

datatype parsed_args = Args_error | Args_help | Args (arg_config: string) (arg_level: string) (arg_file: "string option")

record 'w main_env =
  me_setenv :: "string \<Rightarrow> string \<Rightarrow> 'w \<Rightarrow> int \<times> 'w"
  me_sigmask :: "int set \<Rightarrow> 'w \<Rightarrow> int \<times> 'w"
  me_parse :: "string list \<Rightarrow> parsed_args"
  me_read_xml :: "string \<Rightarrow> ptree option"
  me_log_sink :: "string \<Rightarrow> 'w \<Rightarrow> bool \<times> 'w"
  me_open_dev :: "string \<Rightarrow> 'w \<Rightarrow> int \<times> 'w"
  me_rdwr :: "'w rdwr"
  me_open_socket :: "string \<Rightarrow> 'w \<Rightarrow> int \<times> 'w"
  me_shutdown :: "int \<Rightarrow> 'w \<Rightarrow> int \<times> 'w"
  me_close :: "int \<Rightarrow> 'w \<Rightarrow> int \<times> 'w"
  me_app :: "'w app_env"
  me_zmq :: "'w zmq_lib"

datatype main_event = Server_stopped | App_stopped | Sensors_joined | Zmq_reset | Zcm_reset | Logs_shut

record main_state =
  ms_gst_level :: nat
  ms_cfg :: app_config_mgr
  ms_sensor :: sensor_thread
  ms_sensor_thread :: thread_base
  ms_svr :: "(string, route_cb) http_fcgi_svr"
  ms_app :: opaleye_app
  ms_zmq :: "zeromq_svr option"
  ms_zcm :: "zcm_svr option"
  ms_frame_cb :: "(string \<times> string) list"
  ms_sig :: signal_handler
  ms_events :: "main_event list"

definition main_state_new :: "tsys_cal \<Rightarrow> ms_cal \<Rightarrow> main_state" where
  "main_state_new tc bc = \<lparr>ms_gst_level = 0, ms_cfg = \<lparr>mgr_tree = pt_empty, mgr_config = None\<rparr>,
     ms_sensor = sensor_thread_new tc bc, ms_sensor_thread = thread_base_new,
     ms_svr = fcgi_svr_new posix_paths, ms_app = opaleye_app_new, ms_zmq = None, ms_zcm = None,
     ms_frame_cb = [], ms_sig = signal_handler_new, ms_events = []\<rparr>"

text \<open>The destructors at the end of \<^verbatim>\<open>main\<close>, the last declared first.\<close>

definition quiet :: "(string \<times> gst_app option) list \<Rightarrow> bool" where
  "quiet ps \<longleftrightarrow> list_all (\<lambda>(_, p). case p of None \<Rightarrow> True | Some q \<Rightarrow> \<not> gb_thread (app_base q)) ps"

definition leave_main :: "'w main_env \<Rightarrow> int \<Rightarrow> main_state \<Rightarrow> 'w \<Rightarrow> int outcome \<times> main_state \<times> 'w" where
  "leave_main env r s w =
     (let s = s\<lparr>ms_zcm := None\<rparr> in
      if \<not> quiet (m_pipelines (ms_app s)) then (Terminate, s, w)
      else
        (let (s, w) = (case ms_zmq s of None \<Rightarrow> (s, w)
               | Some z \<Rightarrow> (s\<lparr>ms_zmq := None\<rparr>, snd (snd (zeromq_stop (me_zmq env) z w))));
             (s, w) = (if m_thread_pool (ms_svr s) \<noteq> [] then
               (let (_, svr, w) = svr_stop (me_shutdown env) (me_close env) (ms_svr s) w in (s\<lparr>ms_svr := svr\<rparr>, w))
               else (s, w))
         in if th_joinable (ms_sensor_thread s) then (Terminate, s, w) else (Ret r, s, w)))"

type_synonym 'w stage = "main_state \<Rightarrow> 'w \<Rightarrow> int outcome option \<times> main_state \<times> 'w"

definition then_stage :: "'w stage \<Rightarrow> 'w stage \<Rightarrow> 'w stage" where
  "then_stage f g s w = (case f s w of (None, s, w) \<Rightarrow> g s w | r \<Rightarrow> r)"

definition return_stage :: "'w main_env \<Rightarrow> int \<Rightarrow> 'w stage" where
  "return_stage env r s w = (let (x, s, w) = leave_main env r s w in (Some x, s, w))"

subsection \<open>Start-up\<close>

definition stage_process :: "'w main_env \<Rightarrow> 'w stage" where
  "stage_process env s w =
     (let (ret, w) = me_setenv env ''GST_DEBUG_DUMP_DOT_DIR'' ''/tmp'' w in
      if ret \<noteq> 0 then return_stage env (- 1) s w
      else let (ok, w) = mask_all_signals (me_sigmask env) w in
        if \<not> ok then return_stage env (- 1) s w else (None, s, w))"

definition gst_level :: "string \<Rightarrow> nat option" where
  "gst_level l =
     (if l = ''none'' then Some 0 else if l = ''error'' then Some 1 else if l = ''warning'' then Some 2
      else if l = ''fixme'' then Some 3 else if l = ''info'' then Some 4 else if l = ''debug'' then Some 5
      else if l = ''log'' then Some 6 else if l = ''trace'' then Some 7 else if l = ''memdump'' then Some 9
      else None)"

definition stage_options :: "'w main_env \<Rightarrow> string list \<Rightarrow> 'w stage" where
  "stage_options env argv s w = (case me_parse env argv of
     Args_help \<Rightarrow> return_stage env 0 s w
   | Args_error \<Rightarrow> return_stage env (- 1) s w
   | Args _ level file \<Rightarrow> (case gst_level level of
       None \<Rightarrow> return_stage env (- 1) s w
     | Some n \<Rightarrow>
         (let w = (case file of None \<Rightarrow> w | Some f \<Rightarrow>
              snd (me_setenv env ''GST_DEBUG_FILE'' f (snd (me_setenv env ''GST_DEBUG_NO_COLOR'' ''1'' w))))
          in (None, s\<lparr>ms_gst_level := n\<rparr>, w))))"

text \<open>The sink of the log file throws when it cannot open it.\<close>

definition stage_config :: "'w main_env \<Rightarrow> int \<times> int \<Rightarrow> string list \<Rightarrow> 'w stage" where
  "stage_config env indet argv s w =
     (let (ok, m) = mgr_deserialize (me_read_xml env) indet (arg_config (me_parse env argv)) (ms_cfg s);
          s = s\<lparr>ms_cfg := m\<rparr>
      in if \<not> ok then return_stage env (- 1) s w
         else (case mgr_config m of
             None \<Rightarrow> return_stage env (- 1) s w
           | Some c \<Rightarrow> (let (ok, w) = me_log_sink env (path_join (log_path c) ''cam-pod_logfile.txt'') w in
               if ok then (None, s, w) else (Some Terminate, s, w))))"

definition launch_sensors :: "main_state \<Rightarrow> bool" where
  "launch_sensors s \<longleftrightarrow> (case mgr_config (ms_cfg s) of None \<Rightarrow> False | Some c \<Rightarrow> sensors_launch c = ''true'')"

definition stage_sensors :: "'w main_env \<Rightarrow> 'w stage" where
  "stage_sensors env s w =
     (if launch_sensors s then
        (let (ok, t, w) = sensor_thread_init (me_open_dev env) (me_rdwr env) (ms_sensor s) w;
             s = s\<lparr>ms_sensor := t\<rparr>
         in if \<not> ok then return_stage env (- 1) s w
            else (None, s\<lparr>ms_sensor_thread := launch (ms_sensor_thread s)\<rparr>, w))
      else (None, s, w))"

text \<open>The result of \<^verbatim>\<open>start\<close> is not looked at.\<close>

definition fixed_routes :: "(string \<times> route_cb) list" where
  "fixed_routes = [(''/foo'', FileCb), (''/api/v1/sensor_types'', SensorsCb), (''/api/v1/sensor_types/'', SensorsCb)]"

definition stage_server :: "'w main_env \<Rightarrow> 'w stage" where
  "stage_server env s w =
     (let svr = register_all posix_paths fixed_routes (ms_svr s);
          (_, svr, w) = svr_start (me_open_socket env) ''127.0.0.1:50000'' 4 svr w
      in (None, s\<lparr>ms_svr := svr\<rparr>, w))"

definition outcome_stage :: "'w main_env \<Rightarrow> bool outcome \<Rightarrow> 'w stage" where
  "outcome_stage env r s w = (case r of
     Ret ok \<Rightarrow> if ok then (None, s, w) else return_stage env (- 1) s w
   | Throw _ \<Rightarrow> (Some Terminate, s, w)
   | Terminate \<Rightarrow> (Some Terminate, s, w)
   | NullDeref \<Rightarrow> (Some NullDeref, s, w)
   | Hang \<Rightarrow> (Some Hang, s, w))"

definition stage_app :: "'w main_env \<Rightarrow> 'w stage" where
  "stage_app env s w =
     (let (r, a, w) = app_init (me_app env) ((ms_app s)\<lparr>m_config := mgr_config (ms_cfg s)\<rparr>) w
      in then_stage (outcome_stage env r)
           (\<lambda>s w. let (r, a) = app_start (ms_app s) in outcome_stage env r (s\<lparr>ms_app := a\<rparr>) w)
           (s\<lparr>ms_app := a\<rparr>) w)"

definition is_thumbnail :: "elem_kind \<Rightarrow> bool" where
  "is_thumbnail k \<longleftrightarrow> k \<in> {Thumbnail_nv_pipe, Thumbnail_sw_pipe, Thumbnail_nv3_pipe}"

text \<open>An element of the pipeline with the given name, when it is of the class asked for.\<close>

definition pipe_element :: "string \<Rightarrow> string \<Rightarrow> (elem_kind \<Rightarrow> bool) \<Rightarrow> opaleye_app \<Rightarrow> gst_element option outcome" where
  "pipe_element pipe n isk a = (case map_of (m_pipelines a) pipe of
     None \<Rightarrow> Ret None
   | Some None \<Rightarrow> NullDeref
   | Some (Some p) \<Rightarrow> (case get_element n p of None \<Rightarrow> Ret None
       | Some e \<Rightarrow> Ret (if isk (el_kind e) then Some e else None)))"

definition stage_thumb :: "nat \<Rightarrow> string \<Rightarrow> string \<Rightarrow> 'w stage" where
  "stage_thumb i pipe cam s w = (case pipe_element pipe ''thumb_0'' is_thumbnail (ms_app s) of
     Ret (Some e) \<Rightarrow> (None, s\<lparr>ms_svr := register_all posix_paths (camera_routes i cam) (ms_svr s)\<rparr>, w)
   | Ret None \<Rightarrow> (None, s, w)
   | _ \<Rightarrow> (Some NullDeref, s, w))"

text \<open>
  Only two camera classes override \<^verbatim>\<open>set_framebuffer_callback\<close>; the one of the base class
  throws.
\<close>

definition takes_frame_cb :: "elem_kind \<Rightarrow> bool" where
  "takes_frame_cb k \<longleftrightarrow> k \<in> {Nvac_imx219_pipe, V4L2_alvium_pipe}"

definition stage_frame_cb :: "string \<Rightarrow> string \<Rightarrow> 'w stage" where
  "stage_frame_cb pipe cam s w = (case pipe_element pipe cam is_camera_base (ms_app s) of
     Ret (Some e) \<Rightarrow>
       if takes_frame_cb (el_kind e)
       then (None, s\<lparr>ms_frame_cb := ms_frame_cb s @ [(cam, ''/api/v1/cameras/'' @ cam @ ''/live/full'')]\<rparr>, w)
       else (Some Terminate, s, w)
   | Ret None \<Rightarrow> (None, s, w)
   | _ \<Rightarrow> (Some NullDeref, s, w))"

definition zmq_wanted :: "main_state \<Rightarrow> bool" where
  "zmq_wanted s \<longleftrightarrow> (case m_config (ms_app s) of None \<Rightarrow> False | Some c \<Rightarrow> zeromq_launch c = ''true'')"

definition zcm_wanted :: "main_state \<Rightarrow> bool" where
  "zcm_wanted s \<longleftrightarrow> (case m_config (ms_app s) of None \<Rightarrow> False | Some c \<Rightarrow> zcm_launch c = ''true'')"

definition stage_zmq :: "'w main_env \<Rightarrow> 'w stage" where
  "stage_zmq env s w =
     (if zmq_wanted s then
        (let ep = (case m_config (ms_app s) of None \<Rightarrow> [] | Some c \<Rightarrow> zeromq_ep c);
             (r, z, w) = zeromq_init (me_zmq env) ep zeromq_new w
         in then_stage (outcome_stage env r)
              (then_stage (stage_frame_cb ''pipe0'' ''cam0'') (stage_frame_cb ''pipe1'' ''cam1''))
              (s\<lparr>ms_zmq := Some z\<rparr>) w)
      else (None, s, w))"

text \<open>A second call of \<^verbatim>\<open>init\<close> is what could fail, and there is none.\<close>

definition stage_zcm :: "'w stage" where
  "stage_zcm s w = (None, if zcm_wanted s then s\<lparr>ms_zcm := Some (snd (zcm_init ''ipc'' zcm_new))\<rparr> else s, w)"

definition stage_rpc :: "'w stage" where
  "stage_rpc s w = (None, s\<lparr>ms_svr := register_all posix_paths [(''/api/v1'', JsonrpcCb)] (ms_svr s)\<rparr>, w)"

definition stage_signals :: "'w main_env \<Rightarrow> 'w stage" where
  "stage_signals env s w =
     (let (ok, w) = mask_def_signals (me_sigmask env) w in if \<not> ok then return_stage env (- 1) s w else (None, s, w))"

definition main_setup :: "'w main_env \<Rightarrow> int \<times> int \<Rightarrow> string list \<Rightarrow> 'w stage" where
  "main_setup env indet argv =
     then_stage (stage_process env) (then_stage (stage_options env argv) (then_stage (stage_config env indet argv)
      (then_stage (stage_sensors env) (then_stage (stage_server env) (then_stage (stage_app env)
      (then_stage (stage_thumb 0 ''pipe0'' ''cam0'') (then_stage (stage_thumb 1 ''pipe1'' ''cam1'')
      (then_stage (stage_zmq env) (then_stage stage_zcm (then_stage stage_rpc (stage_signals env)))))))))))"

subsection \<open>Serving\<close>

text \<open>
  The methods added to the JSON-RPC dispatcher. Their calls hold the handler's mutex, so they run one
  after the other; an exception becomes an error response and the process goes on.
\<close>

datatype api_call = Start_camera string | Get_camera_list
  | Start_still_capture string | Stop_still_capture string
  | Start_video_capture string | Stop_video_capture string
  | Start_rtp_stream string string int | Stop_rtp_stream string string int
  | Get_pipeline_status | Get_pipeline_graph
  | Set_camera_property_int string string string int
  | Set_camera_property_str string string string string

abbreviation ended :: "'a outcome \<Rightarrow> unit outcome" where
  "ended \<equiv> map_outcome (\<lambda>_. ())"

definition get_camera_list :: "opaleye_app \<Rightarrow> string list outcome" where
  "get_camera_list a = Ret []"

fun api_dispatch :: "'w app_env \<Rightarrow> api_call \<Rightarrow> opaleye_app \<Rightarrow> 'w \<Rightarrow> unit outcome \<times> opaleye_app \<times> 'w" where
  "api_dispatch env (Start_camera c) a w = (let (r, a) = start_camera c a in (ended r, a, w))"
| "api_dispatch env Get_camera_list a w = (ended (get_camera_list a), a, w)"
| "api_dispatch env (Start_still_capture c) a w = (let (r, a) = start_still_capture c a in (ended r, a, w))"
| "api_dispatch env (Stop_still_capture c) a w = (let (r, a) = stop_still_capture c a in (ended r, a, w))"
| "api_dispatch env (Start_video_capture c) a w = (let (r, a, w) = start_video_capture env c a w in (ended r, a, w))"
| "api_dispatch env (Stop_video_capture c) a w = (let (r, a, w) = stop_video_capture env c a w in (ended r, a, w))"
| "api_dispatch env (Start_rtp_stream n ip port) a w =
     (let (r, a, w) = start_rtp_stream env n ip port a w in (ended r, a, w))"
| "api_dispatch env (Stop_rtp_stream n ip port) a w =
     (let (r, a, w) = stop_rtp_stream env n ip port a w in (ended r, a, w))"
| "api_dispatch env Get_pipeline_status a w = (let (r, a) = get_pipeline_status env a w in (ended r, a, w))"
| "api_dispatch env Get_pipeline_graph a w = (let (r, w) = get_pipeline_graph env a w in (ended r, a, w))"
| "api_dispatch env (Set_camera_property_int p c i v) a w =
     (let (r, w) = set_camera_property_int env p c i v a w in (ended r, a, w))"
| "api_dispatch env (Set_camera_property_str p c i v) a w =
     (let (r, w) = set_camera_property_str env p c i v a w in (ended r, a, w))"

fun serve_calls :: "'w app_env \<Rightarrow> api_call list \<Rightarrow> opaleye_app \<Rightarrow> 'w \<Rightarrow> unit outcome \<times> opaleye_app \<times> 'w" where
  "serve_calls env [] a w = (Ret (), a, w)"
| "serve_calls env (c # cs) a w = (case api_dispatch env c a w of
     (Ret _, a, w) \<Rightarrow> serve_calls env cs a w
   | (Throw _, a, w) \<Rightarrow> serve_calls env cs a w
   | r \<Rightarrow> r)"

text \<open>What a registered camera does with a frame: a null frame is only logged.\<close>

definition frame_cb :: "'w zmq_lib \<Rightarrow> zeromq_svr \<Rightarrow> string \<Rightarrow> string \<Rightarrow> string option \<Rightarrow> 'w \<Rightarrow> unit outcome \<times> 'w" where
  "frame_cb L z topic metadata frame w = (case frame of
     None \<Rightarrow> (Ret (), w)
   | Some data \<Rightarrow> (let (r, w) = zeromq_send L topic metadata data z w in (ended r, w)))"

subsection \<open>Shutdown\<close>

text \<open>
  The order is the one of the source: no requests any more, then the pipelines, then the sensors and
  the message servers. The ZeroMQ server is shared with the frame callbacks, which the cameras hold;
  it stops when the last of them is gone.
\<close>

definition log_event :: "main_event \<Rightarrow> main_state \<Rightarrow> main_state" where
  "log_event e s = s\<lparr>ms_events := ms_events s @ [e]\<rparr>"

definition stop_sensors :: "main_state \<Rightarrow> main_state" where
  "stop_sensors s =
     (if th_joinable (ms_sensor_thread s)
      then log_event Sensors_joined (s\<lparr>ms_sensor_thread := join (interrupt (ms_sensor_thread s))\<rparr>) else s)"

definition reset_zmq :: "'w main_env \<Rightarrow> main_state \<Rightarrow> 'w \<Rightarrow> main_state \<times> 'w" where
  "reset_zmq env s w = (case ms_zmq s of
     None \<Rightarrow> (s, w)
   | Some z \<Rightarrow>
       if ms_frame_cb s \<noteq> [] \<and> \<not> list_all (\<lambda>(_, p). p = None) (m_pipelines (ms_app s)) then (log_event Zmq_reset s, w)
       else (log_event Zmq_reset (s\<lparr>ms_zmq := None\<rparr>), snd (snd (zeromq_stop (me_zmq env) z w))))"

definition reset_zcm :: "main_state \<Rightarrow> main_state" where
  "reset_zcm s = (if ms_zcm s \<noteq> None then log_event Zcm_reset (s\<lparr>ms_zcm := None\<rparr>) else s)"

definition main_shutdown :: "'w main_env \<Rightarrow> main_state \<Rightarrow> 'w \<Rightarrow> int outcome \<times> main_state \<times> 'w" where
  "main_shutdown env s w =
     (let (_, svr, w) = svr_stop (me_shutdown env) (me_close env) (ms_svr s) w;
          s = log_event Server_stopped (s\<lparr>ms_svr := svr\<rparr>);
          (r, a) = app_stop (ms_app s);
          s = s\<lparr>ms_app := a\<rparr>
      in case r of
           Ret _ \<Rightarrow>
             (let s = stop_sensors (log_event App_stopped s);
                  (s, w) = reset_zmq env s w;
                  s = log_event Logs_shut (reset_zcm s)
              in leave_main env 0 s w)
         | NullDeref \<Rightarrow> (NullDeref, s, w)
         | Hang \<Rightarrow> (Hang, s, w)
         | _ \<Rightarrow> (Terminate, s, w))"

text \<open>
  The whole program: the start-up, the calls served until the loop on the signals ends, and the
  shutdown. A call that does not come back keeps its worker, so the join of the workers, which begins
  the shutdown, does not end either.
\<close>

definition opaleye_main ::
    "'w main_env \<Rightarrow> int \<times> int \<Rightarrow> string list \<Rightarrow> api_call list \<Rightarrow> (int \<times> int) list \<Rightarrow>
     main_state \<Rightarrow> 'w \<Rightarrow> int outcome \<times> main_state \<times> 'w" where
  "opaleye_main env indet argv calls evs s w = (case main_setup env indet argv s w of
     (Some r, s, w) \<Rightarrow> (r, s, w)
   | (None, s, w) \<Rightarrow>
       (let (r, a, w) = serve_calls (me_app env) calls (ms_app s) w; s = s\<lparr>ms_app := a\<rparr>
        in case r of
             Ret _ \<Rightarrow> (case main_wait evs (ms_sig s) of
                 None \<Rightarrow> (Hang, s, w)
               | Some (h, _) \<Rightarrow> main_shutdown env (s\<lparr>ms_sig := h\<rparr>) w)
           | Hang \<Rightarrow> (Hang, s, w)
           | NullDeref \<Rightarrow> (NullDeref, s, w)
           | _ \<Rightarrow> (Terminate, s, w)))"

subsection \<open>Reasoning about the start-up\<close>

text \<open>
  A step of the start-up, seen as a command with two exits: from a state with the first property it
  goes on to one with the second, or ends the program with an outcome and a state in the third.
\<close>

definition post :: "(main_state \<Rightarrow> bool) \<Rightarrow> (int outcome \<Rightarrow> main_state \<Rightarrow> bool) \<Rightarrow> int outcome option \<Rightarrow> main_state \<Rightarrow> bool" where
  "post Q E r s \<longleftrightarrow> (case r of None \<Rightarrow> Q s | Some x \<Rightarrow> E x s)"

lemma post_simps [simp]: "post Q E None s = Q s" "post Q E (Some x) s = E x s"
  by (simp_all add: post_def)

definition stage_ok ::
    "(main_state \<Rightarrow> bool) \<Rightarrow> 'w stage \<Rightarrow> (main_state \<Rightarrow> bool) \<Rightarrow> (int outcome \<Rightarrow> main_state \<Rightarrow> bool) \<Rightarrow> bool" where
  "stage_ok P f Q E \<longleftrightarrow> (\<forall>s w r s' w'. P s \<longrightarrow> f s w = (r, s', w') \<longrightarrow>
     post Q E r s')"

lemma stage_okI:
  "(\<And>s w r s' w'. P s \<Longrightarrow> f s w = (r, s', w') \<Longrightarrow> post Q E r s') \<Longrightarrow> stage_ok P f Q E"
  unfolding stage_ok_def by blast

lemma stage_okD:
  "stage_ok P f Q E \<Longrightarrow> P s \<Longrightarrow> f s w = (r, s', w') \<Longrightarrow> post Q E r s'"
  unfolding stage_ok_def by blast

lemma stage_ok_weaken:
  assumes "stage_ok P f Q E" and "\<And>s. Q s \<Longrightarrow> R s"
  shows "stage_ok P f R E"
proof (rule stage_okI)
  fix s w r s' w'
  assume "P s" and "f s w = (r, s', w')"
  from stage_okD [OF assms(1) this] assms(2) show "post R E r s'" by (cases r) simp_all
qed

lemma stage_ok_then:
  assumes "stage_ok P f Q E" and "stage_ok Q g R E"
  shows "stage_ok P (then_stage f g) R E"
proof (rule stage_okI)
  fix s w r s' w'
  assume "P s" and t: "then_stage f g s w = (r, s', w')"
  obtain x s1 w1 where f: "f s w = (x, s1, w1)" by (metis prod_cases3)
  note q = stage_okD [OF assms(1) \<open>P s\<close> f]
  show "post R E r s'"
  proof (cases x)
    case None
    then show ?thesis using stage_okD [OF assms(2)] q t f by (simp add: then_stage_def)
  next
    case (Some y)
    then show ?thesis using q t f by (auto simp: then_stage_def)
  qed
qed

text \<open>What a program that returned has left behind: no thread, no server, no running pipeline.\<close>

definition stopped :: "main_state \<Rightarrow> bool" where
  "stopped s \<longleftrightarrow> quiet (m_pipelines (ms_app s)) \<and> \<not> th_joinable (ms_sensor_thread s) \<and>
     m_thread_pool (ms_svr s) = [] \<and> ms_zmq s = None \<and> ms_zcm s = None"

lemma live_quiet: "live ps \<Longrightarrow> quiet ps \<Longrightarrow> ps = []"
  by (cases ps) (auto simp: live_def quiet_def list_all_iff)

lemma svr_stop_frame:
  "svr_stop f g svr w = (r, svr', w') \<Longrightarrow> r \<and> m_thread_pool svr' = [] \<and> m_cb_table svr' = m_cb_table svr"
  by (auto simp: svr_stop_def Let_def split: prod.splits)

lemma leave_main_Ret:
  "leave_main env r s w = (Ret n, s', w') \<Longrightarrow> n = r \<and> stopped s' \<and> ms_app s' = ms_app s \<and> ms_events s' = ms_events s"
  by (auto simp: leave_main_def stopped_def Let_def svr_stop_def split: if_splits option.splits prod.splits)

lemma leave_main_quiet:
  assumes "quiet (m_pipelines (ms_app s))" and "\<not> th_joinable (ms_sensor_thread s)"
  shows "\<exists>s' w'. leave_main env r s w = (Ret r, s', w')"
  using assms by (auto simp: leave_main_def Let_def split: option.splits prod.splits)

lemma map_outcome_goes_on [simp]: "goes_on (map_outcome f r) = goes_on r"
  by (cases r) (simp_all add: goes_on_def)

lemma api_dispatch_run:
  assumes "app_run env a" and "api_dispatch env c a w = (r, a', w')" and "goes_on r"
  shows "app_run env a'"
proof (cases c)
  case (Start_video_capture x)
  then show ?thesis using assms capture [of env a x w]
    by (cases "start_video_capture env x a w") auto
next
  case (Stop_video_capture x)
  then show ?thesis using assms capture_end [of env a x w]
    by (cases "stop_video_capture env x a w") auto
next
  case (Start_rtp_stream n ip port)
  then show ?thesis using assms stream [of env a n ip port w]
    by (cases "start_rtp_stream env n ip port a w") auto
next
  case (Stop_rtp_stream n ip port)
  then show ?thesis using assms stream_end [of env a n ip port w]
    by (cases "stop_rtp_stream env n ip port a w") auto
next
  case Get_pipeline_status
  then show ?thesis using assms status [of env a w]
    by (cases "get_pipeline_status env a w") auto
qed (use assms in \<open>auto simp: start_camera_def start_still_capture_def stop_still_capture_def split: prod.splits\<close>)

lemma serve_calls_run: "serve_calls env cs a w = (Ret (), a', w') \<Longrightarrow> app_run env a \<Longrightarrow> app_run env a'"
proof (induction cs arbitrary: a w)
  case (Cons c cs)
  obtain r a1 w1 where d: "api_dispatch env c a w = (r, a1, w1)" by (metis prod_cases3)
  have "goes_on r" "serve_calls env cs a1 w1 = (Ret (), a', w')"
    using Cons.prems(1) d by (cases r; simp add: goes_on_def)+
  with Cons.IH api_dispatch_run [OF Cons.prems(2) d] show ?case by blast
qed simp

definition routed :: "(string \<times> route_cb) list \<Rightarrow> main_state \<Rightarrow> bool" where
  "routed rs s \<longleftrightarrow> m_cb_table (ms_svr s) = m_cb_table (register_all posix_paths rs (fcgi_svr_new posix_paths))"

definition up :: "'w main_env \<Rightarrow> (string \<times> route_cb) list set \<Rightarrow> main_state \<Rightarrow> bool" where
  "up env R s \<longleftrightarrow> app_run (me_app env) (ms_app s) \<and> ms_events s = [] \<and> ms_sig s = signal_handler_new \<and>
     (\<exists>rs \<in> R. routed rs s)"

definition fresh :: "'w main_env \<Rightarrow> (string \<times> route_cb) list set \<Rightarrow> main_state \<Rightarrow> bool" where
  "fresh env R s \<longleftrightarrow> up env R s \<and> ms_app s = opaleye_app_new"

definition ends :: "'w main_env \<Rightarrow> string list \<Rightarrow> int outcome \<Rightarrow> main_state \<Rightarrow> bool" where
  "ends env argv x s \<longleftrightarrow> (\<forall>n. x = Ret n \<longrightarrow> stopped s \<and>
     (n = - 1 \<and> m_pipelines (ms_app s) = [] \<or> n = 0 \<and> me_parse env argv = Args_help))"

lemma routed_register:
  "routed rs s \<Longrightarrow> routed (rs @ rs') (s\<lparr>ms_svr := register_all posix_paths rs' (ms_svr s)\<rparr>)"
  by (simp add: routed_def register_all_table install_rows_def)

text \<open>The other components of the state do not matter to these.\<close>

lemma up_frame [simp]:
  "up env R (s\<lparr>ms_gst_level := x1\<rparr>) = up env R s" "up env R (s\<lparr>ms_cfg := x2\<rparr>) = up env R s"
  "up env R (s\<lparr>ms_sensor := x3\<rparr>) = up env R s" "up env R (s\<lparr>ms_sensor_thread := x4\<rparr>) = up env R s"
  "up env R (s\<lparr>ms_zmq := x5\<rparr>) = up env R s" "up env R (s\<lparr>ms_zcm := x6\<rparr>) = up env R s"
  "up env R (s\<lparr>ms_frame_cb := x7\<rparr>) = up env R s"
  by (simp_all add: up_def routed_def)

lemma fresh_new: "fresh env {[]} (main_state_new tc bc)"
proof -
  have "app_run (me_app env) (opaleye_app_new\<lparr>m_config := None\<rparr>)" by (rule created)
  then show ?thesis
    by (simp add: fresh_def up_def routed_def main_state_new_def register_all_def opaleye_app_new_def)
qed

text \<open>An error return gets through the destructors only when no pipeline was built.\<close>

lemma return_ends:
  assumes "up env R s" and "return_stage env r s w = (x, s', w')"
    and "r = - 1 \<or> r = 0 \<and> me_parse env argv = Args_help \<and> ms_app s = opaleye_app_new"
  shows "post Q (ends env argv) x s'"
proof -
  obtain y where y: "x = Some y" "leave_main env r s w = (y, s', w')"
    using assms(2) by (auto simp: return_stage_def split: prod.splits)
  have l: "live (m_pipelines (ms_app s))" using assms(1) app_run_live by (auto simp: up_def)
  have "ends env argv y s'" unfolding ends_def
  proof (intro allI impI)
    fix n assume "y = Ret n"
    then have n: "n = r" "stopped s'" "ms_app s' = ms_app s" using leave_main_Ret [of env r s w n s' w'] y(2) by simp_all
    then have "m_pipelines (ms_app s') = []" using live_quiet [OF l] by (simp add: stopped_def)
    with n assms(3) show "stopped s' \<and> (n = - 1 \<and> m_pipelines (ms_app s') = [] \<or> n = 0 \<and> me_parse env argv = Args_help)"
      by auto
  qed
  with y show ?thesis by simp
qed

lemma return_error:
  "return_stage env (- 1) s w = (x, s', w') \<Longrightarrow> up env R s \<Longrightarrow> post Q (ends env argv) x s'"
  using return_ends [of env R s "- 1" w x s' w' argv Q] by simp

lemma outcome_stage_ok: "up env R s \<Longrightarrow> (r = Ret True \<Longrightarrow> Q s) \<Longrightarrow> outcome_stage env r s w = (x, s', w') \<Longrightarrow>
   post Q (ends env argv) x s'"
  using return_ends [of env R s "- 1" w x s' w' argv Q]
  by (auto simp: outcome_stage_def ends_def split: outcome.splits if_splits)

lemma stage_process_ok: "stage_ok (fresh env R) (stage_process env) (fresh env R) (ends env argv)"
proof (rule stage_okI)
  fix s w r s' w'
  assume "fresh env R s" and "stage_process env s w = (r, s', w')"
  then show "post (fresh env R) (ends env argv) r s'"
    by (auto simp: stage_process_def fresh_def elim!: return_ends split: prod.splits if_splits)
qed

lemma stage_options_ok: "stage_ok (fresh env R) (stage_options env argv) (fresh env R) (ends env argv)"
proof (rule stage_okI)
  fix s w r s' w'
  assume s: "fresh env R s" "stage_options env argv s w = (r, s', w')"
  then show "post (fresh env R) (ends env argv) r s'"
    by (auto simp: stage_options_def fresh_def elim!: return_ends
        split: prod.splits if_splits parsed_args.splits option.splits)
qed

lemma stage_config_ok: "stage_ok (fresh env R) (stage_config env indet argv) (fresh env R) (ends env argv)"
proof (rule stage_okI)
  fix s w r s' w'
  assume "fresh env R s" and "stage_config env indet argv s w = (r, s', w')"
  then show "post (fresh env R) (ends env argv) r s'"
    by (auto simp: stage_config_def fresh_def ends_def [of env argv Terminate] Let_def elim!: return_error [where R = R]
        split: prod.splits if_splits option.splits)
qed

lemma stage_sensors_ok: "stage_ok (fresh env R) (stage_sensors env) (fresh env R) (ends env argv)"
proof (rule stage_okI)
  fix s w r s' w'
  assume "fresh env R s" and "stage_sensors env s w = (r, s', w')"
  then show "post (fresh env R) (ends env argv) r s'"
    by (auto simp: stage_sensors_def fresh_def Let_def elim!: return_error [where R = R]
        split: prod.splits if_splits)
qed

lemma svr_start_table: "m_cb_table (fst (snd (svr_start f a n svr w))) = m_cb_table svr"
  by (simp add: svr_start_def Let_def split: prod.splits)

lemma stage_server_ok: "stage_ok (fresh env {[]}) (stage_server env) (fresh env {fixed_routes}) (ends env argv)"
proof (rule stage_okI)
  fix s w r s' w'
  assume f: "fresh env {[]} s" and "stage_server env s w = (r, s', w')"
  then obtain ok svr where st: "svr_start (me_open_socket env) ''127.0.0.1:50000'' 4
      (register_all posix_paths fixed_routes (ms_svr s)) w = (ok, svr, w')" and s': "r = None" "s' = s\<lparr>ms_svr := svr\<rparr>"
    by (auto simp: stage_server_def Let_def split: prod.splits)
  have "routed [] s" using f by (simp add: fresh_def up_def)
  then have "routed fixed_routes s'"
    using routed_register [of "[]" s fixed_routes] s' svr_start_table [of "me_open_socket env" "''127.0.0.1:50000''" 4
      "register_all posix_paths fixed_routes (ms_svr s)" w] st by (simp add: routed_def)
  then show "post (fresh env {fixed_routes}) (ends env argv) r s'" using f s' by (auto simp: fresh_def up_def)
qed

lemma stage_app_ok: "stage_ok (fresh env R) (stage_app env) (up env R) (ends env argv)"
proof (rule stage_okI)
  fix s w r s' w'
  assume f: "fresh env R s" and t: "stage_app env s w = (r, s', w')"
  define a0 where "a0 = opaleye_app_new\<lparr>m_config := mgr_config (ms_cfg s)\<rparr>"
  obtain x a w1 where i: "app_init (me_app env) a0 w = (x, a, w1)" by (metis prod_cases3)
  have ra0: "app_run (me_app env) a0" unfolding a0_def by (rule created)
  have up: "up env R (s\<lparr>ms_app := b\<rparr>)" if "app_run (me_app env) b" for b
    using that f by (auto simp: fresh_def up_def routed_def)
  let ?g = "\<lambda>s w. let (r, a) = app_start (ms_app s) in outcome_stage env r (s\<lparr>ms_app := a\<rparr>) w"
  have t': "then_stage (outcome_stage env x) ?g (s\<lparr>ms_app := a\<rparr>) w1 = (r, s', w')"
    using t f i by (simp add: stage_app_def a0_def fresh_def)
  show "post (up env R) (ends env argv) r s'"
  proof (cases "goes_on x")
    case False
    then show ?thesis using t' by (cases x) (auto simp: goes_on_def then_stage_def outcome_stage_def ends_def)
  next
    case True
    have ra: "app_run (me_app env) a" using initialised [OF ra0 i True] .
    have g: "stage_ok (up env R) ?g (up env R) (ends env argv)"
    proof (rule stage_okI)
      fix s w r s' w'
      assume u: "up env R s" and g: "?g s w = (r, s', w')"
      obtain y b where y: "app_start (ms_app s) = (y, b)" by fastforce
      have "live (m_pipelines (ms_app s))" using u app_run_live by (auto simp: up_def)
      then have go: "y = Ret True" using start_pipes_live y by (fastforce simp: app_start_def)
      have "app_run (me_app env) b"
        using u started [of "me_app env", OF _ y] go by (simp add: goes_on_def up_def)
      then have "up env R (s\<lparr>ms_app := b\<rparr>)" using u by (auto simp: up_def routed_def)
      then show "post (up env R) (ends env argv) r s'"
        using g y by (auto intro: outcome_stage_ok)
    qed
    have "stage_ok (up env R) (outcome_stage env x) (up env R) (ends env argv)"
      by (rule stage_okI) (rule outcome_stage_ok)
    from stage_okD [OF stage_ok_then [OF this g] up [OF ra] t'] show ?thesis .
  qed
qed

lemma stage_thumb_ok:
  "stage_ok (up env R) (stage_thumb i pipe cam) (up env (R \<union> (\<lambda>rs. rs @ camera_routes i cam) ` R)) (ends env argv)"
proof (rule stage_okI)
  fix s w r s' w'
  assume u: "up env R s" and t: "stage_thumb i pipe cam s w = (r, s', w')"
  have "\<exists>rs \<in> R. routed rs s" using u by (simp add: up_def)
  then have "\<exists>rs \<in> (\<lambda>rs. rs @ camera_routes i cam) ` R.
      routed rs (s\<lparr>ms_svr := register_all posix_paths (camera_routes i cam) (ms_svr s)\<rparr>)"
    using routed_register by blast
  then show "post (up env (R \<union> (\<lambda>rs. rs @ camera_routes i cam) ` R)) (ends env argv) r s'"
    using u t by (auto simp: stage_thumb_def up_def ends_def split: outcome.splits option.splits)
qed

lemma stage_frame_cb_ok: "stage_ok (up env R) (stage_frame_cb pipe cam) (up env R) (ends env argv)"
  by (rule stage_okI) (auto simp: stage_frame_cb_def ends_def split: outcome.splits option.splits if_splits)

lemma stage_zmq_ok: "stage_ok (up env R) (stage_zmq env) (up env R) (ends env argv)"
proof (rule stage_okI)
  fix s w r s' w'
  assume u: "up env R s" and t: "stage_zmq env s w = (r, s', w')"
  show "post (up env R) (ends env argv) r s'"
  proof (cases "zmq_wanted s")
    case True
    define ep where "ep = (case m_config (ms_app s) of None \<Rightarrow> [] | Some c \<Rightarrow> zeromq_ep c)"
    obtain x z w1 where z: "zeromq_init (me_zmq env) ep zeromq_new w = (x, z, w1)" by (metis prod_cases3)
    have "stage_ok (up env R) (outcome_stage env x) (up env R) (ends env argv)"
      by (rule stage_okI) (rule outcome_stage_ok)
    from stage_okD [OF stage_ok_then [OF this stage_ok_then [OF stage_frame_cb_ok stage_frame_cb_ok]], of "s\<lparr>ms_zmq := Some z\<rparr>"]
    show ?thesis using u t True z by (simp add: stage_zmq_def ep_def)
  qed (use u t in \<open>simp add: stage_zmq_def\<close>)
qed

lemma stage_zcm_ok: "stage_ok (up env R) stage_zcm (up env R) (ends env argv)"
  by (rule stage_okI) (auto simp: stage_zcm_def)

lemma stage_rpc_ok:
  "stage_ok (up env R) stage_rpc (up env ((\<lambda>rs. rs @ [(''/api/v1'', JsonrpcCb)]) ` R)) (ends env argv)"
  by (rule stage_okI) (auto simp: stage_rpc_def up_def dest: routed_register [of _ _ "[(''/api/v1'', JsonrpcCb)]"])

lemma stage_signals_ok: "stage_ok (up env R) (stage_signals env) (up env R) (ends env argv)"
  by (rule stage_okI) (auto simp: stage_signals_def elim!: return_ends split: prod.splits if_splits)

lemmas setup_stages_ok = stage_process_ok stage_options_ok stage_config_ok stage_sensors_ok stage_server_ok
  stage_app_ok stage_thumb_ok stage_zmq_ok stage_zcm_ok stage_rpc_ok stage_signals_ok

definition all_routes :: "(string \<times> route_cb) list set" where
  "all_routes = {main_routes a b | a b. True}"

lemma main_setup_ok: "stage_ok (fresh env {[]}) (main_setup env indet argv) (up env all_routes) (ends env argv)"
proof -
  let ?R = "(\<lambda>rs. rs @ [(''/api/v1'', JsonrpcCb)]) `
    (({fixed_routes} \<union> (\<lambda>rs. rs @ camera_routes 0 ''cam0'') ` {fixed_routes}) \<union>
     (\<lambda>rs. rs @ camera_routes 1 ''cam1'') ` ({fixed_routes} \<union> (\<lambda>rs. rs @ camera_routes 0 ''cam0'') ` {fixed_routes}))"
  have "?R \<subseteq> all_routes"
  proof -
    have "fixed_routes @ (if a then camera_routes 0 ''cam0'' else []) @ (if b then camera_routes 1 ''cam1'' else []) @
        [(''/api/v1'', JsonrpcCb)] \<in> all_routes" for a b
      unfolding all_routes_def main_routes_def fixed_routes_def by blast
    from this [of True True] this [of True False] this [of False True] this [of False False] show ?thesis by simp
  qed
  then have w: "up env ?R s \<Longrightarrow> up env all_routes s" for s by (auto simp: up_def)
  have "stage_ok (fresh env {[]}) (main_setup env indet argv) (up env ?R) (ends env argv)"
    unfolding main_setup_def by (rule stage_ok_then, rule setup_stages_ok)+ (rule setup_stages_ok)
  then show ?thesis using w by (rule stage_ok_weaken)
qed

subsection \<open>The life of the program\<close>

definition shutdown_order :: "main_state \<Rightarrow> main_event list" where
  "shutdown_order s = [Server_stopped, App_stopped] @
     (if th_joinable (ms_sensor_thread s) then [Sensors_joined] else []) @
     (if ms_zmq s \<noteq> None then [Zmq_reset] else []) @ (if ms_zcm s \<noteq> None then [Zcm_reset] else []) @ [Logs_shut]"

lemma main_shutdown_clean:
  assumes "app_run (me_app env) (ms_app s)" and "ms_events s = []"
  shows "\<exists>s' w'. main_shutdown env s w = (Ret 0, s', w') \<and> stopped s' \<and> ms_events s' = shutdown_order s \<and>
    m_pipelines (ms_app s') = map (\<lambda>(n, _). (n, None)) (m_pipelines (ms_app s))"
proof -
  obtain r svr w1 where sv: "svr_stop (me_shutdown env) (me_close env) (ms_svr s) w = (r, svr, w1)" by (metis prod_cases3)
  define a where "a = (ms_app s)\<lparr>m_pipelines := map (\<lambda>(n, _). (n, None)) (m_pipelines (ms_app s))\<rparr>"
  have st: "app_stop (ms_app s) = (Ret True, a)"
    using stop_pipes_live [OF app_run_live [OF assms(1)]] by (simp add: app_stop_def a_def)
  define s1 where "s1 = stop_sensors (log_event App_stopped (log_event Server_stopped (s\<lparr>ms_svr := svr\<rparr>)\<lparr>ms_app := a\<rparr>))"
  have none: "list_all (\<lambda>(_, p). p = None) (m_pipelines a)" by (auto simp: a_def list_all_iff)
  have j: "\<not> th_joinable (ms_sensor_thread s1)" "ms_app s1 = a" "ms_zmq s1 = ms_zmq s" "ms_zcm s1 = ms_zcm s"
    "ms_events s1 = [Server_stopped, App_stopped] @ (if th_joinable (ms_sensor_thread s) then [Sensors_joined] else [])"
    by (auto simp: s1_def stop_sensors_def log_event_def join_def interrupt_def assms(2))
  obtain s2 w2 where z: "reset_zmq env s1 w1 = (s2, w2)" by fastforce
  define s3 where "s3 = log_event Logs_shut (reset_zcm s2)"
  have s3: "\<not> th_joinable (ms_sensor_thread s3)" "ms_app s3 = a" "ms_events s3 = shutdown_order s"
    using z j none
    by (auto simp: s3_def reset_zmq_def reset_zcm_def log_event_def shutdown_order_def split: option.splits if_splits)
  have "quiet (m_pipelines a)" by (auto simp: quiet_def a_def list_all_iff)
  then obtain s' w' where l: "leave_main env 0 s3 w2 = (Ret 0, s', w')"
    using leave_main_quiet [of s3 env 0 w2] s3 by auto
  have "main_shutdown env s w = (Ret 0, s', w')"
    using sv st z l by (simp add: main_shutdown_def Let_def log_event_def [of Server_stopped] s1_def s3_def)
  then show ?thesis using leave_main_Ret [OF l] s3 by (auto simp: a_def)
qed

text \<open>
  C8. Whatever makes the program return, it has stopped everything it started: no worker, no sensor
  thread, no pipeline and no message server is left. It returns 0 only for the usage text or after an
  interrupt signal, and then in the order the source gives: the workers are joined before the pipelines
  whose elements they refer to are released. An error code is returned only if no pipeline had been
  built; with one, an error ends the process without it.
\<close>

theorem main_returns_stopped:
  assumes "opaleye_main env indet argv calls evs (main_state_new tc bc) w = (Ret n, s, w')"
  shows "stopped s \<and> (n = - 1 \<and> m_pipelines (ms_app s) = [] \<or>
    n = 0 \<and> (me_parse env argv = Args_help \<or>
      SIGINT \<in> fst ` set evs \<and> list_all (\<lambda>(_, p). p = None) (m_pipelines (ms_app s)) \<and>
      (\<exists>mid. ms_events s = Server_stopped # App_stopped # mid @ [Logs_shut])))"
proof -
  obtain x s1 w1 where m: "main_setup env indet argv (main_state_new tc bc) w = (x, s1, w1)" by (metis prod_cases3)
  note ok = stage_okD [OF main_setup_ok fresh_new m]
  show ?thesis
  proof (cases x)
    case (Some y)
    then show ?thesis using ok m assms by (auto simp: opaleye_main_def ends_def)
  next
    case None
    then have u: "up env all_routes s1" using ok by simp
    obtain r a w2 where c: "serve_calls (me_app env) calls (ms_app s1) w1 = (r, a, w2)" by (metis prod_cases3)
    obtain h rest where r: "r = Ret ()" and h: "main_wait evs signal_handler_new = Some (h, rest)"
      and d: "main_shutdown env (s1\<lparr>ms_app := a, ms_sig := h\<rparr>) w2 = (Ret n, s, w')"
      using assms None m c u by (cases r) (auto simp: opaleye_main_def up_def Let_def split: option.splits)
    have "app_run (me_app env) a" using serve_calls_run c r u by (auto simp: up_def)
    then have cl: "n = 0" "stopped s" "ms_events s = shutdown_order (s1\<lparr>ms_app := a, ms_sig := h\<rparr>)"
      "m_pipelines (ms_app s) = map (\<lambda>(n, _). (n, None)) (m_pipelines a)"
      using main_shutdown_clean [of env "s1\<lparr>ms_app := a, ms_sig := h\<rparr>" w2] d u by (auto simp: up_def)
    have "SIGINT \<in> fst ` set evs"
      using h by (rule main_wait_SomeD)
    moreover have "\<exists>mid. ms_events s = Server_stopped # App_stopped # mid @ [Logs_shut]"
      using cl(3) by (auto simp: shutdown_order_def)
    ultimately show ?thesis using cl by (auto simp: list_all_iff)
  qed
qed

lemma main_serves:
  assumes "main_setup env indet argv (main_state_new tc bc) w = (None, s1, w1)"
    and "serve_calls (me_app env) calls (ms_app s1) w1 = (Ret (), a, w2)" and "SIGINT \<in> fst ` set evs"
  shows "\<exists>s w'. opaleye_main env indet argv calls evs (main_state_new tc bc) w = (Ret 0, s, w') \<and>
    ms_events s = shutdown_order s1 \<and> m_pipelines (ms_app s) = map (\<lambda>(n, _). (n, None)) (m_pipelines a)"
proof -
  have u: "up env all_routes s1" using stage_okD [OF main_setup_ok fresh_new assms(1)] by simp
  then have r: "app_run (me_app env) a" using serve_calls_run [OF assms(2)] by (simp add: up_def)
  obtain rest where h: "main_wait evs signal_handler_new = Some (signal_handler_new, rest)"
    using main_wait_returns [OF assms(3)] by blast
  have e: "shutdown_order (s1\<lparr>ms_app := a, ms_sig := h\<rparr>) = shutdown_order s1" for h by (simp add: shutdown_order_def)
  have "opaleye_main env indet argv calls evs (main_state_new tc bc) w =
      main_shutdown env (s1\<lparr>ms_app := a, ms_sig := signal_handler_new\<rparr>) w2"
    using assms(1,2) h u by (simp add: opaleye_main_def up_def Let_def)
  then show ?thesis
    using main_shutdown_clean [of env "s1\<lparr>ms_app := a, ms_sig := signal_handler_new\<rparr>" w2] r u e by (auto simp: up_def)
qed

definition demo_config :: "string \<Rightarrow> app_config" where
  "demo_config kind = (app_make_default (app_config_new 0 0))\<lparr>camera_configs := [(''cam0'', demo_camera\<lparr>cc_type := kind,
     cc_pipeline := pipeline_config_new\<lparr>pl_name := ''pipe0'', pl_type := kind\<rparr>\<rparr>)]\<rparr>"

definition demo_main :: "string \<Rightarrow> u32 list main_env" where
  "demo_main kind = \<lparr>me_setenv = \<lambda>_ _ w. (0, w), me_sigmask = \<lambda>_ w. (0, w), me_parse = \<lambda>_. Args [] ''none'' None,
     me_read_xml = \<lambda>_. Some (app_serialize (\<lambda>p. p) (demo_config kind)), me_log_sink = \<lambda>_ w. (True, w),
     me_open_dev = \<lambda>_ w. (- 1, w), me_rdwr = \<lambda>_ _ w. (- 1, [], w), me_open_socket = \<lambda>_ w. (3, w),
     me_shutdown = \<lambda>_ w. (0, w), me_close = \<lambda>_ w. (0, w), me_app = demo_env,
     me_zmq = \<lparr>zl_context = \<lambda>w. (True, w), zl_socket = \<lambda>w. (True, w), zl_set = \<lambda>_ _ w. (True, w),
       zl_bind = \<lambda>_ w. (True, w), zl_close_socket = \<lambda>w. w, zl_close_context = \<lambda>w. w, zl_send = \<lambda>_ w. (Sent, w)\<rparr>\<rparr>"

definition demo_tsys :: tsys_cal where
  "demo_tsys = \<lparr>k4 = 0, k3 = 0, k2 = 0, k1 = 0, k0 = 0\<rparr>"

definition demo_ms :: ms_cal where
  "demo_ms = \<lparr>crc_factory = 0, c1 = 0, c2 = 0, c3 = 0, c4 = 0, c5 = 0, c6 = 0\<rparr>"

lemma demo_setup:
  obtains s w where "main_setup (demo_main ''virtual'') (0, 0) [] (main_state_new demo_tsys demo_ms) [] = (None, s, w)"
proof -
  have "fst (main_setup (demo_main ''virtual'') (0, 0) [] (main_state_new demo_tsys demo_ms) []) = None" by code_simp
  then show thesis using that by (metis prod.collapse)
qed

theorem main_returns_stopped_witness:
  "\<exists>s w'. opaleye_main (demo_main ''virtual'') (0, 0) [] [] [(- 1, 4), (10, 0), (2, 0)]
       (main_state_new demo_tsys demo_ms) [] = (Ret 0, s, w') \<and>
     stopped s \<and> list_all (\<lambda>(_, p). p = None) (m_pipelines (ms_app s))"
proof -
  obtain s1 w1 where m: "main_setup (demo_main ''virtual'') (0, 0) [] (main_state_new demo_tsys demo_ms) [] = (None, s1, w1)"
    by (rule demo_setup)
  have "SIGINT \<in> fst ` set [(- 1, 4), (10, 0), (2 :: int, 0 :: int)]" by (simp add: SIGINT_def)
  then obtain s w' where r: "opaleye_main (demo_main ''virtual'') (0, 0) [] [] [(- 1, 4), (10, 0), (2, 0)]
       (main_state_new demo_tsys demo_ms) [] = (Ret 0, s, w')"
    using main_serves [OF m serve_calls.simps(1)] by blast
  have "me_parse (demo_main ''virtual'') [] \<noteq> Args_help" by (simp add: demo_main_def)
  with main_returns_stopped [OF r] r show ?thesis by auto
qed



lemma get_cb_table:
  assumes "m_cb_table svr = m_cb_table svr'"
  shows "get_cb_for_doc_uri P u svr = get_cb_for_doc_uri P u svr'"
  unfolding get_cb_for_doc_uri_def assms ..

text \<open>
  C29. In the running program, whatever cameras are configured, every sensor address the sensors handler
  understands reaches that handler: the table the start-up built and the grammar of the handler agree.
\<close>

theorem program_routes_sensors:
  assumes "main_setup env indet argv (main_state_new tc bc) w = (None, s, w')" and "sensor_uri_wf u"
  shows "get_cb_for_doc_uri posix_paths (print_sensor_uri u) (ms_svr s) = Inr (Some SensorsCb)"
proof -
  have "up env all_routes s" using stage_okD [OF main_setup_ok fresh_new assms(1)] by simp
  then obtain a b where "m_cb_table (ms_svr s) = m_cb_table (main_svr a b)"
    by (auto simp: up_def all_routes_def routed_def main_svr_def)
  from get_cb_table [OF this] sensor_uris_routed [OF assms(2)] show ?thesis by simp
qed

theorem program_routes_sensors_witness:
  "\<exists>s w'. main_setup (demo_main ''virtual'') (0, 0) [] (main_state_new demo_tsys demo_ms) [] = (None, s, w') \<and>
     get_cb_for_doc_uri posix_paths ''/api/v1/sensor_types/pressure/sensors/0'' (ms_svr s) = Inr (Some SensorsCb)"
proof -
  obtain s w' where m: "main_setup (demo_main ''virtual'') (0, 0) [] (main_state_new demo_tsys demo_ms) [] = (None, s, w')"
    by (rule demo_setup)
  have "sensor_uri_wf (OneSensor ''pressure'' ''0'')" by (simp add: sensor_uri_wf_def is_word_def is_digit_def)
  from program_routes_sensors [OF m this] m show ?thesis by (simp add: print_sensor_uri_def)
qed

subsection \<open>The routes of the images\<close>

text \<open>
  The stages after the start of the application leave its pipelines alone, so the routes of the images
  are determined by the application of the running program.
\<close>

definition has_thumb :: "string \<Rightarrow> opaleye_app \<Rightarrow> bool" where
  "has_thumb pipe a = (case pipe_element pipe ''thumb_0'' is_thumbnail a of Ret (Some _) \<Rightarrow> True | _ \<Rightarrow> False)"

definition routes_by :: "'w main_env \<Rightarrow> (opaleye_app \<Rightarrow> (string \<times> route_cb) list) \<Rightarrow> main_state \<Rightarrow> bool" where
  "routes_by env g s \<longleftrightarrow> up env {g (ms_app s)} s"

lemma stage_keeps_routes:
  assumes "\<And>R. stage_ok (up env R) f (up env R) E" and "\<And>s w s' w'. f s w = (None, s', w') \<Longrightarrow> ms_app s' = ms_app s"
  shows "stage_ok (routes_by env g) f (routes_by env g) E"
proof (rule stage_okI)
  fix s w r s' w' assume u: "routes_by env g s" and f: "f s w = (r, s', w')"
  from stage_okD [OF assms(1) u [unfolded routes_by_def] f] show "post (routes_by env g) E r s'"
    using assms(2) f by (cases r) (auto simp: routes_by_def)
qed

lemma stage_thumb_routes: "stage_ok (routes_by env g) (stage_thumb i pipe cam)
    (routes_by env (\<lambda>a. g a @ (if has_thumb pipe a then camera_routes i cam else []))) (ends env argv)"
proof (rule stage_okI)
  fix s w r s' w' assume u: "routes_by env g s" and t: "stage_thumb i pipe cam s w = (r, s', w')"
  then have "routed (g (ms_app s)) s" by (simp add: routes_by_def up_def)
  note routed_register [OF this, of "camera_routes i cam"]
  then show "post (routes_by env (\<lambda>a. g a @ (if has_thumb pipe a then camera_routes i cam else []))) (ends env argv) r s'"
    using u t by (auto simp: stage_thumb_def has_thumb_def routes_by_def up_def ends_def split: outcome.splits option.splits)
qed

lemma frame_cb_app: "stage_frame_cb pipe cam s w = (None, s', w') \<Longrightarrow> ms_app s' = ms_app s"
  by (auto simp: stage_frame_cb_def split: outcome.splits option.splits if_splits)

lemma outcome_stage_None: "outcome_stage env r s w = (None, s', w') \<Longrightarrow> s' = s"
  by (auto simp: outcome_stage_def return_stage_def split: outcome.splits if_splits prod.splits)

lemma zmq_app: "stage_zmq env s w = (None, s', w') \<Longrightarrow> ms_app s' = ms_app s"
  by (auto simp: stage_zmq_def then_stage_def dest!: frame_cb_app outcome_stage_None
      split: if_splits prod.splits option.splits)

lemma late_stages_routes:
  "stage_ok (routes_by env g) (stage_zmq env) (routes_by env g) (ends env argv)"
  "stage_ok (routes_by env g) stage_zcm (routes_by env g) (ends env argv)"
  "stage_ok (routes_by env g) (stage_signals env) (routes_by env g) (ends env argv)"
  by (rule stage_keeps_routes; auto simp: stage_zcm_def stage_signals_def return_stage_def
      intro: stage_zmq_ok stage_zcm_ok stage_signals_ok dest: zmq_app split: prod.splits if_splits)+

lemma stage_rpc_routes: "stage_ok (routes_by env g) stage_rpc (routes_by env (\<lambda>a. g a @ [(''/api/v1'', JsonrpcCb)])) (ends env argv)"
  by (rule stage_okI) (auto simp: stage_rpc_def routes_by_def up_def dest: routed_register [of _ _ "[(''/api/v1'', JsonrpcCb)]"])

lemma setup_routes_by:
  "stage_ok (fresh env {[]}) (main_setup env indet argv)
     (routes_by env (\<lambda>a. main_routes (has_thumb ''pipe0'' a) (has_thumb ''pipe1'' a))) (ends env argv)"
proof -
  have "stage_ok (fresh env {fixed_routes}) (stage_app env) (routes_by env (\<lambda>a. fixed_routes)) (ends env argv)"
    using stage_app_ok by (rule stage_ok_weaken) (simp add: routes_by_def)
  then have "stage_ok (fresh env {[]}) (main_setup env indet argv)
      (routes_by env (\<lambda>a. ((fixed_routes @ (if has_thumb ''pipe0'' a then camera_routes 0 ''cam0'' else [])) @
         (if has_thumb ''pipe1'' a then camera_routes 1 ''cam1'' else [])) @ [(''/api/v1'', JsonrpcCb)])) (ends env argv)"
    unfolding main_setup_def
    by (intro stage_ok_then [OF stage_process_ok] stage_ok_then [OF stage_options_ok] stage_ok_then [OF stage_config_ok]
        stage_ok_then [OF stage_sensors_ok] stage_ok_then [OF stage_server_ok] stage_ok_then [OF _ stage_ok_then
          [OF stage_thumb_routes stage_ok_then [OF stage_thumb_routes stage_ok_then [OF late_stages_routes(1)
            stage_ok_then [OF late_stages_routes(2) stage_ok_then [OF stage_rpc_routes late_stages_routes(3)]]]]]])
  then show ?thesis by (simp add: main_routes_def fixed_routes_def)
qed

lemma image_routes:
  "list_all (\<lambda>u. get_cb_for_doc_uri posix_paths u (main_svr a b) = Inr (if a then Some (JpegCb 0) else None))
     (map fst (camera_routes 0 ''cam0''))"
  "list_all (\<lambda>u. get_cb_for_doc_uri posix_paths u (main_svr a b) = Inr (if b then Some (JpegCb 1) else None))
     (map fst (camera_routes 1 ''cam1''))"
  by (cases a; cases b; simp_all only:; code_simp)+

lemma setup_image_routes:
  assumes "main_setup env indet argv (main_state_new tc bc) w = (None, s, w')"
    and "(i, cam, pipe) \<in> {(0, ''cam0'', ''pipe0''), (1, ''cam1'', ''pipe1'')}" and "u \<in> fst ` set (camera_routes i cam)"
  shows "get_cb_for_doc_uri posix_paths u (ms_svr s) = Inr (if has_thumb pipe (ms_app s) then Some (JpegCb i) else None)"
proof -
  let ?a = "has_thumb ''pipe0'' (ms_app s)" and ?b = "has_thumb ''pipe1'' (ms_app s)"
  have "m_cb_table (ms_svr s) = m_cb_table (main_svr ?a ?b)"
    using stage_okD [OF setup_routes_by fresh_new assms(1)] by (simp add: routes_by_def up_def routed_def main_svr_def)
  note get_cb_table [OF this, of posix_paths u]
  then show ?thesis using assms(2,3) image_routes [of ?a ?b] by (auto simp: list_all_iff)
qed


definition demo_usb :: gst_element where
  "demo_usb = \<lparr>el_kind = V4L2_webcam_pipe, el_name = ''cam0'', el_util = v4l2_util_new, el_sensor_id = 0, el_active_conn = []\<rparr>"


end
