(* ===== verification/Spec2Isabelle.thy ===== *)
theory Spec2Isabelle
  imports Chrono_Util Thermal_Zone Still_Images Opaleye_Program
begin

section \<open>A verification development of opaleye\<close>

text \<open>
  Opaleye is the camera application of an underwater camera pod: it builds one GStreamer pipeline per
  configured camera, samples a pressure and a temperature sensor, drives a hardware trigger through a
  kernel module, and is controlled over HTTP (a FastCGI bridge with a JSON-RPC entry, still images and
  sensor values) and over ZeroMQ and ZCM. This development models the program's own code under
  \<^verbatim>\<open>src/\<close> as executable HOL functions and proves what makes each part correct; the composition of the parts
  in \<^verbatim>\<open>main.cpp\<close> is modelled too, from the command line to the return value.

  \<^bold>\<open>How the parts interact.\<close> \<^verbatim>\<open>main\<close> reads the configuration, starts the sensor thread and the FastCGI
  workers, registers the request handlers in a tree of paths, initialises and starts the application object,
  which builds a pipeline for each camera, registers the image handlers of their thumbnails, starts the
  message servers and gives them the cameras' frames, and waits for a signal; then it stops the parts in order.
  The workers take requests, find the handler by path and run it; the handlers call the application.
\<close>

subsection \<open>Theories and sources\<close>

text \<open>
  \<^descr> \<^verbatim>\<open>Opaleye_Prelude\<close>: C integer conversions and range checks (a signed overflow is \<^const>\<open>None\<close>),
  decimal formats of \<^verbatim>\<open>printf\<close> and \<^verbatim>\<open>scanf\<close>, list and option lemmas, and the type of outcomes of a call
  (return, exception, end of the process, null pointer, no return).

  \<^descr> \<^verbatim>\<open>Chrono_Util\<close> (\<^verbatim>\<open>libs/opaleye-util/chrono_util.cpp\<close>, \<^verbatim>\<open>Stopwatch.cpp\<close>): conversions between durations and the
  kernel's time structs; adding a duration gives the normalised sum, for either sign.

  \<^descr> \<^verbatim>\<open>Thread_Base\<close> (\<^verbatim>\<open>libs/opaleye-util/thread_base\<close>): launch, interrupt and join, and the wait for the interruption
  as a step relation of two threads: it returns only after the request, and the request can be missed.

  \<^descr> \<^verbatim>\<open>I2c_Linux\<close>, \<^verbatim>\<open>Sensors\<close> (\<^verbatim>\<open>libs/hal\<close>, \<^verbatim>\<open>libs/sensors\<close>, \<^verbatim>\<open>opaleye/sensor_thread\<close>): the bus as a locale, the two drivers
  over it, calibration, and the compensation arithmetic at its C widths: it never overflows for 24-bit samples
  and equals the formulas of the data sheets; the thread publishes what it computed.

  \<^descr> \<^verbatim>\<open>Thermal_Zone\<close> (\<^verbatim>\<open>libs/sensors/linux_thermal_zone.cpp\<close>): the zones of sysfs and their readings.

  \<^descr> \<^verbatim>\<open>Path_Tree\<close> (\<^verbatim>\<open>libs/opaleye-util/.../path\<close>): path helpers and the directory tree with its search modes. A locale gives
  the laws of Boost paths, a second one the laws of a table keyed by paths; the tree is shown to be such a table,
  so that setting and finding are a round trip.

  \<^descr> \<^verbatim>\<open>Http_Common\<close>, \<^verbatim>\<open>Http_Bridge\<close> (\<^verbatim>\<open>libs/http-bridge\<close>): methods, status codes, dates, the request environment, the
  look-up of a handler, the worker's loop and the simple handlers. The contract of a handler (it finishes the request
  exactly once if it returns and leaves it alone if it throws) is a locale, of which every handler is an
  interpretation; from it every accepted request is answered exactly once, and the look-up implements the routing
  specification.

  \<^descr> \<^verbatim>\<open>Ptree_Util\<close>, \<^verbatim>\<open>Http_Handlers\<close> (\<^verbatim>\<open>libs/opaleye-util/ptree_util\<close>, \<^verbatim>\<open>opaleye/http_req_*.cpp\<close>): property trees; the
  JSON-RPC, image and sensor handlers with every refusal.

  \<^descr> \<^verbatim>\<open>Opaleye_Main\<close> (\<^verbatim>\<open>opaleye/main.cpp\<close>): the registrations as a table, and that it sends every address to its handler.

  \<^descr> \<^verbatim>\<open>Gpio_Trigger\<close> (\<^verbatim>\<open>opaleye/Opaleye_gpio_mod_ctrl.cpp\<close>, \<^verbatim>\<open>gpio_thread.cpp\<close>, \<^verbatim>\<open>modules/opaleye_gpio\<close>): the client, the
  kernel module as a state machine of its attribute writes and timer callbacks, and the trigger thread. What the
  client writes is parsed back exactly, and in every reachable state the two timers are in phase.

  \<^descr> \<^verbatim>\<open>Mux_Storage\<close> (\<^verbatim>\<open>libs/camera-pipes/pipeline/storage\<close>): the scan for the next free file and the fragments' names;
  a restart never overwrites a recording.

  \<^descr> \<^verbatim>\<open>V4l2_Util\<close>, \<^verbatim>\<open>V4l2_Metadata\<close>, \<^verbatim>\<open>Alvium_Camera\<close>, \<^verbatim>\<open>Alvium_Pipe\<close> (\<^verbatim>\<open>libs/camera-pipes/util\<close>, \<^verbatim>\<open>cameras\<close>,
  \<^verbatim>\<open>pipeline/camera\<close>): format enumeration, controls and menus over the driver; frame metadata; memory-mapped
  buffers, streaming and the frame loop; the pipe that turns frames into buffers and messages. Shown are
  termination under finitely many interruptions, that a probe finds all controls, the account of the buffers of
  a session, and that a frame is delivered byte for byte.

  \<^descr> \<^verbatim>\<open>App_Config\<close> (\<^verbatim>\<open>opaleye/config\<close>): reading and writing the settings; a round trip with one exception.

  \<^descr> \<^verbatim>\<open>Opaleye_App\<close> (\<^verbatim>\<open>opaleye/Opaleye_app.cpp\<close>, \<^verbatim>\<open>gst_filesink_pipeline.cpp\<close>, \<^verbatim>\<open>GST_app_base.cpp\<close>): the graphs of the
  pipelines as the construction functions make them, with failing and throwing elements and links, the map of
  pipelines, recordings, streams, camera properties; the life cycle as a reachability invariant.

  \<^descr> \<^verbatim>\<open>Gst_Elements\<close> (\<^verbatim>\<open>libs/camera-pipes/pipeline/\<close>): the inside of every class a pipeline is made of: elements, caps,
  properties, links. A locale states what a construction function promises of its plan; each of the four plans
  is an interpretation, so that the flat graph is well linked, and the media types are followed through it.

  \<^descr> \<^verbatim>\<open>Still_Images\<close> (\<^verbatim>\<open>Thumbnail_*_pipe\<close>, \<^verbatim>\<open>nvac_imx219_pipe.cpp\<close>): the copy of a sample into the frame, in bounds, under
  every interleaving with the requests, up to the HTTP reply; the three classes are interpretations of one locale.

  \<^descr> \<^verbatim>\<open>Signal_Handler\<close>, \<^verbatim>\<open>Message_Servers\<close> (\<^verbatim>\<open>opaleye/signal_handler.cpp\<close>, \<^verbatim>\<open>zeromq_api_svr.cpp\<close>, \<^verbatim>\<open>zcm_api_svr.cpp\<close>): signal
  masks and waits; set-up and stop of the servers, the end of the ZCM loop's thread.

  \<^descr> \<^verbatim>\<open>Opaleye_Program\<close> (\<^verbatim>\<open>opaleye/main.cpp\<close>): the whole run in stages; whatever makes it return, nothing it started is
  left running, and once it is up it returns exactly when an interrupt signal arrives.

  The last section of this theory joins the start-up, the routes and the image sources: each image address of the
  running program gives the last image of its camera.
\<close>

subsection \<open>Modelling choices\<close>

text \<open>
  \<^item> Code outside the repository (the kernel, Boost, GStreamer, ZeroMQ, the JSON-RPC dispatcher) is an argument: a
  function or a record of functions on a state of the world \<open>'w\<close>. What a theorem needs of it is a named
  hypothesis on that argument (\<open>path_laws\<close>, \<open>media_laws\<close>, the driver laws of \<open>V4l2_Util\<close>), and the witness of the
  theorem has a concrete instance.

  \<^item> Errors are values: \<^const>\<open>None\<close> for undefined behaviour or a loop that does not end, as each theory says, a
  sum or the type of outcomes for exceptions, \<^verbatim>\<open>false\<close> as in the code.

  \<^item> Loops over data are structural recursions. A loop of a thread takes the list of what it reads in its turns (the
  interrupt flag, the accepted request, the indeterminate values), so a statement for all lists is one for all runs of any
  length. The retries of system calls and the enumerations of the driver are \<^verbatim>\<open>partial_function\<close>s into
  options, and that they return is proved, from the driver interrupting finitely often or having finitely many
  entries. Only the sleep of the trigger thread has fuel, for its retries after a signal: each retry needs one more signal,
  so the number of signals during the sleep plus one is enough.

  \<^item> Threads that share state are step relations or lists of events where their order matters (the wait for the
  interruption, the timers of the module, the ZCM loop, images and requests), with one step per access under a mutex;
  where the code takes no lock although it should, this is recorded as a finding and the model takes the
  accesses as single steps.

  \<^item> Integers have their C width: words, or integers with the range check or the wrap-around written out. The
  arithmetic of the sensors on floating point numbers is done in the reals, with the rounding an argument where
  a result is rounded.

  \<^item> Media types are compared without their fields and memory features, which GStreamer negotiates among the
  alternatives of each element.
\<close>

subsection \<open>Not modelled\<close>

text \<open>
  \<^item> \<^verbatim>\<open>gst_app_mjpeg\<close>, an earlier application class that \<^verbatim>\<open>main\<close> does not use, and the pipeline classes that no pipeline is
  made of, among them those the build leaves out (\<^verbatim>\<open>Logitech_brio_pipe\<close>, \<^verbatim>\<open>Thumbnail_nv2_pipe\<close>, \<^verbatim>\<open>UVC_base\<close>);
  the helpers that print caps and tags (\<^verbatim>\<open>gst_common.cpp\<close>).

  \<^item> The property templates (\<^verbatim>\<open>libs/property\<close>) and \<^verbatim>\<open>file_to_base64.cpp\<close>, which are not used and do not compile as they are.

  \<^item> Logging, and the bodies of the JSON-RPC dispatcher that a library generates from its methods.

  \<^item> The programs under \<^verbatim>\<open>tests/\<close>.
\<close>

subsection \<open>From the camera to the client\<close>



end
